(* ===== verification/Go_Prelude.thy ===== *)
theory Go_Prelude
  imports Main "HOL-Library.AList" "HOL-Library.Sublist" "HOL-Library.List_Lexorder"
    "HOL-Library.Char_ord"
begin

text \<open>
  Shared ground of the development: Go \<open>error\<close> values, the outcome of a call that may
  panic, Go maps with string keys as association lists, and the fact collections the
  component theories feed.

  A Go \<open>string\<close> or \<open>[]byte\<close> is a \<open>char list\<close>, one \<open>char\<close> per byte.
\<close>

named_theorems http_simps \<open>equations of the header and response-writer operations\<close>
named_theorems acq_simps \<open>equations of the auth acquirers\<close>

type_synonym bytes = string

section \<open>Error values\<close>

text \<open>
  \<open>ErrNew\<close> is \<open>errors.New\<close>, \<open>ErrWrap\<close> is \<open>fmt.Errorf\<close> with a \<open>%w\<close> verb (the whole
  rendered text and the wrapped error), \<open>ErrCoded\<close> is \<open>*codedError\<close> of
  transaction/errors.go, \<open>ErrJoin\<close> is \<open>errors.Join\<close>, and \<open>ErrExt\<close> is an error value
  made by code outside the repository: its text and, when its type has a \<open>StatusCode\<close>
  method, what that method returns.
\<close>

datatype goerror =
    ErrNew string
  | ErrWrap string goerror
  | ErrCoded goerror int
  | ErrJoin "goerror list"
  | ErrExt string "int option"

fun join_with :: "'a list \<Rightarrow> 'a list list \<Rightarrow> 'a list" where
  "join_with s [] = []"
| "join_with s [x] = x"
| "join_with s (x # y # xs) = x @ s @ join_with s (y # xs)"

text \<open>The \<open>Error()\<close> method.\<close>

fun err_Error :: "goerror \<Rightarrow> string" where
  "err_Error (ErrNew m) = m"
| "err_Error (ErrWrap m e) = m"
| "err_Error (ErrCoded e c) = err_Error e"
| "err_Error (ErrJoin es) = join_with [CHR 0x0A] (map err_Error es)"
| "err_Error (ErrExt m c) = m"

text \<open>
  \<open>errors.As(err, &t)\<close> for a target interface with the method \<open>StatusCode() int\<close>: the
  first error of the \<open>Unwrap\<close> chain that has the method. \<open>codedError\<close> embeds the
  interface \<open>error\<close>, which has no \<open>Unwrap\<close>: the walk stops there, at its own code.
\<close>

fun err_StatusCode :: "goerror \<Rightarrow> int option"
  and errs_StatusCode :: "goerror list \<Rightarrow> int option" where
  "err_StatusCode (ErrNew m) = None"
| "err_StatusCode (ErrWrap m e) = err_StatusCode e"
| "err_StatusCode (ErrCoded e c) = Some c"
| "err_StatusCode (ErrJoin es) = errs_StatusCode es"
| "err_StatusCode (ErrExt m c) = c"
| "errs_StatusCode [] = None"
| "errs_StatusCode (e # es) =
     (case err_StatusCode e of Some c \<Rightarrow> Some c | None \<Rightarrow> errs_StatusCode es)"

text \<open>
  \<open>errors.Is\<close>: the target is on the \<open>Unwrap\<close> chain. Sentinel errors are distinct
  values here because their texts differ.
\<close>

fun err_Is :: "goerror \<Rightarrow> goerror \<Rightarrow> bool" where
  "err_Is (ErrWrap m e) t = (ErrWrap m e = t \<or> err_Is e t)"
| "err_Is (ErrJoin es) t = (ErrJoin es = t \<or> (\<exists>e \<in> set es. err_Is e t))"
| "err_Is e t = (e = t)"

text \<open>\<open>errors.Join\<close> drops nil errors and is nil when nothing is left.\<close>

definition errors_Join :: "goerror option list \<Rightarrow> goerror option" where
  "errors_Join es =
     (let xs = List.map_filter (\<lambda>e. e) es in if xs = [] then None else Some (ErrJoin xs))"

lemma errors_Join_None_iff: "errors_Join es = None \<longleftrightarrow> (\<forall>e \<in> set es. e = None)"
  by (induction es) (auto simp: errors_Join_def Let_def map_filter_simps split: option.splits if_splits)

section \<open>Calls that may panic\<close>

datatype 'a outcome = Ret 'a | Panic

definition outcome_bind :: "'a outcome \<Rightarrow> ('a \<Rightarrow> 'b outcome) \<Rightarrow> 'b outcome" where
  "outcome_bind m f = (case m of Ret a \<Rightarrow> f a | Panic \<Rightarrow> Panic)"

lemma outcome_bind_simps [simp]:
  "outcome_bind (Ret a) f = f a" "outcome_bind Panic f = Panic"
  by (simp_all add: outcome_bind_def)

lemma outcome_bind_Ret_iff:
  "outcome_bind m f = Ret b \<longleftrightarrow> (\<exists>a. m = Ret a \<and> f a = Ret b)"
  by (cases m) auto

section \<open>Go maps with string keys\<close>

text \<open>
  A \<open>map[string]V\<close> value is an association list with ascending keys, so that equal maps
  are equal lists and \<open>encoding/json\<close>, which sorts the keys, prints the list as it is.
\<close>

type_synonym 'v gomap = "(string \<times> 'v) list"

fun gomap_put :: "string \<Rightarrow> 'v \<Rightarrow> 'v gomap \<Rightarrow> 'v gomap" where
  "gomap_put k v [] = [(k, v)]"
| "gomap_put k v ((k', v') # m) =
     (if k = k' then (k, v) # m
      else if k < k' then (k, v) # (k', v') # m
      else (k', v') # gomap_put k v m)"

definition gomap_wf :: "'v gomap \<Rightarrow> bool" where
  "gomap_wf m \<longleftrightarrow> sorted_wrt (<) (map fst m)"

text \<open>\<open>m[k]\<close> on a \<open>map[string]string\<close>: the zero value \<open>""\<close> for a missing key.\<close>

definition gomap_str :: "string gomap \<Rightarrow> string \<Rightarrow> string" where
  "gomap_str m k = (case map_of m k of Some v \<Rightarrow> v | None \<Rightarrow> [])"

lemma gomap_put_keys: "set (map fst (gomap_put k v m)) = insert k (set (map fst m))"
  by (induction k v m rule: gomap_put.induct) auto

lemma map_of_gomap_put [simp]: "map_of (gomap_put k v m) = (map_of m)(k \<mapsto> v)"
  by (induction k v m rule: gomap_put.induct) auto

lemma gomap_wf_Nil [simp]: "gomap_wf []"
  by (simp add: gomap_wf_def)

lemma gomap_wf_put [intro]: "gomap_wf m \<Longrightarrow> gomap_wf (gomap_put k v m)"
proof (induction k v m rule: gomap_put.induct)
  case (2 k v k' v' m)
  have "\<forall>x \<in> set (map fst (gomap_put k v m)). k' < x"
    if "\<not> k < k'" "k \<noteq> k'"
    using that "2.prems" unfolding gomap_put_keys by (auto simp: gomap_wf_def)
  with 2 show ?case
    by (auto simp: gomap_wf_def intro: less_trans)
qed (simp add: gomap_wf_def)

lemma gomap_wf_distinct: "gomap_wf m \<Longrightarrow> distinct (map fst m)"
  by (simp add: gomap_wf_def strict_sorted_iff)

text \<open>A map is determined by its lookups.\<close>

lemma gomap_as_map:
  "distinct (map fst m) \<Longrightarrow> map (\<lambda>k. (k, the (map_of m k))) (map fst m) = m"
proof (induction m)
  case (Cons x m)
  have "map (\<lambda>k. (k, the (map_of (x # m) k))) (map fst m)
      = map (\<lambda>k. (k, the (map_of m k))) (map fst m)"
    using Cons.prems by (intro map_cong) (auto simp: image_iff)
  with Cons show ?case by (cases x) (simp del: map_map)
qed simp

lemma gomap_eqI:
  assumes wf: "gomap_wf m" "gomap_wf m'" and eq: "map_of m = map_of m'"
  shows "m = m'"
proof -
  have "set (map fst m) = set (map fst m')"
    using eq by (metis dom_map_of_conv_image_fst set_map)
  with wf have "map fst m = map fst m'"
    unfolding gomap_wf_def by (metis strict_sorted_equal)
  with eq wf show ?thesis
    by (metis gomap_as_map gomap_wf_distinct)
qed

end
