(* ===== verification/Go_Strings.thy ===== *)
theory Go_Strings
  imports Go_Prelude
begin

text \<open>
  The functions of Go's package \<open>strings\<close> (and \<open>strconv\<close>) that the program calls, byte for
  byte, and the facts about them the components need: \<open>Split\<close> and its inverse, \<open>SplitN\<close>
  with two parts, \<open>Trim\<close>, \<open>TrimSpace\<close>, \<open>EqualFold\<close>, \<open>Replace\<close> with one replacement,
  decimal numerals and hexadecimal text.
\<close>

section \<open>Splitting\<close>

text \<open>\<open>strings.Split(s, sep)\<close> for a separator of one byte.\<close>

fun Split :: "string \<Rightarrow> char \<Rightarrow> string list" where
  "Split [] c = [[]]"
| "Split (x # s) c =
     (if x = c then [] # Split s c
      else case Split s c of [] \<Rightarrow> [[x]] | w # ws \<Rightarrow> (x # w) # ws)"

text \<open>\<open>strings.SplitN(s, sep, 2)\<close>.\<close>

definition SplitN2 :: "string \<Rightarrow> char \<Rightarrow> string list" where
  "SplitN2 s c =
     (if c \<in> set s then [takeWhile (\<lambda>x. x \<noteq> c) s, tl (dropWhile (\<lambda>x. x \<noteq> c) s)] else [s])"

lemma Split_not_Nil [simp]: "Split s c \<noteq> []"
  by (induction s) (auto split: list.splits)

lemma join_with_Cons: "ws \<noteq> [] \<Longrightarrow> join_with s (w # ws) = w @ s @ join_with s ws"
  by (cases ws) auto

lemma join_Split: "join_with [c] (Split s c) = s"
proof (induction s)
  case (Cons x s)
  show ?case
  proof (cases "x = c")
    case True
    with Cons show ?thesis by (simp add: join_with_Cons)
  next
    case False
    with Cons show ?thesis
      by (cases "Split s c"; cases "tl (Split s c)") auto
  qed
qed simp

lemma Split_parts: "w \<in> set (Split s c) \<Longrightarrow> c \<notin> set w"
  by (induction s arbitrary: w) (auto split: list.splits if_splits)

lemma length_Split: "length (Split s c) = Suc (count_list s c)"
  by (induction s) (auto split: list.splits)

lemma Split_single: "c \<notin> set s \<Longrightarrow> Split s c = [s]"
  by (induction s) auto

lemma Split_append: "c \<notin> set w \<Longrightarrow> Split (w @ c # s) c = w # Split s c"
  by (induction w) auto

lemma Split_join:
  "ws \<noteq> [] \<Longrightarrow> \<forall>w \<in> set ws. c \<notin> set w \<Longrightarrow> Split (join_with [c] ws) c = ws"
  by (induction "[c]" ws rule: join_with.induct) (auto simp: Split_single Split_append)

lemma SplitN2_append: "c \<notin> set w \<Longrightarrow> SplitN2 (w @ c # s) c = [w, s]"
  by (induction w) (auto simp: SplitN2_def split: if_splits)

lemma SplitN2_two_iff: "SplitN2 s c = [a, b] \<longleftrightarrow> s = a @ c # b \<and> c \<notin> set a"
proof
  assume h: "SplitN2 s c = [a, b]"
  then have "c \<in> set s" by (auto simp: SplitN2_def split: if_splits)
  then obtain u v where uv: "s = u @ c # v" "c \<notin> set u" by (metis split_list_first)
  with h have "[u, v] = [a, b]" by (metis SplitN2_append)
  with uv show "s = a @ c # b \<and> c \<notin> set a" by simp
qed (auto simp: SplitN2_append)

lemma SplitN2_shape: "(\<exists>a b. SplitN2 s c = [a, b]) \<or> SplitN2 s c = [s]"
  by (simp add: SplitN2_def)

section \<open>Trimming\<close>

text \<open>\<open>strings.Trim(s, cutset)\<close> for a cutset of one ASCII byte.\<close>

definition Trim :: "string \<Rightarrow> char \<Rightarrow> string" where
  "Trim s c = rev (dropWhile (\<lambda>x. x = c) (rev (dropWhile (\<lambda>x. x = c) s)))"

lemma Trim_Nil_iff: "Trim s c = [] \<longleftrightarrow> (\<forall>x \<in> set s. x = c)"
proof -
  have "Trim s c = [] \<longleftrightarrow> (\<forall>x \<in> set (dropWhile (\<lambda>x. x = c) s). x = c)"
    by (simp add: Trim_def dropWhile_eq_Nil_conv)
  also have "\<dots> \<longleftrightarrow> (\<forall>x \<in> set s. x = c)"
    by (induction s) auto
  finally show ?thesis .
qed

text \<open>
  \<open>strings.TrimSpace\<close> cuts every Unicode white space from both ends: the six ASCII ones,
  and the UTF-8 encodings of U+0085, U+00A0, U+1680, U+2000 to U+200A, U+2028, U+2029,
  U+202F, U+205F and U+3000.
\<close>

definition space_runes :: "string list" where
  "space_runes =
     [[CHR 0x09], [CHR 0x0A], [CHR 0x0B], [CHR 0x0C], [CHR 0x0D], [CHR 0x20],
      [CHR 0xC2, CHR 0x85], [CHR 0xC2, CHR 0xA0], [CHR 0xE1, CHR 0x9A, CHR 0x80]]
     @ map (\<lambda>n. [CHR 0xE2, CHR 0x80, char_of n])
         [128, 129, 130, 131, 132, 133, 134, 135, 136, 137, 138, 168, 169, 175 :: nat]
     @ [[CHR 0xE2, CHR 0x81, CHR 0x9F], [CHR 0xE3, CHR 0x80, CHR 0x80]]"

function strip_runes :: "string list \<Rightarrow> string \<Rightarrow> string" where
  "strip_runes rs s =
     (case find (\<lambda>r. r \<noteq> [] \<and> prefix r s) rs of
        None \<Rightarrow> s
      | Some r \<Rightarrow> strip_runes rs (drop (length r) s))"
  by pat_completeness auto
termination
  by (relation "measure (\<lambda>(rs, s). length s)")
    (auto simp: find_Some_iff prefix_def)

declare strip_runes.simps [simp del]

definition TrimSpace :: "string \<Rightarrow> string" where
  "TrimSpace s = rev (strip_runes (map rev space_runes) (rev (strip_runes space_runes s)))"

text \<open>Nothing more can be cut from the front of a stripped string.\<close>

lemma strip_runes_done: "find (\<lambda>r. r \<noteq> [] \<and> prefix r (strip_runes rs s)) rs = None"
proof (induction rs s rule: strip_runes.induct)
  case (1 rs s)
  then show ?case
    by (cases "find (\<lambda>r. r \<noteq> [] \<and> prefix r s) rs") (simp_all add: strip_runes.simps [of rs s])
qed

lemma strip_runes_suffix: "suffix (strip_runes rs s) s"
proof (induction rs s rule: strip_runes.induct)
  case (1 rs s)
  then show ?case
    by (cases "find (\<lambda>r. r \<noteq> [] \<and> prefix r s) rs")
      (auto simp: strip_runes.simps [of rs s] intro: suffix_drop suffix_order.trans)
qed

lemma TrimSpace_sublist: "\<exists>a b. s = a @ TrimSpace s @ b"
proof -
  obtain a where a: "s = a @ strip_runes space_runes s"
    using strip_runes_suffix [of space_runes s] by (auto simp: suffix_def)
  obtain b where "rev (strip_runes space_runes s)
      = b @ strip_runes (map rev space_runes) (rev (strip_runes space_runes s))"
    using strip_runes_suffix [of "map rev space_runes"] by (force simp: suffix_def)
  then have "strip_runes space_runes s = TrimSpace s @ rev b"
    by (metis TrimSpace_def rev_append rev_rev_ident)
  with a show ?thesis by metis
qed

lemma set_TrimSpace: "set (TrimSpace s) \<subseteq> set s"
  using TrimSpace_sublist [of s] by (metis Un_upper1 Un_upper2 set_append subset_trans)

text \<open>A trimmed text neither starts nor ends with white space.\<close>

definition trimmed :: "string \<Rightarrow> bool" where
  "trimmed s \<longleftrightarrow> (\<forall>r \<in> set space_runes. \<not> prefix r s \<and> \<not> suffix r s)"

lemma strip_runes_front:
  "r \<in> set rs \<Longrightarrow> r \<noteq> [] \<Longrightarrow> \<not> prefix r (strip_runes rs s)"
  using strip_runes_done [of rs s] by (auto simp: find_None_iff)

lemma trimmed_TrimSpace: "trimmed (TrimSpace s)"
proof -
  let ?l = "strip_runes space_runes s" and ?r = "strip_runes (map rev space_runes)"
  have ne: "\<forall>r \<in> set space_runes. r \<noteq> []" by (simp add: space_runes_def)
  have "suffix (?r (rev ?l)) (rev ?l)" by (rule strip_runes_suffix)
  then have "prefix (TrimSpace s) ?l" by (simp add: TrimSpace_def suffix_to_prefix)
  then have "\<not> prefix r (TrimSpace s)" if "r \<in> set space_runes" for r
    using strip_runes_front [OF that, of s] ne that by (meson prefix_order.trans)
  moreover have "\<not> suffix r (TrimSpace s)" if "r \<in> set space_runes" for r
    using strip_runes_front [of "rev r" "map rev space_runes" "rev ?l"] ne that
    by (simp add: TrimSpace_def suffix_to_prefix)
  ultimately show ?thesis by (simp add: trimmed_def)
qed

section \<open>Prefixes, case folding, replacement\<close>

abbreviation HasPrefix :: "string \<Rightarrow> string \<Rightarrow> bool" where
  "HasPrefix s p \<equiv> prefix p s"

definition to_lower :: "char \<Rightarrow> char" where
  "to_lower c = (if 65 \<le> (of_char c :: nat) \<and> (of_char c :: nat) \<le> 90
                 then char_of (of_char c + 32 :: nat) else c)"

definition to_upper :: "char \<Rightarrow> char" where
  "to_upper c = (if 97 \<le> (of_char c :: nat) \<and> (of_char c :: nat) \<le> 122
                 then char_of (of_char c - 32 :: nat) else c)"

text \<open>
  \<open>strings.EqualFold\<close> where one side is ASCII without the letters k and s: no rune outside
  ASCII folds onto such a letter.
\<close>

definition EqualFold :: "string \<Rightarrow> string \<Rightarrow> bool" where
  "EqualFold s t \<longleftrightarrow> map to_lower s = map to_lower t"

text \<open>\<open>strings.Replace(s, old, new, 1)\<close> for a non-empty \<open>old\<close>.\<close>

fun Replace1 :: "string \<Rightarrow> string \<Rightarrow> string \<Rightarrow> string" where
  "Replace1 [] old new = []"
| "Replace1 (x # s) old new =
     (if prefix old (x # s) then new @ drop (length old) (x # s) else x # Replace1 s old new)"

text \<open>
  The first occurrence is replaced: behind a text \<open>a\<close> in which no occurrence starts.
\<close>

lemma Replace1_at:
  assumes "\<And>i. i < length a \<Longrightarrow> \<not> prefix old (drop i (a @ old @ b))" "old \<noteq> []"
  shows "Replace1 (a @ old @ b) old new = a @ new @ b"
  using assms
proof (induction a)
  case Nil
  then obtain y ys where "old = y # ys" by (cases old) auto
  then show ?case by simp
next
  case (Cons x a)
  have "\<not> prefix old (x # a @ old @ b)" using Cons.prems(1) [of 0] by simp
  moreover have "Replace1 (a @ old @ b) old new = a @ new @ b"
    using Cons.prems(1) [of "Suc i" for i] by (intro Cons.IH Cons.prems(2)) auto
  ultimately show ?case by simp
qed

section \<open>Numerals and hexadecimal text\<close>

definition digit_char :: "nat \<Rightarrow> char" where
  "digit_char n = char_of (n + 48)"

fun show_nat :: "nat \<Rightarrow> string" where
  "show_nat n = (if n < 10 then [digit_char n] else show_nat (n div 10) @ [digit_char (n mod 10)])"

declare show_nat.simps [simp del]

definition show_int :: "int \<Rightarrow> string" where
  "show_int i = (if i < 0 then CHR ''-'' # show_nat (nat (- i)) else show_nat (nat i))"

definition is_digit :: "char \<Rightarrow> bool" where
  "is_digit c \<longleftrightarrow> 48 \<le> (of_char c :: nat) \<and> (of_char c :: nat) \<le> 57"

definition digit_val :: "char \<Rightarrow> nat" where
  "digit_val c = of_char c - 48"

fun nat_of_digits :: "nat \<Rightarrow> string \<Rightarrow> nat" where
  "nat_of_digits a [] = a"
| "nat_of_digits a (c # s) = nat_of_digits (10 * a + digit_val c) s"

text \<open>\<open>strconv.ParseInt(s, 10, 64)\<close> on an unsigned or minus-signed digit string, before the
  range check.\<close>

definition parse_int :: "string \<Rightarrow> int option" where
  "parse_int s =
     (case s of
        [] \<Rightarrow> None
      | c # r \<Rightarrow>
          if c = CHR ''-'' then
            (if r \<noteq> [] \<and> list_all is_digit r then Some (- int (nat_of_digits 0 r)) else None)
          else if list_all is_digit s then Some (int (nat_of_digits 0 s)) else None)"

definition hex_digit :: "nat \<Rightarrow> char" where
  "hex_digit n = (if n < 10 then char_of (n + 48) else char_of (n + 87))"

definition hex_byte :: "char \<Rightarrow> string" where
  "hex_byte c = [hex_digit (of_char c div 16), hex_digit (of_char c mod 16)]"

text \<open>\<open>hex.EncodeToString\<close>.\<close>

definition hex_encode :: "string \<Rightarrow> string" where
  "hex_encode s = concat (map hex_byte s)"

lemma length_hex_encode: "length (hex_encode s) = 2 * length s"
  by (induction s) (auto simp: hex_encode_def hex_byte_def)

lemma of_char_less [simp]: "(of_char c :: nat) < 256"
  by (metis nat_of_char_less_256)

lemma digit_val_digit_char [simp]: "n < 10 \<Longrightarrow> digit_val (digit_char n) = n"
  by (simp add: digit_val_def digit_char_def)

lemma is_digit_digit_char [simp]: "n < 10 \<Longrightarrow> is_digit (digit_char n)"
  by (simp add: is_digit_def digit_char_def)

lemma nat_of_digits_append:
  "nat_of_digits a (s @ t) = nat_of_digits (nat_of_digits a s) t"
  by (induction s arbitrary: a) auto

lemma show_nat_roundtrip:
  "list_all is_digit (show_nat n) \<and> show_nat n \<noteq> [] \<and> nat_of_digits 0 (show_nat n) = n"
proof (induction n rule: show_nat.induct)
  case (1 n)
  show ?case
  proof (cases "n < 10")
    case True
    then show ?thesis by (simp add: show_nat.simps [of n])
  next
    case False
    with 1 show ?thesis
      by (simp add: show_nat.simps [of n] nat_of_digits_append)
  qed
qed

lemma parse_show_int: "parse_int (show_int i) = Some i"
proof (cases "i < 0")
  case True
  then show ?thesis
    using show_nat_roundtrip [of "nat (- i)"] by (simp add: show_int_def parse_int_def)
next
  case False
  obtain c r where cr: "show_nat (nat i) = c # r"
    using show_nat_roundtrip [of "nat i"] by (cases "show_nat (nat i)") auto
  then have "is_digit c" using show_nat_roundtrip [of "nat i"] by simp
  then have "c \<noteq> CHR ''-''" by (auto simp: is_digit_def)
  with cr False show ?thesis
    using show_nat_roundtrip [of "nat i"] by (simp add: show_int_def parse_int_def)
qed

end
