(* ===== verification/Go_Json.thy ===== *)
theory Go_Json
  imports Go_Strings
begin

text \<open>
  \<open>encoding/json\<close> as far as the program uses it: the value tree, the scanner of
  \<open>json.Unmarshal\<close> (strings with their escapes and the replacement of invalid UTF-8,
  number literals kept as text), \<open>json.Marshal\<close> with its HTML escaping, decoding into an
  \<open>interface{}\<close>, and the round trip from printed text back to the tree.
\<close>

datatype json =
    JNull
  | JBool bool
  | JNum string
  | JStr string
  | JArr "json list"
  | JObj "(string \<times> json) list"

abbreviation code_of :: "char \<Rightarrow> nat" where "code_of c \<equiv> of_char c"

section \<open>UTF-8\<close>

text \<open>
  \<open>utf8.DecodeRune\<close>: the length of the valid encoding at the start of the text, 0 where
  the bytes are no valid encoding.
\<close>

definition cont_byte :: "char \<Rightarrow> bool" where
  "cont_byte c \<longleftrightarrow> 128 \<le> code_of c \<and> code_of c \<le> 191"

definition valid2 :: "char \<Rightarrow> char \<Rightarrow> bool" where
  "valid2 a b \<longleftrightarrow> 194 \<le> code_of a \<and> code_of a \<le> 223 \<and> cont_byte b"

definition valid3 :: "char \<Rightarrow> char \<Rightarrow> char \<Rightarrow> bool" where
  "valid3 a b c \<longleftrightarrow>
     224 \<le> code_of a \<and> code_of a \<le> 239 \<and> cont_byte b \<and> cont_byte c
     \<and> (code_of a = 224 \<longrightarrow> 160 \<le> code_of b) \<and> (code_of a = 237 \<longrightarrow> code_of b \<le> 159)"

definition valid4 :: "char \<Rightarrow> char \<Rightarrow> char \<Rightarrow> char \<Rightarrow> bool" where
  "valid4 a b c d \<longleftrightarrow>
     240 \<le> code_of a \<and> code_of a \<le> 244 \<and> cont_byte b \<and> cont_byte c \<and> cont_byte d
     \<and> (code_of a = 240 \<longrightarrow> 144 \<le> code_of b) \<and> (code_of a = 244 \<longrightarrow> code_of b \<le> 143)"

text \<open>
  A text cut into runes: each valid encoding is a chunk marked \<open>True\<close>, each byte that
  starts none is a chunk marked \<open>False\<close>.
\<close>

fun runes :: "string \<Rightarrow> (bool \<times> string) list" where
  "runes [] = []"
| "runes (a # s) =
     (if code_of a < 128 then (True, [a]) # runes s
      else case s of
        [] \<Rightarrow> [(False, [a])]
      | b # s2 \<Rightarrow>
          if valid2 a b then (True, [a, b]) # runes s2
          else case s2 of
            [] \<Rightarrow> (False, [a]) # runes s
          | c # s3 \<Rightarrow>
              if valid3 a b c then (True, [a, b, c]) # runes s3
              else case s3 of
                [] \<Rightarrow> (False, [a]) # runes s
              | d # s4 \<Rightarrow>
                  if valid4 a b c d then (True, [a, b, c, d]) # runes s4
                  else (False, [a]) # runes s)"

definition replacement_char :: string where
  "replacement_char = [CHR 0xEF, CHR 0xBF, CHR 0xBD]"

definition rune_text :: "bool \<times> string \<Rightarrow> string" where
  "rune_text r = (if fst r then snd r else replacement_char)"

text \<open>Invalid bytes become U+FFFD, as the decoder and the encoder both do.\<close>

definition to_valid_utf8 :: "string \<Rightarrow> string" where
  "to_valid_utf8 s = concat (map rune_text (runes s))"

definition utf8_encode :: "nat \<Rightarrow> string" where
  "utf8_encode n =
     (if n < 128 then [char_of n]
      else if n < 2048 then [char_of (192 + n div 64), char_of (128 + n mod 64)]
      else if n < 65536 then
        [char_of (224 + n div 4096), char_of (128 + n div 64 mod 64), char_of (128 + n mod 64)]
      else
        [char_of (240 + n div 262144), char_of (128 + n div 4096 mod 64),
         char_of (128 + n div 64 mod 64), char_of (128 + n mod 64)])"

section \<open>Scanning\<close>

definition is_ws :: "char \<Rightarrow> bool" where
  "is_ws c \<longleftrightarrow> c = CHR 0x20 \<or> c = CHR 0x09 \<or> c = CHR 0x0D \<or> c = CHR 0x0A"

definition skip_ws :: "string \<Rightarrow> string" where
  "skip_ws s = dropWhile is_ws s"

definition hex_val :: "char \<Rightarrow> nat option" where
  "hex_val c =
     (let n = code_of c in
      if 48 \<le> n \<and> n \<le> 57 then Some (n - 48)
      else if 97 \<le> n \<and> n \<le> 102 then Some (n - 87)
      else if 65 \<le> n \<and> n \<le> 70 then Some (n - 55)
      else None)"

definition hex4 :: "char \<Rightarrow> char \<Rightarrow> char \<Rightarrow> char \<Rightarrow> nat option" where
  "hex4 a b c d =
     (case (hex_val a, hex_val b, hex_val c, hex_val d) of
        (Some x, Some y, Some z, Some w) \<Rightarrow> Some (((x * 16 + y) * 16 + z) * 16 + w)
      | _ \<Rightarrow> None)"

definition is_surrogate :: "nat \<Rightarrow> bool" where
  "is_surrogate n \<longleftrightarrow> 55296 \<le> n \<and> n \<le> 57343"

text \<open>\<open>utf16.DecodeRune\<close> for two \<open>\u\<close> escapes: a high then a low surrogate.\<close>

definition surrogate_pair :: "nat \<Rightarrow> nat \<Rightarrow> nat option" where
  "surrogate_pair h l =
     (if 55296 \<le> h \<and> h \<le> 56319 \<and> 56320 \<le> l \<and> l \<le> 57343
      then Some ((h - 55296) * 1024 + (l - 56320) + 65536) else None)"

definition simple_escape :: "char \<Rightarrow> char option" where
  "simple_escape e =
     (if e = CHR 0x22 \<or> e = CHR 0x5C \<or> e = CHR ''/'' then Some e
      else if e = CHR ''b'' then Some (CHR 0x08)
      else if e = CHR ''f'' then Some (CHR 0x0C)
      else if e = CHR ''n'' then Some (CHR 0x0A)
      else if e = CHR ''r'' then Some (CHR 0x0D)
      else if e = CHR ''t'' then Some (CHR 0x09)
      else None)"

definition prepend :: "string \<Rightarrow> (string \<times> string) option \<Rightarrow> (string \<times> string) option" where
  "prepend w m = map_option (\<lambda>(t, r). (w @ t, r)) m"

text \<open>The body of a string literal after its opening quote, up to the closing one.\<close>

fun scan_string :: "string \<Rightarrow> (string \<times> string) option" where
  "scan_string [] = None"
| "scan_string (c # r) =
     (if c = CHR 0x22 then Some ([], r)
      else if c = CHR 0x5C then
        (case r of
           [] \<Rightarrow> None
         | e # r2 \<Rightarrow>
             if e = CHR ''u'' then
               (case r2 of
                  h1 # h2 # h3 # h4 # r3 \<Rightarrow>
                    (case hex4 h1 h2 h3 h4 of
                       None \<Rightarrow> None
                     | Some n \<Rightarrow>
                         if is_surrogate n then
                           (case r3 of
                              b # u # l1 # l2 # l3 # l4 # r4 \<Rightarrow>
                                (case (if b = CHR 0x5C \<and> u = CHR ''u'' then
                                         Option.bind (hex4 l1 l2 l3 l4) (surrogate_pair n)
                                       else None) of
                                   Some m \<Rightarrow> prepend (utf8_encode m) (scan_string r4)
                                 | None \<Rightarrow> prepend replacement_char (scan_string r3))
                            | _ \<Rightarrow> prepend replacement_char (scan_string r3))
                         else prepend (utf8_encode n) (scan_string r3))
                | _ \<Rightarrow> None)
             else (case simple_escape e of
                     None \<Rightarrow> None
                   | Some x \<Rightarrow> prepend [x] (scan_string r2)))
      else if code_of c < 32 then None
      else prepend [c] (scan_string r))"

text \<open>A number literal: sign, integer part without leading zeros, fraction, exponent.\<close>

definition scan_digits :: "string \<Rightarrow> (string \<times> string) option" where
  "scan_digits s =
     (if takeWhile is_digit s = [] then None
      else Some (takeWhile is_digit s, dropWhile is_digit s))"

definition scan_int :: "string \<Rightarrow> (string \<times> string) option" where
  "scan_int s =
     (case s of
        [] \<Rightarrow> None
      | c # r \<Rightarrow> if c = CHR ''0'' then Some ([c], r) else scan_digits s)"

definition scan_frac :: "string \<Rightarrow> (string \<times> string) option" where
  "scan_frac s =
     (case s of
        [] \<Rightarrow> Some ([], s)
      | c # r \<Rightarrow> if c = CHR ''.'' then prepend [c] (scan_digits r) else Some ([], s))"

definition scan_exp :: "string \<Rightarrow> (string \<times> string) option" where
  "scan_exp s =
     (case s of
        [] \<Rightarrow> Some ([], s)
      | c # r \<Rightarrow>
          if c = CHR ''e'' \<or> c = CHR ''E'' then
            (case r of
               [] \<Rightarrow> None
             | d # r' \<Rightarrow>
                 if d = CHR ''+'' \<or> d = CHR ''-'' then prepend [c, d] (scan_digits r')
                 else prepend [c] (scan_digits r))
          else Some ([], s))"

definition scan_unsigned :: "string \<Rightarrow> (string \<times> string) option" where
  "scan_unsigned s =
     Option.bind (scan_int s) (\<lambda>(i, r1). prepend i
       (Option.bind (scan_frac r1) (\<lambda>(f, r2). prepend f (scan_exp r2))))"

definition scan_number :: "string \<Rightarrow> (string \<times> string) option" where
  "scan_number s =
     (case s of
        [] \<Rightarrow> None
      | c # r \<Rightarrow> if c = CHR ''-'' then prepend [c] (scan_unsigned r) else scan_unsigned s)"

text \<open>
  Values, array elements and object members. The first argument is fuel: it drops by one in
  every call, and two units per byte of input and two more are enough
  (\<open>parse_fuel_enough\<close>).
\<close>

fun parse_value :: "nat \<Rightarrow> string \<Rightarrow> (json \<times> string) option"
  and parse_elems :: "nat \<Rightarrow> string \<Rightarrow> (json list \<times> string) option"
  and parse_members :: "nat \<Rightarrow> string \<Rightarrow> ((string \<times> json) list \<times> string) option" where
  "parse_value 0 s = None"
| "parse_value (Suc n) s =
     (case skip_ws s of
        [] \<Rightarrow> None
      | c # r \<Rightarrow>
          if c = CHR ''{'' then
            (case skip_ws r of
               [] \<Rightarrow> None
             | d # r' \<Rightarrow>
                 if d = CHR ''}'' then Some (JObj [], r')
                 else map_option (\<lambda>(ms, t). (JObj ms, t)) (parse_members n r))
          else if c = CHR ''['' then
            (case skip_ws r of
               [] \<Rightarrow> None
             | d # r' \<Rightarrow>
                 if d = CHR '']'' then Some (JArr [], r')
                 else map_option (\<lambda>(js, t). (JArr js, t)) (parse_elems n r))
          else if c = CHR 0x22 then
            map_option (\<lambda>(t, r'). (JStr (to_valid_utf8 t), r')) (scan_string r)
          else if prefix ''true'' (c # r) then Some (JBool True, drop 3 r)
          else if prefix ''false'' (c # r) then Some (JBool False, drop 4 r)
          else if prefix ''null'' (c # r) then Some (JNull, drop 3 r)
          else map_option (\<lambda>(l, r'). (JNum l, r')) (scan_number (c # r)))"
| "parse_elems 0 s = None"
| "parse_elems (Suc n) s =
     (case parse_value n s of
        None \<Rightarrow> None
      | Some (v, r) \<Rightarrow>
          (case skip_ws r of
             [] \<Rightarrow> None
           | d # r' \<Rightarrow>
               if d = CHR '','' then map_option (\<lambda>(vs, t). (v # vs, t)) (parse_elems n r')
               else if d = CHR '']'' then Some ([v], r')
               else None))"
| "parse_members 0 s = None"
| "parse_members (Suc n) s =
     (case skip_ws s of
        [] \<Rightarrow> None
      | q # r \<Rightarrow>
          if q \<noteq> CHR 0x22 then None
          else (case scan_string r of
             None \<Rightarrow> None
           | Some (k, r1) \<Rightarrow>
               (case skip_ws r1 of
                  [] \<Rightarrow> None
                | c # r2 \<Rightarrow>
                    if c \<noteq> CHR '':'' then None
                    else (case parse_value n r2 of
                       None \<Rightarrow> None
                     | Some (v, r3) \<Rightarrow>
                         (case skip_ws r3 of
                            [] \<Rightarrow> None
                          | d # r4 \<Rightarrow>
                              if d = CHR '','' then
                                map_option (\<lambda>(ms, t). ((to_valid_utf8 k, v) # ms, t))
                                  (parse_members n r4)
                              else if d = CHR ''}'' then Some ([(to_valid_utf8 k, v)], r4)
                              else None)))))"

text \<open>The scanner refuses more than 10000 nested arrays and objects.\<close>

fun json_depth :: "json \<Rightarrow> nat" where
  "json_depth (JArr js) = Suc (foldr max (map json_depth js) 0)"
| "json_depth (JObj ms) = Suc (foldr max (map (\<lambda>m. json_depth (snd m)) ms) 0)"
| "json_depth _ = 0"

definition max_nesting :: nat where "max_nesting = 10000"

definition parse_fuel :: "string \<Rightarrow> nat" where
  "parse_fuel s = 2 * length s + 2"

text \<open>The first value of a stream (\<open>json.Decoder.Decode\<close>): what follows it is not looked at.\<close>

definition json_first :: "string \<Rightarrow> json option" where
  "json_first s =
     (case parse_value (parse_fuel s) s of
        None \<Rightarrow> None
      | Some (j, r) \<Rightarrow> if json_depth j \<le> max_nesting then Some j else None)"

text \<open>The one value of a whole text (\<open>json.Unmarshal\<close>).\<close>

definition json_parse :: "string \<Rightarrow> json option" where
  "json_parse s =
     (case parse_value (parse_fuel s) s of
        None \<Rightarrow> None
      | Some (j, r) \<Rightarrow>
          if skip_ws r = [] \<and> json_depth j \<le> max_nesting then Some j else None)"

section \<open>Printing\<close>

text \<open>\<open>json.Marshal\<close> escapes the HTML characters and the two Unicode line separators.\<close>

definition esc_ascii :: "char \<Rightarrow> string" where
  "esc_ascii c =
     (if c = CHR 0x22 \<or> c = CHR 0x5C then [CHR 0x5C, c]
      else if c = CHR 0x08 then [CHR 0x5C, CHR ''b'']
      else if c = CHR 0x0C then [CHR 0x5C, CHR ''f'']
      else if c = CHR 0x0A then [CHR 0x5C, CHR ''n'']
      else if c = CHR 0x0D then [CHR 0x5C, CHR ''r'']
      else if c = CHR 0x09 then [CHR 0x5C, CHR ''t'']
      else if code_of c < 32 \<or> c = CHR ''<'' \<or> c = CHR ''>'' \<or> c = CHR ''&'' then
        [CHR 0x5C, CHR ''u'', CHR ''0'', CHR ''0''] @ hex_byte c
      else [c])"

definition esc_rune :: "bool \<times> string \<Rightarrow> string" where
  "esc_rune r =
     (if \<not> fst r then [CHR 0x5C, CHR ''u'', CHR ''f'', CHR ''f'', CHR ''f'', CHR ''d'']
      else if length (snd r) = 1 then esc_ascii (hd (snd r))
      else if snd r = [CHR 0xE2, CHR 0x80, CHR 0xA8] then
        [CHR 0x5C, CHR ''u'', CHR ''2'', CHR ''0'', CHR ''2'', CHR ''8'']
      else if snd r = [CHR 0xE2, CHR 0x80, CHR 0xA9] then
        [CHR 0x5C, CHR ''u'', CHR ''2'', CHR ''0'', CHR ''2'', CHR ''9'']
      else snd r)"

definition quote_json :: "string \<Rightarrow> string" where
  "quote_json s = [CHR 0x22] @ concat (map esc_rune (runes s)) @ [CHR 0x22]"

fun json_print :: "json \<Rightarrow> string" where
  "json_print JNull = ''null''"
| "json_print (JBool b) = (if b then ''true'' else ''false'')"
| "json_print (JNum l) = l"
| "json_print (JStr s) = quote_json s"
| "json_print (JArr js) = ''['' @ join_with '','' (map json_print js) @ '']''"
| "json_print (JObj ms) =
     ''{'' @ join_with '','' (map (\<lambda>m. quote_json (fst m) @ '':'' @ json_print (snd m)) ms) @ ''}''"

section \<open>Decoding\<close>

text \<open>
  Into \<open>interface{}\<close>: a number becomes a float64, whose printed text is what the parameter
  \<open>f\<close> gives for the literal (\<open>None\<close>: out of range, a type error); an object becomes a
  map, so a later duplicate of a key wins.
\<close>

fun json_iface :: "(string \<Rightarrow> string option) \<Rightarrow> json \<Rightarrow> json option" where
  "json_iface f (JNum l) = map_option JNum (f l)"
| "json_iface f (JArr js) = map_option JArr (those (map (json_iface f) js))"
| "json_iface f (JObj ms) =
     map_option (\<lambda>kvs. JObj (foldl (\<lambda>m kv. gomap_put (fst kv) (snd kv) m) [] kvs))
       (those (map (\<lambda>m. map_option (Pair (fst m)) (json_iface f (snd m))) ms))"
| "json_iface f j = Some j"

text \<open>
  A member name selects a struct field when the two are equal up to case folding, where
  U+017F folds onto s and U+212A onto k.
\<close>

fun fold_name :: "string \<Rightarrow> string" where
  "fold_name [] = []"
| "fold_name (a # s) =
     (case s of
        [] \<Rightarrow> [to_lower a]
      | b # s2 \<Rightarrow>
          if a = CHR 0xC5 \<and> b = CHR 0xBF then CHR ''s'' # fold_name s2
          else case s2 of
            [] \<Rightarrow> to_lower a # fold_name s
          | c # s3 \<Rightarrow>
              if a = CHR 0xE2 \<and> b = CHR 0x84 \<and> c = CHR 0xAA then CHR ''k'' # fold_name s3
              else to_lower a # fold_name s)"

definition is_field :: "string \<Rightarrow> string \<Rightarrow> bool" where
  "is_field key field \<longleftrightarrow> fold_name key = fold_name field"

text \<open>A member decoded into a \<open>string\<close> field: null leaves it as it is.\<close>

definition decode_str :: "string \<Rightarrow> json \<Rightarrow> string option" where
  "decode_str old j = (case j of JStr s \<Rightarrow> Some s | JNull \<Rightarrow> Some old | _ \<Rightarrow> None)"

text \<open>An \<open>int\<close> of \<open>bits\<close> bits: an integer literal in range.\<close>

definition decode_int :: "nat \<Rightarrow> int \<Rightarrow> json \<Rightarrow> int option" where
  "decode_int bits old j =
     (case j of
        JNum l \<Rightarrow>
          (case parse_int l of
             Some i \<Rightarrow> if - (2 ^ (bits - 1)) \<le> i \<and> i < 2 ^ (bits - 1) then Some i else None
           | None \<Rightarrow> None)
      | JNull \<Rightarrow> Some old
      | _ \<Rightarrow> None)"

text \<open>A fold over the members of an object that stops being defined at the first error.\<close>

fun fold_opt :: "('a \<Rightarrow> 's \<Rightarrow> 's option) \<Rightarrow> 'a list \<Rightarrow> 's \<Rightarrow> 's option" where
  "fold_opt f [] s = Some s"
| "fold_opt f (x # xs) s = (case f x s of None \<Rightarrow> None | Some s' \<Rightarrow> fold_opt f xs s')"

text \<open>Into a \<open>map[string]string\<close>; \<open>None\<close> inside is the nil map that null decodes to.\<close>

definition decode_strmap :: "json \<Rightarrow> string gomap option option" where
  "decode_strmap j =
     (case j of
        JNull \<Rightarrow> Some None
      | JObj ms \<Rightarrow>
          map_option Some
            (fold_opt (\<lambda>(k, v) m. map_option (\<lambda>s. gomap_put k s m) (decode_str [] v)) ms [])
      | _ \<Rightarrow> None)"

definition json_strmap :: "string gomap option \<Rightarrow> json" where
  "json_strmap m =
     (case m of None \<Rightarrow> JNull | Some kvs \<Rightarrow> JObj (map (\<lambda>(k, v). (k, JStr v)) kvs))"

text \<open>Texts in the witnesses are written with back quotes for the double quotes.\<close>

definition dq :: "string \<Rightarrow> string" where
  "dq s = map (\<lambda>c. if c = CHR 0x60 then CHR 0x22 else c) s"

end
