(* ===== verification/Go_Http.thy ===== *)
theory Go_Http
  imports Go_Json
begin

text \<open>
  \<open>net/http\<close> as far as the program uses it: header maps with canonical keys, incoming and
  outgoing requests, responses, and the response writer with its one-shot status line. A
  call of \<open>WriteHeader\<close> with a code outside 100 to 999 panics, as in the library.
\<close>

section \<open>Headers\<close>

text \<open>
  \<open>http.Header\<close>, a map from keys to lists of values: an association list with distinct
  keys. Its order stands for the unspecified iteration order of a Go map.
\<close>

type_synonym header = "(string \<times> string list) list"

definition token_byte :: "char \<Rightarrow> bool" where
  "token_byte c \<longleftrightarrow>
     is_digit c \<or> (65 \<le> code_of c \<and> code_of c \<le> 90) \<or> (97 \<le> code_of c \<and> code_of c \<le> 122)
     \<or> c \<in> set ''!#$%&*+-.^_`|~'' \<or> c = CHR 0x27"

fun canon_from :: "bool \<Rightarrow> string \<Rightarrow> string" where
  "canon_from up [] = []"
| "canon_from up (c # s) =
     (if up then to_upper c else to_lower c) # canon_from (c = CHR ''-'') s"

text \<open>\<open>http.CanonicalHeaderKey\<close>: a key with a byte that no token has is left alone.\<close>

definition canon_key :: "string \<Rightarrow> string" where
  "canon_key k = (if list_all token_byte k then canon_from True k else k)"

definition hdr_get :: "header \<Rightarrow> string \<Rightarrow> string" where
  "hdr_get h k = (case map_of h (canon_key k) of Some (v # vs) \<Rightarrow> v | _ \<Rightarrow> [])"

definition hdr_values :: "header \<Rightarrow> string \<Rightarrow> string list" where
  "hdr_values h k = (case map_of h k of Some vs \<Rightarrow> vs | None \<Rightarrow> [])"

definition hdr_set :: "string \<Rightarrow> string \<Rightarrow> header \<Rightarrow> header" where
  "hdr_set k v h = AList.update (canon_key k) [v] h"

definition hdr_add :: "string \<Rightarrow> string \<Rightarrow> header \<Rightarrow> header" where
  "hdr_add k v h = AList.update (canon_key k) (hdr_values h (canon_key k) @ [v]) h"

definition hdr_del :: "string \<Rightarrow> header \<Rightarrow> header" where
  "hdr_del k h = AList.delete (canon_key k) h"

text \<open>A header as \<open>net/http\<close> delivers it: distinct keys in canonical form.\<close>

definition hdr_wf :: "header \<Rightarrow> bool" where
  "hdr_wf h \<longleftrightarrow> distinct (map fst h) \<and> (\<forall>k \<in> set (map fst h). canon_key k = k)"

lemma token_case [simp]:
  "token_byte (to_upper c) = token_byte c" "token_byte (to_lower c) = token_byte c"
  by (auto simp: token_byte_def to_upper_def to_lower_def is_digit_def)

lemma case_idem [simp]:
  "to_upper (to_upper c) = to_upper c" "to_lower (to_lower c) = to_lower c"
  "(to_upper c = CHR ''-'') = (c = CHR ''-'')" "(to_lower c = CHR ''-'') = (c = CHR ''-'')"
  by (auto simp: to_upper_def to_lower_def dest!: arg_cong [where f = "of_char :: char \<Rightarrow> nat"])

lemma canon_from_idem [simp]: "canon_from up (canon_from up s) = canon_from up s"
  by (induction up s rule: canon_from.induct) auto

lemma token_canon_from [simp]: "list_all token_byte (canon_from up s) = list_all token_byte s"
  by (induction up s rule: canon_from.induct) auto

text \<open>Canonicalisation is idempotent, so a key that was canonicalised once is a fixed point.\<close>

lemma canon_key_idem [simp]: "canon_key (canon_key k) = canon_key k"
  by (simp add: canon_key_def)

lemma hdr_wf_Nil [simp]: "hdr_wf []"
  by (simp add: hdr_wf_def)

lemma hdr_wf_update: "hdr_wf h \<Longrightarrow> canon_key k = k \<Longrightarrow> hdr_wf (AList.update k vs h)"
  by (auto simp: hdr_wf_def update_keys distinct_update)

lemma hdr_wf_ops [intro]:
  assumes "hdr_wf h"
  shows "hdr_wf (hdr_set k v h)" "hdr_wf (hdr_add k v h)" "hdr_wf (hdr_del k h)"
  using assms
  by (simp_all add: hdr_set_def hdr_add_def hdr_wf_update)
    (auto simp: hdr_del_def hdr_wf_def delete_keys distinct_removeAll)

lemma map_of_hdr_set [http_simps]:
  "map_of (hdr_set k v h) = (map_of h)(canon_key k \<mapsto> [v])"
  by (simp add: hdr_set_def update_conv')

lemma map_of_hdr_add [http_simps]:
  "map_of (hdr_add k v h) = (map_of h)(canon_key k \<mapsto> hdr_values h (canon_key k) @ [v])"
  by (simp add: hdr_add_def update_conv')

lemma map_of_hdr_del [http_simps]:
  "map_of (hdr_del k h) = (map_of h)(canon_key k := None)"
  by (simp add: hdr_del_def delete_conv')

lemma hdr_get_set_same [simp]: "hdr_get (hdr_set k v h) k = v"
  by (simp add: hdr_get_def http_simps)

lemma hdr_get_set_other:
  "canon_key k \<noteq> canon_key k' \<Longrightarrow> hdr_get (hdr_set k v h) k' = hdr_get h k'"
  by (simp add: hdr_get_def http_simps)

lemma hdr_get_del [simp]: "hdr_get (hdr_del k h) k = []"
  by (simp add: hdr_get_def http_simps)

section \<open>Requests and responses\<close>

text \<open>
  A body that is read to its end (\<open>io.ReadAll\<close>): the bytes that arrive and the error the
  read stops with, if any.
\<close>

record http_body =
  bd_data :: bytes
  bd_err :: "goerror option"

definition ReadAll :: "http_body \<Rightarrow> bytes \<times> goerror option" where
  "ReadAll b = (bd_data b, bd_err b)"

text \<open>
  The fields of an incoming \<open>*http.Request\<close> the program reads: the parsed form values and
  the path variables of the router (\<open>mux.Vars\<close>, nil when no route set them) are fields.
\<close>

record http_request =
  rq_Method :: string
  rq_Header :: header
  rq_Body :: http_body
  rq_Form :: "(string \<times> string list) list"
  rq_Vars :: "string gomap option"

definition FormValue :: "http_request \<Rightarrow> string \<Rightarrow> string" where
  "FormValue r k = (case map_of (rq_Form r) k of Some (v # vs) \<Rightarrow> v | _ \<Rightarrow> [])"

definition mux_var :: "http_request \<Rightarrow> string \<Rightarrow> string" where
  "mux_var r k = (case rq_Vars r of None \<Rightarrow> [] | Some m \<Rightarrow> gomap_str m k)"

text \<open>
  An outgoing request; the deadline is the one of its context, in nanoseconds of the
  process clock.
\<close>

record out_request =
  or_Method :: string
  or_URL :: string
  or_Header :: header
  or_Body :: bytes
  or_Deadline :: "int option"

record http_response =
  rs_StatusCode :: int
  rs_Header :: header
  rs_Body :: http_body

section \<open>The response writer\<close>

text \<open>
  \<open>rw_sent\<close> is the status line and the header snapshot of the final \<open>WriteHeader\<close>;
  \<open>rw_info\<close> lists the informational codes sent before; \<open>rw_write_err\<close> is the error the
  connection gives to a write; \<open>rw_log\<close> collects the log entries of the request.
\<close>

datatype log_level = LvDebug | LvInfo | LvWarn | LvError

datatype log_value =
    LNil
  | LStr string
  | LInt int
  | LStrs "string list"
  | LHdr header
  | LObj "(string \<times> log_value) list"

type_synonym log_fields = "(string \<times> log_value) list"

record log_entry =
  lg_level :: log_level
  lg_msg :: string
  lg_fields :: log_fields

record rw =
  rw_header :: header
  rw_sent :: "(int \<times> header) option"
  rw_info :: "int list"
  rw_body :: bytes
  rw_write_err :: "goerror option"
  rw_log :: "log_entry list"

definition new_rw :: rw where
  "new_rw = \<lparr>rw_header = [], rw_sent = None, rw_info = [], rw_body = [],
             rw_write_err = None, rw_log = []\<rparr>"

definition WriteHeader :: "int \<Rightarrow> rw \<Rightarrow> rw outcome" where
  "WriteHeader code w =
     (if rw_sent w \<noteq> None then Ret w
      else if code < 100 \<or> code > 999 then Panic
      else if code \<le> 199 \<and> code \<noteq> 101 then Ret (w\<lparr>rw_info := rw_info w @ [code]\<rparr>)
      else Ret (w\<lparr>rw_sent := Some (code, rw_header w)\<rparr>))"

definition err_body_not_allowed :: goerror where
  "err_body_not_allowed =
     ErrExt ''http: request method or response status code does not allow body'' None"

definition body_allowed :: "int \<Rightarrow> bool" where
  "body_allowed code \<longleftrightarrow> \<not> (100 \<le> code \<and> code \<le> 199) \<and> code \<noteq> 204 \<and> code \<noteq> 304"

text \<open>\<open>Write\<close> sends status 200 first when nothing has been sent yet.\<close>

definition Write :: "bytes \<Rightarrow> rw \<Rightarrow> rw \<times> goerror option" where
  "Write data w =
     (let w1 = (if rw_sent w = None then w\<lparr>rw_sent := Some (200, rw_header w)\<rparr> else w);
          code = fst (the (rw_sent w1)) in
      if data = [] then (w1, None)
      else if \<not> body_allowed code then (w1, Some err_body_not_allowed)
      else case rw_write_err w1 of
        Some e \<Rightarrow> (w1, Some e)
      | None \<Rightarrow> (w1\<lparr>rw_body := rw_body w1 @ data\<rparr>, None))"

definition rw_status :: "rw \<Rightarrow> int option" where
  "rw_status w = map_option fst (rw_sent w)"

definition rw_sent_header :: "rw \<Rightarrow> header" where
  "rw_sent_header w = (case rw_sent w of Some (c, h) \<Rightarrow> h | None \<Rightarrow> rw_header w)"

definition rw_set_header :: "string \<Rightarrow> string \<Rightarrow> rw \<Rightarrow> rw" where
  "rw_set_header k v w = w\<lparr>rw_header := hdr_set k v (rw_header w)\<rparr>"

definition rw_add_log :: "log_entry list \<Rightarrow> rw \<Rightarrow> rw" where
  "rw_add_log es w = w\<lparr>rw_log := rw_log w @ es\<rparr>"

lemma WriteHeader_final [http_simps]:
  "rw_sent w = None \<Longrightarrow> 200 \<le> code \<Longrightarrow> code \<le> 999 \<Longrightarrow>
     WriteHeader code w = Ret (w\<lparr>rw_sent := Some (code, rw_header w)\<rparr>)"
  by (simp add: WriteHeader_def)

lemma WriteHeader_sent [http_simps]: "rw_sent w \<noteq> None \<Longrightarrow> WriteHeader code w = Ret w"
  by (simp add: WriteHeader_def)

lemma WriteHeader_panic_iff:
  "WriteHeader code w = Panic \<longleftrightarrow> rw_sent w = None \<and> (code < 100 \<or> code > 999)"
  by (cases "rw_sent w") (auto simp: WriteHeader_def)

text \<open>Once sent, the status line and the headers that went with it never change.\<close>

lemma Write_sent [http_simps]: "rw_sent w \<noteq> None \<Longrightarrow> rw_sent (fst (Write d w)) = rw_sent w"
  by (auto simp: Write_def Let_def split: option.splits)

lemma Write_unsent [http_simps]:
  "rw_sent w = None \<Longrightarrow> rw_sent (fst (Write d w)) = Some (200, rw_header w)"
  by (auto simp: Write_def Let_def split: option.splits)

lemma Write_frame [http_simps]:
  "rw_header (fst (Write d w)) = rw_header w" "rw_log (fst (Write d w)) = rw_log w"
  "rw_info (fst (Write d w)) = rw_info w"
  by (auto simp: Write_def Let_def split: option.splits)

lemma Write_ok:
  "rw_sent w = Some (c, h) \<Longrightarrow> body_allowed c \<Longrightarrow> rw_write_err w = None \<Longrightarrow>
     Write d w = (w\<lparr>rw_body := rw_body w @ d\<rparr>, None)"
  by (simp add: Write_def)

lemma Write_ok_unsent:
  "rw_sent w = None \<Longrightarrow> rw_write_err w = None \<Longrightarrow>
     Write d w = (w\<lparr>rw_sent := Some (200, rw_header w), rw_body := rw_body w @ d\<rparr>, None)"
  by (simp add: Write_def body_allowed_def Let_def)

text \<open>A JSON object with one member is what every error reply carries.\<close>

definition json_message :: "string \<Rightarrow> bytes" where
  "json_message m = json_print (JObj [(''message'', JStr m)]) @ [CHR 0x0A]"

end
