(* ===== verification/Libs.thy ===== *)
theory Libs
  imports Go_Http "HOL-Library.Word"
begin

text \<open>
  What the program takes from code outside the repository, as one record of parameters: the
  constants of candlelight, wrp-go and bascule, the device-id parser and the msgpack codec of
  wrp-go, the casts of spf13/cast and bascule, and three functions of Go's library whose
  results the program only passes on (SHA-256, the printed text of a float64, the text of a
  JSON error). Every definition that uses one of them takes the record as an argument.
\<close>

text \<open>The fields of \<open>wrp.Message\<close> that the program sets or reads.\<close>

record wrp_msg =
  wm_Type :: int
  wm_Source :: string
  wm_Destination :: string
  wm_TransactionUUID :: string
  wm_Payload :: bytes
  wm_PartnerIDs :: "string list"
  wm_Headers :: "string list"

text \<open>
  A token of bascule: its principal and, when its type implements \<open>AttributesAccessor\<close>, the
  \<open>Get\<close> method. Attribute values are decoded JSON.
\<close>

record auth_token =
  tk_principal :: string
  tk_Get :: "(string \<Rightarrow> json option) option"

record libs =
  lb_TIDHeader :: string                \<comment> \<open>\<open>candlelight.HeaderWPATIDKeyName\<close>\<close>
  lb_TraceIdKey :: string               \<comment> \<open>\<open>candlelight.TraceIdLogKeyName\<close>\<close>
  lb_SpanIdKey :: string                \<comment> \<open>\<open>candlelight.SpanIDLogKeyName\<close>\<close>
  lb_PartnerIdHeader :: string          \<comment> \<open>\<open>wrphttp.PartnerIdHeader\<close>\<close>
  lb_SchemeBearer :: string             \<comment> \<open>\<open>basculehttp.SchemeBearer\<close>\<close>
  lb_MsgpackType :: string              \<comment> \<open>\<open>wrp.Msgpack.ContentType()\<close>\<close>
  lb_SimpleRequestResponse :: int       \<comment> \<open>\<open>wrp.SimpleRequestResponseMessageType\<close>\<close>
  lb_ParseDeviceID :: "string \<Rightarrow> goerror + string"   \<comment> \<open>\<open>wrp.ParseDeviceID\<close>\<close>
  lb_BasicAuth :: "string \<Rightarrow> string \<Rightarrow> string"        \<comment> \<open>\<open>basculehttp.BasicAuth\<close>\<close>
  lb_WrpEncode :: "wrp_msg \<Rightarrow> goerror + bytes"        \<comment> \<open>\<open>wrp.NewEncoderBytes(..).Encode\<close>\<close>
  lb_WrpDecode :: "bytes \<Rightarrow> goerror + wrp_msg"        \<comment> \<open>\<open>wrp.NewDecoderBytes(..).Decode\<close>\<close>
  lb_ToStringSliceE :: "json \<Rightarrow> goerror + string list" \<comment> \<open>\<open>cast.ToStringSliceE\<close>\<close>
  lb_GetAttributeList ::
    "(string \<Rightarrow> json option) \<Rightarrow> string list \<Rightarrow> json list option"
    \<comment> \<open>\<open>bascule.GetAttribute[[]interface{}]\<close>\<close>
  lb_ParseURL :: "string \<Rightarrow> goerror option" \<comment> \<open>the error \<open>http.NewRequest\<close> has for a URL\<close>
  lb_Sha256 :: "bytes \<Rightarrow> bytes"            \<comment> \<open>\<open>sha256.Sum256\<close>\<close>
  lb_Float64Text :: "string \<Rightarrow> string option"
    \<comment> \<open>the text of a number literal read as a float64; \<open>None\<close> out of range\<close>
  lb_JsonErrorText :: "bytes \<Rightarrow> string"     \<comment> \<open>the text of the error \<open>json.Unmarshal\<close> has\<close>

text \<open>
  Documented behaviour that some theorems name as hypotheses: the transaction-id header name
  is a canonicalisable token, and the text of a float64 is a number literal that reads back
  as itself.
\<close>

definition float64_text_ok :: "libs \<Rightarrow> bool" where
  "float64_text_ok L \<longleftrightarrow>
     (\<forall>l t. lb_Float64Text L l = Some t \<longrightarrow>
        scan_number t = Some (t, []) \<and> lb_Float64Text L t = Some t)"

section \<open>A concrete instance\<close>

text \<open>
  The constants below are the ones of the released packages; the functions are small
  stand-ins that satisfy the documented behaviour, for the witnesses only.
\<close>

definition demo_ParseDeviceID :: "string \<Rightarrow> goerror + string" where
  "demo_ParseDeviceID s =
     (if prefix ''mac:'' s \<and> length s = 16 then Inr (map to_lower s)
      else Inl (ErrExt ''invalid device name'' None))"

definition demo_wrp :: "bytes \<Rightarrow> wrp_msg" where
  "demo_wrp p = \<lparr>wm_Type = 3, wm_Source = [], wm_Destination = [], wm_TransactionUUID = [],
                 wm_Payload = p, wm_PartnerIDs = [], wm_Headers = []\<rparr>"

definition demo_libs :: libs where
  "demo_libs =
     \<lparr>lb_TIDHeader = ''X-WebPA-Transaction-Id'', lb_TraceIdKey = ''trace-id'',
      lb_SpanIdKey = ''span-id'', lb_PartnerIdHeader = ''X-Xmidt-Partner-Id'',
      lb_SchemeBearer = ''Bearer'', lb_MsgpackType = ''application/msgpack'',
      lb_SimpleRequestResponse = 3,
      lb_ParseDeviceID = demo_ParseDeviceID,
      lb_BasicAuth = (\<lambda>u p. u @ '':'' @ p),
      lb_WrpEncode = (\<lambda>m. Inr (wm_Payload m)),
      lb_WrpDecode = (\<lambda>b. if b = [] then Inl (ErrExt ''EOF'' None) else Inr (demo_wrp b)),
      lb_ToStringSliceE =
        (\<lambda>j. case j of JStr s \<Rightarrow> Inr [s] | _ \<Rightarrow> Inl (ErrExt ''unable to cast'' None)),
      lb_GetAttributeList = (\<lambda>g ks. None),
      lb_ParseURL = (\<lambda>u. if u = [] then Some (ErrExt ''parse: empty url'' None) else None),
      lb_Sha256 = (\<lambda>b. replicate 32 (CHR 0x00)),
      lb_Float64Text = (\<lambda>l. if scan_number l = Some (l, []) then Some l else None),
      lb_JsonErrorText = (\<lambda>b. ''unexpected end of JSON input'')\<rparr>"

lemma float64_text_ok_demo: "float64_text_ok demo_libs"
  by (simp add: float64_text_ok_def demo_libs_def)

end
