(* ===== verification/Trans_Errors.thy ===== *)
theory Trans_Errors
  imports Libs
begin

text \<open>
  Package \<open>transaction\<close>, errors.go and context.go: coded errors, the context values of a
  request, and the decorator that logs an error before it is encoded.
\<close>

section \<open>The request context\<close>

text \<open>
  The values a request context carries: the two keys of context.go, the fields of the
  request-scoped logger (sallust), the bascule token, the trace and span ids candlelight
  extracts, and the response headers go-kit records for its finalizers.
\<close>

record reqctx =
  cx_RequestTID :: "string option"
  cx_RequestArrivalTime :: "int option"
  cx_Logger :: log_fields
  cx_Token :: "auth_token option"
  cx_Trace :: "(string \<times> string) option"
  cx_ResponseHeaders :: "header option"

definition background :: reqctx where
  "background = \<lparr>cx_RequestTID = None, cx_RequestArrivalTime = None, cx_Logger = [],
                 cx_Token = None, cx_Trace = None, cx_ResponseHeaders = None\<rparr>"

text \<open>
  A handler runs a request in a context against a response writer; what it returns is left
  open, so that a handler with state of its own can return a function of that state.
\<close>

type_synonym 'o handler = "reqctx \<Rightarrow> http_request \<Rightarrow> rw \<Rightarrow> 'o"

type_synonym error_encoder = "reqctx \<Rightarrow> goerror \<Rightarrow> rw \<Rightarrow> rw outcome"

definition log_with :: "log_fields \<Rightarrow> log_level \<Rightarrow> string \<Rightarrow> log_fields \<Rightarrow> log_entry" where
  "log_with logger lv msg fs = \<lparr>lg_level = lv, lg_msg = msg, lg_fields = logger @ fs\<rparr>"

section \<open>Coded errors\<close>

definition ErrTr1d1umInternal :: goerror where
  "ErrTr1d1umInternal = ErrNew ''oops! Something unexpected went wrong in this service''"

definition NewCodedError :: "goerror \<Rightarrow> int \<Rightarrow> goerror" where
  "NewCodedError e code = ErrCoded e code"

definition NewBadRequestError :: "goerror \<Rightarrow> goerror" where
  "NewBadRequestError e = NewCodedError e 400"

lemma coded_simps [simp]:
  "err_StatusCode (NewCodedError e c) = Some c"
  "err_StatusCode (NewBadRequestError e) = Some 400"
  "err_Error (NewCodedError e c) = err_Error e"
  "err_Error (NewBadRequestError e) = err_Error e"
  by (simp_all add: NewCodedError_def NewBadRequestError_def)

lemma coded_inject [simp]:
  "NewCodedError e c = NewCodedError e' c' \<longleftrightarrow> e = e' \<and> c = c'"
  "NewBadRequestError e = NewBadRequestError e' \<longleftrightarrow> e = e'"
  by (simp_all add: NewCodedError_def NewBadRequestError_def)

lemma ErrTr1d1umInternal_uncoded [simp]: "err_StatusCode ErrTr1d1umInternal = None"
  by (simp add: ErrTr1d1umInternal_def)

section \<open>Logging before encoding\<close>

definition ErrorLogEncoder ::
  "(reqctx \<Rightarrow> log_fields option) \<Rightarrow> error_encoder \<Rightarrow> error_encoder" where
  "ErrorLogEncoder getLogger ee ctx e w =
     (let code = (case err_StatusCode e of Some c \<Rightarrow> c | None \<Rightarrow> 500);
          w1 = (case getLogger ctx of
                  Some l \<Rightarrow>
                    if code \<noteq> 404 then
                      rw_add_log [log_with l LvError ''sending non-200, non-404 response''
                        [(''error'', LStr (err_Error e)),
                         (''tid'', case cx_RequestTID ctx of Some t \<Rightarrow> LStr t | None \<Rightarrow> LNil)]] w
                    else w
                | None \<Rightarrow> w)
      in ee ctx e w1)"

text \<open>The decorator changes nothing but the log.\<close>

lemma ErrorLogEncoder_cases:
  "ErrorLogEncoder g ee ctx e w = ee ctx e w
   \<or> (\<exists>es. es \<noteq> [] \<and> ErrorLogEncoder g ee ctx e w = ee ctx e (rw_add_log es w))"
  by (auto simp: ErrorLogEncoder_def Let_def split: option.splits)

end
