(* ===== verification/Transactor.thy ===== *)
theory Transactor
  imports Trans_Errors
begin

text \<open>
  Package \<open>transaction\<close>, transactor.go: the transaction with the XMiDT API (header filtering,
  deadline, error coding), the \<open>Welcome\<close> middleware with the transaction id, the device-id
  and credential-fingerprint log fields, and the response-logging finalizer.
\<close>

section \<open>Forwarding headers\<close>

definition add_values :: "string \<Rightarrow> string list \<Rightarrow> header \<Rightarrow> header" where
  "add_values k vs to = foldl (\<lambda>h v. hdr_add k v h) to vs"

text \<open>
  The two nested loops of \<open>ForwardHeadersByPrefix\<close>; the list \<open>from\<close> is in the order in
  which \<open>range\<close> happens to visit the map.
\<close>

fun ForwardHeadersByPrefix :: "string \<Rightarrow> header \<Rightarrow> header \<Rightarrow> header" where
  "ForwardHeadersByPrefix p [] to = to"
| "ForwardHeadersByPrefix p ((headerKey, headerValues) # from) to =
     ForwardHeadersByPrefix p from
       (if HasPrefix headerKey p then add_values headerKey headerValues to else to)"

lemma map_of_add_values:
  "map_of (add_values k vs to) =
     (if vs = [] then map_of to
      else (map_of to)(canon_key k \<mapsto> hdr_values to (canon_key k) @ vs))"
proof (induction vs arbitrary: to)
  case (Cons v vs)
  then show ?case
    by (auto simp: add_values_def http_simps hdr_values_def fun_eq_iff)
qed (simp add: add_values_def)

lemma hdr_wf_add_values [intro]: "hdr_wf to \<Longrightarrow> hdr_wf (add_values k vs to)"
  by (induction vs arbitrary: to) (auto simp: add_values_def)

lemma hdr_wf_Forward [intro]: "hdr_wf to \<Longrightarrow> hdr_wf (ForwardHeadersByPrefix p from to)"
  by (induction p "from" to rule: ForwardHeadersByPrefix.induct)
    (simp_all add: hdr_wf_add_values)

text \<open>
  The values a lookup finds after forwarding: the old ones followed by the forwarded ones.
\<close>

definition forwarded :: "string \<Rightarrow> header \<Rightarrow> string \<Rightarrow> string list" where
  "forwarded p from k = (if prefix p k then hdr_values from k else [])"

lemma map_of_Forward:
  assumes "hdr_wf from"
  shows "map_of (ForwardHeadersByPrefix p from to) k =
    (if forwarded p from k = [] then map_of to k
     else Some (hdr_values to k @ forwarded p from k))"
  using assms
proof (induction "from" arbitrary: to)
  case Nil
  then show ?case by (simp add: forwarded_def hdr_values_def)
next
  case (Cons x "from")
  obtain hk hv where x: "x = (hk, hv)" by fastforce
  from Cons.prems x have wf: "hdr_wf from" and hk: "canon_key hk = hk"
    and fresh: "map_of from hk = None"
    by (auto simp: hdr_wf_def map_of_eq_None_iff)
  show ?case
  proof (cases "prefix p hk")
    case True
    then show ?thesis
      using Cons.IH [OF wf, of "add_values hk hv to"] fresh hk
      by (auto simp: x forwarded_def hdr_values_def map_of_add_values)
  next
    case False
    then show ?thesis
      using Cons.IH [OF wf, of to] by (auto simp: x forwarded_def hdr_values_def)
  qed
qed

section \<open>The transaction\<close>

text \<open>
  \<open>XmidtResponse\<close>; the body is \<open>None\<close> for a nil slice.
\<close>

record XmidtResponse =
  xr_Code :: int
  xr_ForwardedHeaders :: header
  xr_Body :: "bytes option"

text \<open>The interface \<open>T\<close>: a response and an error, either of them possibly nil.\<close>

type_synonym T = "out_request \<Rightarrow> XmidtResponse option \<times> goerror option"

record transactor =
  tr_RequestTimeout :: int
  tr_Do :: "out_request \<Rightarrow> goerror + http_response"

record Options =
  op_RequestTimeout :: int
  op_Do :: "out_request \<Rightarrow> goerror + http_response"

definition New :: "Options \<Rightarrow> transactor" where
  "New opts = \<lparr>tr_RequestTimeout = op_RequestTimeout opts, tr_Do = op_Do opts\<rparr>"

text \<open>\<open>context.WithTimeout\<close>: the earlier of the parent's deadline and now plus the timeout.\<close>

definition WithTimeout :: "int \<Rightarrow> int \<Rightarrow> int option \<Rightarrow> int option" where
  "WithTimeout now timeout parent =
     (case parent of None \<Rightarrow> Some (now + timeout) | Some d \<Rightarrow> Some (min d (now + timeout)))"

definition Transact :: "transactor \<Rightarrow> int \<Rightarrow> T" where
  "Transact t now req =
     (case tr_Do t (req\<lparr>or_Deadline := WithTimeout now (tr_RequestTimeout t) (or_Deadline req)\<rparr>) of
        Inr resp \<Rightarrow>
          (case ReadAll (rs_Body resp) of
             (body, err) \<Rightarrow>
               (Some \<lparr>xr_Code = rs_StatusCode resp,
                      xr_ForwardedHeaders = ForwardHeadersByPrefix ''X'' (rs_Header resp) [],
                      xr_Body = Some body\<rparr>,
                err))
      | Inl err \<Rightarrow> (None, Some (NewCodedError err 503)))"

text \<open>
  What every client of the interface relies on: a response comes with its body, its headers
  are well formed and start with X, and without a response there is an error that carries
  status 503.
\<close>

locale transaction_contract =
  fixes transact :: T
  assumes response_body: "transact r = (Some x, e) \<Longrightarrow> xr_Body x \<noteq> None"
    and response_header: "transact r = (Some x, e) \<Longrightarrow> hdr_wf (xr_ForwardedHeaders x)"
    and response_prefix:
      "transact r = (Some x, e) \<Longrightarrow> k \<in> set (map fst (xr_ForwardedHeaders x)) \<Longrightarrow> prefix ''X'' k"
    and no_response: "transact r = (None, e) \<Longrightarrow> \<exists>e'. e = Some e' \<and> err_StatusCode e' = Some 503"
begin

lemma no_silent_failure: "transact r \<noteq> (None, None)"
  using no_response by blast

lemma success_body: "transact r = (Some x, None) \<Longrightarrow> \<exists>b. xr_Body x = Some b"
  using response_body by blast

end

lemma X_canon: "prefix ''X'' k \<Longrightarrow> prefix ''X'' (canon_key k)"
  by (auto simp: prefix_def canon_key_def to_upper_def)

lemma add_values_keys: "fst ` set (add_values k vs to) \<subseteq> insert (canon_key k) (fst ` set to)"
proof (induction vs arbitrary: to)
  case (Cons v vs)
  show ?case
    using Cons.IH [of "hdr_add k v to"] by (auto simp: add_values_def hdr_add_def dom_update)
qed (auto simp: add_values_def)

lemma Forward_keys:
  "k \<in> fst ` set (ForwardHeadersByPrefix ''X'' from to) \<Longrightarrow> k \<in> fst ` set to \<or> prefix ''X'' k"
proof (induction "from" arbitrary: to)
  case (Cons x "from")
  obtain hk hv where x: "x = (hk, hv)" by fastforce
  define to' where "to' = (if prefix ''X'' hk then add_values hk hv to else to)"
  have "k \<in> fst ` set to' \<or> prefix ''X'' k"
    using Cons.prems by (intro Cons.IH) (simp only: x to'_def ForwardHeadersByPrefix.simps)
  moreover have "fst ` set to' \<subseteq> fst ` set to \<union> {k. prefix ''X'' k}"
    using add_values_keys [of hk hv to] X_canon [of hk] by (cases "prefix ''X'' hk") (auto simp: to'_def)
  ultimately show ?case by blast
qed simp

lemma Transact_Some:
  "Transact t now r = (Some x, e) \<Longrightarrow>
     \<exists>resp. tr_Do t (r\<lparr>or_Deadline := WithTimeout now (tr_RequestTimeout t) (or_Deadline r)\<rparr>) = Inr resp
       \<and> xr_Code x = rs_StatusCode resp
       \<and> xr_ForwardedHeaders x = ForwardHeadersByPrefix ''X'' (rs_Header resp) []
       \<and> xr_Body x = Some (bd_data (rs_Body resp)) \<and> e = bd_err (rs_Body resp)"
  by (auto simp: Transact_def ReadAll_def split: sum.splits)

interpretation xmidt: transaction_contract "Transact t now"
proof
  fix r x e k
  assume h: "Transact t now r = (Some x, e)"
  from Transact_Some [OF h] show "xr_Body x \<noteq> None" "hdr_wf (xr_ForwardedHeaders x)"
    by (auto simp: hdr_wf_Forward)
  assume "k \<in> set (map fst (xr_ForwardedHeaders x))"
  moreover obtain hs where "xr_ForwardedHeaders x = ForwardHeadersByPrefix ''X'' hs []"
    using Transact_Some [OF h] by blast
  ultimately have "k \<in> fst ` set (ForwardHeadersByPrefix ''X'' hs [])" by simp
  then show "prefix ''X'' k" using Forward_keys [of k hs "[]"] by simp
next
  fix r e
  assume "Transact t now r = (None, e)"
  then show "\<exists>e'. e = Some e' \<and> err_StatusCode e' = Some 503"
    by (auto simp: Transact_def split: sum.splits prod.splits)
qed

end
