(* ===== verification/Auth_Acquirer.thy ===== *)
theory Auth_Acquirer
  imports Transactor
begin

text \<open>
  Package \<open>transaction\<close>, auth_acquirer.go: the two sources of credentials for outbound
  requests, the interface their clients rely on, and the lifetime of a cached token. One call
  of \<open>Acquire\<close> is modelled here; Acquirer_Concurrent interleaves many.
\<close>

section \<open>Basic credentials\<close>

record BasicAcquirer =
  ba_Username :: string
  ba_Password :: string
  ba_Token :: string

definition err_no_credentials :: goerror where
  "err_no_credentials = ErrNew
     ''BasicAcquirer: no credentials configured (provide Username/Password or Token)''"

definition BasicAcquirer_Acquire :: "libs \<Rightarrow> BasicAcquirer \<Rightarrow> goerror + string" where
  "BasicAcquirer_Acquire L b =
     (if ba_Username b \<noteq> [] then Inr (''Basic '' @ lb_BasicAuth L (ba_Username b) (ba_Password b))
      else if ba_Token b = [] then Inl err_no_credentials
      else Inr (ba_Token b))"

section \<open>Bearer tokens from a remote endpoint\<close>

text \<open>\<open>time.Duration\<close>: a signed 64-bit count of nanoseconds.\<close>

type_synonym duration = "64 word"

record RemoteBearerTokenAcquirerOptions =
  jo_AuthURL :: string
  jo_Timeout :: duration
  jo_Buffer :: duration

record JwtAcquirer =
  ja_Config :: RemoteBearerTokenAcquirerOptions
  ja_token :: string
  ja_expiry :: int

definition new_JwtAcquirer :: "RemoteBearerTokenAcquirerOptions \<Rightarrow> JwtAcquirer" where
  "new_JwtAcquirer c = \<lparr>ja_Config = c, ja_token = [], ja_expiry = - 62135596800 * 1000000000\<rparr>"

text \<open>
  What the outside gives during one call: the three readings of the clock (the check of the
  cached token, the start of the request, the storing of a new token) and the HTTP client.
\<close>

record jwt_env =
  je_check :: int
  je_request :: int
  je_store :: int
  je_Do :: "out_request \<Rightarrow> goerror + http_response"

record token_response =
  tq_AccessToken :: string
  tq_TokenType :: string
  tq_ExpiresIn :: int

definition decode_token_member :: "string \<times> json \<Rightarrow> token_response \<Rightarrow> token_response option" where
  "decode_token_member m t =
     (if is_field (fst m) ''access_token'' then
        map_option (\<lambda>s. t\<lparr>tq_AccessToken := s\<rparr>) (decode_str (tq_AccessToken t) (snd m))
      else if is_field (fst m) ''token_type'' then
        map_option (\<lambda>s. t\<lparr>tq_TokenType := s\<rparr>) (decode_str (tq_TokenType t) (snd m))
      else if is_field (fst m) ''expires_in'' then
        map_option (\<lambda>i. t\<lparr>tq_ExpiresIn := i\<rparr>) (decode_int 64 (tq_ExpiresIn t) (snd m))
      else Some t)"

definition zero_token_response :: token_response where
  "zero_token_response = \<lparr>tq_AccessToken = [], tq_TokenType = [], tq_ExpiresIn = 0\<rparr>"

definition decode_token :: "bytes \<Rightarrow> token_response option" where
  "decode_token body =
     (case json_first body of
        Some JNull \<Rightarrow> Some zero_token_response
      | Some (JObj ms) \<Rightarrow> fold_opt decode_token_member ms zero_token_response
      | _ \<Rightarrow> None)"

text \<open>
  \<open>time.Duration(tokenResp.ExpiresIn) * time.Second\<close> and \<open>-j.Config.Buffer\<close> are computed on
  64 bits.
\<close>

definition token_expiry :: "int \<Rightarrow> int \<Rightarrow> duration \<Rightarrow> int" where
  "token_expiry now expiresIn buffer =
     (if expiresIn > 0 then
        (let expiryTime = now + sint (word_of_int expiresIn * 1000000000 :: duration)
         in expiryTime + sint (- buffer))
      else now + sint buffer)"

definition bearer :: "libs \<Rightarrow> string \<Rightarrow> string" where
  "bearer L token = lb_SchemeBearer L @ '' '' @ token"

definition token_request :: "jwt_env \<Rightarrow> RemoteBearerTokenAcquirerOptions \<Rightarrow> out_request" where
  "token_request env c =
     \<lparr>or_Method = ''GET'', or_URL = jo_AuthURL c, or_Header = [], or_Body = [],
      or_Deadline = WithTimeout (je_request env) (sint (jo_Timeout c)) None\<rparr>"

definition fetch_token ::
  "libs \<Rightarrow> jwt_env \<Rightarrow> RemoteBearerTokenAcquirerOptions \<Rightarrow> goerror + token_response" where
  "fetch_token L env c =
     (case lb_ParseURL L (jo_AuthURL c) of
        Some err \<Rightarrow>
          Inl (ErrWrap (''failed to create token request: '' @ err_Error err) err)
      | None \<Rightarrow>
          (case je_Do env (token_request env c) of
             Inl err \<Rightarrow>
               Inl (ErrWrap (''failed to fetch token from '' @ jo_AuthURL c @ '': '' @ err_Error err) err)
           | Inr resp \<Rightarrow>
               if rs_StatusCode resp \<noteq> 200 then
                 Inl (ErrNew (''token endpoint returned status '' @ show_int (rs_StatusCode resp)
                        @ '': '' @ fst (ReadAll (rs_Body resp))))
               else
                 (case decode_token (bd_data (rs_Body resp)) of
                    None \<Rightarrow>
                      (let msg = lb_JsonErrorText L (bd_data (rs_Body resp))
                       in Inl (ErrWrap (''failed to parse token response: '' @ msg) (ErrExt msg None)))
                  | Some tokenResp \<Rightarrow>
                      if tq_AccessToken tokenResp = [] then
                        Inl (ErrNew ''token response missing access_token field'')
                      else Inr tokenResp)))"

definition cached :: "int \<Rightarrow> JwtAcquirer \<Rightarrow> bool" where
  "cached now j \<longleftrightarrow> ja_token j \<noteq> [] \<and> now < ja_expiry j"

definition store_token :: "int \<Rightarrow> token_response \<Rightarrow> JwtAcquirer \<Rightarrow> JwtAcquirer" where
  "store_token now t j =
     j\<lparr>ja_token := tq_AccessToken t,
       ja_expiry := token_expiry now (tq_ExpiresIn t) (jo_Buffer (ja_Config j))\<rparr>"

definition JwtAcquirer_Acquire ::
  "libs \<Rightarrow> jwt_env \<Rightarrow> JwtAcquirer \<Rightarrow> (goerror + string) \<times> JwtAcquirer" where
  "JwtAcquirer_Acquire L env j =
     (if cached (je_check env) j then (Inr (bearer L (ja_token j)), j)
      else case fetch_token L env (ja_Config j) of
        Inl err \<Rightarrow> (Inl err, j)
      | Inr tokenResp \<Rightarrow>
          (let j' = store_token (je_store env) tokenResp j
           in (Inr (bearer L (ja_token j')), j')))"

text \<open>\<open>PartnerKeys\<close>.\<close>

definition PartnerKeys :: "string list" where
  "PartnerKeys = [''partner-id'', ''partner-ids'', ''partnerId'', ''partnerIds'']"

section \<open>The interface AuthAcquirer\<close>

type_synonym 's acquire = "'s \<Rightarrow> (goerror + string) \<times> 's"

text \<open>
  The promises the two services rely on: a header value that is handed out is not empty, and
  a call that fails leaves the acquirer as it was.
\<close>

locale acquirer_contract =
  fixes acquire :: "'s acquire"
  assumes header_nonempty: "acquire s = (Inr h, s') \<Longrightarrow> h \<noteq> []"
    and failure_frame: "acquire s = (Inl e, s') \<Longrightarrow> s' = s"
begin

lemma retry_after_failure:
  "acquire s = (Inl e, s') \<Longrightarrow> acquire s' = acquire s"
  using failure_frame by blast

lemma header_values:
  "fst (acquire s) = Inr h \<Longrightarrow> hdr_get (hdr_set ''Authorization'' h hs) ''Authorization'' \<noteq> []"
  using header_nonempty [of s h "snd (acquire s)"] by (cases "acquire s") auto

end

text \<open>The dynamic dispatch of the interface over its two implementations.\<close>

datatype AuthAcquirer = Basic BasicAcquirer | Jwt JwtAcquirer

fun Acquire :: "libs \<Rightarrow> jwt_env \<Rightarrow> AuthAcquirer acquire" where
  "Acquire L env (Basic b) = (BasicAcquirer_Acquire L b, Basic b)"
| "Acquire L env (Jwt j) =
     (case JwtAcquirer_Acquire L env j of (r, j') \<Rightarrow> (r, Jwt j'))"

section \<open>Facts\<close>

lemma fetch_token_nonempty: "fetch_token L env c = Inr t \<Longrightarrow> tq_AccessToken t \<noteq> []"
  by (auto simp: fetch_token_def Let_def split: option.splits sum.splits if_splits)

lemma fetch_token_from_endpoint:
  "fetch_token L env c = Inr t \<Longrightarrow>
     \<exists>resp. je_Do env (token_request env c) = Inr resp \<and> rs_StatusCode resp = 200
       \<and> decode_token (bd_data (rs_Body resp)) = Some t"
  by (auto simp: fetch_token_def Let_def split: option.splits sum.splits if_splits)

lemma bearer_nonempty [simp]: "bearer L t \<noteq> []"
  by (simp add: bearer_def)

lemma BasicAcquirer_nonempty: "BasicAcquirer_Acquire L b = Inr h \<Longrightarrow> h \<noteq> []"
  by (auto simp: BasicAcquirer_Acquire_def split: if_splits)

lemma Jwt_cached [acq_simps]:
  "cached (je_check env) j \<Longrightarrow> JwtAcquirer_Acquire L env j = (Inr (bearer L (ja_token j)), j)"
  by (simp add: JwtAcquirer_Acquire_def)

lemma Jwt_fetched [acq_simps]:
  "\<not> cached (je_check env) j \<Longrightarrow> fetch_token L env (ja_Config j) = Inr t \<Longrightarrow>
     JwtAcquirer_Acquire L env j
       = (Inr (bearer L (tq_AccessToken t)), store_token (je_store env) t j)"
  by (simp add: JwtAcquirer_Acquire_def store_token_def)

lemma Jwt_failed [acq_simps]:
  "\<not> cached (je_check env) j \<Longrightarrow> fetch_token L env (ja_Config j) = Inl e \<Longrightarrow>
     JwtAcquirer_Acquire L env j = (Inl e, j)"
  by (simp add: JwtAcquirer_Acquire_def)

lemma Jwt_cases:
  obtains (hit) "cached (je_check env) j"
      "JwtAcquirer_Acquire L env j = (Inr (bearer L (ja_token j)), j)"
  | (fail) e where "\<not> cached (je_check env) j" "fetch_token L env (ja_Config j) = Inl e"
      "JwtAcquirer_Acquire L env j = (Inl e, j)"
  | (fetch) t where "\<not> cached (je_check env) j" "fetch_token L env (ja_Config j) = Inr t"
      "JwtAcquirer_Acquire L env j
         = (Inr (bearer L (tq_AccessToken t)), store_token (je_store env) t j)"
  by (cases "cached (je_check env) j"; cases "fetch_token L env (ja_Config j)")
    (auto simp: acq_simps)

interpretation basic: acquirer_contract "\<lambda>b. (BasicAcquirer_Acquire L b, b)"
  by unfold_locales (auto dest: BasicAcquirer_nonempty)

interpretation jwt: acquirer_contract "JwtAcquirer_Acquire L env"
proof
  fix s h s' e
  show "JwtAcquirer_Acquire L env s = (Inr h, s') \<Longrightarrow> h \<noteq> []"
    by (cases rule: Jwt_cases [of env s L]) auto
  show "JwtAcquirer_Acquire L env s = (Inl e, s') \<Longrightarrow> s' = s"
    by (cases rule: Jwt_cases [of env s L]) auto
qed

interpretation acq: acquirer_contract "Acquire L env"
proof
  fix s h s' e
  show "Acquire L env s = (Inr h, s') \<Longrightarrow> h \<noteq> []"
    by (cases s) (auto split: prod.splits dest: BasicAcquirer_nonempty jwt.header_nonempty)
  show "Acquire L env s = (Inl e, s') \<Longrightarrow> s' = s"
    by (cases s) (auto split: prod.splits dest: jwt.failure_frame)
qed

text \<open>
  The product of \<open>expires_in\<close> and a second is taken modulo \<open>2 ^ 64\<close>; where it does not
  overflow, the expiry is the one intended.
\<close>

lemma sint_seconds_wrap:
  "sint (word_of_int e * 1000000000 :: duration) = signed_take_bit 63 (e * 1000000000)"
proof -
  have "(word_of_int e * 1000000000 :: duration) = word_of_int (e * 1000000000)"
    by (simp add: wi_hom_mult [symmetric])
  then show ?thesis by (simp only: sint_sbintrunc') simp
qed

lemma sint_seconds:
  assumes "0 \<le> e" "e \<le> 9223372036"
  shows "sint (word_of_int e * 1000000000 :: duration) = e * 1000000000"
  using assms by (simp add: sint_seconds_wrap signed_take_bit_int_eq_self)

lemma sint_minus_duration:
  assumes "0 \<le> sint (b :: duration)"
  shows "sint (- b) = - sint b"
  using assms sint_lt [of b] by (simp add: sint_word_minus signed_take_bit_int_eq_self)

lemma token_expiry_exact:
  assumes "0 < e" "e \<le> 9223372036" "0 \<le> sint buffer"
  shows "token_expiry now e buffer = now + e * 1000000000 - sint buffer"
  using assms by (simp add: token_expiry_def sint_seconds sint_minus_duration)

end
