(* ===== verification/Acquirer_Concurrent.thy ===== *)
theory Acquirer_Concurrent
  imports Auth_Acquirer
begin

text \<open>
  \<open>JwtAcquirer.Acquire\<close> (transaction/auth_acquirer.go) called by many goroutines at once: one
  step per access to the shared fields and per operation of the \<open>sync.RWMutex\<close>. As in Go, a
  writer first announces itself, which keeps other writers and new readers out, and then waits
  for the readers that are inside (\<open>jc_writer\<close> is set from the announcement on). The clock and
  the endpoint may answer anything in every step. \<open>jc_issued\<close> records the responses the
  endpoint gave; no step reads it.
\<close>

datatype pc =
    Start                        \<comment> \<open>about to call \<open>RLock\<close>\<close>
  | RLocked                      \<comment> \<open>about to read \<open>j.token\<close> for the check\<close>
  | TokenSeen string             \<comment> \<open>about to read \<open>j.expiry\<close>\<close>
  | Valid string int             \<comment> \<open>about to read \<open>j.token\<close> for the result\<close>
  | Hit string                   \<comment> \<open>about to run the deferred \<open>RUnlock\<close>\<close>
  | Miss                         \<comment> \<open>about to call \<open>RUnlock\<close>\<close>
  | Fetch                        \<comment> \<open>about to ask the endpoint\<close>
  | Fetched token_response       \<comment> \<open>about to call \<open>Lock\<close>\<close>
  | Announced token_response     \<comment> \<open>inside \<open>Lock\<close>, waiting for the readers\<close>
  | WLocked token_response       \<comment> \<open>about to write \<open>j.token\<close>\<close>
  | TokenWritten token_response  \<comment> \<open>about to write \<open>j.expiry\<close>\<close>
  | Stored token_response        \<comment> \<open>about to read \<open>j.token\<close> for the result\<close>
  | Leaving string               \<comment> \<open>about to run the deferred \<open>Unlock\<close>\<close>
  | Done "goerror + string"

record jwt_conf =
  jc_token :: string
  jc_expiry :: int
  jc_readers :: "nat set"
  jc_writer :: "nat option"
  jc_pc :: "nat \<Rightarrow> pc"
  jc_issued :: "token_response list"

definition goto :: "nat \<Rightarrow> pc \<Rightarrow> jwt_conf \<Rightarrow> jwt_conf" where
  "goto i p c = c\<lparr>jc_pc := (jc_pc c)(i := p)\<rparr>"

lemma goto_fields [simp]:
  "jc_token (goto i p c) = jc_token c" "jc_expiry (goto i p c) = jc_expiry c"
  "jc_readers (goto i p c) = jc_readers c" "jc_writer (goto i p c) = jc_writer c"
  "jc_issued (goto i p c) = jc_issued c" "jc_pc (goto i p c) = (jc_pc c)(i := p)"
  by (simp_all add: goto_def)

text \<open>The step relation, for the configuration \<open>cfg\<close> of one acquirer.\<close>

inductive jwt_step ::
  "libs \<Rightarrow> RemoteBearerTokenAcquirerOptions \<Rightarrow> jwt_conf \<Rightarrow> jwt_conf \<Rightarrow> bool" for L cfg where
  rlock: "jc_pc c i = Start \<Longrightarrow> jc_writer c = None \<Longrightarrow>
    jwt_step L cfg c (goto i RLocked (c\<lparr>jc_readers := insert i (jc_readers c)\<rparr>))"
| check_token: "jc_pc c i = RLocked \<Longrightarrow>
    jwt_step L cfg c (goto i (if jc_token c \<noteq> [] then TokenSeen (jc_token c) else Miss) c)"
| check_expiry: "jc_pc c i = TokenSeen tok \<Longrightarrow>
    jwt_step L cfg c (goto i (if now < jc_expiry c then Valid tok (jc_expiry c) else Miss) c)"
| take_token: "jc_pc c i = Valid tok ex \<Longrightarrow>
    jwt_step L cfg c (goto i (Hit (bearer L (jc_token c))) c)"
| runlock_hit: "jc_pc c i = Hit h \<Longrightarrow>
    jwt_step L cfg c (goto i (Done (Inr h)) (c\<lparr>jc_readers := jc_readers c - {i}\<rparr>))"
| runlock_miss: "jc_pc c i = Miss \<Longrightarrow>
    jwt_step L cfg c (goto i Fetch (c\<lparr>jc_readers := jc_readers c - {i}\<rparr>))"
| fetch_fails: "jc_pc c i = Fetch \<Longrightarrow> fetch_token L env cfg = Inl e \<Longrightarrow>
    jwt_step L cfg c (goto i (Done (Inl e)) c)"
| fetch: "jc_pc c i = Fetch \<Longrightarrow> fetch_token L env cfg = Inr t \<Longrightarrow>
    jwt_step L cfg c (goto i (Fetched t) (c\<lparr>jc_issued := t # jc_issued c\<rparr>))"
| announce: "jc_pc c i = Fetched t \<Longrightarrow> jc_writer c = None \<Longrightarrow>
    jwt_step L cfg c (goto i (Announced t) (c\<lparr>jc_writer := Some i\<rparr>))"
| lock: "jc_pc c i = Announced t \<Longrightarrow> jc_readers c = {} \<Longrightarrow>
    jwt_step L cfg c (goto i (WLocked t) c)"
| write_token: "jc_pc c i = WLocked t \<Longrightarrow>
    jwt_step L cfg c (goto i (TokenWritten t) (c\<lparr>jc_token := tq_AccessToken t\<rparr>))"
| write_expiry: "jc_pc c i = TokenWritten t \<Longrightarrow>
    jwt_step L cfg c (goto i (Stored t)
      (c\<lparr>jc_expiry := token_expiry now (tq_ExpiresIn t) (jo_Buffer cfg)\<rparr>))"
| read_back: "jc_pc c i = Stored t \<Longrightarrow>
    jwt_step L cfg c (goto i (Leaving (bearer L (jc_token c))) c)"
| unlock: "jc_pc c i = Leaving h \<Longrightarrow>
    jwt_step L cfg c (goto i (Done (Inr h)) (c\<lparr>jc_writer := None\<rparr>))"

inductive_cases jwt_stepE: "jwt_step L cfg c c'"

definition jwt_init :: "RemoteBearerTokenAcquirerOptions \<Rightarrow> jwt_conf" where
  "jwt_init cfg = \<lparr>jc_token = ja_token (new_JwtAcquirer cfg),
               jc_expiry = ja_expiry (new_JwtAcquirer cfg), jc_readers = {},
               jc_writer = None, jc_pc = (\<lambda>i. Start), jc_issued = []\<rparr>"

inductive jwt_reach ::
  "libs \<Rightarrow> RemoteBearerTokenAcquirerOptions \<Rightarrow> jwt_conf \<Rightarrow> bool" for L cfg where
  init: "jwt_reach L cfg (jwt_init cfg)"
| step: "jwt_reach L cfg c \<Longrightarrow> jwt_step L cfg c c' \<Longrightarrow> jwt_reach L cfg c'"

section \<open>The mutex\<close>

fun reads :: "pc \<Rightarrow> bool" where
  "reads RLocked = True"
| "reads (TokenSeen t) = True"
| "reads (Valid t e) = True"
| "reads (Hit h) = True"
| "reads Miss = True"
| "reads p = False"

fun writes :: "pc \<Rightarrow> bool" where
  "writes (WLocked t) = True"
| "writes (TokenWritten t) = True"
| "writes (Stored t) = True"
| "writes (Leaving h) = True"
| "writes p = False"

text \<open>The points from the announcement of a writer to its \<open>Unlock\<close>.\<close>

fun holds :: "pc \<Rightarrow> bool" where
  "holds (Announced t) = True"
| "holds p = writes p"

lemma writes_holds: "writes p \<Longrightarrow> holds p"
  by (cases p) simp_all

lemma holds_writes: "holds p \<Longrightarrow> (\<exists>t. p = Announced t) \<or> writes p"
  by (cases p) simp_all

definition mutex_inv :: "jwt_conf \<Rightarrow> bool" where
  "mutex_inv c \<longleftrightarrow>
     jc_readers c = {i. reads (jc_pc c i)}
     \<and> (\<forall>i. holds (jc_pc c i) \<longleftrightarrow> jc_writer c = Some i)
     \<and> (\<forall>i. writes (jc_pc c i) \<longrightarrow> jc_readers c = {})"

lemma mutex_writer: "mutex_inv c \<Longrightarrow> writes (jc_pc c i) \<Longrightarrow> jc_writer c = Some i"
  unfolding mutex_inv_def by (blast dest: writes_holds)

text \<open>A step of \<open>i\<close> keeps the invariant when it keeps it for \<open>i\<close>.\<close>

lemma mutex_upd:
  assumes inv: "mutex_inv c" and pc: "jc_pc c' = (jc_pc c)(i := p)"
    and readers: "jc_readers c' = (if reads p then insert i (jc_readers c) else jc_readers c - {i})"
    and writer: "jc_writer c' = (if holds p then Some i else if holds (jc_pc c i) then None else jc_writer c)"
    and enter_read: "reads p \<Longrightarrow> reads (jc_pc c i) \<or> jc_writer c = None"
    and enter_hold: "holds p \<Longrightarrow> holds (jc_pc c i) \<or> jc_writer c = None"
    and enter_write: "writes p \<Longrightarrow> writes (jc_pc c i) \<or> jc_readers c = {}"
  shows "mutex_inv c'"
proof -
  have "jc_readers c' = {k. reads (jc_pc c' k)}"
    using inv by (auto simp: mutex_inv_def pc readers)
  moreover have "holds (jc_pc c' k) \<longleftrightarrow> jc_writer c' = Some k" for k
    using inv enter_hold by (auto simp: mutex_inv_def pc writer)
  moreover have "jc_readers c' = {}" if "writes (jc_pc c' k)" for k
  proof (cases "k = i")
    case True
    with that have "writes p" by (simp add: pc)
    then have "jc_readers c = {}" using enter_write inv unfolding mutex_inv_def by blast
    moreover have "\<not> reads p" using \<open>writes p\<close> by (cases p) simp_all
    ultimately show ?thesis by (simp add: readers)
  next
    case False
    with that have "writes (jc_pc c k)" by (simp add: pc)
    with inv have "jc_readers c = {}" "jc_writer c = Some k"
      by (auto simp: mutex_writer) (auto simp: mutex_inv_def)
    moreover have "\<not> reads p"
      using enter_read inv calculation by (auto simp: mutex_inv_def)
    ultimately show ?thesis by (simp add: readers)
  qed
  ultimately show ?thesis unfolding mutex_inv_def by blast
qed

lemma mutex_goto:
  assumes "mutex_inv c" "jc_pc d = jc_pc c"
    and "jc_readers d = (if reads p then insert i (jc_readers c) else jc_readers c - {i})"
    and "jc_writer d = (if holds p then Some i else if holds (jc_pc c i) then None else jc_writer c)"
    and "reads p \<Longrightarrow> reads (jc_pc c i) \<or> jc_writer c = None"
    and "holds p \<Longrightarrow> holds (jc_pc c i) \<or> jc_writer c = None"
    and "writes p \<Longrightarrow> writes (jc_pc c i) \<or> jc_readers c = {}"
  shows "mutex_inv (goto i p d)"
  by (rule mutex_upd [OF assms(1), of _ i p]) (simp_all add: assms)

lemma mutex_step:
  assumes "jwt_step L cfg c c'" "mutex_inv c"
  shows "mutex_inv c'"
proof -
  have inside: "i \<in> jc_readers c \<longleftrightarrow> reads (jc_pc c i)" for i
    using assms(2) by (simp add: mutex_inv_def)
  have holder: "jc_writer c = Some i \<longleftrightarrow> holds (jc_pc c i)" for i
    using assms(2) by (simp add: mutex_inv_def)
  show ?thesis
    using assms(1)
    by (rule jwt_stepE; simp only:)
      (rule mutex_goto [OF assms(2)]; auto simp: insert_absorb inside holder split: if_splits)+
qed

lemma mutex_reach: "jwt_reach L cfg c \<Longrightarrow> mutex_inv c"
proof (induction rule: jwt_reach.induct)
  case init
  show ?case by (simp add: mutex_inv_def jwt_init_def)
next
  case (step c c')
  then show ?case by (blast intro: mutex_step)
qed

section \<open>The cached pair\<close>

text \<open>What each program point knows of the shared fields and of the responses issued.\<close>

fun pc_ok :: "libs \<Rightarrow> string \<Rightarrow> int \<Rightarrow> token_response list \<Rightarrow> pc \<Rightarrow> bool" where
  "pc_ok L tok ex ts (TokenSeen v) \<longleftrightarrow> v = tok \<and> v \<noteq> []"
| "pc_ok L tok ex ts (Valid v e) \<longleftrightarrow> v = tok \<and> e = ex \<and> v \<noteq> []"
| "pc_ok L tok ex ts (Hit h) \<longleftrightarrow> (\<exists>t \<in> set ts. h = bearer L (tq_AccessToken t))"
| "pc_ok L tok ex ts (Fetched t) \<longleftrightarrow> t \<in> set ts"
| "pc_ok L tok ex ts (Announced t) \<longleftrightarrow> t \<in> set ts"
| "pc_ok L tok ex ts (WLocked t) \<longleftrightarrow> t \<in> set ts"
| "pc_ok L tok ex ts (TokenWritten t) \<longleftrightarrow> t \<in> set ts \<and> tok = tq_AccessToken t"
| "pc_ok L tok ex ts (Stored t) \<longleftrightarrow> t \<in> set ts \<and> tok = tq_AccessToken t"
| "pc_ok L tok ex ts (Leaving h) \<longleftrightarrow> (\<exists>t \<in> set ts. h = bearer L (tq_AccessToken t))"
| "pc_ok L tok ex ts (Done r) \<longleftrightarrow>
     (case r of Inl e \<Rightarrow> True | Inr h \<Rightarrow> \<exists>t \<in> set ts. h = bearer L (tq_AccessToken t))"
| "pc_ok L tok ex ts p \<longleftrightarrow> True"

definition mid_write :: "jwt_conf \<Rightarrow> bool" where
  "mid_write c \<longleftrightarrow> (\<exists>i t. jc_pc c i = TokenWritten t)"

definition pair_ok :: "RemoteBearerTokenAcquirerOptions \<Rightarrow> jwt_conf \<Rightarrow> bool" where
  "pair_ok cfg c \<longleftrightarrow> jc_token c = []
     \<or> (\<exists>t \<in> set (jc_issued c). \<exists>now. jc_token c = tq_AccessToken t
          \<and> jc_expiry c = token_expiry now (tq_ExpiresIn t) (jo_Buffer cfg))"

definition data_inv :: "libs \<Rightarrow> RemoteBearerTokenAcquirerOptions \<Rightarrow> jwt_conf \<Rightarrow> bool" where
  "data_inv L cfg c \<longleftrightarrow>
     (\<forall>i. pc_ok L (jc_token c) (jc_expiry c) (jc_issued c) (jc_pc c i))
     \<and> (\<not> mid_write c \<longrightarrow> pair_ok cfg c)
     \<and> (\<forall>t \<in> set (jc_issued c). tq_AccessToken t \<noteq> [])"

text \<open>Points outside the critical sections know nothing of the shared fields.\<close>

lemma pc_ok_outside:
  "\<not> reads p \<Longrightarrow> \<not> writes p \<Longrightarrow> pc_ok L tok ex ts p = pc_ok L tok' ex' ts p"
  by (cases p) auto

lemma pc_ok_issued: "pc_ok L tok ex ts p \<Longrightarrow> pc_ok L tok ex (t # ts) p"
  by (cases p) (auto split: sum.splits)

lemma alone:
  assumes "mutex_inv c" "writes (jc_pc c i)" "k \<noteq> i"
  shows "\<not> reads (jc_pc c k) \<and> \<not> writes (jc_pc c k)"
proof -
  have "jc_readers c = {}" using assms(1,2) unfolding mutex_inv_def by blast
  moreover have "jc_writer c = Some i" using assms(1,2) by (rule mutex_writer)
  ultimately show ?thesis
    using assms(1,3) mutex_writer [OF assms(1), of k] by (auto simp: mutex_inv_def)
qed

lemma reading_no_write: "mutex_inv c \<Longrightarrow> reads (jc_pc c i) \<Longrightarrow> \<not> mid_write c"
  unfolding mutex_inv_def mid_write_def by (metis empty_iff mem_Collect_eq writes.simps(2))

text \<open>A step that writes none of the shared fields.\<close>

lemma mid_write_upd:
  "jc_pc c' = (jc_pc c)(i := p) \<Longrightarrow> \<forall>t. jc_pc c i \<noteq> TokenWritten t \<Longrightarrow> \<forall>t. p \<noteq> TokenWritten t
   \<Longrightarrow> mid_write c' \<longleftrightarrow> mid_write c"
  by (auto simp: mid_write_def)

lemma data_local:
  assumes "data_inv L cfg c" "jc_pc c' = (jc_pc c)(i := p)"
    and "jc_token c' = jc_token c" "jc_expiry c' = jc_expiry c" "jc_issued c' = jc_issued c"
    and "pc_ok L (jc_token c) (jc_expiry c) (jc_issued c) p"
    and "\<forall>t. jc_pc c i \<noteq> TokenWritten t" "\<forall>t. p \<noteq> TokenWritten t"
  shows "data_inv L cfg c'"
proof -
  have "mid_write c' \<longleftrightarrow> mid_write c" using assms(2,7,8) by (rule mid_write_upd)
  with assms(1-6) show ?thesis by (simp add: data_inv_def pair_ok_def)
qed

lemma data_pc: "data_inv L cfg c \<Longrightarrow> pc_ok L (jc_token c) (jc_expiry c) (jc_issued c) (jc_pc c i)"
  by (simp add: data_inv_def)

text \<open>A step inside a critical section leaves what the other goroutines know intact.\<close>

lemma data_write:
  assumes "mutex_inv c" "data_inv L cfg c" "writes (jc_pc c i)"
    and c': "jc_issued c' = jc_issued c" "jc_pc c' = (jc_pc c)(i := p)"
    and "pc_ok L (jc_token c') (jc_expiry c') (jc_issued c) p"
    and "\<not> mid_write c' \<longrightarrow> pair_ok cfg c'"
  shows "data_inv L cfg c'"
proof -
  have "pc_ok L (jc_token c') (jc_expiry c') (jc_issued c) (jc_pc c k)" if "k \<noteq> i" for k
    using alone [OF assms(1,3) that] data_pc [OF assms(2), of k] pc_ok_outside by blast
  with assms show ?thesis by (simp add: data_inv_def)
qed

lemma data_fetch:
  assumes "data_inv L cfg c" "jc_pc c i = Fetch" "tq_AccessToken t \<noteq> []"
  shows "data_inv L cfg (goto i (Fetched t) (c\<lparr>jc_issued := t # jc_issued c\<rparr>))"
proof -
  let ?c = "goto i (Fetched t) (c\<lparr>jc_issued := t # jc_issued c\<rparr>)"
  have "mid_write ?c \<longleftrightarrow> mid_write c" 
    by (rule mid_write_upd [of ?c c i "Fetched t"]) (simp_all add: assms(2))
  with assms show ?thesis by (auto simp: data_inv_def pair_ok_def intro: pc_ok_issued)
qed

lemma data_step:
  assumes step: "jwt_step L cfg c c'" and mutex: "mutex_inv c" and data: "data_inv L cfg c"
  shows "data_inv L cfg c'"
  using step
proof (cases rule: jwt_step.cases)
  case (rlock i)
  with data show ?thesis by (intro data_local [of L cfg c c' i RLocked]) auto
next
  case (check_token i)
  with data show ?thesis
    by (intro data_local [of L cfg c c' i]) (auto split: if_splits)
next
  case (check_expiry i tok now)
  with data data_pc [OF data, of i] show ?thesis
    by (intro data_local [of L cfg c c' i]) (auto split: if_splits)
next
  case (take_token i tok ex)
  have "pair_ok cfg c"
    using reading_no_write [OF mutex, of i] data take_token(2) by (simp add: data_inv_def)
  then have "pc_ok L (jc_token c) (jc_expiry c) (jc_issued c) (Hit (bearer L (jc_token c)))"
    using data_pc [OF data, of i] take_token(2) by (auto simp: pair_ok_def)
  with take_token data show ?thesis by (intro data_local [of L cfg c c' i]) auto
next
  case (runlock_hit i h)
  with data data_pc [OF data, of i] show ?thesis by (intro data_local [of L cfg c c' i]) auto
next
  case (runlock_miss i)
  with data show ?thesis by (intro data_local [of L cfg c c' i Fetch]) auto
next
  case (fetch_fails i env e)
  with data show ?thesis by (intro data_local [of L cfg c c' i]) auto
next
  case (fetch i env t)
  with data data_fetch [of L cfg c i t] fetch_token_nonempty show ?thesis by auto
next
  case (announce i t)
  with data data_pc [OF data, of i] show ?thesis by (intro data_local [of L cfg c c' i "Announced t"]) auto
next
  case (lock i t)
  with data data_pc [OF data, of i] show ?thesis by (intro data_local [of L cfg c c' i "WLocked t"]) auto
next
  case (write_token i t)
  have "mid_write c'" unfolding mid_write_def write_token(1) by (intro exI [of _ i] exI [of _ t]) simp
  with write_token data_pc [OF data, of i] show ?thesis
    by (intro data_write [OF mutex data, of i c' "TokenWritten t"]) auto
next
  case (write_expiry i t now)
  with data_pc [OF data, of i] show ?thesis
    by (intro data_write [OF mutex data, of i c' "Stored t"]) (auto simp: pair_ok_def)
next
  case (read_back i t)
  with data data_pc [OF data, of i] show ?thesis by (intro data_local [of L cfg c c' i]) auto
next
  case (unlock i h)
  with data data_pc [OF data, of i] show ?thesis
    by (intro data_local [of L cfg c c' i "Done (Inr h)"]) auto
qed

lemma data_reach: "jwt_reach L cfg c \<Longrightarrow> data_inv L cfg c"
proof (induction rule: jwt_reach.induct)
  case init
  show ?case by (simp add: data_inv_def pair_ok_def jwt_init_def new_JwtAcquirer_def)
next
  case (step c c')
  then show ?case by (blast intro: data_step mutex_reach)
qed

section \<open>Progress\<close>

text \<open>Goroutine \<open>k\<close> can take a step.\<close>

definition can_move :: "libs \<Rightarrow> RemoteBearerTokenAcquirerOptions \<Rightarrow> jwt_conf \<Rightarrow> nat \<Rightarrow> bool" where
  "can_move L cfg c k \<longleftrightarrow> (\<exists>c' p. jwt_step L cfg c c' \<and> jc_pc c' = (jc_pc c)(k := p))"

lemma can_moveI: "jwt_step L cfg c (goto k p d) \<Longrightarrow> jc_pc d = jc_pc c \<Longrightarrow> can_move L cfg c k"
  unfolding can_move_def by (metis goto_fields(6))

lemma can_move_inside: "reads (jc_pc c k) \<or> writes (jc_pc c k) \<Longrightarrow> can_move L cfg c k"
  by (cases "jc_pc c k")
    (auto intro: can_moveI [OF check_token] can_moveI [OF check_expiry] can_moveI [OF take_token]
      can_moveI [OF runlock_hit] can_moveI [OF runlock_miss] can_moveI [OF write_token]
      can_moveI [OF write_expiry] can_moveI [OF read_back] can_moveI [OF unlock])

lemma can_move_outside:
  assumes "jc_writer c = None" "\<not> reads (jc_pc c i)" "\<not> holds (jc_pc c i)" "\<forall>r. jc_pc c i \<noteq> Done r"
  shows "can_move L cfg c i"
proof (cases "jc_pc c i")
  case Fetch
  obtain env :: jwt_env where "env = env" by blast
  with Fetch show ?thesis
    by (cases "fetch_token L env cfg") (auto intro: can_moveI [OF fetch_fails] can_moveI [OF fetch])
qed (use assms in \<open>auto intro: can_moveI [OF rlock] can_moveI [OF announce]\<close>)

text \<open>
  Some call that has started, or a given one, can go on: somebody inside a critical section,
  or the announced writer when no reader is left inside, or the given call.
\<close>

lemma enabled_call:
  assumes "mutex_inv c" "\<forall>r. jc_pc c i \<noteq> Done r"
  shows "\<exists>k. can_move L cfg c k \<and> (k = i \<or> jc_pc c k \<noteq> Start)"
proof (cases "\<exists>k. reads (jc_pc c k) \<or> writes (jc_pc c k)")
  case True
  then obtain k where k: "reads (jc_pc c k) \<or> writes (jc_pc c k)" by blast
  then have "jc_pc c k \<noteq> Start" by auto
  with can_move_inside [OF k] show ?thesis by blast
next
  case outside: False
  then have no_readers: "jc_readers c = {}" using assms(1) by (auto simp: mutex_inv_def)
  show ?thesis
  proof (cases "jc_writer c")
    case None
    then have "\<not> holds (jc_pc c i)" using assms(1) by (simp add: mutex_inv_def)
    with None outside assms(2) show ?thesis using can_move_outside [of c i L cfg] by blast
  next
    case (Some k)
    then have "holds (jc_pc c k)" using assms(1) by (simp add: mutex_inv_def)
    with outside obtain t where t: "jc_pc c k = Announced t" using holds_writes by blast
    have "can_move L cfg c k" by (rule can_moveI [OF lock [OF t no_readers]]) simp
    with t show ?thesis by auto
  qed
qed

section \<open>A concrete run\<close>

text \<open>Goroutine 0 fetches and stores a token, then goroutine 1 finds it cached.\<close>

definition run_config :: RemoteBearerTokenAcquirerOptions where
  "run_config = \<lparr>jo_AuthURL = ''http://auth'', jo_Timeout = 1000000000, jo_Buffer = 1000000000\<rparr>"

definition run_env :: jwt_env where
  "run_env = \<lparr>je_check = 0, je_request = 0, je_store = 0,
     je_Do = (\<lambda>r. Inr \<lparr>rs_StatusCode = 200, rs_Header = [],
       rs_Body = \<lparr>bd_data = dq ''{`access_token`:`tok`,`expires_in`:3}'', bd_err = None\<rparr>\<rparr>)\<rparr>"

definition run_token :: token_response where
  "run_token = \<lparr>tq_AccessToken = ''tok'', tq_TokenType = [], tq_ExpiresIn = 3\<rparr>"

lemma run_fetch: "fetch_token demo_libs run_env run_config = Inr run_token"
proof -
  have "decode_token (dq ''{`access_token`:`tok`,`expires_in`:3}'') = Some run_token" by code_simp
  then show ?thesis
    by (simp add: fetch_token_def run_env_def run_config_def demo_libs_def run_token_def)
qed

abbreviation run_reach :: "jwt_conf \<Rightarrow> bool" where
  "run_reach \<equiv> jwt_reach demo_libs run_config"

lemma run_locked:
  "\<exists>c. run_reach c \<and> jc_pc c = (\<lambda>i. Start)(0 := WLocked run_token) \<and> jc_readers c = {}
     \<and> jc_writer c = Some 0 \<and> jc_issued c = [run_token]"
proof -
  let ?c0 = "jwt_init run_config"
  let ?c1 = "goto 0 RLocked (?c0\<lparr>jc_readers := insert 0 (jc_readers ?c0)\<rparr>)"
  let ?c2 = "goto 0 (if jc_token ?c1 \<noteq> [] then TokenSeen (jc_token ?c1) else Miss) ?c1"
  let ?c3 = "goto 0 Fetch (?c2\<lparr>jc_readers := jc_readers ?c2 - {0}\<rparr>)"
  let ?c4 = "goto 0 (Fetched run_token) (?c3\<lparr>jc_issued := run_token # jc_issued ?c3\<rparr>)"
  let ?c5 = "goto 0 (Announced run_token) (?c4\<lparr>jc_writer := Some 0\<rparr>)"
  let ?c6 = "goto 0 (WLocked run_token) ?c5"
  note idef = jwt_init_def new_JwtAcquirer_def
  have "run_reach ?c1" by (rule step [OF jwt_reach.init rlock]) (simp_all add: idef)
  then have "run_reach ?c2" by (rule step [OF _ check_token]) simp
  then have "run_reach ?c3" by (rule step [OF _ runlock_miss]) (simp add: idef)
  then have "run_reach ?c4" by (rule step [OF _ fetch [OF _ run_fetch]]) simp
  then have "run_reach ?c5" by (rule step [OF _ announce]) (simp_all add: idef)
  then have "run_reach ?c6" by (rule step [OF _ lock]) (simp_all add: idef)
  then show ?thesis by (intro exI [of _ ?c6]) (simp add: idef fun_eq_iff)
qed

lemma run_stored:
  "\<exists>c. run_reach c \<and> jc_pc c 0 = Done (Inr ''Bearer tok'') \<and> jc_pc c 1 = Start \<and> jc_writer c = None
     \<and> jc_token c = ''tok'' \<and> jc_expiry c = 2000000000"
proof -
  obtain c where c: "run_reach c" "jc_pc c = (\<lambda>i. Start)(0 := WLocked run_token)" using run_locked by blast
  let ?c1 = "goto 0 (TokenWritten run_token) (c\<lparr>jc_token := tq_AccessToken run_token\<rparr>)"
  let ?c2 = "goto 0 (Stored run_token)
    (?c1\<lparr>jc_expiry := token_expiry 0 (tq_ExpiresIn run_token) (jo_Buffer run_config)\<rparr>)"
  let ?c3 = "goto 0 (Leaving (bearer demo_libs (jc_token ?c2))) ?c2"
  let ?c4 = "goto 0 (Done (Inr (bearer demo_libs (jc_token ?c2)))) (?c3\<lparr>jc_writer := None\<rparr>)"
  have "run_reach ?c1" by (rule step [OF c(1) write_token]) (simp add: c)
  then have "run_reach ?c2" by (rule step [OF _ write_expiry]) simp
  then have "run_reach ?c3" by (rule step [OF _ read_back]) simp
  then have "run_reach ?c4" by (rule step [OF _ unlock]) simp
  moreover have "token_expiry 0 3 (1000000000 :: duration) = 2000000000"
    by (subst token_expiry_exact) simp_all
  ultimately show ?thesis
    by (intro exI [of _ ?c4])
      (simp add: c(2) run_token_def run_config_def bearer_def demo_libs_def)
qed

lemma run_valid: "\<exists>c. run_reach c \<and> jc_pc c 1 = Valid ''tok'' 2000000000"
proof -
  obtain c where c: "run_reach c" "jc_pc c 1 = Start" "jc_writer c = None" "jc_token c = ''tok''"
    "jc_expiry c = 2000000000" using run_stored by blast
  let ?c1 = "goto 1 RLocked (c\<lparr>jc_readers := insert 1 (jc_readers c)\<rparr>)"
  let ?c2 = "goto 1 (if jc_token ?c1 \<noteq> [] then TokenSeen (jc_token ?c1) else Miss) ?c1"
  let ?c3 = "goto 1 (if 5 < jc_expiry ?c2 then Valid ''tok'' (jc_expiry ?c2) else Miss) ?c2"
  have "run_reach ?c1" by (rule step [OF c(1) rlock [OF c(2,3)]])
  then have "run_reach ?c2" by (rule step [OF _ check_token]) simp
  then have "run_reach ?c3" by (rule step [OF _ check_expiry]) (simp add: c c(2)[simplified])
  then show ?thesis by (intro exI [of _ ?c3]) (simp add: c c(2)[simplified])
qed

section \<open>Properties\<close>

text \<open>
  C32. The read-write mutex does its work: while a goroutine writes the cached token no other
  one reads or writes it, in every state that calls of \<open>Acquire\<close> can reach.
\<close>

theorem Acquire_mutual_exclusion:
  assumes "jwt_reach L cfg c" "writes (jc_pc c i)" "k \<noteq> i"
  shows "\<not> reads (jc_pc c k) \<and> \<not> writes (jc_pc c k)"
  using alone [OF mutex_reach [OF assms(1)] assms(2,3)] .

theorem Acquire_mutual_exclusion_witness:
  "\<exists>c. jwt_reach demo_libs run_config c \<and> writes (jc_pc c 0) \<and> \<not> reads (jc_pc c 1)"
proof -
  obtain c where c: "run_reach c" "jc_pc c = (\<lambda>i. Start)(0 := WLocked run_token)" using run_locked by blast
  then have "writes (jc_pc c 0)" by simp
  with Acquire_mutual_exclusion [OF c(1) this, of 1] c(1) show ?thesis by auto
qed

text \<open>
  C16. No call sees half of an update: when a call decides that the cached token is still
  valid, the token and the expiry it compared belong to one and the same response of the
  endpoint, and the header it returns is built from that token.
\<close>

theorem Acquire_no_torn_read:
  assumes "jwt_reach L cfg c" "jc_pc c i = Valid tok ex"
  shows "\<exists>t \<in> set (jc_issued c). \<exists>now. tok = tq_AccessToken t
    \<and> ex = token_expiry now (tq_ExpiresIn t) (jo_Buffer cfg)
    \<and> jc_token c = tok \<and> jc_expiry c = ex"
proof -
  note data = data_reach [OF assms(1)]
  have "pair_ok cfg c"
    using reading_no_write [OF mutex_reach [OF assms(1)], of i] assms(2) data by (simp add: data_inv_def)
  with data_pc [OF data, of i] assms(2) show ?thesis by (auto simp: pair_ok_def)
qed

theorem Acquire_no_torn_read_witness:
  "\<exists>c. jwt_reach demo_libs run_config c \<and> jc_pc c 1 = Valid ''tok'' 2000000000 \<and> jc_token c = ''tok''"
proof -
  obtain c where c: "run_reach c" "jc_pc c 1 = Valid ''tok'' 2000000000" using run_valid by blast
  from Acquire_no_torn_read [OF c] c show ?thesis by blast
qed

text \<open>
  C33. Every header that some call returned, in any interleaving, is \<open>Bearer\<close> and a non-empty
  access token that the endpoint really issued.
\<close>

theorem Acquire_returns_issued:
  assumes "jwt_reach L cfg c" "jc_pc c i = Done (Inr h)"
  shows "\<exists>t \<in> set (jc_issued c). tq_AccessToken t \<noteq> [] \<and> h = lb_SchemeBearer L @ '' '' @ tq_AccessToken t"
  using data_reach [OF assms(1)] data_pc [OF data_reach [OF assms(1)], of i] assms(2)
  by (auto simp: data_inv_def bearer_def)

theorem Acquire_returns_issued_witness:
  "\<exists>c. jwt_reach demo_libs run_config c \<and> jc_pc c 0 = Done (Inr ''Bearer tok'')
     \<and> (\<exists>t \<in> set (jc_issued c). tq_AccessToken t \<noteq> [])"
proof -
  obtain c where c: "run_reach c" "jc_pc c 0 = Done (Inr ''Bearer tok'')" using run_stored by blast
  from Acquire_returns_issued [OF c] c show ?thesis by blast
qed

text \<open>
  The calls never block each other for good: as long as some call has not returned, some
  goroutine can take a step.
\<close>

theorem Acquire_deadlock_free:
  assumes "jwt_reach L cfg c" "\<forall>r. jc_pc c i \<noteq> Done r"
  shows "\<exists>c'. jwt_step L cfg c c'"
  using enabled_call [OF mutex_reach [OF assms(1)] assms(2), of L cfg] unfolding can_move_def by blast

theorem Acquire_deadlock_free_witness:
  "\<exists>c c'. jwt_reach demo_libs run_config c \<and> jc_pc c 1 = Start \<and> jwt_step demo_libs run_config c c'"
proof -
  obtain c where c: "run_reach c" "jc_pc c = (\<lambda>i. Start)(0 := WLocked run_token)" using run_locked by blast
  then have "\<forall>r. jc_pc c 1 \<noteq> Done r" by simp
  with Acquire_deadlock_free [OF c(1) this] c show ?thesis by auto
qed

end
