(* ===== verification/Acquirer_Liveness.thy ===== *)
theory Acquirer_Liveness
  imports Acquirer_Concurrent
begin

text \<open>
  Every call of \<open>JwtAcquirer.Acquire\<close> ends (transaction/auth_acquirer.go). The program counter
  only moves forward: \<open>progress\<close> counts how far a call has come, every step raises it for one
  goroutine, and \<open>n\<close> calls together take at most \<open>12 n\<close> steps, whatever the scheduler does and
  without any fairness. What stops only when every call has returned has no other end.
\<close>

section \<open>How far a call has come\<close>

fun progress :: "pc \<Rightarrow> nat" where
  "progress Start = 0"
| "progress RLocked = 1"
| "progress (TokenSeen t) = 2"
| "progress (Valid t e) = 3"
| "progress (Hit h) = 4"
| "progress Miss = 4"
| "progress Fetch = 5"
| "progress (Fetched t) = 6"
| "progress (Announced t) = 7"
| "progress (WLocked t) = 8"
| "progress (TokenWritten t) = 9"
| "progress (Stored t) = 10"
| "progress (Leaving h) = 11"
| "progress (Done r) = 12"

lemma progress_le: "progress p \<le> 12"
  by (cases p) simp_all

lemma progress_started: "0 < progress p \<longleftrightarrow> p \<noteq> Start"
  by (cases p) simp_all

text \<open>A step moves one goroutine, and forward.\<close>

lemma step_moves:
  "jwt_step L cfg c c' \<Longrightarrow>
     \<exists>i p. jc_pc c' = (jc_pc c)(i := p) \<and> progress (jc_pc c i) < progress p"
  by (erule jwt_step.cases) fastforce+

section \<open>Runs of finitely many calls\<close>

text \<open>A run of \<open>k\<close> steps.\<close>

inductive jwt_run ::
  "libs \<Rightarrow> RemoteBearerTokenAcquirerOptions \<Rightarrow> nat \<Rightarrow> jwt_conf \<Rightarrow> bool" for L cfg where
  init: "jwt_run L cfg 0 (jwt_init cfg)"
| step: "jwt_run L cfg k c \<Longrightarrow> jwt_step L cfg c c' \<Longrightarrow> jwt_run L cfg (Suc k) c'"

text \<open>Only the calls below \<open>n\<close> have started.\<close>

definition only_calls :: "nat \<Rightarrow> jwt_conf \<Rightarrow> bool" where
  "only_calls n c \<longleftrightarrow> (\<forall>i \<ge> n. jc_pc c i = Start)"

definition total_progress :: "nat \<Rightarrow> jwt_conf \<Rightarrow> nat" where
  "total_progress n c = (\<Sum>i < n. progress (jc_pc c i))"

lemma total_progress_le: "total_progress n c \<le> 12 * n"
  using sum_bounded_above [of "{..<n}" "\<lambda>i. progress (jc_pc c i)" 12]
  by (simp add: total_progress_def progress_le mult.commute)

lemma run_reaches: "jwt_run L cfg k c \<Longrightarrow> jwt_reach L cfg c"
  by (induction rule: jwt_run.induct) (auto intro: jwt_reach.intros)

lemma total_progress_step:
  assumes "jwt_step L cfg c c'" "only_calls n c'"
  shows "only_calls n c \<and> total_progress n c < total_progress n c'"
proof -
  obtain i p where i: "jc_pc c' = (jc_pc c)(i := p)" "progress (jc_pc c i) < progress p"
    using step_moves [OF assms(1)] by blast
  then have "p \<noteq> Start" using progress_started [of p] by simp
  with i assms(2) have "i < n" by (force simp: only_calls_def not_le [symmetric])
  moreover have "total_progress n c' - progress p = total_progress n c - progress (jc_pc c i)"
    using \<open>i < n\<close> by (simp add: total_progress_def i(1) sum.remove [of "{..<n}" i])
  moreover have "progress (jc_pc c i) \<le> total_progress n c"
    using \<open>i < n\<close> unfolding total_progress_def by (intro member_le_sum) simp_all
  moreover have "progress p \<le> total_progress n c'"
    using \<open>i < n\<close> by (simp add: total_progress_def i(1) sum.remove [of "{..<n}" i])
  ultimately show ?thesis using i assms(2) by (fastforce simp: only_calls_def)
qed

lemma run_bound: "jwt_run L cfg k c \<Longrightarrow> only_calls n c \<Longrightarrow> k \<le> total_progress n c"
proof (induction rule: jwt_run.induct)
  case (step k c c')
  then show ?case using total_progress_step [OF step.hyps(2) step.prems] by fastforce
qed simp

section \<open>Properties\<close>

text \<open>
  C11. Calls of \<open>Acquire\<close> end. A run in which \<open>n\<close> calls take part has at most \<open>12 n\<close> steps, whatever
  the scheduler does; and as long as one of the \<open>n\<close> calls has not returned the run can go on
  without a further call. So every run of \<open>n\<close> calls that cannot go on has brought all of them
  to their end: no call waits forever, none blocks another for good.
\<close>

theorem Acquire_calls_end:
  assumes "jwt_run L cfg k c" "only_calls n c"
  shows "k \<le> 12 * n
    \<and> ((\<forall>i < n. \<exists>r. jc_pc c i = Done r) \<or> (\<exists>c'. jwt_run L cfg (Suc k) c' \<and> only_calls n c'))"
proof
  show "k \<le> 12 * n" using run_bound [OF assms] total_progress_le [of n c] by linarith
  show "(\<forall>i < n. \<exists>r. jc_pc c i = Done r) \<or> (\<exists>c'. jwt_run L cfg (Suc k) c' \<and> only_calls n c')"
  proof (cases "\<forall>i < n. \<exists>r. jc_pc c i = Done r")
    case False
    then obtain i where i: "i < n" "\<forall>r. jc_pc c i \<noteq> Done r" by blast
    obtain k' where k': "can_move L cfg c k'" "k' = i \<or> jc_pc c k' \<noteq> Start"
      using enabled_call [OF mutex_reach [OF run_reaches [OF assms(1)]] i(2)] by blast
    then obtain c' p where s: "jwt_step L cfg c c'" "jc_pc c' = (jc_pc c)(k' := p)"
      unfolding can_move_def by blast
    have "k' < n" using k'(2) assms(2) i(1) by (metis only_calls_def not_le)
    with s(2) assms(2) have "only_calls n c'" by (auto simp: only_calls_def)
    with jwt_run.step [OF assms(1) s(1)] show ?thesis by blast
  qed simp
qed

theorem Acquire_calls_end_witness:
  "\<exists>c. jwt_run demo_libs run_config 1 c \<and> only_calls 1 c
     \<and> (\<exists>c'. jwt_run demo_libs run_config 2 c' \<and> only_calls 1 c')"
proof -
  let ?c0 = "jwt_init run_config"
  let ?c1 = "goto 0 RLocked (?c0\<lparr>jc_readers := insert 0 (jc_readers ?c0)\<rparr>)"
  have r: "jwt_run demo_libs run_config (Suc 0) ?c1"
    by (rule jwt_run.step [OF jwt_run.init rlock]) (simp_all add: jwt_init_def)
  have o: "only_calls 1 ?c1" by (simp add: only_calls_def jwt_init_def)
  have "\<not> (\<forall>i < 1. \<exists>r. jc_pc ?c1 i = Done r)" by simp
  with Acquire_calls_end [OF r o] have "\<exists>c'. jwt_run demo_libs run_config (Suc (Suc 0)) c' \<and> only_calls 1 c'"
    by blast
  with r o show ?thesis by (metis One_nat_def Suc_1)
qed

section \<open>The steps implement the sequential description\<close>

text \<open>The acquirer that a state of the goroutines stands for.\<close>

definition acquirer_of :: "RemoteBearerTokenAcquirerOptions \<Rightarrow> jwt_conf \<Rightarrow> JwtAcquirer" where
  "acquirer_of cfg c = \<lparr>ja_Config = cfg, ja_token = jc_token c, ja_expiry = jc_expiry c\<rparr>"

abbreviation jwt_steps :: "libs \<Rightarrow> RemoteBearerTokenAcquirerOptions \<Rightarrow> jwt_conf \<Rightarrow> jwt_conf \<Rightarrow> bool" where
  "jwt_steps L cfg \<equiv> (jwt_step L cfg)\<^sup>*\<^sup>*"

lemma more_step: "jwt_steps L cfg c c' \<Longrightarrow> jwt_step L cfg c' c'' \<Longrightarrow> jwt_steps L cfg c c''"
  by (rule rtranclp.rtrancl_into_rtrancl)

text \<open>The check of the cached pair, up to the point where the lock is given back.\<close>

lemma solo_check:
  assumes "jc_pc c i = Start" "jc_writer c = None" "jc_readers c = {}"
  shows "\<exists>c'. jwt_steps L cfg c c' \<and> jc_readers c' = {} \<and> jc_writer c' = None
    \<and> acquirer_of cfg c' = acquirer_of cfg c
    \<and> jc_pc c' = (jc_pc c)(i := (if cached now (acquirer_of cfg c)
         then Done (Inr (bearer L (jc_token c))) else Fetch))"
proof -
  let ?c1 = "goto i RLocked (c\<lparr>jc_readers := insert i (jc_readers c)\<rparr>)"
  let ?c2 = "goto i (if jc_token ?c1 \<noteq> [] then TokenSeen (jc_token ?c1) else Miss) ?c1"
  have s2: "jwt_steps L cfg c ?c2"
    using more_step [OF more_step [OF rtranclp.rtrancl_refl rlock [OF assms(1,2)]] check_token [of ?c1 i]]
    by simp
  show ?thesis
  proof (cases "jc_token c = []")
    case True
    let ?c3 = "goto i Fetch (?c2\<lparr>jc_readers := jc_readers ?c2 - {i}\<rparr>)"
    have "jwt_steps L cfg c ?c3" using more_step [OF s2 runlock_miss [of ?c2 i]] True by simp
    with True assms(2,3) show ?thesis
      by (intro exI [of _ ?c3]) (simp add: acquirer_of_def cached_def)
  next
    case False
    let ?c3 = "goto i (if now < jc_expiry ?c2 then Valid (jc_token c) (jc_expiry ?c2) else Miss) ?c2"
    have s3: "jwt_steps L cfg c ?c3"
      using more_step [OF s2 check_expiry [of ?c2 i "jc_token c" L cfg now]] False by simp
    show ?thesis
    proof (cases "now < jc_expiry c")
      case True
      let ?c4 = "goto i (Hit (bearer L (jc_token ?c3))) ?c3"
      let ?c5 = "goto i (Done (Inr (bearer L (jc_token c)))) (?c4\<lparr>jc_readers := jc_readers ?c4 - {i}\<rparr>)"
      have "jwt_steps L cfg c ?c4"
        using more_step [OF s3 take_token [of ?c3 i "jc_token c" "jc_expiry c"]] True by simp
      then have "jwt_steps L cfg c ?c5"
        using more_step [OF _ runlock_hit [of ?c4 i "bearer L (jc_token c)"]] by simp
      with True False assms(2,3) show ?thesis
        by (intro exI [of _ ?c5]) (simp add: acquirer_of_def cached_def)
    next
      case not_now: False
      let ?c4 = "goto i Fetch (?c3\<lparr>jc_readers := jc_readers ?c3 - {i}\<rparr>)"
      have "jwt_steps L cfg c ?c4" using more_step [OF s3 runlock_miss [of ?c3 i]] not_now by simp
      with not_now assms(2,3) show ?thesis
        by (intro exI [of _ ?c4]) (simp add: acquirer_of_def cached_def)
    qed
  qed
qed

text \<open>The fetch and the store of a new token.\<close>

lemma solo_fetch:
  assumes "jc_pc c i = Fetch" "jc_writer c = None" "jc_readers c = {}"
    and "fetch_token L env cfg = Inr t"
  shows "\<exists>c'. jwt_steps L cfg c c' \<and> jc_readers c' = {} \<and> jc_writer c' = None
    \<and> acquirer_of cfg c' = store_token now t (acquirer_of cfg c)
    \<and> jc_pc c' = (jc_pc c)(i := Done (Inr (bearer L (tq_AccessToken t))))"
proof -
  let ?c1 = "goto i (Fetched t) (c\<lparr>jc_issued := t # jc_issued c\<rparr>)"
  let ?ca = "goto i (Announced t) (?c1\<lparr>jc_writer := Some i\<rparr>)"
  let ?c2 = "goto i (WLocked t) ?ca"
  let ?c3 = "goto i (TokenWritten t) (?c2\<lparr>jc_token := tq_AccessToken t\<rparr>)"
  let ?c4 = "goto i (Stored t) (?c3\<lparr>jc_expiry := token_expiry now (tq_ExpiresIn t) (jo_Buffer cfg)\<rparr>)"
  let ?c5 = "goto i (Leaving (bearer L (jc_token ?c4))) ?c4"
  let ?c6 = "goto i (Done (Inr (bearer L (tq_AccessToken t)))) (?c5\<lparr>jc_writer := None\<rparr>)"
  have "jwt_steps L cfg c ?c1" using fetch [OF assms(1,4)] by blast
  then have "jwt_steps L cfg c ?ca" by (rule more_step [OF _ announce]) (simp_all add: assms(2))
  then have "jwt_steps L cfg c ?c2" by (rule more_step [OF _ lock]) (simp_all add: assms(3))
  then have "jwt_steps L cfg c ?c3" by (rule more_step [OF _ write_token]) simp
  then have "jwt_steps L cfg c ?c4" by (rule more_step [OF _ write_expiry]) simp
  then have "jwt_steps L cfg c ?c5" by (rule more_step [OF _ read_back]) simp
  then have "jwt_steps L cfg c ?c6" by (rule more_step [OF _ unlock]) simp
  with assms(2,3) show ?thesis
    by (intro exI [of _ ?c6]) (simp add: acquirer_of_def store_token_def)
qed

text \<open>
  C10. The step relation and the sequential description agree: a call that runs alone, from any
  state of the cached pair, can take exactly the steps that lead to the result and to the new
  cached pair of \<open>JwtAcquirer_Acquire\<close>, and leaves the mutex free.
\<close>

theorem steps_implement_Acquire:
  assumes "jc_pc c i = Start" "jc_writer c = None" "jc_readers c = {}"
    and "JwtAcquirer_Acquire L env (acquirer_of cfg c) = (res, j')"
  shows "\<exists>c'. jwt_steps L cfg c c' \<and> acquirer_of cfg c' = j'
    \<and> jc_pc c' = (jc_pc c)(i := Done res) \<and> jc_readers c' = {} \<and> jc_writer c' = None"
proof -
  obtain c1 where c1: "jwt_steps L cfg c c1" "jc_readers c1 = {}" "jc_writer c1 = None"
    "acquirer_of cfg c1 = acquirer_of cfg c"
    "jc_pc c1 = (jc_pc c)(i := (if cached (je_check env) (acquirer_of cfg c)
         then Done (Inr (bearer L (jc_token c))) else Fetch))"
    using solo_check [OF assms(1-3), of L cfg "je_check env"] by blast
  have sel: "ja_Config (acquirer_of cfg c) = cfg" "ja_token (acquirer_of cfg c) = jc_token c"
    by (simp_all add: acquirer_of_def)
  show ?thesis
  proof (cases rule: Jwt_cases [of env "acquirer_of cfg c" L])
    case hit
    with c1 assms(4) show ?thesis by (intro exI [of _ c1]) (simp add: sel)
  next
    case (fail e)
    then have "jwt_step L cfg c1 (goto i (Done (Inl e)) c1)"
      using c1(5) by (intro fetch_fails [of c1 i L env cfg e]) (simp_all add: sel)
    with c1(1) have "jwt_steps L cfg c (goto i (Done (Inl e)) c1)" by (rule more_step)
    with fail c1 assms(4) show ?thesis
      by (intro exI [of _ "goto i (Done (Inl e)) c1"]) (simp add: acquirer_of_def)
  next
    case (fetch t)
    then have "jc_pc c1 i = Fetch" "fetch_token L env cfg = Inr t" using c1(5) by (simp_all add: sel)
    then obtain c2 where c2: "jwt_steps L cfg c1 c2" "jc_readers c2 = {}" "jc_writer c2 = None"
      "acquirer_of cfg c2 = store_token (je_store env) t (acquirer_of cfg c1)"
      "jc_pc c2 = (jc_pc c1)(i := Done (Inr (bearer L (tq_AccessToken t))))"
      using solo_fetch [OF _ c1(3,2), of i L env cfg t "je_store env"] by blast
    with fetch c1 assms(4) show ?thesis
      by (intro exI [of _ c2] conjI rtranclp_trans [OF c1(1) c2(1)]) simp_all
  qed
qed

theorem steps_implement_Acquire_witness:
  "\<exists>c'. jwt_steps demo_libs run_config (jwt_init run_config) c'
     \<and> jc_token c' = ''tok'' \<and> jc_pc c' 0 = Done (Inr ''Bearer tok'')"
proof -
  let ?j = "acquirer_of run_config (jwt_init run_config)"
  have "JwtAcquirer_Acquire demo_libs run_env ?j
      = (Inr (bearer demo_libs ''tok''), store_token 0 run_token ?j)"
  proof -
    have "\<not> cached (je_check run_env) ?j" "ja_Config ?j = run_config"
      by (simp_all add: acquirer_of_def jwt_init_def new_JwtAcquirer_def cached_def)
    then show ?thesis using run_fetch by (simp add: acq_simps run_token_def run_env_def)
  qed
  then obtain c' where "jwt_steps demo_libs run_config (jwt_init run_config) c'"
    "acquirer_of run_config c' = store_token 0 run_token ?j"
    "jc_pc c' 0 = Done (Inr (bearer demo_libs ''tok''))"
    using steps_implement_Acquire [of "jwt_init run_config" 0 demo_libs run_env run_config]
    by (auto simp: jwt_init_def)
  then show ?thesis
    by (intro exI [of _ c']) (simp add: acquirer_of_def store_token_def run_token_def bearer_def demo_libs_def)
qed

end
