(* ===== verification/Middleware.thy ===== *)
theory Middleware
  imports Transactor
begin

text \<open>
  Package \<open>transaction\<close>, transactor.go, the parts around a request: the \<open>Welcome\<close>
  constructor (transaction id, arrival time, device id and credential fingerprint in the
  log), the \<open>Log\<close> finalizer, and the JSON methods of the two log structures.
\<close>

section \<open>Transaction ids\<close>

definition b64_alphabet :: string where
  "b64_alphabet = ''ABCDEFGHIJKLMNOPQRSTUVWXYZabcdefghijklmnopqrstuvwxyz0123456789-_''"

definition b64_char :: "nat \<Rightarrow> char" where
  "b64_char n = b64_alphabet ! (n mod 64)"

text \<open>\<open>base64.RawURLEncoding.EncodeToString\<close>.\<close>

fun b64url :: "bytes \<Rightarrow> string" where
  "b64url [] = []"
| "b64url [a] = [b64_char (code_of a div 4), b64_char (code_of a * 16)]"
| "b64url [a, b] =
     [b64_char (code_of a div 4), b64_char (code_of a * 16 + code_of b div 16),
      b64_char (code_of b * 4)]"
| "b64url (a # b # c # s) =
     [b64_char (code_of a div 4), b64_char (code_of a * 16 + code_of b div 16),
      b64_char (code_of b * 4 + code_of c div 64), b64_char (code_of c)] @ b64url s"

text \<open>\<open>genTID\<close>: the argument is what \<open>rand.Read\<close> does with the 16-byte buffer.\<close>

definition genTID :: "goerror + bytes \<Rightarrow> string" where
  "genTID rnd = (case rnd of Inl err \<Rightarrow> [] | Inr buf \<Rightarrow> b64url buf)"

section \<open>The bearer token and its fingerprint\<close>

definition bearerToken :: "http_request \<Rightarrow> string" where
  "bearerToken r =
     (let auth = hdr_get (rq_Header r) ''Authorization'' in
      if auth = [] then []
      else case SplitN2 auth (CHR '' '') of
        [scheme, token] \<Rightarrow> if EqualFold scheme ''Bearer'' then token else []
      | _ \<Rightarrow> [])"

record FingerprintConfig =
  fc_SHA256 :: bool
  fc_LastNDigits :: int

record bearerFingerprint =
  bf_Suffix :: string
  bf_SHA :: string

definition MarshalLogObject :: "bearerFingerprint \<Rightarrow> log_fields" where
  "MarshalLogObject c =
     (if bf_Suffix c \<noteq> [] then [(''suffix'', LStr (bf_Suffix c))] else [])
     @ (if bf_SHA c \<noteq> [] then [(''sha'', LStr (bf_SHA c))] else [])"

definition addBearerFingerprintToLog ::
  "libs \<Rightarrow> reqctx \<Rightarrow> http_request \<Rightarrow> FingerprintConfig \<Rightarrow> reqctx" where
  "addBearerFingerprintToLog L ctx r cfg =
     (if \<not> fc_SHA256 cfg \<and> fc_LastNDigits cfg \<le> 0 then ctx
      else
        let token = bearerToken r in
        if token = [] then ctx
        else
          let suffix = (if fc_LastNDigits cfg > 0 \<and> int (length token) \<ge> fc_LastNDigits cfg
                        then drop (nat (int (length token) - fc_LastNDigits cfg)) token else []);
              sha = (if fc_SHA256 cfg then hex_encode (lb_Sha256 L token) else []);
              fp = \<lparr>bf_Suffix = suffix, bf_SHA = sha\<rparr>
          in
          if bf_Suffix fp = [] \<and> bf_SHA fp = [] then ctx
          else ctx\<lparr>cx_Logger := cx_Logger ctx
                     @ [(''bearerFingerprint'', LObj (MarshalLogObject fp))]\<rparr>)"

section \<open>The device id in the log\<close>

definition getDeviceId :: "libs \<Rightarrow> http_request \<Rightarrow> string" where
  "getDeviceId L r =
     (let id0 = mux_var r ''deviceid'';
          id1 = (if id0 = [] then ''mac:000000000000'' else id0)
      in case lb_ParseDeviceID L id1 of Inl err \<Rightarrow> ''invalid:'' @ id1 | Inr normalized \<Rightarrow> normalized)"

definition addDeviceIdToLog :: "libs \<Rightarrow> reqctx \<Rightarrow> http_request \<Rightarrow> reqctx" where
  "addDeviceIdToLog L ctx r =
     ctx\<lparr>cx_Logger := cx_Logger ctx @ [(''deviceid'', LStr (getDeviceId L r))]\<rparr>"

section \<open>Welcome\<close>

text \<open>
  The constructor returns a handler that runs the delegate in the enriched context; \<open>rnd\<close>
  and \<open>now\<close> are what \<open>rand.Read\<close> and \<open>time.Now\<close> give in this call.
\<close>

definition Welcome ::
  "libs \<Rightarrow> FingerprintConfig \<Rightarrow> goerror + bytes \<Rightarrow> int \<Rightarrow> 'o handler \<Rightarrow> 'o handler" where
  "Welcome L cfg rnd now delegate ctx r w =
     (let h = hdr_get (rq_Header r) (lb_TIDHeader L);
          tid = (if h = [] then genTID rnd else h);
          ctx1 = ctx\<lparr>cx_RequestTID := Some tid\<rparr>;
          ctx2 = ctx1\<lparr>cx_RequestArrivalTime := Some now\<rparr>;
          ctx3 = addDeviceIdToLog L ctx2 r;
          ctx4 = addBearerFingerprintToLog L ctx3 r cfg
      in delegate ctx4 r w)"

section \<open>The response log\<close>

text \<open>
  The zero \<open>time.Time\<close> (January 1 of year 1) in nanoseconds of the Unix clock, and
  \<open>time.Since\<close>, which saturates at the ends of \<open>time.Duration\<close>.
\<close>

definition zero_time :: int where
  "zero_time = - 62135596800 * 1000000000"

definition time_Since :: "int \<Rightarrow> int \<Rightarrow> int" where
  "time_Since now t = max (- (2 ^ 63)) (min (2 ^ 63 - 1) (now - t))"

record response =
  re_Code :: int
  re_Headers :: "header option"

text \<open>The value of the field \<open>response\<close>: members that are empty are left out.\<close>

definition response_value :: "response \<Rightarrow> log_value" where
  "response_value re =
     LObj ((if re_Code re \<noteq> 0 then [(''code'', LInt (re_Code re))] else [])
       @ (case re_Headers re of None \<Rightarrow> [] | Some h \<Rightarrow> [(''headers'', LHdr h)]))"

fun include_headers :: "int list \<Rightarrow> int \<Rightarrow> bool" where
  "include_headers [] code = True"
| "include_headers (responseCode # cs) code =
     (if responseCode = code then False else include_headers cs code)"

definition Log :: "libs \<Rightarrow> int list \<Rightarrow> reqctx \<Rightarrow> int \<Rightarrow> int \<Rightarrow> log_entry list" where
  "Log L reducedLoggingResponseCodes ctx code now =
     (let tid = (case cx_RequestTID ctx of Some t \<Rightarrow> t | None \<Rightarrow> []);
          logger0 = cx_Logger ctx;
          msg = ''Request arrival not capture for logger'';
          logger = (case cx_RequestArrivalTime ctx of
              None \<Rightarrow> logger0 @ [(''duration'', LInt (time_Since now zero_time))]
            | Some requestArrival \<Rightarrow> logger0);
          pre = (case cx_RequestArrivalTime ctx of
              None \<Rightarrow> []
            | Some requestArrival \<Rightarrow>
                (case cx_Trace ctx of
                   None \<Rightarrow> [log_with logger0 LvError msg [(''tid'', LStr tid)]]
                 | Some (traceID, spanID) \<Rightarrow>
                     [log_with logger0 LvError msg
                        [(''tid'', LStr tid), (lb_TraceIdKey L, LStr traceID),
                         (lb_SpanIdKey L, LStr spanID)]]));
          re = \<lparr>re_Code = code,
                re_Headers = (if include_headers reducedLoggingResponseCodes code
                              then cx_ResponseHeaders ctx else None)\<rparr>
      in pre @ [log_with logger LvInfo ''response'' [(''response'', response_value re)]])"

section \<open>JSON methods that call themselves\<close>

text \<open>
  \<open>MarshalJSON\<close> of \<open>*Request\<close> and of \<open>*response\<close> hands its own receiver to \<open>json.Marshal\<close>,
  and \<open>json.Marshal\<close> of a value whose type has a \<open>MarshalJSON\<close> method calls that method
  and compacts what it returns. \<open>None\<close> is a call that does not return.
\<close>

record Request =
  rq_Address :: string
  rq_Path :: string
  rq_Query :: string
  rq_ReqMethod :: string

partial_function (option) Request_MarshalJSON :: "(bytes \<Rightarrow> bytes) \<Rightarrow> Request \<Rightarrow> bytes option" where
  "Request_MarshalJSON compact re =
     Option.bind (Request_MarshalJSON compact re) (\<lambda>b. Some (compact b))"

partial_function (option) response_MarshalJSON :: "(bytes \<Rightarrow> bytes) \<Rightarrow> response \<Rightarrow> bytes option" where
  "response_MarshalJSON compact rs =
     Option.bind (response_MarshalJSON compact rs) (\<lambda>b. Some (compact b))"

section \<open>Facts\<close>

lemma include_headers_iff: "include_headers cs code \<longleftrightarrow> code \<notin> set cs"
  by (induction cs) auto

lemma bearerToken_two:
  assumes "hdr_get (rq_Header r) ''Authorization'' = a @ CHR '' '' # b" "CHR '' '' \<notin> set a"
  shows "bearerToken r = (if EqualFold a ''Bearer'' then b else [])"
  using assms by (simp add: bearerToken_def Let_def SplitN2_append)

lemma bearerToken_one:
  "CHR '' '' \<notin> set (hdr_get (rq_Header r) ''Authorization'') \<Longrightarrow> bearerToken r = []"
  by (simp add: bearerToken_def Let_def SplitN2_def)

lemma length_b64url:
  "length (b64url s) = 4 * (length s div 3) + (if length s mod 3 = 0 then 0 else Suc (length s mod 3))"
proof (induction s rule: b64url.induct)
  case (4 a b c s)
  have "length (a # b # c # s) div 3 = Suc (length s div 3)"
    "length (a # b # c # s) mod 3 = length s mod 3"
    by (simp_all add: numeral_3_eq_3 [symmetric])
  with 4 show ?case by simp
qed auto

lemma b64_alphabet_distinct: "distinct b64_alphabet" and b64_alphabet_length: "length b64_alphabet = 64"
  by (simp_all add: b64_alphabet_def)

lemma b64_char_eq_iff: "b64_char m = b64_char n \<longleftrightarrow> m mod 64 = n mod 64"
  by (simp add: b64_char_def nth_eq_iff_index_eq b64_alphabet_distinct b64_alphabet_length)

text \<open>The encoding loses nothing: equal ids come from equal random bytes.\<close>

lemma place_mod: "(y::nat) < k \<Longrightarrow> (x * k + y) mod (k * j) = k * (x mod j) + y"
  by (simp add: mod_mult2_eq)

lemma place_inject:
  assumes "k * p + y = k * p' + y'" "(y::nat) < k" "y' < k"
  shows "p = p' \<and> y = y'"
proof -
  have "(k * p + y) div k = p" "(k * p' + y') div k = p'" using assms(2,3) by simp_all
  with assms show ?thesis by auto
qed

lemma b64_first:
  fixes a a' y y' :: nat
  assumes "a < 256" "a' < 256" "y < 16" "y' < 16"
    and "a div 4 mod 64 = a' div 4 mod 64" "(a * 16 + y) mod 64 = (a' * 16 + y') mod 64"
  shows "a = a' \<and> y = y'"
proof -
  have "a div 4 = a' div 4" using assms(1,2,5) by simp
  moreover have "16 * (a mod 4) + y = 16 * (a' mod 4) + y'"
    using assms(6) place_mod [OF assms(3), of a 4] place_mod [OF assms(4), of a' 4] by simp
  then have "a mod 4 = a' mod 4 \<and> y = y'" using assms(3,4) by (rule place_inject)
  ultimately show ?thesis by (metis div_mult_mod_eq)
qed

lemma b64_second:
  fixes b b' y y' :: nat
  assumes "y < 4" "y' < 4" "b div 16 = b' div 16"
    and "(b * 4 + y) mod 64 = (b' * 4 + y') mod 64"
  shows "b = b' \<and> y = y'"
proof -
  have "4 * (b mod 16) + y = 4 * (b' mod 16) + y'"
    using assms(4) place_mod [OF assms(1), of b 16] place_mod [OF assms(2), of b' 16] by simp
  then have "b mod 16 = b' mod 16 \<and> y = y'" using assms(1,2) by (rule place_inject)
  with assms(3) show ?thesis by (metis div_mult_mod_eq)
qed

lemma div_bound: "code_of c div 16 < 16" "code_of c div 64 < 4"
  by (simp_all add: less_mult_imp_div_less)

lemma b64url_inj: "length s = length t \<Longrightarrow> b64url s = b64url t \<Longrightarrow> s = t"
proof (induction s arbitrary: t rule: b64url.induct)
  case 1
  then show ?case by simp
next
  case (2 a)
  then obtain a' where t: "t = [a']" by (cases t) auto
  with "2.prems" have "code_of a = code_of a' \<and> (0::nat) = 0"
    using b64_first [of "code_of a" "code_of a'" 0 0] by (simp add: b64_char_eq_iff)
  with t show ?case by simp
next
  case (3 a b)
  then obtain a' b' where t: "t = [a', b']" by (auto simp: length_Suc_conv Suc_length_conv)
  with "3.prems" have "code_of a = code_of a' \<and> code_of b div 16 = code_of b' div 16"
    by (intro b64_first) (simp_all add: b64_char_eq_iff div_bound)
  moreover from this t "3.prems" have "code_of b = code_of b' \<and> (0::nat) = 0"
    using b64_second [of 0 0 "code_of b" "code_of b'"] by (simp add: b64_char_eq_iff)
  ultimately show ?case using t by simp
next
  case (4 a b c s)
  then obtain a' b' c' s' where t: "t = a' # b' # c' # s'" "length s = length s'"
    by (auto simp: length_Suc_conv Suc_length_conv)
  with "4.prems" have ab: "code_of a = code_of a' \<and> code_of b div 16 = code_of b' div 16"
    by (intro b64_first) (simp_all add: b64_char_eq_iff div_bound)
  with t "4.prems" have bc: "code_of b = code_of b' \<and> code_of c div 64 = code_of c' div 64"
    by (intro b64_second) (simp_all add: b64_char_eq_iff div_bound)
  from t "4.prems" have "code_of c mod 64 = code_of c' mod 64" by (simp add: b64_char_eq_iff)
  with bc have "code_of c = code_of c'" by (metis div_mult_mod_eq)
  moreover have "s = s'" using 4 t by simp
  ultimately show ?case using t ab bc by simp
qed

end
