(* ===== verification/Wdmp.thy ===== *)
theory Wdmp
  imports Middleware
begin

text \<open>
  Package \<open>translation\<close>, wdmp_type.go, errors.go and transport_utils.go: the WDMP messages
  and their JSON form, the deduction and validation of SET commands, the WRP envelope, the
  service filter and the capture of WDMP parameters into the log.
\<close>

section \<open>Commands and errors\<close>

definition CommandGet :: string where "CommandGet = ''GET''"
definition CommandGetAttrs :: string where "CommandGetAttrs = ''GET_ATTRIBUTES''"
definition CommandSet :: string where "CommandSet = ''SET''"
definition CommandSetAttrs :: string where "CommandSetAttrs = ''SET_ATTRIBUTES''"
definition CommandTestSet :: string where "CommandTestSet = ''TEST_AND_SET''"
definition CommandAddRow :: string where "CommandAddRow = ''ADD_ROW''"
definition CommandDeleteRow :: string where "CommandDeleteRow = ''DELETE_ROW''"
definition CommandReplaceRows :: string where "CommandReplaceRows = ''REPLACE_ROWS''"

lemmas command_defs = CommandGet_def CommandGetAttrs_def CommandSet_def CommandSetAttrs_def
  CommandTestSet_def CommandAddRow_def CommandDeleteRow_def CommandReplaceRows_def

definition HeaderWPASyncOldCID :: string where "HeaderWPASyncOldCID = ''X-Webpa-Sync-Old-Cid''"
definition HeaderWPASyncNewCID :: string where "HeaderWPASyncNewCID = ''X-Webpa-Sync-New-Cid''"
definition HeaderWPASyncCMC :: string where "HeaderWPASyncCMC = ''X-Webpa-Sync-Cmc''"

definition ErrEmptyNames :: goerror where
  "ErrEmptyNames = NewBadRequestError (ErrNew ''names parameter is required'')"
definition ErrInvalidService :: goerror where
  "ErrInvalidService = NewBadRequestError (ErrNew ''unsupported Service'')"
definition ErrUnsupportedMethod :: goerror where
  "ErrUnsupportedMethod =
     NewBadRequestError (ErrNew ''unsupported method. Could not decode request payload'')"
definition ErrInvalidSetWDMP :: goerror where
  "ErrInvalidSetWDMP = NewBadRequestError (ErrNew ''invalid SET message'')"
definition ErrNewCIDRequired :: goerror where
  "ErrNewCIDRequired = NewBadRequestError (ErrNew ''newCid is required for TEST_AND_SET'')"
definition ErrMissingTable :: goerror where
  "ErrMissingTable = NewBadRequestError (ErrNew ''table property is required'')"
definition ErrMissingRow :: goerror where
  "ErrMissingRow = NewBadRequestError (ErrNew ''row property is required'')"
definition ErrInvalidRow :: goerror where
  "ErrInvalidRow = NewBadRequestError (ErrNew ''row property is invalid'')"
definition ErrInvalidPayload :: goerror where
  "ErrInvalidPayload = NewBadRequestError (ErrNew ''payload is invalid'')"
definition ErrMissingRows :: goerror where
  "ErrMissingRows = NewBadRequestError (ErrNew ''rows property is required'')"
definition ErrInvalidRows :: goerror where
  "ErrInvalidRows = NewBadRequestError (ErrNew ''rows property is invalid'')"

lemmas translation_errors = ErrEmptyNames_def ErrInvalidService_def ErrUnsupportedMethod_def
  ErrInvalidSetWDMP_def ErrNewCIDRequired_def ErrMissingTable_def ErrMissingRow_def
  ErrInvalidRow_def ErrInvalidPayload_def ErrMissingRows_def ErrInvalidRows_def

section \<open>The messages\<close>

record getWDMP =
  gw_Command :: string
  gw_Names :: "string list"
  gw_Attributes :: string

text \<open>
  A pointer, an interface value and a map are nil or not: \<open>option\<close>. \<open>DataType\<close> is an
  \<open>int8\<close>; a value is decoded JSON.
\<close>

record setParam =
  sp_Name :: "string option"
  sp_DataType :: "8 word option"
  sp_Value :: "json option"
  sp_Attributes :: "json gomap option"

record setWDMP =
  sw_Command :: string
  sw_OldCid :: string
  sw_NewCid :: string
  sw_SyncCmc :: string
  sw_Parameters :: "setParam list"

record addRowWDMP =
  aw_Command :: string
  aw_Table :: string
  aw_Row :: "string gomap option"

type_synonym indexRow = "string gomap option gomap option"

record replaceRowsWDMP =
  rp_Command :: string
  rp_Table :: string
  rp_Rows :: indexRow

record deleteRowDMP =
  dw_Command :: string
  dw_Row :: string

definition zero_setParam :: setParam where
  "zero_setParam = \<lparr>sp_Name = None, sp_DataType = None, sp_Value = None, sp_Attributes = None\<rparr>"

definition zero_setWDMP :: setWDMP where
  "zero_setWDMP = \<lparr>sw_Command = [], sw_OldCid = [], sw_NewCid = [], sw_SyncCmc = [],
                   sw_Parameters = []\<rparr>"

section \<open>JSON form\<close>

definition omit_str :: "string \<Rightarrow> string \<Rightarrow> (string \<times> json) list" where
  "omit_str k s = (if s = [] then [] else [(k, JStr s)])"

definition json_getWDMP :: "getWDMP \<Rightarrow> json" where
  "json_getWDMP g =
     JObj ([(''command'', JStr (gw_Command g)), (''names'', JArr (map JStr (gw_Names g)))]
       @ omit_str ''attributes'' (gw_Attributes g))"

definition json_setParam :: "setParam \<Rightarrow> json" where
  "json_setParam p =
     JObj ([(''name'', case sp_Name p of None \<Rightarrow> JNull | Some n \<Rightarrow> JStr n)]
       @ (case sp_DataType p of None \<Rightarrow> [] | Some d \<Rightarrow> [(''dataType'', JNum (show_int (sint d)))])
       @ (case sp_Value p of None \<Rightarrow> [] | Some v \<Rightarrow> [(''value'', v)])
       @ (case sp_Attributes p of None \<Rightarrow> [] | Some a \<Rightarrow>
            if a = [] then [] else [(''attributes'', JObj a)]))"

definition json_setWDMP :: "setWDMP \<Rightarrow> json" where
  "json_setWDMP w =
     JObj ([(''command'', JStr (sw_Command w))]
       @ omit_str ''old-cid'' (sw_OldCid w) @ omit_str ''new-cid'' (sw_NewCid w)
       @ omit_str ''sync-cmc'' (sw_SyncCmc w)
       @ (if sw_Parameters w = [] then []
          else [(''parameters'', JArr (map json_setParam (sw_Parameters w)))]))"

definition json_addRowWDMP :: "addRowWDMP \<Rightarrow> json" where
  "json_addRowWDMP a =
     JObj [(''command'', JStr (aw_Command a)), (''table'', JStr (aw_Table a)),
           (''row'', json_strmap (aw_Row a))]"

definition json_replaceRowsWDMP :: "replaceRowsWDMP \<Rightarrow> json" where
  "json_replaceRowsWDMP r =
     JObj [(''command'', JStr (rp_Command r)), (''table'', JStr (rp_Table r)),
           (''rows'', case rp_Rows r of None \<Rightarrow> JNull
                      | Some m \<Rightarrow> JObj (map (\<lambda>(k, row). (k, json_strmap row)) m))]"

definition json_deleteRowDMP :: "deleteRowDMP \<Rightarrow> json" where
  "json_deleteRowDMP d =
     JObj [(''command'', JStr (dw_Command d)), (''row'', JStr (dw_Row d))]"

text \<open>Decoding a \<open>setWDMP\<close>: each member updates the struct, in the order of the text.\<close>

definition decode_ptr_str :: "json \<Rightarrow> string option option" where
  "decode_ptr_str j = (case j of JNull \<Rightarrow> Some None | JStr s \<Rightarrow> Some (Some s) | _ \<Rightarrow> None)"

definition decode_ptr_int8 :: "json \<Rightarrow> 8 word option option" where
  "decode_ptr_int8 j =
     (case j of JNull \<Rightarrow> Some None
      | _ \<Rightarrow> map_option (\<lambda>i. Some (word_of_int i)) (decode_int 8 0 j))"

definition decode_iface :: "libs \<Rightarrow> json \<Rightarrow> json option option" where
  "decode_iface L j =
     (case j of JNull \<Rightarrow> Some None | _ \<Rightarrow> map_option Some (json_iface (lb_Float64Text L) j))"

definition decode_attributes ::
  "libs \<Rightarrow> json gomap option \<Rightarrow> json \<Rightarrow> json gomap option option" where
  "decode_attributes L old j =
     (case j of
        JNull \<Rightarrow> Some None
      | JObj ms \<Rightarrow>
          map_option Some
            (fold_opt (\<lambda>(k, v) m. map_option (\<lambda>x. gomap_put k x m) (json_iface (lb_Float64Text L) v))
               ms (case old of None \<Rightarrow> [] | Some m \<Rightarrow> m))
      | _ \<Rightarrow> None)"

definition decode_param_member :: "libs \<Rightarrow> string \<times> json \<Rightarrow> setParam \<Rightarrow> setParam option" where
  "decode_param_member L m p =
     (if is_field (fst m) ''name'' then
        map_option (\<lambda>x. p\<lparr>sp_Name := x\<rparr>) (decode_ptr_str (snd m))
      else if is_field (fst m) ''dataType'' then
        map_option (\<lambda>x. p\<lparr>sp_DataType := x\<rparr>) (decode_ptr_int8 (snd m))
      else if is_field (fst m) ''value'' then
        map_option (\<lambda>x. p\<lparr>sp_Value := x\<rparr>) (decode_iface L (snd m))
      else if is_field (fst m) ''attributes'' then
        map_option (\<lambda>x. p\<lparr>sp_Attributes := x\<rparr>) (decode_attributes L (sp_Attributes p) (snd m))
      else Some p)"

definition decode_param :: "libs \<Rightarrow> json \<Rightarrow> setParam option" where
  "decode_param L j =
     (case j of
        JNull \<Rightarrow> Some zero_setParam
      | JObj ms \<Rightarrow> fold_opt (decode_param_member L) ms zero_setParam
      | _ \<Rightarrow> None)"

definition decode_params :: "libs \<Rightarrow> json \<Rightarrow> setParam list option" where
  "decode_params L j =
     (case j of JNull \<Rightarrow> Some [] | JArr js \<Rightarrow> those (map (decode_param L) js) | _ \<Rightarrow> None)"

definition decode_set_member :: "libs \<Rightarrow> string \<times> json \<Rightarrow> setWDMP \<Rightarrow> setWDMP option" where
  "decode_set_member L m w =
     (if is_field (fst m) ''command'' then
        map_option (\<lambda>x. w\<lparr>sw_Command := x\<rparr>) (decode_str (sw_Command w) (snd m))
      else if is_field (fst m) ''old-cid'' then
        map_option (\<lambda>x. w\<lparr>sw_OldCid := x\<rparr>) (decode_str (sw_OldCid w) (snd m))
      else if is_field (fst m) ''new-cid'' then
        map_option (\<lambda>x. w\<lparr>sw_NewCid := x\<rparr>) (decode_str (sw_NewCid w) (snd m))
      else if is_field (fst m) ''sync-cmc'' then
        map_option (\<lambda>x. w\<lparr>sw_SyncCmc := x\<rparr>) (decode_str (sw_SyncCmc w) (snd m))
      else if is_field (fst m) ''parameters'' then
        map_option (\<lambda>x. w\<lparr>sw_Parameters := x\<rparr>) (decode_params L (snd m))
      else Some w)"

text \<open>\<open>json.Unmarshal(data, wdmp)\<close>; \<open>None\<close> is an error.\<close>

definition decode_setWDMP :: "libs \<Rightarrow> bytes \<Rightarrow> setWDMP option" where
  "decode_setWDMP L data =
     (case json_parse data of
        Some JNull \<Rightarrow> Some zero_setWDMP
      | Some (JObj ms) \<Rightarrow> fold_opt (decode_set_member L) ms zero_setWDMP
      | _ \<Rightarrow> None)"

section \<open>SET commands\<close>

definition getCommandForParams :: "setParam list \<Rightarrow> string" where
  "getCommandForParams params =
     (case params of
        [] \<Rightarrow> CommandSet
      | wdmp # ps \<Rightarrow>
          if sp_Attributes wdmp \<noteq> None \<and> sp_Name wdmp \<noteq> None
             \<and> sp_DataType wdmp = None \<and> sp_Value wdmp = None
          then CommandSetAttrs else CommandSet)"

definition deduceSET :: "setWDMP \<Rightarrow> string \<Rightarrow> string \<Rightarrow> string \<Rightarrow> goerror + setWDMP" where
  "deduceSET wdmp newCID oldCID syncCMC =
     (if newCID = [] \<and> oldCID \<noteq> [] then Inl ErrNewCIDRequired
      else if newCID = [] \<and> oldCID = [] \<and> syncCMC = [] then
        Inr (wdmp\<lparr>sw_Command := getCommandForParams (sw_Parameters wdmp)\<rparr>)
      else
        Inr (wdmp\<lparr>sw_Command := CommandTestSet, sw_NewCid := newCID, sw_OldCid := oldCID,
                  sw_SyncCmc := syncCMC\<rparr>))"

text \<open>The loop of \<open>isValidSetWDMP\<close>, with its two counters.\<close>

fun valid_params :: "string \<Rightarrow> nat \<Rightarrow> nat \<Rightarrow> setParam list \<Rightarrow> bool" where
  "valid_params command cmdSetAttr cmdSet [] = True"
| "valid_params command cmdSetAttr cmdSet (param # ps) =
     (if sp_Name param = None \<or> sp_Name param = Some [] then False
      else if sp_Value param \<noteq> None
         \<and> (case sp_DataType param of None \<Rightarrow> True | Some d \<Rightarrow> sint d < 0) then False
      else if command = CommandSetAttrs \<and> sp_Attributes param = None then False
      else
        let attrs_only = (sp_Attributes param \<noteq> None \<and> sp_DataType param = None
                          \<and> sp_Value param = None);
            cmdSetAttr' = (if attrs_only then Suc cmdSetAttr else cmdSetAttr);
            cmdSet' = (if attrs_only then cmdSet else Suc cmdSet)
        in if cmdSetAttr' > 0 \<and> cmdSet' > 0 then False
           else valid_params command cmdSetAttr' cmdSet' ps)"

definition isValidSetWDMP :: "setWDMP \<Rightarrow> bool" where
  "isValidSetWDMP wdmp =
     (if sw_Parameters wdmp = [] then sw_Command wdmp = CommandTestSet
      else valid_params (sw_Command wdmp) 0 0 (sw_Parameters wdmp))"

definition loadWDMP ::
  "libs \<Rightarrow> bytes \<Rightarrow> string \<Rightarrow> string \<Rightarrow> string \<Rightarrow> goerror + setWDMP" where
  "loadWDMP L encodedWDMP newCID oldCID syncCMC =
     (case (case decode_setWDMP L encodedWDMP of
              Some w \<Rightarrow> Inr w
            | None \<Rightarrow>
                if encodedWDMP \<noteq> [] then
                  Inl (NewBadRequestError
                    (ErrNew (''invalid WDMP structure: '' @ lb_JsonErrorText L encodedWDMP)))
                else Inr zero_setWDMP) of
        Inl err \<Rightarrow> Inl err
      | Inr w \<Rightarrow>
          (case deduceSET w newCID oldCID syncCMC of
             Inl err \<Rightarrow> Inl err
           | Inr wdmp \<Rightarrow>
               if \<not> isValidSetWDMP wdmp then Inl ErrInvalidSetWDMP else Inr wdmp))"

section \<open>Envelope, services, log\<close>

definition wrap ::
  "libs \<Rightarrow> bytes \<Rightarrow> string \<Rightarrow> string gomap option \<Rightarrow> string list \<Rightarrow> string list
     \<Rightarrow> goerror + wrp_msg" where
  "wrap L WDMP tid pathVars partnerIDs traceHeaders =
     (let var = (\<lambda>k. case pathVars of None \<Rightarrow> [] | Some m \<Rightarrow> gomap_str m k) in
      case lb_ParseDeviceID L (var ''deviceid'') of
        Inl err \<Rightarrow> Inl (NewBadRequestError err)
      | Inr canonicalDeviceID \<Rightarrow>
          Inr \<lparr>wm_Type = lb_SimpleRequestResponse L, wm_Source = [],
               wm_Destination = canonicalDeviceID @ ''/'' @ var ''service'',
               wm_TransactionUUID = tid, wm_Payload = WDMP, wm_PartnerIDs = partnerIDs,
               wm_Headers = traceHeaders\<rparr>)"

fun contains :: "string \<Rightarrow> string list \<Rightarrow> bool" where
  "contains i [] = False"
| "contains i (e # es) = (if e = i then True else contains i es)"

definition decodeValidServiceRequest ::
  "string list \<Rightarrow> (reqctx \<Rightarrow> http_request \<Rightarrow> goerror + 'a) \<Rightarrow> reqctx \<Rightarrow> http_request
     \<Rightarrow> goerror + 'a" where
  "decodeValidServiceRequest services decoder c r =
     (if \<not> contains (mux_var r ''service'') services then Inl ErrInvalidService
      else decoder c r)"

text \<open>A nil name is dereferenced: the call panics.\<close>

fun getParamNames :: "setParam list \<Rightarrow> string list outcome" where
  "getParamNames [] = Ret []"
| "getParamNames (param # ps) =
     (case sp_Name param of
        None \<Rightarrow> Panic
      | Some n \<Rightarrow> outcome_bind (getParamNames ps) (\<lambda>ns. Ret (n # ns)))"

text \<open>
  The error of reading the body is dropped, and the body that later code reads is the data
  alone.
\<close>

definition captureWDMPParameters ::
  "libs \<Rightarrow> reqctx \<Rightarrow> http_request \<Rightarrow> (reqctx \<times> http_request) outcome" where
  "captureWDMPParameters L ctx r =
     (if rq_Method r = ''PATCH'' then
        (case ReadAll (rq_Body r) of
           (bodyBytes, _) \<Rightarrow>
             (let r' = r\<lparr>rq_Body := \<lparr>bd_data = bodyBytes, bd_err = None\<rparr>\<rparr> in
              case loadWDMP L bodyBytes (hdr_get (rq_Header r) HeaderWPASyncNewCID)
                     (hdr_get (rq_Header r) HeaderWPASyncOldCID)
                     (hdr_get (rq_Header r) HeaderWPASyncCMC) of
                Inl e \<Rightarrow> Ret (ctx, r')
              | Inr wdmp \<Rightarrow>
                  outcome_bind (getParamNames (sw_Parameters wdmp)) (\<lambda>names.
                    Ret (ctx\<lparr>cx_Logger := cx_Logger ctx
                               @ [(''command'', LStr (sw_Command wdmp)),
                                  (''parameters'', LStrs names)]\<rparr>, r'))))
      else Ret (ctx, r))"

end
