(* ===== verification/Wdmp_Props.thy ===== *)
theory Wdmp_Props
  imports Wdmp
begin

text \<open>
  What SET requests promise: an order-free specification of \<open>isValidSetWDMP\<close>, the command
  that \<open>loadWDMP\<close> settles on, homogeneous parameter lists, and a log capture that never
  dereferences a nil name.
\<close>

section \<open>The specification of a valid SET message\<close>

definition attrs_only :: "setParam \<Rightarrow> bool" where
  "attrs_only p \<longleftrightarrow> sp_Attributes p \<noteq> None \<and> sp_DataType p = None \<and> sp_Value p = None"

definition param_ok :: "string \<Rightarrow> setParam \<Rightarrow> bool" where
  "param_ok command p \<longleftrightarrow>
     (\<exists>n. sp_Name p = Some n \<and> n \<noteq> [])
     \<and> (sp_Value p \<noteq> None \<longrightarrow> (\<exists>d. sp_DataType p = Some d \<and> 0 \<le> sint d))
     \<and> (command = CommandSetAttrs \<longrightarrow> sp_Attributes p \<noteq> None)"

definition homogeneous :: "setParam list \<Rightarrow> bool" where
  "homogeneous ps \<longleftrightarrow> (\<forall>p \<in> set ps. attrs_only p) \<or> (\<forall>p \<in> set ps. \<not> attrs_only p)"

lemma param_ok_guards:
  "param_ok command p \<longleftrightarrow>
     \<not> (sp_Name p = None \<or> sp_Name p = Some [])
     \<and> \<not> (sp_Value p \<noteq> None \<and> (case sp_DataType p of None \<Rightarrow> True | Some d \<Rightarrow> sint d < 0))
     \<and> \<not> (command = CommandSetAttrs \<and> sp_Attributes p = None)"
  unfolding param_ok_def 
  by (cases "sp_Name p"; cases "sp_DataType p"; cases "sp_Value p") (simp_all add: not_less)

lemma valid_params_step:
  "valid_params command a s (p # ps) \<longleftrightarrow>
     param_ok command p
     \<and> (if attrs_only p then s = 0 \<and> valid_params command (Suc a) s ps
        else a = 0 \<and> valid_params command a (Suc s) ps)"
proof -
  define at where "at = attrs_only p"
  have at: "(sp_Attributes p \<noteq> None \<and> sp_DataType p = None \<and> sp_Value p = None) = at"
    by (simp add: at_def attrs_only_def)
  show ?thesis
    unfolding param_ok_guards at_def[symmetric] valid_params.simps Let_def at
    by (cases at) (simp_all only: if_True if_False simp_thms zero_less_Suc neq0_conv split: if_split, blast+)
qed
declare valid_params.simps(2) [simp del]

lemma valid_params_iff:
  "a = 0 \<or> s = 0 \<Longrightarrow>
   valid_params command a s ps \<longleftrightarrow>
     (\<forall>p \<in> set ps. param_ok command p)
     \<and> ((a = 0 \<and> (\<forall>p \<in> set ps. \<not> attrs_only p)) \<or> (s = 0 \<and> (\<forall>p \<in> set ps. attrs_only p)))"
proof (induction ps arbitrary: a s)
  case (Cons p ps)
  show ?case
  proof (cases "attrs_only p")
    case True
    then show ?thesis using Cons.IH [of "Suc a" s] by (auto simp: valid_params_step)
  next
    case False
    then show ?thesis using Cons.IH [of a "Suc s"] by (auto simp: valid_params_step)
  qed
qed auto

lemma isValidSetWDMP_iff:
  "isValidSetWDMP w \<longleftrightarrow>
     (if sw_Parameters w = [] then sw_Command w = CommandTestSet
      else (\<forall>p \<in> set (sw_Parameters w). param_ok (sw_Command w) p) \<and> homogeneous (sw_Parameters w))"
  by (auto simp: isValidSetWDMP_def valid_params_iff homogeneous_def)

lemma command_distinct [simp]:
  "CommandSet \<noteq> CommandSetAttrs" "CommandSetAttrs \<noteq> CommandSet"
  "CommandTestSet \<noteq> CommandSetAttrs" "CommandSetAttrs \<noteq> CommandTestSet"
  "CommandSet \<noteq> CommandTestSet" "CommandTestSet \<noteq> CommandSet"
  by (simp_all add: command_defs)

section \<open>loadWDMP\<close>

lemma deduceSET_cases:
  assumes "deduceSET w n old c = Inr w'"
  obtains (plain) "n = []" "old = []" "c = []"
      "w' = w\<lparr>sw_Command := getCommandForParams (sw_Parameters w)\<rparr>"
  | (test) "n \<noteq> [] \<or> old = [] \<and> c \<noteq> []"
      "w' = w\<lparr>sw_Command := CommandTestSet, sw_NewCid := n, sw_OldCid := old, sw_SyncCmc := c\<rparr>"
  using assms by (auto simp: deduceSET_def split: if_splits)

lemma loadWDMP_Inr:
  assumes "loadWDMP L b n old c = Inr w'"
  obtains w where "decode_setWDMP L b = Some w \<or> b = [] \<and> w = zero_setWDMP"
    "deduceSET w n old c = Inr w'" "isValidSetWDMP w'"
  using assms by (auto simp: loadWDMP_def split: sum.splits option.splits if_splits)

lemma loadWDMP_errors:
  assumes "loadWDMP L b n old c = Inl e"
  shows "err_StatusCode e = Some 400"
  using assms
  by (auto simp: loadWDMP_def deduceSET_def translation_errors split: sum.splits option.splits if_splits)

lemma getCommandForParams_values:
  "getCommandForParams ps = CommandSet \<or> getCommandForParams ps = CommandSetAttrs"
  by (auto simp: getCommandForParams_def split: list.splits)

lemma loadWDMP_valid: "loadWDMP L b n old c = Inr w \<Longrightarrow> isValidSetWDMP w"
  by (erule loadWDMP_Inr)

lemma valid_names:
  "isValidSetWDMP w \<Longrightarrow> p \<in> set (sw_Parameters w) \<Longrightarrow> \<exists>n. sp_Name p = Some n \<and> n \<noteq> []"
  by (auto simp: isValidSetWDMP_iff param_ok_def split: if_splits)

lemma getParamNames_iff:
  "getParamNames ps = Ret ns \<longleftrightarrow> map sp_Name ps = map Some ns"
proof (induction ps arbitrary: ns)
  case (Cons p ps)
  show ?case
    by (cases "sp_Name p"; cases ns) (auto simp: outcome_bind_Ret_iff Cons)
qed auto

lemma getParamNames_valid:
  "isValidSetWDMP w \<Longrightarrow> getParamNames (sw_Parameters w) = Ret (map (the \<circ> sp_Name) (sw_Parameters w))"
  unfolding getParamNames_iff by (auto dest: valid_names)

lemma first_param_decides:
  assumes "homogeneous (p # ps)" "param_ok CommandSet p"
  shows "(getCommandForParams (p # ps) = CommandSetAttrs) = (\<forall>q \<in> set (p # ps). attrs_only q)"
proof -
  have "(getCommandForParams (p # ps) = CommandSetAttrs) = attrs_only p"
    using assms(2) by (auto simp: getCommandForParams_def attrs_only_def param_ok_def)
  with assms(1) show ?thesis by (auto simp: homogeneous_def)
qed

lemma param_ok_SetAttrs: "param_ok CommandSetAttrs p \<Longrightarrow> param_ok CommandSet p"
  by (auto simp: param_ok_def)

lemma capture_returns: "captureWDMPParameters L ctx r \<noteq> Panic"
  by (auto simp: captureWDMPParameters_def ReadAll_def Let_def getParamNames_valid loadWDMP_valid
      split: sum.splits)

section \<open>Properties\<close>

text \<open>
  C8. \<open>isValidSetWDMP\<close> is order-free: a SET message is accepted exactly when it is a
  TEST_AND_SET without parameters, or every parameter has a non-empty name, a value comes
  with a non-negative data type, SET_ATTRIBUTES parameters have attributes, and either all
  parameters set attributes only or none does.
\<close>

theorem isValidSetWDMP_spec:
  "isValidSetWDMP w =
     (if sw_Parameters w = [] then sw_Command w = CommandTestSet
      else (\<forall>p \<in> set (sw_Parameters w). param_ok (sw_Command w) p) \<and> homogeneous (sw_Parameters w))"
  by (rule isValidSetWDMP_iff)

theorem isValidSetWDMP_spec_witness:
  "isValidSetWDMP (zero_setWDMP\<lparr>sw_Command := CommandTestSet\<rparr>)"
  using isValidSetWDMP_spec [of "zero_setWDMP\<lparr>sw_Command := CommandTestSet\<rparr>"]
  by (simp add: zero_setWDMP_def)

text \<open>
  C21. The command sent to a device never comes from the client's \<open>command\<close> member: with one
  of the three sync headers set it is TEST_AND_SET with the header values as its ids, and
  otherwise SET_ATTRIBUTES when every parameter sets attributes only, and SET when none does
  (and there is at least one parameter).
\<close>

theorem loadWDMP_command:
  assumes "loadWDMP L b n old c = Inr w"
  shows "if n = [] \<and> old = [] \<and> c = [] then
           sw_Parameters w \<noteq> []
           \<and> ((sw_Command w = CommandSetAttrs \<and> (\<forall>p \<in> set (sw_Parameters w). attrs_only p))
              \<or> (sw_Command w = CommandSet \<and> (\<forall>p \<in> set (sw_Parameters w). \<not> attrs_only p)))
         else sw_Command w = CommandTestSet \<and> sw_NewCid w = n \<and> sw_OldCid w = old
              \<and> sw_SyncCmc w = c \<and> (n = [] \<longrightarrow> old = [])"
  using assms
proof (cases rule: loadWDMP_Inr)
  case (1 v)
  from 1(2) show ?thesis
  proof (cases rule: deduceSET_cases)
    case plain
    have cmd: "sw_Command w = getCommandForParams (sw_Parameters w)" using plain by simp
    with 1(3) have "sw_Parameters w \<noteq> []"
      by (auto simp: isValidSetWDMP_iff getCommandForParams_def split: if_splits)
    then obtain p ps where ps: "sw_Parameters w = p # ps" by (cases "sw_Parameters w") auto
    with 1(3) have ok: "homogeneous (p # ps)" "param_ok (sw_Command w) p"
      by (auto simp: isValidSetWDMP_iff)
    then have "param_ok CommandSet p"
      using getCommandForParams_values [of "p # ps"] param_ok_SetAttrs cmd ps by metis
    from first_param_decides [OF ok(1) this] getCommandForParams_values [of "p # ps"] ok(1) cmd ps
    show ?thesis using plain by (auto simp: homogeneous_def)
  next
    case test
    then show ?thesis by auto
  qed
qed

definition demo_patch :: bytes where
  "demo_patch = dq ''{`command`:`GET`,`parameters`:[{`name`:`p`,`dataType`:0,`value`:`v`}]}''"

theorem loadWDMP_command_witness:
  "\<exists>w. loadWDMP demo_libs demo_patch [] [] [] = Inr w \<and> sw_Command w = CommandSet"
proof -
  have "loadWDMP demo_libs demo_patch [] [] [] =
      Inr \<lparr>sw_Command = ''SET'', sw_OldCid = [], sw_NewCid = [], sw_SyncCmc = [],
           sw_Parameters = [\<lparr>sp_Name = Some ''p'', sp_DataType = Some 0,
                             sp_Value = Some (JStr ''v''), sp_Attributes = None\<rparr>]\<rparr>"
    by code_simp
  from loadWDMP_command [OF this] this show ?thesis by (simp add: attrs_only_def)
qed

text \<open>
  After the log capture a PATCH body is complete as far as later code can tell: an error
  met while reading it is gone, and only the bytes that arrived before it are left. Other
  requests are passed on as they are.
\<close>

lemma capture_effect:
  assumes "captureWDMPParameters L ctx r = Ret (ctx', r')"
  shows "r' = (if rq_Method r = ''PATCH''
               then r\<lparr>rq_Body := \<lparr>bd_data = bd_data (rq_Body r), bd_err = None\<rparr>\<rparr> else r)
         \<and> (\<exists>fs. ctx' = ctx\<lparr>cx_Logger := cx_Logger ctx @ fs\<rparr>)"
proof -
  have same: "\<exists>fs. ctx = ctx\<lparr>cx_Logger := cx_Logger ctx @ fs\<rparr>" by (rule exI [of _ "[]"]) simp
  with assms show ?thesis
    by (auto simp: captureWDMPParameters_def ReadAll_def Let_def outcome_bind_Ret_iff
        split: sum.splits if_splits)
qed

definition demo_request :: "string \<Rightarrow> bytes \<Rightarrow> goerror option \<Rightarrow> http_request" where
  "demo_request m b e =
     \<lparr>rq_Method = m, rq_Header = [], rq_Body = \<lparr>bd_data = b, bd_err = e\<rparr>, rq_Form = [],
      rq_Vars = Some [(''deviceid'', ''mac:112233445566''), (''service'', ''config'')]\<rparr>"

end
