(* ===== verification/Translation.thy ===== *)
theory Translation
  imports Wdmp_Props Auth_Acquirer
begin

text \<open>
  Package \<open>translation\<close>, transport.go, endpoint.go and service.go: decoding an API request
  into a WRP message, sending it, and encoding the response or the error.
\<close>

section \<open>Partner ids and transaction id\<close>

fun partner_fields :: "string list \<Rightarrow> string list" where
  "partner_fields [] = []"
| "partner_fields (value # headers) =
     map TrimSpace (Split value (CHR '','')) @ partner_fields headers"

text \<open>The map is indexed with the header name as it is, without canonicalising it.\<close>

definition getPartnerIDs :: "libs \<Rightarrow> header \<Rightarrow> string list" where
  "getPartnerIDs L h =
     (case map_of h (lb_PartnerIdHeader L) of None \<Rightarrow> [] | Some headers \<Rightarrow> partner_fields headers)"

text \<open>The loop over the top-level partner keys of a token.\<close>

fun partner_keys_loop :: "libs \<Rightarrow> (string \<Rightarrow> json option) \<Rightarrow> string list \<Rightarrow> string list option" where
  "partner_keys_loop L g [] = None"
| "partner_keys_loop L g (key # keys) =
     (case g key of
        None \<Rightarrow> partner_keys_loop L g keys
      | Some partnerVal \<Rightarrow>
          (case lb_ToStringSliceE L partnerVal of
             Inr partnerIDs \<Rightarrow> Some partnerIDs
           | Inl err \<Rightarrow> partner_keys_loop L g keys))"

definition getPartnerIDsDecodeRequest :: "libs \<Rightarrow> reqctx \<Rightarrow> http_request \<Rightarrow> string list" where
  "getPartnerIDsDecodeRequest L ctx r =
     (case cx_Token ctx of
        None \<Rightarrow> getPartnerIDs L (rq_Header r)
      | Some auth \<Rightarrow>
          (case tk_Get auth of
             None \<Rightarrow> getPartnerIDs L (rq_Header r)
           | Some accessor \<Rightarrow>
               (case partner_keys_loop L accessor PartnerKeys of
                  Some partnerIDs \<Rightarrow> partnerIDs
                | None \<Rightarrow>
                    (case lb_GetAttributeList L accessor [''allowedResources'', ''allowedPartners''] of
                       None \<Rightarrow> getPartnerIDs L (rq_Header r)
                     | Some partnerIDs \<Rightarrow>
                         if partnerIDs = [] then getPartnerIDs L (rq_Header r)
                         else (case lb_ToStringSliceE L (JArr partnerIDs) of
                                 Inr strIDs \<Rightarrow> strIDs
                               | Inl err \<Rightarrow> getPartnerIDs L (rq_Header r))))))"

definition getTID :: "libs \<Rightarrow> reqctx \<Rightarrow> string \<times> log_entry list" where
  "getTID L ctx =
     (case cx_RequestTID ctx of
        None \<Rightarrow> ([], [log_with (cx_Logger ctx) LvWarn
                      (''tid not found in header `'' @ lb_TIDHeader L @ ''` or generated'') []])
      | Some t \<Rightarrow> (t, []))"

section \<open>Request payloads\<close>

definition requestGetPayload :: "string \<Rightarrow> string \<Rightarrow> goerror + bytes" where
  "requestGetPayload names attributes =
     (if length names < 1 then Inl ErrEmptyNames
      else
        let wdmp = \<lparr>gw_Command = CommandGet, gw_Names = Split names (CHR '',''), gw_Attributes = []\<rparr>;
            wdmp' = (if attributes \<noteq> []
                     then wdmp\<lparr>gw_Command := CommandGetAttrs, gw_Attributes := attributes\<rparr> else wdmp)
        in Inr (json_print (json_getWDMP wdmp')))"

definition requestSetPayload ::
  "libs \<Rightarrow> http_body \<Rightarrow> string \<Rightarrow> string \<Rightarrow> string \<Rightarrow> goerror + bytes" where
  "requestSetPayload L body newCID oldCID syncCMC =
     (case ReadAll body of
        (data, Some err) \<Rightarrow> Inl err
      | (data, None) \<Rightarrow>
          (case loadWDMP L data newCID oldCID syncCMC of
             Inl err \<Rightarrow> Inl err
           | Inr wdmp \<Rightarrow> Inr (json_print (json_setWDMP wdmp))))"

definition requestAddPayload :: "string \<Rightarrow> http_body \<Rightarrow> goerror + bytes" where
  "requestAddPayload table input =
     (if length table < 1 then Inl ErrMissingTable
      else case ReadAll input of
        (payload, Some err) \<Rightarrow> Inl ErrInvalidPayload
      | (payload, None) \<Rightarrow>
          if length payload < 1 then Inl ErrMissingRow
          else case Option.bind (json_parse payload) decode_strmap of
            None \<Rightarrow> Inl ErrInvalidRow
          | Some row \<Rightarrow>
              Inr (json_print (json_addRowWDMP
                \<lparr>aw_Command = CommandAddRow, aw_Table = table, aw_Row = row\<rparr>)))"

definition decode_rows :: "json \<Rightarrow> indexRow option" where
  "decode_rows j =
     (case j of
        JNull \<Rightarrow> Some None
      | JObj ms \<Rightarrow>
          map_option Some
            (fold_opt (\<lambda>(k, v) m. map_option (\<lambda>row. gomap_put k row m) (decode_strmap v)) ms [])
      | _ \<Rightarrow> None)"

definition requestReplacePayload :: "string \<Rightarrow> http_body \<Rightarrow> goerror + bytes" where
  "requestReplacePayload parameter input =
     (let table = Trim parameter (CHR '' '') in
      if length table = 0 then Inl ErrMissingTable
      else case ReadAll input of
        (payload, Some err) \<Rightarrow> Inl err
      | (payload, None) \<Rightarrow>
          if length payload < 1 then Inl ErrMissingRows
          else case Option.bind (json_parse payload) decode_rows of
            None \<Rightarrow> Inl ErrInvalidRows
          | Some rows \<Rightarrow>
              Inr (json_print (json_replaceRowsWDMP
                \<lparr>rp_Command = CommandReplaceRows, rp_Table = table, rp_Rows = rows\<rparr>)))"

definition requestDeletePayload :: "string \<Rightarrow> goerror + bytes" where
  "requestDeletePayload row =
     (if length row < 1 then Inl ErrMissingRow
      else Inr (json_print (json_deleteRowDMP \<lparr>dw_Command = CommandDeleteRow, dw_Row = row\<rparr>)))"

definition requestPayload :: "libs \<Rightarrow> http_request \<Rightarrow> goerror + bytes" where
  "requestPayload L r =
     (if rq_Method r = ''GET'' then requestGetPayload (FormValue r ''names'') (FormValue r ''attributes'')
      else if rq_Method r = ''PATCH'' then
        requestSetPayload L (rq_Body r) (hdr_get (rq_Header r) HeaderWPASyncNewCID)
          (hdr_get (rq_Header r) HeaderWPASyncOldCID) (hdr_get (rq_Header r) HeaderWPASyncCMC)
      else if rq_Method r = ''DELETE'' then requestDeletePayload (mux_var r ''parameter'')
      else if rq_Method r = ''PUT'' then requestReplacePayload (mux_var r ''parameter'') (rq_Body r)
      else if rq_Method r = ''POST'' then requestAddPayload (mux_var r ''parameter'') (rq_Body r)
      else Inl ErrUnsupportedMethod)"

section \<open>Decoding a request\<close>

record wrpRequest =
  wr_WRPMessage :: wrp_msg
  wr_AuthHeaderValue :: string

definition trace_headers :: "http_request \<Rightarrow> string list" where
  "trace_headers r =
     (let tp = hdr_get (rq_Header r) ''traceparent'' in
      if tp \<noteq> [] then
        [''traceparent: '' @ tp, ''tracestate: '' @ hdr_get (rq_Header r) ''tracestate'']
      else [])"

definition decodeRequest :: "libs \<Rightarrow> reqctx \<Rightarrow> http_request \<Rightarrow> goerror + wrpRequest" where
  "decodeRequest L ctx r =
     (case requestPayload L r of
        Inl err \<Rightarrow> Inl err
      | Inr payload \<Rightarrow>
          (let tid = fst (getTID L ctx);
               partnerIDs = getPartnerIDsDecodeRequest L ctx r
           in case wrap L payload tid (rq_Vars r) partnerIDs (trace_headers r) of
                Inl err \<Rightarrow> Inl err
              | Inr wrpMsg \<Rightarrow>
                  Inr \<lparr>wr_WRPMessage = wrpMsg,
                       wr_AuthHeaderValue = hdr_get (rq_Header r) ''Authorization''\<rparr>))"

section \<open>Encoding responses and errors\<close>

definition decode_statusCode :: "bytes \<Rightarrow> int option" where
  "decode_statusCode payload =
     (case json_parse payload of
        Some JNull \<Rightarrow> Some 0
      | Some (JObj ms) \<Rightarrow>
          fold_opt (\<lambda>(k, v) d. if is_field k ''statusCode'' then decode_int 64 d v else Some d) ms 0
      | _ \<Rightarrow> None)"

definition body_bytes :: "bytes option \<Rightarrow> bytes" where
  "body_bytes b = (case b of None \<Rightarrow> [] | Some d \<Rightarrow> d)"

definition device_status :: "int \<Rightarrow> bool" where
  "device_status c \<longleftrightarrow> c = 403 \<or> (520 \<le> c \<and> c \<le> 599)"

definition encodeResponse ::
  "libs \<Rightarrow> reqctx \<Rightarrow> rw \<Rightarrow> XmidtResponse option \<Rightarrow> (rw \<times> goerror option) outcome" where
  "encodeResponse L ctx w response =
     (case response of
        None \<Rightarrow> Panic
      | Some resp \<Rightarrow>
          (let w1 = w\<lparr>rw_header :=
                        ForwardHeadersByPrefix [] (xr_ForwardedHeaders resp) (rw_header w)\<rparr>;
               (tid, logs) = getTID L ctx;
               w2 = rw_set_header (lb_TIDHeader L) tid (rw_add_log logs w1);
               body = body_bytes (xr_Body resp)
           in
             if length body = 0 \<and> xr_Code resp = 200 then
               outcome_bind
                 (WriteHeader (xr_Code resp)
                    (rw_add_log [log_with (cx_Logger ctx) LvWarn ''sending 200 with an empty body'' []] w2))
                 (\<lambda>w3. Ret (w3, None))
             else if xr_Code resp \<noteq> 200 then
               outcome_bind (WriteHeader (xr_Code resp) w2) (\<lambda>w3. Ret (Write body w3))
             else
               (case lb_WrpDecode L body of
                  Inl err \<Rightarrow> Ret (w2, Some err)
                | Inr wrpModel \<Rightarrow>
                    (let w3 = rw_set_header ''Content-Type'' ''application/json'' w2 in
                     outcome_bind
                       (case decode_statusCode (wm_Payload wrpModel) of
                          Some d \<Rightarrow> if device_status d then WriteHeader d w3 else Ret w3
                        | None \<Rightarrow> Ret w3)
                       (\<lambda>w4. Ret (Write (wm_Payload wrpModel) w4))))))"

definition encodeError :: "libs \<Rightarrow> error_encoder" where
  "encodeError L ctx err w =
     (let (tid, logs) = getTID L ctx;
          w1 = rw_add_log logs w;
          w2 = rw_set_header ''Content-Type'' ''application/json'' w1;
          w3 = rw_set_header (lb_TIDHeader L) tid w2;
          (code, err') = (case err_StatusCode err of
                            Some c \<Rightarrow> (c, err)
                          | None \<Rightarrow> (500, ErrTr1d1umInternal))
      in outcome_bind (WriteHeader code w3)
           (\<lambda>w4. Ret (fst (Write (json_message (err_Error err')) w4))))"

section \<open>The service\<close>

text \<open>
  \<open>service\<close> of service.go; the acquirer is nil or a value of the interface, which here is its
  state, with the method given to \<open>SendWRP\<close>.
\<close>

record 's translation_service =
  ts_transactor :: T
  ts_authAcquirer :: "'s option"
  ts_xmidtWrpURL :: string
  ts_wrpSource :: string

record 's translation_options =
  to_XmidtWrpURL :: string
  to_WRPSource :: string
  to_AuthAcquirer :: "'s option"
  to_T :: T

definition translation_NewService :: "'s translation_options \<Rightarrow> 's translation_service" where
  "translation_NewService opts =
     \<lparr>ts_transactor = to_T opts, ts_authAcquirer = to_AuthAcquirer opts,
      ts_xmidtWrpURL = to_XmidtWrpURL opts, ts_wrpSource = to_WRPSource opts\<rparr>"

definition SendWRP ::
  "libs \<Rightarrow> 's acquire \<Rightarrow> int option \<Rightarrow> 's translation_service \<Rightarrow> wrp_msg \<Rightarrow> string
     \<Rightarrow> (XmidtResponse option \<times> goerror option) \<times> 's translation_service" where
  "SendWRP L acquire deadline s wrpMsg authHeaderValue =
     (case lb_WrpEncode L (wrpMsg\<lparr>wm_Source := ts_wrpSource s\<rparr>) of
        Inl err \<Rightarrow> ((None, Some err), s)
      | Inr payload \<Rightarrow>
          (case lb_ParseURL L (ts_xmidtWrpURL s) of
             Some err \<Rightarrow> ((None, Some err), s)
           | None \<Rightarrow>
               (let send = (\<lambda>auth. ts_transactor s
                      \<lparr>or_Method = ''POST'', or_URL = ts_xmidtWrpURL s,
                       or_Header = hdr_set ''Authorization'' auth
                                     (hdr_set ''Content-Type'' (lb_MsgpackType L) []),
                       or_Body = payload, or_Deadline = deadline\<rparr>)
                in case ts_authAcquirer s of
                     None \<Rightarrow> (send authHeaderValue, s)
                   | Some a \<Rightarrow>
                       (case acquire a of
                          (Inl err, a') \<Rightarrow> ((None, Some err), s\<lparr>ts_authAcquirer := Some a'\<rparr>)
                        | (Inr auth, a') \<Rightarrow> (send auth, s\<lparr>ts_authAcquirer := Some a'\<rparr>)))))"

definition makeTranslationEndpoint ::
  "libs \<Rightarrow> 's acquire \<Rightarrow> int option \<Rightarrow> reqctx \<Rightarrow> wrpRequest \<Rightarrow> 's translation_service
     \<Rightarrow> (XmidtResponse option \<times> goerror option) \<times> 's translation_service" where
  "makeTranslationEndpoint L acquire deadline ctx wrpReq s =
     SendWRP L acquire deadline s (wr_WRPMessage wrpReq) (wr_AuthHeaderValue wrpReq)"

end
