(* ===== verification/Json_Roundtrip.thy ===== *)
theory Json_Roundtrip
  imports Go_Json
begin

text \<open>
  Printing then parsing a JSON tree gives the tree back: string literals through every
  escape, number literals, arrays and objects, with the fuel \<open>parse_fuel\<close> supplies.
\<close>

section \<open>Runes\<close>

inductive rune_shape :: "bool \<times> string \<Rightarrow> bool" where
  bad: "rune_shape (False, [a])"
| ascii: "code_of a < 128 \<Longrightarrow> rune_shape (True, [a])"
| two: "valid2 a b \<Longrightarrow> rune_shape (True, [a, b])"
| three: "valid3 a b c \<Longrightarrow> rune_shape (True, [a, b, c])"
| four: "valid4 a b c d \<Longrightarrow> rune_shape (True, [a, b, c, d])"

lemma runes_step:
  "\<exists>x t. runes (a # s) = x # runes t \<and> rune_shape x \<and> length t \<le> length s \<and> snd x @ t = a # s"
proof -
  note unf = runes.simps(2) [of a s]
  consider (asc) "code_of a < 128" | (l2) b s2 where "s = b # s2" "valid2 a b" "\<not> code_of a < 128"
    | (l3) b c s3 where "s = b # c # s3" "\<not> valid2 a b" "valid3 a b c" "\<not> code_of a < 128"
    | (l4) b c d s4 where "s = b # c # d # s4" "\<not> valid2 a b" "\<not> valid3 a b c" "valid4 a b c d"
        "\<not> code_of a < 128"
    | (bad) "runes (a # s) = (False, [a]) # runes s"
    using unf by (simp del: runes.simps(2) split: if_splits list.splits)
  then show ?thesis
  proof cases
    case asc
    then show ?thesis using unf rune_shape.ascii [OF asc]
      by (intro exI [of _ "(True, [a])"] exI [of _ s]) (simp del: runes.simps(2))
  next
    case l2
    then show ?thesis using unf rune_shape.two [OF l2(2)]
      by (intro exI [of _ "(True, [a, b])"] exI [of _ s2]) (simp del: runes.simps(2))
  next
    case l3
    then show ?thesis using unf rune_shape.three [OF l3(3)]
      by (intro exI [of _ "(True, [a, b, c])"] exI [of _ s3]) (simp del: runes.simps(2))
  next
    case l4
    then show ?thesis using unf rune_shape.four [OF l4(4)]
      by (intro exI [of _ "(True, [a, b, c, d])"] exI [of _ s4]) (simp del: runes.simps(2))
  next
    case bad
    then show ?thesis using rune_shape.bad [of a]
      by (intro exI [of _ "(False, [a])"] exI [of _ s]) (simp del: runes.simps(2))
  qed
qed

lemma runes_shape: "\<forall>x \<in> set (runes s). rune_shape x"
proof (induction s rule: length_induct)
  case (1 s)
  show ?case
  proof (cases s)
    case (Cons a t)
    obtain x u where xu: "runes (a # t) = x # runes u" "rune_shape x" "length u \<le> length t"
      using runes_step [of a t] by blast
    then have "length u < length s" using Cons by simp
    with 1 have "\<forall>x \<in> set (runes u). rune_shape x" by blast
    with Cons xu show ?thesis by (simp del: runes.simps(2))
  qed simp
qed

lemma concat_runes: "concat (map snd (runes s)) = s"
proof (induction s rule: length_induct)
  case (1 s)
  show ?case
  proof (cases s)
    case (Cons a t)
    obtain x u where xu: "runes (a # t) = x # runes u" "length u \<le> length t" "snd x @ u = a # t"
      using runes_step [of a t] by blast
    with 1 Cons have "concat (map snd (runes u)) = u" by simp
    with Cons xu show ?thesis by (simp del: runes.simps(2))
  qed simp
qed

lemma runes_ascii: "code_of a < 128 \<Longrightarrow> runes (a # t) = (True, [a]) # runes t"
  by simp

lemma runes_two: "valid2 a b \<Longrightarrow> runes (a # b # t) = (True, [a, b]) # runes t"
  by (simp add: valid2_def)

lemma runes_three: "valid3 a b c \<Longrightarrow> runes (a # b # c # t) = (True, [a, b, c]) # runes t"
  by (simp add: valid2_def valid3_def)

lemma runes_four: "valid4 a b c d \<Longrightarrow> runes (a # b # c # d # t) = (True, [a, b, c, d]) # runes t"
  by (simp add: valid2_def valid3_def valid4_def)

lemma runes_rune_text: "rune_shape x \<Longrightarrow> runes (rune_text x @ t) = (True, rune_text x) # runes t"
  by (erule rune_shape.cases)
    (simp_all add: rune_text_def replacement_char_def runes_ascii runes_two runes_three runes_four
      valid2_def valid3_def cont_byte_def del: runes.simps(2))

lemma runes_concat:
  "\<forall>x \<in> set xs. rune_shape x \<Longrightarrow>
     runes (concat (map rune_text xs)) = map (\<lambda>x. (True, rune_text x)) xs"
  by (induction xs) (simp_all add: runes_rune_text)

lemma to_valid_utf8_idem [simp]: "to_valid_utf8 (to_valid_utf8 s) = to_valid_utf8 s"
proof -
  have "runes (to_valid_utf8 s) = map (\<lambda>x. (True, rune_text x)) (runes s)"
    unfolding to_valid_utf8_def by (rule runes_concat [OF runes_shape])
  then show ?thesis
    by (simp add: to_valid_utf8_def rune_text_def [of "(True, _)"] comp_def)
qed

text \<open>ASCII text is valid as it is.\<close>

lemma to_valid_utf8_ascii: "\<forall>c \<in> set s. code_of c < 128 \<Longrightarrow> to_valid_utf8 s = s"
  by (induction s) (simp_all add: to_valid_utf8_def rune_text_def)

lemma valid_ascii_False:
  assumes "code_of c < 128"
  shows "\<not> valid2 x c" "\<not> valid3 x c y" "\<not> valid3 x y c" "\<not> valid4 x c y z" "\<not> valid4 x y c z" "\<not> valid4 x y z c"
  using assms by (auto simp: valid2_def valid3_def valid4_def cont_byte_def)

text \<open>An ASCII byte never lies inside an encoding: the text can be cut there.\<close>

lemma runes_cut: "code_of c < 128 \<Longrightarrow> runes (s @ c # t) = runes s @ (True, [c]) # runes t"
proof (induction s rule: length_induct)
  case (1 s)
  have IH: "runes (u @ c # t) = runes u @ (True, [c]) # runes t" if "length u < length s" for u
    using 1 that by blast
  show ?case
  proof (cases s)
    case Nil
    then show ?thesis using "1.prems" by (simp add: runes_ascii del: runes.simps(2))
  next
    case s1: (Cons a s1)
    note v = valid_ascii_False [OF "1.prems"]
    show ?thesis
    proof (cases "code_of a < 128")
      case True
      then show ?thesis using IH [of s1] by (simp add: s1 runes_ascii del: runes.simps(2))
    next
      case False
      then show ?thesis unfolding s1 append.simps runes.simps(2) [of a]
        using IH [of s1] IH [of "tl s1"] IH [of "tl (tl s1)"] IH [of "tl (tl (tl s1))"] v
        by (cases s1; cases "tl s1"; cases "tl (tl s1)")
          (auto simp: s1 simp del: runes.simps(2) split: list.split)
    qed
  qed
qed

lemma to_valid_utf8_cut:
  "code_of c < 128 \<Longrightarrow> to_valid_utf8 (s @ c # t) = to_valid_utf8 s @ c # to_valid_utf8 t"
  by (simp add: to_valid_utf8_def runes_cut rune_text_def [of "(True, _)"])

lemma length_rune_text: "rune_shape x \<Longrightarrow> length (snd x) \<le> length (rune_text x)"
  by (erule rune_shape.cases) (simp_all add: rune_text_def replacement_char_def)

lemma to_valid_utf8_length: "length s \<le> length (to_valid_utf8 s)"
proof -
  have "length (concat (map snd xs)) \<le> length (concat (map rune_text xs))"
    if "\<forall>x \<in> set xs. rune_shape x" for xs
    using that by (induction xs) (auto intro: add_mono length_rune_text)
  from this [OF runes_shape [of s]] show ?thesis by (simp add: concat_runes to_valid_utf8_def)
qed

lemma valid_cut:
  assumes "code_of c < 128" "to_valid_utf8 (s @ c # t) = s @ c # t"
  shows "to_valid_utf8 s = s \<and> to_valid_utf8 t = t"
proof -
  have eq: "to_valid_utf8 s @ c # to_valid_utf8 t = s @ c # t"
    using assms by (simp add: to_valid_utf8_cut)
  then have "length (to_valid_utf8 s) + length (to_valid_utf8 t) = length s + length t"
    by (metis add_Suc_right length_append length_Cons nat.inject)
  then have "length (to_valid_utf8 s) = length s"
    using to_valid_utf8_length [of s] to_valid_utf8_length [of t] by linarith
  with eq show ?thesis by simp
qed

lemma valid_Split:
  "code_of c < 128 \<Longrightarrow> to_valid_utf8 s = s \<Longrightarrow> \<forall>w \<in> set (Split s c). to_valid_utf8 w = w"
proof (induction "length s" arbitrary: s rule: less_induct)
  case less
  show ?case
  proof (cases "c \<in> set s")
    case True
    then obtain a b where s: "s = a @ c # b" "c \<notin> set a" by (meson split_list_first)
    have v: "to_valid_utf8 a = a \<and> to_valid_utf8 b = b"
      using less.prems s by (intro valid_cut [of c]) simp_all
    then have "\<forall>w \<in> set (Split b c). to_valid_utf8 w = w"
      using less.prems(1) s by (intro less.hyps) simp_all
    with s v show ?thesis by (simp add: Split_append)
  next
    case False
    with less show ?thesis by (simp add: Split_single)
  qed
qed

section \<open>String literals\<close>

lemma prepend_prepend [simp]: "prepend u (prepend v m) = prepend (u @ v) m"
  by (cases m) (auto simp: prepend_def)

lemma prepend_Nil [simp]: "prepend [] m = m"
  by (cases m) (auto simp: prepend_def)

lemma prepend_Some [simp]: "prepend u (Some (v, r)) = Some (u @ v, r)"
  by (simp add: prepend_def)

lemma hex_val_hex_digit [simp]: "n < 16 \<Longrightarrow> hex_val (hex_digit n) = Some n"
  by (auto simp: hex_val_def hex_digit_def Let_def)

lemma scan_plain:
  "c \<noteq> CHR 0x22 \<Longrightarrow> c \<noteq> CHR 0x5C \<Longrightarrow> 32 \<le> code_of c \<Longrightarrow>
     scan_string (c # t) = prepend [c] (scan_string t)"
  by simp

lemma scan_high: "128 \<le> code_of c \<Longrightarrow> scan_string (c # t) = prepend [c] (scan_string t)"
  by (rule scan_plain) auto

lemma scan_u_escape:
  assumes "hex4 h1 h2 h3 h4 = Some n" "\<not> is_surrogate n"
  shows "scan_string (CHR 0x5C # CHR ''u'' # h1 # h2 # h3 # h4 # t)
    = prepend (utf8_encode n) (scan_string t)"
  using assms by simp

lemma scan_simple_escape:
  assumes "simple_escape e = Some x" "e \<noteq> CHR ''u''"
  shows "scan_string (CHR 0x5C # e # t) = prepend [x] (scan_string t)"
  using assms by simp

declare scan_string.simps(2) [simp del]

lemma scan_esc_ascii:
  assumes "code_of c < 128"
  shows "scan_string (esc_ascii c @ t) = prepend [c] (scan_string t)"
proof (cases "code_of c < 32 \<or> c = CHR ''<'' \<or> c = CHR ''>'' \<or> c = CHR ''&''")
  case True
  have "hex4 (CHR ''0'') (CHR ''0'') (hex_digit (code_of c div 16)) (hex_digit (code_of c mod 16))
      = Some (code_of c)"
    using assms by (simp add: hex4_def hex_val_def [of "CHR ''0''"])
  moreover have "\<not> is_surrogate (code_of c)" "utf8_encode (code_of c) = [c]"
    using assms by (simp_all add: is_surrogate_def utf8_encode_def)
  ultimately show ?thesis
    using True
    by (auto simp: esc_ascii_def hex_byte_def scan_u_escape scan_simple_escape simple_escape_def)
next
  case False
  then show ?thesis
    by (auto simp: esc_ascii_def scan_plain scan_simple_escape simple_escape_def)
qed

lemma esc_rune_long:
  "length w \<noteq> 1 \<Longrightarrow> w \<noteq> [CHR 0xE2, CHR 0x80, CHR 0xA8] \<Longrightarrow> w \<noteq> [CHR 0xE2, CHR 0x80, CHR 0xA9] \<Longrightarrow>
     esc_rune (True, w) = w"
  by (simp add: esc_rune_def)

lemma scan_high_all:
  "\<forall>c \<in> set w. 128 \<le> code_of c \<Longrightarrow> scan_string (w @ t) = prepend w (scan_string t)"
  by (induction w) (simp_all add: scan_high)

text \<open>The three six-byte escapes the printer emits, with the code they carry.\<close>

lemma fixed_escapes:
  "hex4 (CHR ''2'') (CHR ''0'') (CHR ''2'') (CHR ''8'') = Some 8232"
  "hex4 (CHR ''2'') (CHR ''0'') (CHR ''2'') (CHR ''9'') = Some 8233"
  "hex4 (CHR ''f'') (CHR ''f'') (CHR ''f'') (CHR ''d'') = Some 65533"
  "\<not> is_surrogate 8232" "\<not> is_surrogate 8233" "\<not> is_surrogate 65533"
  by (simp_all add: hex4_def hex_val_def is_surrogate_def)

lemma fixed_encodings:
  "utf8_encode 8232 = [CHR 0xE2, CHR 0x80, CHR 0xA8]"
  "utf8_encode 8233 = [CHR 0xE2, CHR 0x80, CHR 0xA9]"
  "utf8_encode 65533 = replacement_char"
  by (simp_all add: utf8_encode_def replacement_char_def char_of_eq_iff)

lemma scan_separators:
  "scan_string (esc_rune (True, [CHR 0xE2, CHR 0x80, CHR 0xA8]) @ t)
     = prepend [CHR 0xE2, CHR 0x80, CHR 0xA8] (scan_string t)"
  "scan_string (esc_rune (True, [CHR 0xE2, CHR 0x80, CHR 0xA9]) @ t)
     = prepend [CHR 0xE2, CHR 0x80, CHR 0xA9] (scan_string t)"
  by (simp_all add: esc_rune_def scan_u_escape [OF fixed_escapes(1,4)]
      scan_u_escape [OF fixed_escapes(2,5)] fixed_encodings)

lemma scan_esc_high:
  assumes "length w \<noteq> 1" "\<forall>c \<in> set w. 128 \<le> code_of c"
  shows "scan_string (esc_rune (True, w) @ t) = prepend w (scan_string t)"
  using assms scan_separators
  by (cases "w = [CHR 0xE2, CHR 0x80, CHR 0xA8]"; cases "w = [CHR 0xE2, CHR 0x80, CHR 0xA9]")
    (simp_all only: esc_rune_long scan_high_all)

lemma scan_esc_rune:
  assumes "rune_shape x"
  shows "scan_string (esc_rune x @ t) = prepend (rune_text x) (scan_string t)"
  using assms
proof (cases rule: rune_shape.cases)
  case (bad a)
  then show ?thesis
    by (simp add: esc_rune_def rune_text_def scan_u_escape [OF fixed_escapes(3,6)] fixed_encodings)
next
  case (ascii a)
  then show ?thesis by (simp add: esc_rune_def rune_text_def scan_esc_ascii)
next
  case (two a b)
  then show ?thesis
    by (simp add: rune_text_def scan_esc_high valid2_def cont_byte_def)
next
  case (three a b c)
  then show ?thesis
    by (simp add: rune_text_def scan_esc_high valid3_def cont_byte_def)
next
  case (four a b c d)
  then show ?thesis
    by (simp add: rune_text_def scan_esc_high valid4_def cont_byte_def)
qed

lemma scan_esc_runes:
  "\<forall>x \<in> set xs. rune_shape x \<Longrightarrow>
     scan_string (concat (map esc_rune xs) @ CHR 0x22 # r) = Some (concat (map rune_text xs), r)"
  by (induction xs) (simp_all add: scan_esc_rune scan_string.simps(2))

lemma scan_quoted:
  "scan_string (concat (map esc_rune (runes s)) @ CHR 0x22 # r) = Some (to_valid_utf8 s, r)"
  unfolding to_valid_utf8_def by (rule scan_esc_runes [OF runes_shape])

section \<open>Number literals\<close>

text \<open>What may follow a number: nothing that could continue it.\<close>

definition stops :: "string \<Rightarrow> bool" where
  "stops r \<longleftrightarrow> (case r of [] \<Rightarrow> True
     | c # _ \<Rightarrow> \<not> is_digit c \<and> c \<noteq> CHR ''.'' \<and> c \<noteq> CHR ''e'' \<and> c \<noteq> CHR ''E'')"

lemma takeWhile_stops:
  assumes "stops r"
  shows "takeWhile is_digit (s @ r) = takeWhile is_digit s"
    and "dropWhile is_digit (s @ r) = dropWhile is_digit s @ r"
  using assms by (induction s) (auto simp: stops_def split: list.splits)

lemma scan_digits_append:
  "scan_digits s = Some (u, v) \<Longrightarrow> stops r \<Longrightarrow> scan_digits (s @ r) = Some (u, v @ r)"
  by (auto simp: scan_digits_def takeWhile_stops split: if_splits)

lemma scan_int_append:
  "scan_int s = Some (u, v) \<Longrightarrow> stops r \<Longrightarrow> scan_int (s @ r) = Some (u, v @ r)"
  using scan_digits_append [of s u v r]
  by (auto simp: scan_int_def split: list.splits if_splits)

lemma prepend_eq_Some: "prepend w m = Some (u, v) \<longleftrightarrow> (\<exists>t. m = Some (t, v) \<and> u = w @ t)"
  by (cases m) (auto simp: prepend_def)

lemma scan_frac_append:
  "scan_frac s = Some (u, v) \<Longrightarrow> stops r \<Longrightarrow> scan_frac (s @ r) = Some (u, v @ r)"
  by (cases s)
    (auto simp: scan_frac_def stops_def prepend_eq_Some dest: scan_digits_append [where r = r]
      split: list.splits if_splits)

lemma prepend_digits_append:
  "prepend w (scan_digits s) = Some (u, v) \<Longrightarrow> stops r \<Longrightarrow>
     prepend w (scan_digits (s @ r)) = Some (u, v @ r)"
  by (auto simp: prepend_eq_Some scan_digits_append)

lemma scan_exp_append:
  assumes "scan_exp s = Some (u, v)" "stops r"
  shows "scan_exp (s @ r) = Some (u, v @ r)"
proof (cases s)
  case Nil
  with assms show ?thesis by (auto simp: scan_exp_def stops_def split: list.splits)
next
  case c: (Cons c t)
  show ?thesis
  proof (cases "c = CHR ''e'' \<or> c = CHR ''E''")
    case True
    with assms c obtain d t' where t: "t = d # t'" by (auto simp: scan_exp_def split: list.splits)
    with assms c True show ?thesis
      using prepend_digits_append [of "[c, d]" t' u v r] prepend_digits_append [of "[c]" t u v r]
      by (cases "d = CHR ''+'' \<or> d = CHR ''-''") (auto simp: scan_exp_def)
  next
    case False
    with assms c show ?thesis by (auto simp: scan_exp_def)
  qed
qed

lemma scan_unsigned_eq_Some:
  "scan_unsigned s = Some (u, v) \<longleftrightarrow>
     (\<exists>i r1 f r2 e. scan_int s = Some (i, r1) \<and> scan_frac r1 = Some (f, r2)
        \<and> scan_exp r2 = Some (e, v) \<and> u = i @ f @ e)"
  by (auto simp: scan_unsigned_def bind_eq_Some_conv prepend_eq_Some)

lemma scan_unsigned_append:
  assumes "scan_unsigned s = Some (u, v)" "stops r"
  shows "scan_unsigned (s @ r) = Some (u, v @ r)"
proof -
  from assms(1) obtain i r1 f r2 e where "scan_int s = Some (i, r1)" "scan_frac r1 = Some (f, r2)"
    "scan_exp r2 = Some (e, v)" "u = i @ f @ e"
    unfolding scan_unsigned_eq_Some by blast
  with assms(2) show ?thesis
    unfolding scan_unsigned_eq_Some
    by (blast intro: scan_int_append scan_frac_append scan_exp_append)
qed

lemma scan_number_append:
  assumes "scan_number s = Some (u, v)" "stops r"
  shows "scan_number (s @ r) = Some (u, v @ r)"
proof (cases s)
  case Nil
  with assms show ?thesis by (simp add: scan_number_def)
next
  case c: (Cons c t)
  show ?thesis
  proof (cases "c = CHR ''-''")
    case True
    with assms c obtain u' where "scan_unsigned t = Some (u', v)" "u = c # u'"
      by (auto simp: scan_number_def prepend_eq_Some)
    with assms(2) c True show ?thesis
      using scan_unsigned_append [of t u' v r] by (simp add: scan_number_def)
  next
    case False
    with assms c show ?thesis
      using scan_unsigned_append [of s u v r] by (simp add: scan_number_def)
  qed
qed

lemma scan_number_head:
  assumes "scan_number s = Some (u, v)"
  shows "\<exists>c t. s = c # t \<and> (c = CHR ''-'' \<or> is_digit c)"
  using assms
  by (cases s) (auto simp: scan_number_def scan_unsigned_eq_Some prepend_eq_Some scan_int_def
      scan_digits_def is_digit_def split: if_splits)

text \<open>The text of an integer is a number literal.\<close>

lemma show_nat_digits:
  "list_all is_digit (show_nat n)" "show_nat n \<noteq> []" "nat_of_digits 0 (show_nat n) = n"
  using show_nat_roundtrip [of n] by blast+

lemma show_nat_head: "0 < n \<Longrightarrow> hd (show_nat n) \<noteq> CHR ''0''"
proof (induction n rule: show_nat.induct)
  case (1 n)
  show ?case
  proof (cases "n < 10")
    case True
    have "digit_char n \<noteq> CHR ''0''"
      using digit_val_digit_char [OF True] "1.prems" by (auto simp: digit_val_def)
    with True show ?thesis by (simp add: show_nat.simps [of n])
  next
    case False
    with 1 show ?thesis using show_nat_digits(2) [of "n div 10"]
      by (simp add: show_nat.simps [of n])
  qed
qed

lemma scan_unsigned_show_nat: "scan_unsigned (show_nat n) = Some (show_nat n, [])"
proof -
  have all: "takeWhile is_digit (show_nat n) = show_nat n" "dropWhile is_digit (show_nat n) = []"
    using show_nat_digits(1) [of n] by (auto simp: list_all_iff takeWhile_eq_all_conv dropWhile_eq_Nil_conv)
  have "scan_int (show_nat n) = Some (show_nat n, [])"
  proof (cases "n = 0")
    case True
    have "show_nat 0 = ''0''" by (simp add: show_nat.simps [of 0] digit_char_def char_of_eq_iff)
    with True show ?thesis by (simp add: scan_int_def)
  next
    case False
    then show ?thesis
      using show_nat_head [of n] show_nat_digits(2) [of n] all
      by (auto simp: scan_int_def scan_digits_def split: list.splits)
  qed
  then show ?thesis by (simp add: scan_unsigned_def scan_frac_def scan_exp_def)
qed

lemma scan_number_show_int: "scan_number (show_int i) = Some (show_int i, [])"
proof (cases "i < 0")
  case True
  then show ?thesis by (simp add: show_int_def scan_number_def scan_unsigned_show_nat)
next
  case False
  obtain c r where cr: "show_nat (nat i) = c # r" using show_nat_digits(2) by (metis list.exhaust)
  with show_nat_digits(1) [of "nat i"] have "c \<noteq> CHR ''-''" by (auto simp: is_digit_def)
  with False cr show ?thesis
    using scan_unsigned_show_nat [of "nat i"] by (simp add: show_int_def scan_number_def)
qed

section \<open>Values\<close>

text \<open>
  Trees whose number literals are well formed; the tree that reading the printed text gives,
  whose strings are valid UTF-8; and the trees that the parser produces, which are both.
\<close>

fun json_nums :: "json \<Rightarrow> bool" where
  "json_nums (JNum l) \<longleftrightarrow> scan_number l = Some (l, [])"
| "json_nums (JArr js) \<longleftrightarrow> (\<forall>j \<in> set js. json_nums j)"
| "json_nums (JObj ms) \<longleftrightarrow> (\<forall>m \<in> set ms. json_nums (snd m))"
| "json_nums _ \<longleftrightarrow> True"

fun json_norm :: "json \<Rightarrow> json" where
  "json_norm (JStr s) = JStr (to_valid_utf8 s)"
| "json_norm (JArr js) = JArr (map json_norm js)"
| "json_norm (JObj ms) = JObj (map (\<lambda>m. (to_valid_utf8 (fst m), json_norm (snd m))) ms)"
| "json_norm j = j"

fun json_ok :: "json \<Rightarrow> bool" where
  "json_ok (JNum l) \<longleftrightarrow> scan_number l = Some (l, [])"
| "json_ok (JStr s) \<longleftrightarrow> to_valid_utf8 s = s"
| "json_ok (JArr js) \<longleftrightarrow> (\<forall>j \<in> set js. json_ok j)"
| "json_ok (JObj ms) \<longleftrightarrow> (\<forall>m \<in> set ms. to_valid_utf8 (fst m) = fst m \<and> json_ok (snd m))"
| "json_ok _ \<longleftrightarrow> True"

lemma json_ok_nums: "json_ok j \<Longrightarrow> json_nums j"
  by (induction j) auto

lemma json_ok_norm: "json_ok j \<Longrightarrow> json_norm j = j"
proof (induction j)
  case (JObj ms)
  then have "(to_valid_utf8 (fst m), json_norm (snd m)) = m" if "m \<in> set ms" for m
    using that by (cases m) fastforce
  then show ?case by (simp add: map_idI)
qed (simp_all add: map_idI)

lemma json_depth_norm [simp]: "json_depth (json_norm j) = json_depth j"
proof (induction j)
  case (JObj ms)
  then have "json_depth (json_norm (snd m)) = json_depth (snd m)" if "m \<in> set ms" for m
    using that by (cases m) fastforce
  then show ?case by (simp add: comp_def cong: map_cong)
qed (simp_all add: comp_def cong: map_cong)

definition opens :: "char \<Rightarrow> bool" where
  "opens c \<longleftrightarrow> \<not> is_ws c \<and> c \<noteq> CHR '']'' \<and> c \<noteq> CHR ''}''"

lemma number_opens: "c = CHR ''-'' \<or> is_digit c \<Longrightarrow> opens c"
  by (auto simp: opens_def is_ws_def is_digit_def)

lemma json_print_head: "json_nums j \<Longrightarrow> \<exists>c t. json_print j = c # t \<and> opens c"
  by (cases j)
    (auto simp: quote_json_def opens_def is_ws_def is_digit_def dest!: scan_number_head)

lemma skip_ws_opens: "opens c \<Longrightarrow> skip_ws (c # t) = c # t"
  by (simp add: skip_ws_def opens_def)

lemma skip_ws_print: "json_nums j \<Longrightarrow> skip_ws (json_print j @ r) = json_print j @ r"
  using json_print_head [of j] by (auto simp: skip_ws_opens)

definition parses :: "json \<Rightarrow> bool" where
  "parses j \<longleftrightarrow> (\<forall>n r. 2 * length (json_print j) + 2 \<le> n \<longrightarrow> stops r \<longrightarrow>
     parse_value n (json_print j @ r) = Some (json_norm j, r))"

lemma stops_separators:
  "stops (CHR '','' # r)" "stops (CHR '']'' # r)" "stops (CHR ''}'' # r)" "stops []" "stops [CHR 0x0A]"
  by (auto simp: stops_def is_digit_def)

lemma parse_elems_print:
  assumes "\<forall>j \<in> set js. parses j" "js \<noteq> []"
    and "2 * length (join_with '','' (map json_print js)) + 3 \<le> n"
  shows "parse_elems n (join_with '','' (map json_print js) @ CHR '']'' # r) = Some (map json_norm js, r)"
  using assms
proof (induction js arbitrary: n)
  case (Cons j js)
  then obtain m where n: "n = Suc m" by (cases n) auto
  show ?case
  proof (cases "js = []")
    case True
    with Cons.prems n show ?thesis
      by (simp add: parses_def stops_separators skip_ws_opens [of "CHR '']''"] skip_ws_def is_ws_def)
  next
    case False
    then have j: "join_with '','' (map json_print (j # js))
        = json_print j @ CHR '','' # join_with '','' (map json_print js)"
      by (simp add: join_with_Cons)
    have "parse_value m (json_print j @ CHR '','' # join_with '','' (map json_print js) @ CHR '']'' # r)
        = Some (json_norm j, CHR '','' # join_with '','' (map json_print js) @ CHR '']'' # r)"
      using Cons.prems n j by (simp add: parses_def stops_separators)
    moreover have "parse_elems m (join_with '','' (map json_print js) @ CHR '']'' # r)
        = Some (map json_norm js, r)"
      using Cons.prems n j False by (intro Cons.IH) auto
    ultimately show ?thesis
      unfolding j n by (simp add: skip_ws_def is_ws_def)
  qed
qed simp

definition norm_member :: "string \<times> json \<Rightarrow> string \<times> json" where
  "norm_member m = (to_valid_utf8 (fst m), json_norm (snd m))"

definition print_member :: "string \<times> json \<Rightarrow> string" where
  "print_member m = quote_json (fst m) @ '':'' @ json_print (snd m)"

lemma json_print_JObj: "json_print (JObj ms) = ''{'' @ join_with '','' (map print_member ms) @ ''}''"
  by (simp add: print_member_def [abs_def])

text \<open>One member in front of a separator: its name, the colon, its value.\<close>

lemma parse_member_print:
  assumes "parses (snd m)" and len: "2 * length (print_member m) + 2 \<le> n" and d: "d = CHR '','' \<or> d = CHR ''}''"
  shows "parse_members (Suc n) (print_member m @ d # r) =
    (if d = CHR '','' then map_option (\<lambda>(ms, t). (norm_member m # ms, t)) (parse_members n r)
     else Some ([norm_member m], r))"
proof -
  have "stops (d # r)" using d stops_separators by auto
  moreover have "2 * length (json_print (snd m)) + 2 \<le> n" using len by (simp add: print_member_def)
  ultimately have v: "parse_value n (json_print (snd m) @ d # r) = Some (json_norm (snd m), d # r)"
    using assms(1) by (simp add: parses_def)
  have "skip_ws (print_member m @ d # r) = print_member m @ d # r"
    by (simp add: print_member_def quote_json_def skip_ws_def is_ws_def)
  moreover have "scan_string (concat (map esc_rune (runes (fst m))) @ CHR 0x22 # CHR '':''
      # json_print (snd m) @ d # r) = Some (to_valid_utf8 (fst m), CHR '':'' # json_print (snd m) @ d # r)"
    using scan_quoted [of "fst m"] by simp
  moreover have "skip_ws (CHR '':'' # t) = CHR '':'' # t" "skip_ws (d # r) = d # r" for t
    using d by (auto simp: skip_ws_def is_ws_def)
  ultimately show ?thesis
    using v d by (auto simp: print_member_def norm_member_def quote_json_def)
qed

lemma parse_members_print:
  assumes "\<forall>m \<in> set ms. parses (snd m)" "ms \<noteq> []"
    and "2 * length (join_with '','' (map print_member ms)) + 3 \<le> n"
  shows "parse_members n (join_with '','' (map print_member ms) @ CHR ''}'' # r)
      = Some (map norm_member ms, r)"
  using assms
proof (induction ms arbitrary: n)
  case (Cons m ms)
  then obtain k where n: "n = Suc k" by (cases n) auto
  show ?case
  proof (cases "ms = []")
    case True
    with Cons.prems n show ?thesis
      using parse_member_print [of m k "CHR ''}''" r] by (simp del: parse_members.simps)
  next
    case False
    then have j: "join_with '','' (map print_member (m # ms))
        = print_member m @ CHR '','' # join_with '','' (map print_member ms)"
      by (simp add: join_with_Cons)
    have "parse_members k (join_with '','' (map print_member ms) @ CHR ''}'' # r)
      = Some (map norm_member ms, r)"
      using Cons.prems n j False by (intro Cons.IH) auto
    then show ?thesis
      using Cons.prems n j
        parse_member_print [of m k "CHR '',''" "join_with '','' (map print_member ms) @ CHR ''}'' # r"]
      by (simp del: parse_members.simps)
  qed
qed simp

lemma parse_number:
  assumes "scan_number l = Some (l, [])" "stops r"
  shows "parse_value (Suc n) (l @ r) = Some (JNum l, r)"
proof -
  obtain c t where ct: "l = c # t" and c: "c = CHR ''-'' \<or> is_digit c"
    using scan_number_head [OF assms(1)] by blast
  have "skip_ws (l @ r) = c # t @ r" using number_opens [OF c] by (simp add: ct skip_ws_opens)
  moreover have "c \<noteq> CHR ''{''" "c \<noteq> CHR ''[''" "c \<noteq> CHR 0x22" "c \<noteq> CHR ''t''" "c \<noteq> CHR ''f''"
    "c \<noteq> CHR ''n''" using c by (auto simp: is_digit_def)
  moreover have "scan_number (c # t @ r) = Some (l, r)"
    using scan_number_append [OF assms] ct by simp
  ultimately show ?thesis by simp
qed

lemma parse_array:
  assumes "\<forall>j \<in> set js. parses j \<and> json_nums j" "2 * length (json_print (JArr js)) + 2 \<le> n"
  shows "parse_value n (json_print (JArr js) @ r) = Some (json_norm (JArr js), r)"
proof (cases js)
  case Nil
  with assms(2) show ?thesis by (cases n) (simp_all add: skip_ws_def is_ws_def)
next
  case (Cons j js')
  obtain k where n: "n = Suc k" using assms(2) by (cases n) auto
  obtain c t where ct: "json_print j = c # t" "opens c"
    using json_print_head [of j] assms(1) Cons by auto
  have "parse_elems k (join_with '','' (map json_print js) @ CHR '']'' # r) = Some (map json_norm js, r)"
    using assms n Cons by (intro parse_elems_print) auto
  moreover obtain u where "join_with '','' (map json_print js) = c # u"
    using ct Cons by (cases js') auto
  ultimately show ?thesis
    using n ct(2) skip_ws_opens [of c]
    by (simp add: skip_ws_opens [of "CHR ''[''"] opens_def is_ws_def)
qed

lemma parse_object:
  assumes "\<forall>m \<in> set ms. parses (snd m)"
    and "2 * length (json_print (JObj ms)) + 2 \<le> n"
  shows "parse_value n (json_print (JObj ms) @ r) = Some (json_norm (JObj ms), r)"
proof (cases ms)
  case Nil
  with assms(2) show ?thesis by (cases n) (simp_all add: skip_ws_def is_ws_def)
next
  case (Cons m ms')
  obtain k where n: "n = Suc k" using assms(2) by (cases n) auto
  have "parse_members k (join_with '','' (map print_member ms) @ CHR ''}'' # r)
      = Some (map norm_member ms, r)"
    using assms n Cons unfolding json_print_JObj by (intro parse_members_print) auto
  moreover obtain u where "join_with '','' (map print_member ms) = CHR 0x22 # u"
    using Cons by (cases ms') (auto simp: print_member_def quote_json_def)
  ultimately show ?thesis
    unfolding json_print_JObj n by (simp add: skip_ws_def is_ws_def norm_member_def [abs_def])
qed

lemma parse_literal:
  assumes "json_print j \<in> {''null'', ''true'', ''false''}" "json_nums j" "\<forall>l. j \<noteq> JNum l"
  shows "parse_value (Suc n) (json_print j @ r) = Some (json_norm j, r)"
  using assms by (cases j) (auto simp: skip_ws_def is_ws_def quote_json_def split: if_splits)

lemma parse_string:
  "parse_value (Suc n) (json_print (JStr s) @ r) = Some (json_norm (JStr s), r)"
  by (simp add: quote_json_def skip_ws_def is_ws_def scan_quoted)

lemma parses_SucI: "(\<And>n r. stops r \<Longrightarrow> parse_value (Suc n) (json_print j @ r) = Some (json_norm j, r))
   \<Longrightarrow> parses j"
  unfolding parses_def by (metis Suc_le_D add_2_eq_Suc')

lemma json_parses: "json_nums j \<Longrightarrow> parses j"
proof (induction j)
  case JNull
  show ?case by (rule parses_SucI, rule parse_literal) simp_all
next
  case (JBool b)
  show ?case by (rule parses_SucI, rule parse_literal) simp_all
next
  case (JNum l)
  then show ?case by (intro parses_SucI) (simp add: parse_number del: parse_value.simps)
next
  case (JStr s)
  show ?case by (rule parses_SucI, rule parse_string)
next
  case (JArr js)
  then show ?case unfolding parses_def [of "JArr js"]
    by (intro allI impI parse_array) auto
next
  case (JObj ms)
  then show ?case unfolding parses_def [of "JObj ms"]
    by (intro allI impI parse_object) auto
qed

text \<open>What is printed parses back, also with the newline an \<open>Encoder\<close> appends.\<close>

lemma json_parse_print_tail:
  assumes "json_nums j" "json_depth j \<le> max_nesting" "stops r" "skip_ws r = []"
  shows "json_parse (json_print j @ r) = Some (json_norm j)"
proof -
  have "2 * length (json_print j) + 2 \<le> parse_fuel (json_print j @ r)" by (simp add: parse_fuel_def)
  then have "parse_value (parse_fuel (json_print j @ r)) (json_print j @ r) = Some (json_norm j, r)"
    using json_parses [OF assms(1)] assms(3) unfolding parses_def by blast
  with assms show ?thesis by (simp add: json_parse_def)
qed

lemma json_parse_print:
  "json_nums j \<Longrightarrow> json_depth j \<le> max_nesting \<Longrightarrow> json_parse (json_print j) = Some (json_norm j)"
  using json_parse_print_tail [of j "[]"] by (simp add: stops_separators skip_ws_def)

section \<open>The fuel is enough\<close>

lemma skip_ws_length: "length (skip_ws s) \<le> length s"
  by (simp add: skip_ws_def length_dropWhile_le)

lemma prepend_length:
  "prepend w m = Some (u, r) \<Longrightarrow> \<exists>t. m = Some (t, r)"
  by (auto simp: prepend_def)

lemma scan_string_length: "scan_string s = Some (u, r) \<Longrightarrow> length r < length s"
proof (induction s arbitrary: u r rule: length_induct)
  case (1 s)
  show ?case
  proof (cases s)
    case (Cons c t)
    have IH: "length r' < length t'" if "scan_string t' = Some (u', r')" "length t' < length s" for t' u' r'
      using "1.IH" that by blast
    from "1.prems" show ?thesis unfolding Cons scan_string.simps(2)
      by (auto simp: Cons split: if_splits list.splits option.splits dest!: prepend_length)
        (frule IH, simp add: Cons, simp)+
  qed (use 1 in simp)
qed

lemma scan_digits_length: "scan_digits s = Some (u, r) \<Longrightarrow> length r < length s"
  by (cases s) (auto simp: scan_digits_def less_Suc_eq_le length_dropWhile_le split: if_splits)

lemma scan_unsigned_length: "scan_unsigned s = Some (u, r) \<Longrightarrow> length r < length s"
proof -
  have i: "length r < length s" if "scan_int s = Some (u, r)" for s u r
    using that by (auto simp: scan_int_def dest: scan_digits_length split: list.splits if_splits)
  have f: "length r \<le> length s" if "scan_frac s = Some (u, r)" for s u r
    using that by (auto simp: scan_frac_def prepend_eq_Some split: list.splits if_splits
       dest!: scan_digits_length)
  have e: "length r \<le> length s" if "scan_exp s = Some (u, r)" for s u r
    using that by (auto simp: scan_exp_def prepend_eq_Some split: list.splits if_splits
       dest!: scan_digits_length)
  assume "scan_unsigned s = Some (u, r)"
  then show ?thesis unfolding scan_unsigned_eq_Some by (metis i f e order_le_less_trans)
qed

lemma scan_number_length: "scan_number s = Some (u, r) \<Longrightarrow> length r < length s"
  using scan_unsigned_length by (fastforce simp: scan_number_def prepend_eq_Some split: list.splits if_splits)

lemma skip_ws_Cons_length: "skip_ws s = c # t \<Longrightarrow> length t < length s"
  using skip_ws_length [of s] by simp

lemma scan_digits_self:
  "scan_digits s = Some (u, v) \<Longrightarrow> r = [] \<or> \<not> is_digit (hd r) \<Longrightarrow> scan_digits (u @ r) = Some (u, r)"
  by (cases r)
    (auto simp: scan_digits_def takeWhile_tail dropWhile_eq_Nil_conv dropWhile_append dest: set_takeWhileD
      split: if_splits)

lemma scan_digits_head: "scan_digits s = Some (u, v) \<Longrightarrow> u \<noteq> [] \<and> is_digit (hd u)"
  by (cases s) (auto simp: scan_digits_def split: if_splits)

lemma scan_int_self:
  "scan_int s = Some (u, v) \<Longrightarrow> r = [] \<or> \<not> is_digit (hd r) \<Longrightarrow> scan_int (u @ r) = Some (u, r)"
  using scan_digits_self [of s u v r]
  by (cases u) (auto simp: scan_int_def scan_digits_def Cons_eq_append_conv split: list.splits if_splits)

lemma scan_frac_self:
  "scan_frac s = Some (u, v) \<Longrightarrow> r = [] \<or> \<not> is_digit (hd r) \<and> hd r \<noteq> CHR ''.'' \<Longrightarrow>
     scan_frac (u @ r) = Some (u, r)"
  by (cases r) (auto simp: scan_frac_def prepend_eq_Some dest: scan_digits_self [where r = r]
      split: list.splits if_splits)

lemma scan_exp_self: "scan_exp s = Some (u, v) \<Longrightarrow> scan_exp u = Some (u, [])"
  by (auto simp: scan_exp_def prepend_eq_Some is_digit_def
      dest: scan_digits_self [where r = "[]"] scan_digits_head [unfolded is_digit_def]
      split: list.splits if_splits)

lemma scan_heads:
  "scan_frac s = Some (u, v) \<Longrightarrow> u = [] \<or> hd u = CHR ''.''"
  "scan_exp s = Some (u, v) \<Longrightarrow> u = [] \<or> hd u = CHR ''e'' \<or> hd u = CHR ''E''"
  by (auto simp: scan_frac_def scan_exp_def prepend_eq_Some split: list.splits if_splits)

lemma scan_unsigned_self: 
  assumes "scan_unsigned s = Some (u, v)"
  shows "scan_unsigned u = Some (u, [])"
proof -
  from assms obtain i r1 f r2 e where p: "scan_int s = Some (i, r1)" "scan_frac r1 = Some (f, r2)"
    "scan_exp r2 = Some (e, v)" and u: "u = i @ f @ e"
    unfolding scan_unsigned_eq_Some by blast
  have e: "e = [] \<or> \<not> is_digit (hd e) \<and> hd e \<noteq> CHR ''.''"
    using scan_heads(2) [OF p(3)] by (auto simp: is_digit_def)
  moreover have "f @ e = [] \<or> \<not> is_digit (hd (f @ e))"
    using scan_heads(1) [OF p(2)] e by (cases f) (auto simp: is_digit_def)
  ultimately have "scan_int (i @ f @ e) = Some (i, f @ e)" "scan_frac (f @ e) = Some (f, e)"
    using scan_int_self [OF p(1)] scan_frac_self [OF p(2)] by auto
  with scan_exp_self [OF p(3)] u show ?thesis unfolding scan_unsigned_eq_Some by blast
qed

lemma scan_number_self: 
  assumes "scan_number s = Some (u, v)"
  shows "scan_number u = Some (u, [])"
proof -
  obtain c t where s: "s = c # t" using scan_number_head [OF assms] by blast
  show ?thesis
  proof (cases "c = CHR ''-''")
    case True
    with assms s show ?thesis
      by (auto simp: scan_number_def prepend_eq_Some dest: scan_unsigned_self)
  next
    case False
    with assms s have u: "scan_unsigned s = Some (u, v)" by (simp add: scan_number_def)
    have "u \<noteq> [] \<and> hd u \<noteq> CHR ''-''"
      using u by (auto simp: scan_unsigned_eq_Some scan_int_def scan_digits_def is_digit_def
          hd_append split: list.splits if_splits)
    with scan_unsigned_self [OF u] show ?thesis by (auto simp: scan_number_def split: list.splits)
  qed
qed

text \<open>
  One step of each parser, as a case distinction: where the value comes from, that it is well
  formed and that input is consumed.
\<close>

lemma value_step:
  assumes "parse_value (Suc n) s = Some (j, r)"
  shows "length r < length s \<and> json_ok j \<or> (\<exists>t. length t < length s \<and>
    ((\<exists>ms. parse_members n t = Some (ms, r) \<and> j = JObj ms)
     \<or> (\<exists>js. parse_elems n t = Some (js, r) \<and> j = JArr js)))"
proof -
  obtain c t where ct: "skip_ws s = c # t" using assms by (cases "skip_ws s") auto
  have len: "length t < length s" by (rule skip_ws_Cons_length [OF ct])
  have sub: "length t' < length t" if "skip_ws t = d # t'" for d t' by (rule skip_ws_Cons_length [OF that])
  consider "c = CHR ''{''" | "c = CHR ''[''" | "c = CHR 0x22"
    | (other) "c \<noteq> CHR ''{''" "c \<noteq> CHR ''[''" "c \<noteq> CHR 0x22" by blast
  then have "length r \<le> length t \<and> json_ok j \<or> (\<exists>ms. parse_members n t = Some (ms, r) \<and> j = JObj ms)
    \<or> (\<exists>js. parse_elems n t = Some (js, r) \<and> j = JArr js)"
  proof cases
    case 1
    with assms ct sub show ?thesis by (auto split: list.splits if_split_asm)
  next
    case 2
    with assms ct sub show ?thesis by (auto split: list.splits if_split_asm)
  next
    case 3
    with assms ct scan_string_length [of t] show ?thesis by auto
  next
    case other
    have "length r' \<le> length t \<and> scan_number u = Some (u, [])" if "scan_number (c # t) = Some (u, r')" for u r'
      using scan_number_length [OF that] scan_number_self [OF that] by simp
    with other assms ct show ?thesis
      by (auto simp del: scan_string.simps prefix_code split: if_split_asm)
  qed
  with len show ?thesis by fastforce
qed

lemma elems_step:
  assumes "parse_elems (Suc n) s = Some (js, r)"
  shows "\<exists>v u c t. parse_value n s = Some (v, u) \<and> skip_ws u = c # t \<and>
     (r = t \<and> js = [v] \<or> (\<exists>vs. parse_elems n t = Some (vs, r) \<and> js = v # vs))"
  using assms by (auto split: option.splits list.splits if_split_asm)

lemma members_step:
  assumes "parse_members (Suc n) s = Some (ms, r)"
  shows "\<exists>q r0 k r1 c r2 v r3 d t. skip_ws s = q # r0 \<and> scan_string r0 = Some (k, r1) \<and> skip_ws r1 = c # r2
     \<and> parse_value n r2 = Some (v, r3) \<and> skip_ws r3 = d # t
     \<and> (r = t \<and> ms = [(to_valid_utf8 k, v)]
        \<or> (\<exists>vs. parse_members n t = Some (vs, r) \<and> ms = (to_valid_utf8 k, v) # vs))"
  using assms by (auto split: option.splits list.splits if_split_asm)

text \<open>Whatever is parsed is well formed.\<close>

lemma parse_ok_all:
  "(\<forall>s j r. parse_value n s = Some (j, r) \<longrightarrow> json_ok j)
   \<and> (\<forall>s js r. parse_elems n s = Some (js, r) \<longrightarrow> (\<forall>j \<in> set js. json_ok j))
   \<and> (\<forall>s ms r. parse_members n s = Some (ms, r)
        \<longrightarrow> (\<forall>m \<in> set ms. to_valid_utf8 (fst m) = fst m \<and> json_ok (snd m)))"
proof (induction n)
  case (Suc n)
  then have v: "json_ok j" if "parse_value n s = Some (j, r)" for s j r using that by blast
  have e: "\<forall>j \<in> set js. json_ok j" if "parse_elems n s = Some (js, r)" for s js r
    using Suc that by blast
  have m: "\<forall>m \<in> set ms. to_valid_utf8 (fst m) = fst m \<and> json_ok (snd m)"
    if "parse_members n s = Some (ms, r)" for s ms r using Suc that by blast
  have "json_ok j" if "parse_value (Suc n) s = Some (j, r)" for s j r
    using value_step [OF that] e m by (metis json_ok.simps(3,4))
  moreover have "\<forall>j \<in> set js. json_ok j" if p: "parse_elems (Suc n) s = Some (js, r)" for s js r
    using elems_step [OF p] v e by auto
  moreover have "\<forall>m \<in> set ms. to_valid_utf8 (fst m) = fst m \<and> json_ok (snd m)"
    if p: "parse_members (Suc n) s = Some (ms, r)" for s ms r
  proof -
    obtain k r2 w r3 t where w: "parse_value n r2 = Some (w, r3)"
      and ms: "ms = [(to_valid_utf8 k, w)]
        \<or> (\<exists>vs. parse_members n t = Some (vs, r) \<and> ms = (to_valid_utf8 k, w) # vs)"
      using members_step [OF p] by blast
    show ?thesis using ms v [OF w] m [of t] by fastforce
  qed
  ultimately show ?case by blast
qed simp

lemma json_parse_ok: "json_parse s = Some j \<Longrightarrow> json_ok j \<and> json_depth j \<le> max_nesting"
  by (auto simp: json_parse_def dest: parse_ok_all [THEN conjunct1, rule_format]
      split: option.splits if_splits)

lemma parse_consumes_all:
  "(\<forall>s j r. parse_value n s = Some (j, r) \<longrightarrow> length r < length s)
   \<and> (\<forall>s js r. parse_elems n s = Some (js, r) \<longrightarrow> length r < length s)
   \<and> (\<forall>s ms r. parse_members n s = Some (ms, r) \<longrightarrow> length r < length s)"
proof (induction n)
  case (Suc n)
  then have v: "length r < length s" if "parse_value n s = Some (j, r)" for s j r using that by blast
  have e: "length r < length s" if "parse_elems n s = Some (j, r)" for s j r using Suc that by blast
  have m: "length r < length s" if "parse_members n s = Some (j, r)" for s j r using Suc that by blast
  have "length r < length s" if "parse_value (Suc n) s = Some (j, r)" for s j r
    using value_step [OF that] e m less_trans by blast
  moreover have "length r < length s" if p: "parse_elems (Suc n) s = Some (js, r)" for s js r
  proof -
    obtain w u c t where w: "parse_value n s = Some (w, u)" "skip_ws u = c # t"
      and r: "r = t \<or> (\<exists>vs. parse_elems n t = Some (vs, r))"
      using elems_step [OF p] by blast
    have "length r \<le> length t" using r e [of t] by (auto intro: less_imp_le)
    then show ?thesis using v [OF w(1)] skip_ws_Cons_length [OF w(2)] by linarith
  qed
  moreover have "length r < length s" if p: "parse_members (Suc n) s = Some (ms, r)" for s ms r
  proof -
    obtain q r0 k r1 c r2 w r3 d t where w: "skip_ws s = q # r0" "scan_string r0 = Some (k, r1)"
      "skip_ws r1 = c # r2" "parse_value n r2 = Some (w, r3)" "skip_ws r3 = d # t"
      and r: "r = t \<or> (\<exists>vs. parse_members n t = Some (vs, r))"
      using members_step [OF p] by blast
    have "length r \<le> length t" using r m [of t] by (auto intro: less_imp_le)
    then show ?thesis using v [OF w(4)] scan_string_length [OF w(2)]
        skip_ws_Cons_length [OF w(1)] skip_ws_Cons_length [OF w(3)] skip_ws_Cons_length [OF w(5)]
      by linarith
  qed
  ultimately show ?case by blast
qed simp

lemmas parse_consumes = parse_consumes_all [THEN conjunct1, rule_format]
  parse_consumes_all [THEN conjunct2, THEN conjunct1, rule_format]
  parse_consumes_all [THEN conjunct2, THEN conjunct2, rule_format]

lemma parse_fuel_step:
  "(\<forall>s. 2 * length s + 1 \<le> n \<longrightarrow> parse_value (Suc n) s = parse_value n s)
   \<and> (\<forall>s. 2 * length s + 2 \<le> n \<longrightarrow> parse_elems (Suc n) s = parse_elems n s)
   \<and> (\<forall>s. 2 * length s + 2 \<le> n \<longrightarrow> parse_members (Suc n) s = parse_members n s)"
proof (induction n)
  case (Suc n)
  have v: "parse_value (Suc n) s = parse_value n s" if "2 * length s + 1 \<le> n" for s
    using Suc that by blast
  have e: "parse_elems (Suc n) s = parse_elems n s" if "2 * length s + 2 \<le> n" for s
    using Suc that by blast
  have m: "parse_members (Suc n) s = parse_members n s" if "2 * length s + 2 \<le> n" for s
    using Suc that by blast
  have "parse_value (Suc (Suc n)) s = parse_value (Suc n) s" if l: "2 * length s + 1 \<le> Suc n" for s
  proof (cases "skip_ws s")
    case (Cons c t)
    from skip_ws_Cons_length [OF Cons] l have "2 * length t + 2 \<le> n" by simp
    then have "parse_elems (Suc n) t = parse_elems n t" "parse_members (Suc n) t = parse_members n t"
      by (rule e, rule m)
    then show ?thesis by (simp only: parse_value.simps(2) Cons list.case)
  qed simp
  moreover have "parse_elems (Suc (Suc n)) s = parse_elems (Suc n) s" if l: "2 * length s + 2 \<le> Suc n" for s
  proof -
    have "parse_elems (Suc n) t = parse_elems n t"
      if "parse_value n s = Some (w, u)" "skip_ws u = d # t" for w u d t
      using parse_consumes(1) [OF that(1)] skip_ws_Cons_length [OF that(2)] l by (intro e) simp
    moreover have "parse_value (Suc n) s = parse_value n s" using l by (intro v) simp
    ultimately show ?thesis unfolding parse_elems.simps(2)
      by (auto simp del: parse_elems.simps parse_value.simps split: list.split option.split)
  qed
  moreover have "parse_members (Suc (Suc n)) s = parse_members (Suc n) s"
    if l: "2 * length s + 2 \<le> Suc n" for s
  proof -
    have "parse_value (Suc n) r2 = parse_value n r2 \<and> (\<forall>w r3 d t. parse_value n r2 = Some (w, r3) \<longrightarrow>
        skip_ws r3 = d # t \<longrightarrow> parse_members (Suc n) t = parse_members n t)"
      if "skip_ws s = q # r0" "scan_string r0 = Some (k, r1)" "skip_ws r1 = c # r2" for q r0 k r1 c r2
    proof -
      have len: "length r2 < length s"
        using skip_ws_Cons_length [OF that(1)] scan_string_length [OF that(2)]
          skip_ws_Cons_length [OF that(3)] by linarith
      have "parse_members (Suc n) t = parse_members n t"
        if "parse_value n r2 = Some (w, r3)" "skip_ws r3 = d # t" for w r3 d t
        using parse_consumes(1) [OF that(1)] skip_ws_Cons_length [OF that(2)] l len by (intro m) simp
      moreover have "parse_value (Suc n) r2 = parse_value n r2" using len l by (intro v) simp
      ultimately show ?thesis by blast
    qed
    then show ?thesis unfolding parse_members.simps(2)
      by (auto simp del: parse_members.simps parse_value.simps split: list.split option.split)
  qed
  ultimately show ?case by blast
qed simp

text \<open>Twice the length and two more is enough: more fuel never changes the result.\<close>

lemma parse_fuel_enough:
  assumes "parse_fuel s \<le> n"
  shows "parse_value n s = parse_value (parse_fuel s) s"
  using assms
proof (induction n rule: dec_induct)
  case (step n)
  then have "2 * length s + 1 \<le> n" by (simp add: parse_fuel_def)
  with step.IH parse_fuel_step [of n] show ?case by simp
qed simp
end
