(* ===== verification/Payloads.thy ===== *)
theory Payloads
  imports Translation Json_Roundtrip
begin

text \<open>
  The payloads sent to devices read back as the messages they were printed from: decoding a
  client's JSON keeps number literals readable and never nests deeper than the input, so the
  printed message is within what the scanner accepts.
\<close>

section \<open>Invariants of decoding\<close>

lemma fold_opt_invariant:
  assumes "fold_opt f xs s = Some t" "P s"
    and "\<And>x s s'. x \<in> set xs \<Longrightarrow> P s \<Longrightarrow> f x s = Some s' \<Longrightarrow> P s'"
  shows "P t"
  using assms
proof (induction xs arbitrary: s)
  case (Cons x xs)
  from Cons.prems(1) obtain s' where s': "f x s = Some s'" "fold_opt f xs s' = Some t"
    by (auto split: option.splits)
  show ?case
  proof (rule Cons.IH [OF s'(2)])
    show "P s'" using Cons.prems(2,3) s'(1) by (meson list.set_intros(1))
    show "\<And>y u u'. y \<in> set xs \<Longrightarrow> P u \<Longrightarrow> f y u = Some u' \<Longrightarrow> P u'"
      using Cons.prems(3) by (meson list.set_intros(2))
  qed
qed simp

lemma those_map_Some: "those (map f xs) = Some ys \<Longrightarrow> map f xs = map Some ys"
  by (induction xs arbitrary: ys) (auto split: option.splits)

lemma those_map_member:
  assumes "those (map f xs) = Some ys" "y \<in> set ys"
  shows "\<exists>x \<in> set xs. f x = Some y"
proof -
  have "Some y \<in> set (map f xs)" using those_map_Some [OF assms(1)] assms(2) by simp
  then show ?thesis by auto
qed

lemma gomap_put_values: "set (gomap_put k v m) \<subseteq> insert (k, v) (set m)"
  by (induction k v m rule: gomap_put.induct) auto

lemma foldl_put_values:
  "set (foldl (\<lambda>m kv. gomap_put (fst kv) (snd kv) m) m kvs) \<subseteq> set m \<union> set kvs"
proof (induction kvs arbitrary: m)
  case (Cons kv kvs)
  have "set (gomap_put (fst kv) (snd kv) m) \<subseteq> insert kv (set m)"
    using gomap_put_values [of "fst kv" "snd kv" m] by simp
  with Cons.IH [of "gomap_put (fst kv) (snd kv) m"] show ?case by (simp add: subset_eq) blast
qed simp

lemma json_depth_le_iff:
  "json_depth (JArr js) \<le> Suc n \<longleftrightarrow> (\<forall>j \<in> set js. json_depth j \<le> n)"
  "json_depth (JObj ms) \<le> Suc n \<longleftrightarrow> (\<forall>m \<in> set ms. json_depth (snd m) \<le> n)"
proof -
  have "foldr max xs 0 \<le> n \<longleftrightarrow> (\<forall>x \<in> set xs. x \<le> n)" for xs :: "nat list"
    by (induction xs) auto
  then show "json_depth (JArr js) \<le> Suc n \<longleftrightarrow> (\<forall>j \<in> set js. json_depth j \<le> n)"
    "json_depth (JObj ms) \<le> Suc n \<longleftrightarrow> (\<forall>m \<in> set ms. json_depth (snd m) \<le> n)"
    by simp_all
qed

declare json_depth.simps(1,2) [simp del]

lemma json_depth_pos: "json_depth (JArr js) \<le> n \<Longrightarrow> \<exists>k. n = Suc k" "json_depth (JObj ms) \<le> n \<Longrightarrow> \<exists>k. n = Suc k"
  by (cases n; simp add: json_depth.simps)+

definition fits :: "nat \<Rightarrow> json \<Rightarrow> bool" where
  "fits n j \<longleftrightarrow> json_nums j \<and> json_depth j \<le> n"

lemma fits_JArr: "fits (Suc n) (JArr js) \<longleftrightarrow> (\<forall>j \<in> set js. fits n j)"
  by (auto simp: fits_def json_depth_le_iff)

lemma fits_JObj: "fits (Suc n) (JObj ms) \<longleftrightarrow> (\<forall>m \<in> set ms. fits n (snd m))"
  by (auto simp: fits_def json_depth_le_iff)

lemma fits_atoms [simp]: "fits n JNull" "fits n (JBool b)" "fits n (JStr s)"
  "fits n (JNum (show_int i))"
  by (simp_all add: fits_def scan_number_show_int)

lemma json_iface_fits:
  assumes "float64_text_ok L"
  shows "json_iface (lb_Float64Text L) j = Some v \<Longrightarrow> json_depth j \<le> n \<Longrightarrow> fits n v"
proof (induction j arbitrary: v n)
  case (JNum l)
  with assms show ?case by (auto simp: fits_def float64_text_ok_def)
next
  case (JArr js)
  obtain k where n: "n = Suc k" using json_depth_pos(1) JArr.prems(2) by blast
  from JArr.prems(1) obtain vs where v: "v = JArr vs" "those (map (json_iface (lb_Float64Text L)) js) = Some vs"
    by auto
  have "fits k x" if "x \<in> set vs" for x
    using those_map_member [OF v(2) that] JArr.IH JArr.prems(2) by (auto simp: n json_depth_le_iff)
  then show ?case by (simp add: n v fits_JArr)
next
  case (JObj ms)
  obtain k where n: "n = Suc k" using json_depth_pos(2) JObj.prems(2) by blast
  from JObj.prems(1) obtain kvs where v: "v = JObj (foldl (\<lambda>m kv. gomap_put (fst kv) (snd kv) m) [] kvs)"
    and kvs: "those (map (\<lambda>m. map_option (Pair (fst m)) (json_iface (lb_Float64Text L) (snd m))) ms) = Some kvs"
    by auto
  have "fits k (snd x)" if "x \<in> set kvs" for x
  proof -
    have "\<exists>m \<in> set ms. map_option (Pair (fst m)) (json_iface (lb_Float64Text L) (snd m)) = Some x"
      by (rule those_map_member [OF kvs that])
    then obtain m where m: "m \<in> set ms" "json_iface (lb_Float64Text L) (snd m) = Some (snd x)"
      by auto
    with JObj.prems(2) have "json_depth (snd m) \<le> k" by (simp add: n json_depth_le_iff)
    moreover have "snd m \<in> Basic_BNFs.snds m" by (cases m) (auto intro: snds.intros)
    ultimately show ?thesis using m JObj.IH by blast
  qed
  then show ?case using foldl_put_values [of "[]" kvs] by (auto simp: n v fits_JObj)
qed (auto simp: fits_def)

section \<open>SET messages\<close>

definition param_fits :: "nat \<Rightarrow> setParam \<Rightarrow> bool" where
  "param_fits n p \<longleftrightarrow>
     (case sp_Value p of None \<Rightarrow> True | Some v \<Rightarrow> fits n v)
     \<and> (case sp_Attributes p of None \<Rightarrow> True | Some a \<Rightarrow> fits n (JObj a))"

lemma fits_Obj_Nil: "fits (Suc n) (JObj [])"
  by (simp add: fits_JObj)

lemma decode_attributes_fits:
  assumes "float64_text_ok L" "decode_attributes L old j = Some (Some a)" "json_depth j \<le> n"
    and "case old of None \<Rightarrow> True | Some m \<Rightarrow> fits n (JObj m)"
  shows "fits n (JObj a)"
proof -
  from assms(2) obtain ms where ms: "j = JObj ms"
    "fold_opt (\<lambda>(k, v) m. map_option (\<lambda>x. gomap_put k x m) (json_iface (lb_Float64Text L) v))
       ms (case old of None \<Rightarrow> [] | Some m \<Rightarrow> m) = Some a"
    by (auto simp: decode_attributes_def split: json.splits)
  obtain k where n: "n = Suc k" using assms(3) json_depth_pos(2) by (auto simp: ms)
  show ?thesis
  proof (rule fold_opt_invariant [OF ms(2)])
    show "fits n (JObj (case old of None \<Rightarrow> [] | Some m \<Rightarrow> m))"
      using assms(4) by (auto simp: n fits_Obj_Nil split: option.splits)
    fix x m m'
    assume x: "x \<in> set ms" and m: "fits n (JObj m)"
      and step: "(case x of (k, v) \<Rightarrow> \<lambda>m. map_option (\<lambda>x. gomap_put k x m)
                   (json_iface (lb_Float64Text L) v)) m = Some m'"
    obtain key v where xv: "x = (key, v)" by fastforce
    from step xv obtain y where y: "json_iface (lb_Float64Text L) v = Some y" "m' = gomap_put key y m"
      by auto
    have "json_depth v \<le> k" using assms(3) x xv by (auto simp: n ms json_depth_le_iff)
    with y(1) assms(1) have "fits k y" by (intro json_iface_fits)
    with m y(2) gomap_put_values [of key y m] show "fits n (JObj m')" by (auto simp: n fits_JObj)
  qed
qed

lemma decode_param_member_fits:
  assumes L: "float64_text_ok L" and step: "decode_param_member L m p = Some p'"
    and p: "param_fits n p" and depth: "json_depth (snd m) \<le> n"
  shows "param_fits n p'"
proof -
  have v: "case x of None \<Rightarrow> True | Some v \<Rightarrow> fits n v" if "decode_iface L (snd m) = Some x" for x
    using that json_iface_fits [OF L _ depth]
    by (auto simp: decode_iface_def split: json.splits option.splits)
  have a: "case x of None \<Rightarrow> True | Some a \<Rightarrow> fits n (JObj a)"
    if "decode_attributes L (sp_Attributes p) (snd m) = Some x" for x
    using that decode_attributes_fits [OF L _ depth, of "sp_Attributes p"] p
    by (auto simp: param_fits_def split: option.splits)
  show ?thesis
    using step p v a by (auto simp: decode_param_member_def param_fits_def split: if_splits)
qed

lemma decode_param_fits:
  assumes "float64_text_ok L" "decode_param L j = Some p" "json_depth j \<le> Suc n"
  shows "param_fits n p"
proof -
  have zero: "param_fits n zero_setParam" by (simp add: param_fits_def zero_setParam_def)
  show ?thesis
  proof (cases j)
    case (JObj ms)
    with assms(2) have f: "fold_opt (decode_param_member L) ms zero_setParam = Some p"
      by (simp add: decode_param_def)
    show ?thesis
    proof (rule fold_opt_invariant [where P = "param_fits n", OF f zero])
      fix x s s'
      assume "x \<in> set ms" "param_fits n s" "decode_param_member L x s = Some s'"
      with assms(1,3) show "param_fits n s'"
        by (intro decode_param_member_fits [of L x s s' n]) (auto simp: JObj json_depth_le_iff)
    qed
  qed (use assms(2) zero in \<open>auto simp: decode_param_def\<close>)
qed

lemma decode_params_fit:
  assumes "float64_text_ok L" "decode_params L j = Some ps" "json_depth j \<le> Suc (Suc n)"
  shows "\<forall>p \<in> set ps. param_fits n p"
proof
  fix p
  assume p: "p \<in> set ps"
  with assms(2) obtain js where js: "j = JArr js" "those (map (decode_param L) js) = Some ps"
    by (auto simp: decode_params_def split: json.splits)
  from those_map_member [OF js(2) p] obtain x where "x \<in> set js" "decode_param L x = Some p" by blast
  with assms(1,3) show "param_fits n p"
    by (intro decode_param_fits [of L x p n]) (auto simp: js json_depth_le_iff)
qed

lemma decode_setWDMP_fits:
  assumes L: "float64_text_ok L" and dec: "decode_setWDMP L data = Some w"
  shows "\<forall>p \<in> set (sw_Parameters w). param_fits 9997 p"
proof -
  from dec consider (null) "w = zero_setWDMP"
    | (obj) ms where "json_parse data = Some (JObj ms)" "fold_opt (decode_set_member L) ms zero_setWDMP = Some w"
    by (auto simp: decode_setWDMP_def split: option.splits json.splits)
  then show ?thesis
  proof cases
    case null
    then show ?thesis by (simp add: zero_setWDMP_def)
  next
    case obj
    have "json_depth (JObj ms) \<le> Suc 9999"
      using json_parse_ok [OF obj(1)] by (simp add: max_nesting_def)
    then have depth: "\<forall>m \<in> set ms. json_depth (snd m) \<le> 9999" unfolding json_depth_le_iff .
    show ?thesis
    proof (rule fold_opt_invariant [OF obj(2)])
      show "\<forall>p \<in> set (sw_Parameters zero_setWDMP). param_fits 9997 p" by (simp add: zero_setWDMP_def)
      fix x s s'
      assume x: "x \<in> set ms" and s: "\<forall>p \<in> set (sw_Parameters s). param_fits 9997 p"
        and step: "decode_set_member L x s = Some s'"
      have "\<forall>p \<in> set ps. param_fits 9997 p" if "decode_params L (snd x) = Some ps" for ps
        using that x depth L by (intro decode_params_fit [of L "snd x"]) auto
      with s step show "\<forall>p \<in> set (sw_Parameters s'). param_fits 9997 p"
        by (auto simp: decode_set_member_def split: if_splits)
    qed
  qed
qed

lemma json_depth_atoms: "json_depth JNull = 0" "json_depth (JStr s) = 0" "json_depth (JNum l) = 0"
  by simp_all

lemma json_setParam_fits: "param_fits (Suc n) p \<Longrightarrow> fits (Suc (Suc n)) (json_setParam p)"
  by (auto simp: json_setParam_def fits_JObj param_fits_def split: option.splits)

lemma json_setWDMP_fits:
  "\<forall>p \<in> set (sw_Parameters w). param_fits (Suc n) p \<Longrightarrow> fits (Suc (Suc (Suc (Suc n)))) (json_setWDMP w)"
  by (auto simp: json_setWDMP_def fits_JObj fits_JArr omit_str_def json_setParam_fits)

lemma fits_parses:
  "fits n j \<Longrightarrow> n \<le> max_nesting \<Longrightarrow> json_parse (json_print j) = Some (json_norm j)"
  by (rule json_parse_print) (auto simp: fits_def)

lemma loadWDMP_fits:
  assumes "float64_text_ok L" "loadWDMP L b n old c = Inr w"
  shows "\<forall>p \<in> set (sw_Parameters w). param_fits 9997 p"
  using assms(2)
proof (cases rule: loadWDMP_Inr)
  case (1 v)
  from 1(1) have v: "\<forall>p \<in> set (sw_Parameters v). param_fits 9997 p"
    using decode_setWDMP_fits [OF assms(1)] by (auto simp: zero_setWDMP_def)
  from 1(2) show ?thesis by (cases rule: deduceSET_cases) (use v in auto)
qed

lemma requestSetPayload_Inr:
  assumes "requestSetPayload L b n old c = Inr p"
  obtains w where "bd_err b = None" "loadWDMP L (bd_data b) n old c = Inr w"
    "p = json_print (json_setWDMP w)"
  using assms by (auto simp: requestSetPayload_def ReadAll_def split: option.splits sum.splits)

lemma requestSetPayload_parses:
  assumes "float64_text_ok L" "requestSetPayload L b n old c = Inr p"
  shows "\<exists>w. loadWDMP L (bd_data b) n old c = Inr w \<and> json_parse p = Some (json_norm (json_setWDMP w))"
  using assms(2)
proof (cases rule: requestSetPayload_Inr)
  case (1 w)
  have "\<forall>p \<in> set (sw_Parameters w). param_fits (Suc 9996) p"
    using loadWDMP_fits [OF assms(1) 1(2)] by simp
  then have "fits (Suc (Suc (Suc (Suc 9996)))) (json_setWDMP w)" by (rule json_setWDMP_fits)
  then have "json_parse p = Some (json_norm (json_setWDMP w))"
    unfolding 1(3) by (rule fits_parses) (simp add: max_nesting_def)
  with 1(2) show ?thesis by blast
qed

section \<open>Rows\<close>

lemma json_strmap_fits: "fits (Suc n) (json_strmap m)"
  by (auto simp: json_strmap_def fits_JObj split: option.splits)

lemma json_norm_strmap:
  "json_norm (json_strmap m) = json_strmap (map_option (map (\<lambda>(k, v). (to_valid_utf8 k, to_valid_utf8 v))) m)"
  by (cases m) (simp_all add: json_strmap_def case_prod_unfold)

lemma ascii_norm:
  "to_valid_utf8 ''command'' = ''command''" "to_valid_utf8 ''names'' = ''names''"
  "to_valid_utf8 ''attributes'' = ''attributes''" "to_valid_utf8 ''table'' = ''table''"
  "to_valid_utf8 ''row'' = ''row''" "to_valid_utf8 ''rows'' = ''rows''"
  "to_valid_utf8 CommandGet = CommandGet" "to_valid_utf8 CommandGetAttrs = CommandGetAttrs"
  "to_valid_utf8 CommandAddRow = CommandAddRow" "to_valid_utf8 CommandReplaceRows = CommandReplaceRows"
  "to_valid_utf8 CommandDeleteRow = CommandDeleteRow"
  by (rule to_valid_utf8_ascii, simp add: command_defs)+

lemma norm_strs: "map json_norm (map JStr ns) = map JStr (map to_valid_utf8 ns)"
  by simp

text \<open>Names read from a valid JSON text are valid, so a decoded map prints as it is.\<close>

definition strmap_ok :: "string gomap option \<Rightarrow> bool" where
  "strmap_ok m \<longleftrightarrow> (case m of None \<Rightarrow> True
     | Some kvs \<Rightarrow> gomap_wf kvs \<and> (\<forall>(k, v) \<in> set kvs. to_valid_utf8 k = k \<and> to_valid_utf8 v = v))"

lemma decode_strmap_ok:
  assumes "json_ok j" "decode_strmap j = Some m"
  shows "strmap_ok m"
proof (cases j)
  case (JObj ms)
  with assms(2) obtain kvs where kvs: "m = Some kvs"
    "fold_opt (\<lambda>(k, v) m. map_option (\<lambda>s. gomap_put k s m) (decode_str [] v)) ms [] = Some kvs"
    by (auto simp: decode_strmap_def)
  have "gomap_wf kvs \<and> (\<forall>(k, v) \<in> set kvs. to_valid_utf8 k = k \<and> to_valid_utf8 v = v)"
  proof (rule fold_opt_invariant [OF kvs(2)])
    fix x s s'
    assume x: "x \<in> set ms" and s: "gomap_wf s \<and> (\<forall>(k, v) \<in> set s. to_valid_utf8 k = k \<and> to_valid_utf8 v = v)"
      and step: "(case x of (k, v) \<Rightarrow> \<lambda>m. map_option (\<lambda>s. gomap_put k s m) (decode_str [] v)) s = Some s'"
    obtain k v where kv: "x = (k, v)" by fastforce
    with step obtain t where t: "decode_str [] v = Some t" "s' = gomap_put k t s" by auto
    have "to_valid_utf8 k = k" "json_ok v" using assms(1) x by (auto simp: JObj kv)
    with t(1) have "to_valid_utf8 k = k" "to_valid_utf8 t = t"
      by (auto simp: decode_str_def to_valid_utf8_def split: json.splits)
    with s t(2) gomap_put_values [of k t s]
    show "gomap_wf s' \<and> (\<forall>(k, v) \<in> set s'. to_valid_utf8 k = k \<and> to_valid_utf8 v = v)"
      by (auto intro: gomap_wf_put)
  qed simp
  with kvs(1) show ?thesis by (simp add: strmap_ok_def)
qed (use assms in \<open>auto simp: decode_strmap_def strmap_ok_def\<close>)

lemma strmap_ok_norm: "strmap_ok m \<Longrightarrow> json_norm (json_strmap m) = json_strmap m"
  by (cases m) (auto simp: json_norm_strmap strmap_ok_def intro!: arg_cong [where f = json_strmap] map_idI)

text \<open>A sorted map that was printed decodes to itself: each key is put behind the others.\<close>

lemma gomap_put_last: "\<forall>x \<in> set m. fst x < k \<Longrightarrow> gomap_put k v m = m @ [(k, v)]"
  by (induction k v m rule: gomap_put.induct) (auto dest: less_imp_neq less_asym)

lemma fold_put_sorted:
  assumes "gomap_wf (m @ kvs)" "\<And>k v. (k, v) \<in> set kvs \<Longrightarrow> dec (enc v) = Some v"
  shows "fold_opt (\<lambda>(k, x) m. map_option (\<lambda>v. gomap_put k v m) (dec x)) (map (\<lambda>(k, v). (k, enc v)) kvs) m
    = Some (m @ kvs)"
  using assms
proof (induction kvs arbitrary: m)
  case (Cons kv kvs)
  obtain k v where kv: "kv = (k, v)" by fastforce
  have "\<forall>x \<in> set m. fst x < k" using Cons.prems(1) by (auto simp: gomap_wf_def sorted_wrt_append kv)
  then have put: "gomap_put k v m = m @ [(k, v)]" by (rule gomap_put_last)
  have "dec (enc v) = Some v" using Cons.prems(2) [of k v] by (simp add: kv)
  moreover have "fold_opt (\<lambda>(k, x) m. map_option (\<lambda>v. gomap_put k v m) (dec x))
      (map (\<lambda>(k, v). (k, enc v)) kvs) (m @ [kv]) = Some ((m @ [kv]) @ kvs)"
    using Cons.prems by (intro Cons.IH) auto
  ultimately show ?case by (simp add: put kv)
qed simp

lemma decode_json_strmap:
  assumes "strmap_ok m"
  shows "decode_strmap (json_strmap m) = Some m"
proof (cases m)
  case (Some kvs)
  with assms have "gomap_wf ([] @ kvs)" by (simp add: strmap_ok_def)
  from fold_put_sorted [OF this, of "decode_str []" JStr] Some show ?thesis
    by (simp add: decode_strmap_def json_strmap_def decode_str_def)
qed (simp add: decode_strmap_def json_strmap_def)

definition rows_ok :: "indexRow \<Rightarrow> bool" where
  "rows_ok m \<longleftrightarrow> (case m of None \<Rightarrow> True
     | Some kvs \<Rightarrow> gomap_wf kvs \<and> (\<forall>(k, row) \<in> set kvs. to_valid_utf8 k = k \<and> strmap_ok row))"

definition json_rows :: "indexRow \<Rightarrow> json" where
  "json_rows m = (case m of None \<Rightarrow> JNull | Some kvs \<Rightarrow> JObj (map (\<lambda>(k, row). (k, json_strmap row)) kvs))"

lemma decode_rows_ok:
  assumes "json_ok j" "decode_rows j = Some m"
  shows "rows_ok m"
proof (cases j)
  case (JObj ms)
  with assms(2) obtain kvs where kvs: "m = Some kvs"
    "fold_opt (\<lambda>(k, v) m. map_option (\<lambda>row. gomap_put k row m) (decode_strmap v)) ms [] = Some kvs"
    by (auto simp: decode_rows_def)
  have "gomap_wf kvs \<and> (\<forall>(k, row) \<in> set kvs. to_valid_utf8 k = k \<and> strmap_ok row)"
  proof (rule fold_opt_invariant [OF kvs(2)])
    fix x s s'
    assume x: "x \<in> set ms" and s: "gomap_wf s \<and> (\<forall>(k, row) \<in> set s. to_valid_utf8 k = k \<and> strmap_ok row)"
      and step: "(case x of (k, v) \<Rightarrow> \<lambda>m. map_option (\<lambda>row. gomap_put k row m) (decode_strmap v)) s = Some s'"
    obtain k v where kv: "x = (k, v)" by fastforce
    with step obtain t where t: "decode_strmap v = Some t" "s' = gomap_put k t s" by auto
    have "to_valid_utf8 k = k" "json_ok v" using assms(1) x by (auto simp: JObj kv)
    moreover from this t(1) have "strmap_ok t" by (intro decode_strmap_ok)
    ultimately show "gomap_wf s' \<and> (\<forall>(k, row) \<in> set s'. to_valid_utf8 k = k \<and> strmap_ok row)"
      using s t(2) gomap_put_values [of k t s] by (auto intro: gomap_wf_put)
  qed simp
  with kvs(1) show ?thesis by (simp add: rows_ok_def)
qed (use assms in \<open>auto simp: decode_rows_def rows_ok_def\<close>)

lemma decode_json_rows:
  assumes "rows_ok m"
  shows "decode_rows (json_rows m) = Some m"
proof (cases m)
  case (Some kvs)
  with assms have "gomap_wf ([] @ kvs)" by (simp add: rows_ok_def)
  moreover have "\<And>k v. (k, v) \<in> set kvs \<Longrightarrow> decode_strmap (json_strmap v) = Some v"
    using assms by (auto simp: rows_ok_def Some decode_json_strmap)
  ultimately have "fold_opt (\<lambda>(k, x) m. map_option (\<lambda>v. gomap_put k v m) (decode_strmap x))
      (map (\<lambda>(k, v). (k, json_strmap v)) kvs) [] = Some ([] @ kvs)"
    by (rule fold_put_sorted)
  with Some show ?thesis by (simp add: decode_rows_def json_rows_def)
qed (simp add: decode_rows_def json_rows_def)

lemma json_rows_fits: "fits (Suc (Suc n)) (json_rows m)"
  by (auto simp: json_rows_def fits_JObj json_strmap_fits split: option.splits)

lemma rows_ok_norm: "rows_ok m \<Longrightarrow> json_norm (json_rows m) = json_rows m"
  by (cases m) (auto simp: json_rows_def rows_ok_def strmap_ok_norm intro!: map_idI)

section \<open>Properties\<close>

text \<open>
  C28. GET: the payload of a non-empty \<open>names\<close> parameter reads back as a GET (GET_ATTRIBUTES
  exactly when attributes were asked for) whose names contain no comma and, joined with
  commas, are that parameter.
\<close>

theorem requestGetPayload_roundtrip:
  assumes "names \<noteq> []" "to_valid_utf8 names = names"
  shows "\<exists>p ns. requestGetPayload names attributes = Inr p
    \<and> join_with '','' ns = names \<and> list_all (\<lambda>n. CHR '','' \<notin> set n) ns
    \<and> json_parse p = Some (JObj
        ([(''command'', JStr (if attributes = [] then CommandGet else CommandGetAttrs)),
          (''names'', JArr (map JStr ns))]
         @ (if attributes = [] then [] else [(''attributes'', JStr (to_valid_utf8 attributes))])))"
proof -
  define g where "g = \<lparr>gw_Command = if attributes = [] then CommandGet else CommandGetAttrs,
    gw_Names = Split names (CHR '',''), gw_Attributes = attributes\<rparr>"
  have pay: "requestGetPayload names attributes = Inr (json_print (json_getWDMP g))"
    using assms(1) by (simp add: requestGetPayload_def g_def Let_def Suc_le_eq)
  have "fits (Suc (Suc 0)) (json_getWDMP g)"
    by (auto simp: json_getWDMP_def fits_JObj fits_JArr omit_str_def)
  then have "json_parse (json_print (json_getWDMP g)) = Some (json_norm (json_getWDMP g))"
    by (rule fits_parses) (simp add: max_nesting_def)
  moreover have "map to_valid_utf8 (Split names (CHR '','')) = Split names (CHR '','')"
    using valid_Split [OF _ assms(2), of "CHR '',''"] by (simp add: map_idI)
  then have "json_norm (json_getWDMP g) = JObj
      ([(''command'', JStr (if attributes = [] then CommandGet else CommandGetAttrs)),
        (''names'', JArr (map JStr (Split names (CHR '',''))))]
       @ (if attributes = [] then [] else [(''attributes'', JStr (to_valid_utf8 attributes))]))"
    by (simp add: json_getWDMP_def g_def omit_str_def ascii_norm norm_strs del: map_map)
  moreover have "list_all (\<lambda>n. CHR '','' \<notin> set n) (Split names (CHR '',''))"
    using Split_parts by (auto simp: list_all_iff)
  ultimately show ?thesis
    using pay join_Split [of "CHR '',''" names] by metis
qed

theorem requestGetPayload_roundtrip_witness:
  "\<exists>p. requestGetPayload ''a.b,c'' [] = Inr p
     \<and> json_parse p = Some (JObj [(''command'', JStr ''GET''), (''names'', JArr [JStr ''a.b'', JStr ''c''])])"
proof -
  have "to_valid_utf8 ''a.b,c'' = ''a.b,c''" by (rule to_valid_utf8_ascii) simp
  then obtain p ns where p: "requestGetPayload ''a.b,c'' [] = Inr p" "join_with '','' ns = ''a.b,c''"
    "list_all (\<lambda>n. CHR '','' \<notin> set n) ns"
    "json_parse p = Some (JObj [(''command'', JStr CommandGet), (''names'', JArr (map JStr ns))])"
    using requestGetPayload_roundtrip [of "''a.b,c''" "[]"] by auto
  moreover have "ns = [''a.b'', ''c'']"
    using Split_join [of ns "CHR '',''"] p(2,3) by (cases ns) (auto simp: list_all_iff)
  ultimately show ?thesis by (auto simp: command_defs)
qed



text \<open>
  C27. POST: the payload reads back as an ADD_ROW of the table in the path whose row decodes to
  the very map the body held (a body \<open>null\<close> is accepted and gives a null row).
\<close>

theorem requestAddPayload_roundtrip:
  assumes "requestAddPayload table b = Inr p"
  shows "\<exists>j row rj. json_parse (bd_data b) = Some j \<and> decode_strmap j = Some row
    \<and> json_parse p = Some (JObj [(''command'', JStr CommandAddRow),
        (''table'', JStr (to_valid_utf8 table)), (''row'', rj)])
    \<and> decode_strmap rj = Some row"
proof -
  from assms obtain j row where j: "json_parse (bd_data b) = Some j" "decode_strmap j = Some row"
    and p: "p = json_print (json_addRowWDMP \<lparr>aw_Command = CommandAddRow, aw_Table = table, aw_Row = row\<rparr>)"
    by (auto simp: requestAddPayload_def ReadAll_def bind_eq_Some_conv split: if_splits option.splits)
  have ok: "strmap_ok row" using json_parse_ok [OF j(1)] j(2) by (intro decode_strmap_ok) auto
  have "fits (Suc (Suc 0)) (json_addRowWDMP \<lparr>aw_Command = CommandAddRow, aw_Table = table, aw_Row = row\<rparr>)"
    by (simp add: json_addRowWDMP_def fits_JObj json_strmap_fits)
  then have "json_parse p = Some (JObj [(''command'', JStr CommandAddRow),
      (''table'', JStr (to_valid_utf8 table)), (''row'', json_strmap row)])"
    using ok unfolding p
    by (subst fits_parses)
      (auto simp: max_nesting_def json_addRowWDMP_def ascii_norm strmap_ok_norm)
  with j ok show ?thesis by (blast intro: decode_json_strmap)
qed

theorem requestAddPayload_roundtrip_witness:
  "\<exists>p. requestAddPayload ''t'' \<lparr>bd_data = ''null'', bd_err = None\<rparr> = Inr p
     \<and> (\<exists>rj. json_parse p = Some (JObj [(''command'', JStr CommandAddRow), (''table'', JStr ''t''), (''row'', rj)])
           \<and> decode_strmap rj = Some None)"
proof -
  let ?b = "\<lparr>bd_data = ''null'', bd_err = None\<rparr>"
  have n: "json_parse ''null'' = Some JNull" by code_simp
  then obtain p where p: "requestAddPayload ''t'' ?b = Inr p"
    by (simp add: requestAddPayload_def ReadAll_def decode_strmap_def)
  have "to_valid_utf8 ''t'' = ''t''" by (rule to_valid_utf8_ascii) simp
  with requestAddPayload_roundtrip [OF p] n p show ?thesis by (auto simp: decode_strmap_def)
qed

text \<open>
  C26. PUT: the payload reads back as a REPLACE_ROWS of the path's table with the spaces around
  it cut off, whose rows decode to the very map of maps the body held.
\<close>

theorem requestReplacePayload_roundtrip:
  assumes "requestReplacePayload parameter b = Inr p"
  shows "\<exists>j rows rj. json_parse (bd_data b) = Some j \<and> decode_rows j = Some rows
    \<and> Trim parameter (CHR '' '') \<noteq> []
    \<and> json_parse p = Some (JObj [(''command'', JStr CommandReplaceRows),
        (''table'', JStr (to_valid_utf8 (Trim parameter (CHR '' '')))), (''rows'', rj)])
    \<and> decode_rows rj = Some rows"
proof -
  let ?t = "Trim parameter (CHR '' '')"
  from assms obtain j rows where j: "json_parse (bd_data b) = Some j" "decode_rows j = Some rows"
    and t: "?t \<noteq> []"
    and p: "p = json_print (json_replaceRowsWDMP
      \<lparr>rp_Command = CommandReplaceRows, rp_Table = ?t, rp_Rows = rows\<rparr>)"
    by (auto simp: requestReplacePayload_def ReadAll_def bind_eq_Some_conv Let_def
        split: if_splits option.splits)
  have ok: "rows_ok rows" using json_parse_ok [OF j(1)] j(2) by (intro decode_rows_ok) auto
  have "json_replaceRowsWDMP \<lparr>rp_Command = CommandReplaceRows, rp_Table = ?t, rp_Rows = rows\<rparr>
      = JObj [(''command'', JStr CommandReplaceRows), (''table'', JStr ?t), (''rows'', json_rows rows)]"
    by (simp add: json_replaceRowsWDMP_def json_rows_def split: option.split)
  moreover have "fits (Suc (Suc (Suc 0)))
      (JObj [(''command'', JStr CommandReplaceRows), (''table'', JStr ?t), (''rows'', json_rows rows)])"
    by (simp add: fits_JObj json_rows_fits)
  ultimately have "json_parse p = Some (JObj [(''command'', JStr CommandReplaceRows),
      (''table'', JStr (to_valid_utf8 ?t)), (''rows'', json_rows rows)])"
    using ok unfolding p
    by (subst fits_parses) (auto simp: max_nesting_def ascii_norm rows_ok_norm)
  with j t ok show ?thesis by (blast intro: decode_json_rows)
qed

theorem requestReplacePayload_roundtrip_witness:
  "\<exists>p rj. requestReplacePayload '' t '' \<lparr>bd_data = ''{}'', bd_err = None\<rparr> = Inr p
     \<and> json_parse p = Some (JObj [(''command'', JStr CommandReplaceRows), (''table'', JStr ''t''), (''rows'', rj)])
     \<and> decode_rows rj = Some (Some [])"
proof -
  let ?b = "\<lparr>bd_data = ''{}'', bd_err = None\<rparr>"
  have n: "json_parse ''{}'' = Some (JObj [])" by code_simp
  have t: "Trim '' t '' (CHR '' '') = ''t''" by (simp add: Trim_def)
  from n t obtain p where p: "requestReplacePayload '' t '' ?b = Inr p"
    by (simp add: requestReplacePayload_def ReadAll_def decode_rows_def)
  have "to_valid_utf8 ''t'' = ''t''" by (rule to_valid_utf8_ascii) simp
  with requestReplacePayload_roundtrip [OF p] n t p show ?thesis by (auto simp: decode_rows_def)
qed

end
