(* ===== verification/Http_Server.thy ===== *)
theory Http_Server
  imports Trans_Errors
begin

text \<open>
  How handlers are put together: handlers with a state of their own, and the go-kit server that
  both services run in. The server is code outside the repository: it is a parameter, and
  \<open>kit_server_ok\<close> names what its documentation says of it.
\<close>

section \<open>Handlers with state\<close>

text \<open>
  What serving one request does: from the state of the process, the writer after the request
  and the new state, or a panic.
\<close>

type_synonym 's io = "'s \<Rightarrow> (rw \<times> 's) outcome"

text \<open>A handler over one part of a larger state.\<close>

definition on_fst :: "'s io \<Rightarrow> ('s \<times> 't) io" where
  "on_fst io st = outcome_bind (io (fst st)) (\<lambda>(w, s). Ret (w, (s, snd st)))"

lemma on_fst_simps [simp]:
  "io s = Ret (w, s') \<Longrightarrow> on_fst io (s, t) = Ret (w, (s', t))"
  "io s = Panic \<Longrightarrow> on_fst io (s, t) = Panic"
  by (simp_all add: on_fst_def)

section \<open>The go-kit server\<close>

text \<open>
  The functions \<open>kithttp.NewServer\<close> is given: functions that run before decoding (they may
  replace the body of the request), the decoder, the endpoint, the response encoder, the
  error encoder, and the finalizers.
\<close>

type_synonym before_func = "reqctx \<Rightarrow> http_request \<Rightarrow> (reqctx \<times> http_request) outcome"

record ('s, 'q, 'p) kit_config =
  kc_before :: "before_func list"
  kc_endpoint :: "reqctx \<Rightarrow> 'q \<Rightarrow> 's \<Rightarrow> ('p \<times> goerror option) \<times> 's"
  kc_decode :: "reqctx \<Rightarrow> http_request \<Rightarrow> goerror + 'q"
  kc_encode :: "reqctx \<Rightarrow> rw \<Rightarrow> 'p \<Rightarrow> (rw \<times> goerror option) outcome"
  kc_errorEncoder :: error_encoder
  kc_finalizer :: "reqctx \<Rightarrow> int \<Rightarrow> http_request \<Rightarrow> log_entry list"

fun run_before :: "before_func list \<Rightarrow> before_func" where
  "run_before [] ctx r = Ret (ctx, r)"
| "run_before (f # fs) ctx r = outcome_bind (f ctx r) (\<lambda>(ctx', r'). run_before fs ctx' r')"

text \<open>
  The documented course of a request: the before functions, the decoder, the endpoint, the
  encoder, in this order; the first error goes to the error encoder and ends the request.
\<close>

definition kit_reply :: "('s, 'q, 'p) kit_config \<Rightarrow> reqctx \<Rightarrow> http_request \<Rightarrow> rw \<Rightarrow> 's io" where
  "kit_reply c ctx r w s =
     (case kc_decode c ctx r of
        Inl err \<Rightarrow> outcome_bind (kc_errorEncoder c ctx err w) (\<lambda>w'. Ret (w', s))
      | Inr req \<Rightarrow>
          (case kc_endpoint c ctx req s of
             ((resp, Some err), s') \<Rightarrow>
               outcome_bind (kc_errorEncoder c ctx err w) (\<lambda>w'. Ret (w', s'))
           | ((resp, None), s') \<Rightarrow>
               outcome_bind (kc_encode c ctx w resp) (\<lambda>(w', e).
                 case e of
                   None \<Rightarrow> Ret (w', s')
                 | Some err \<Rightarrow> outcome_bind (kc_errorEncoder c ctx err w') (\<lambda>w''. Ret (w'', s')))))"

text \<open>
  The documented behaviour of a server: the course above, and after it the finalizers, which
  see the context of the request with the response headers added, and some status code.
\<close>

definition kit_server_ok :: "(('s, 'q, 'p) kit_config \<Rightarrow> 's io handler) \<Rightarrow> bool" where
  "kit_server_ok serve \<longleftrightarrow>
     (\<forall>c ctx r w s. \<exists>code hs. serve c ctx r w s =
        outcome_bind (run_before (kc_before c) ctx r) (\<lambda>(ctx', r').
          outcome_bind (kit_reply c ctx' r' w s) (\<lambda>(w', s').
            Ret (rw_add_log (kc_finalizer c (ctx'\<lparr>cx_ResponseHeaders := Some hs\<rparr>) code r') w', s'))))"

text \<open>A server that satisfies it, for the witnesses.\<close>

definition plain_server :: "('s, 'q, 'p) kit_config \<Rightarrow> 's io handler" where
  "plain_server c ctx r w s =
     outcome_bind (run_before (kc_before c) ctx r) (\<lambda>(ctx', r').
       outcome_bind (kit_reply c ctx' r' w s) (\<lambda>(w', s').
         Ret (rw_add_log (kc_finalizer c (ctx'\<lparr>cx_ResponseHeaders := Some (rw_header w')\<rparr>)
                (case rw_status w' of Some k \<Rightarrow> k | None \<Rightarrow> 200) r') w', s')))"

section \<open>Facts\<close>

lemma new_rw_sel [simp]: "rw_sent new_rw = None" "rw_write_err new_rw = None" "rw_body new_rw = []"
  by (simp_all add: new_rw_def)

lemma plain_server_ok: "kit_server_ok plain_server"
  unfolding kit_server_ok_def
proof (intro allI)
  fix c :: "('s, 'q, 'p) kit_config" and ctx r w and s :: 's
  show "\<exists>code hs. plain_server c ctx r w s =
      outcome_bind (run_before (kc_before c) ctx r) (\<lambda>(ctx', r').
        outcome_bind (kit_reply c ctx' r' w s) (\<lambda>(w', s').
          Ret (rw_add_log (kc_finalizer c (ctx'\<lparr>cx_ResponseHeaders := Some hs\<rparr>) code r') w', s')))"
  proof (cases "run_before (kc_before c) ctx r")
    case before: (Ret p)
    obtain ctx' r' where p: "p = (ctx', r')" by fastforce
    show ?thesis
    proof (cases "kit_reply c ctx' r' w s")
      case (Ret q)
      obtain w' s' where q: "q = (w', s')" by fastforce
      show ?thesis
        by (rule exI [of _ "case rw_status w' of Some k \<Rightarrow> k | None \<Rightarrow> 200"],
            rule exI [of _ "rw_header w'"]) (simp add: plain_server_def before p Ret q)
    qed (simp add: plain_server_def before p)
  qed (simp add: plain_server_def)
qed

text \<open>A server runs its before functions and its reply, and then only adds to the log.\<close>

lemma kit_serve:
  assumes "kit_server_ok serve" "run_before (kc_before c) ctx r = Ret (ctx', r')"
    and "kit_reply c ctx' r' w s = Ret (w', s')"
  shows "\<exists>code hs. serve c ctx r w s
    = Ret (rw_add_log (kc_finalizer c (ctx'\<lparr>cx_ResponseHeaders := Some hs\<rparr>) code r') w', s')"
proof -
  obtain code hs where "serve c ctx r w s =
      outcome_bind (run_before (kc_before c) ctx r) (\<lambda>(ctx', r').
        outcome_bind (kit_reply c ctx' r' w s) (\<lambda>(w', s').
          Ret (rw_add_log (kc_finalizer c (ctx'\<lparr>cx_ResponseHeaders := Some hs\<rparr>) code r') w', s')))"
    using assms(1) unfolding kit_server_ok_def by blast
  with assms(2,3) show ?thesis by auto
qed

lemma kit_reply_decode_error:
  "kc_decode c ctx r = Inl err \<Longrightarrow>
     kit_reply c ctx r w s = outcome_bind (kc_errorEncoder c ctx err w) (\<lambda>w'. Ret (w', s))"
  by (simp add: kit_reply_def)

lemma kit_reply_endpoint_error:
  "kc_decode c ctx r = Inr q \<Longrightarrow> kc_endpoint c ctx q s = ((p, Some err), s') \<Longrightarrow>
     kit_reply c ctx r w s = outcome_bind (kc_errorEncoder c ctx err w) (\<lambda>w'. Ret (w', s'))"
  by (simp add: kit_reply_def)

lemma kit_reply_encoded:
  "kc_decode c ctx r = Inr q \<Longrightarrow> kc_endpoint c ctx q s = ((p, None), s') \<Longrightarrow>
     kc_encode c ctx w p = Ret (w', None) \<Longrightarrow> kit_reply c ctx r w s = Ret (w', s')"
  by (simp add: kit_reply_def)

lemma kit_reply_encode_error:
  "kc_decode c ctx r = Inr q \<Longrightarrow> kc_endpoint c ctx q s = ((p, None), s') \<Longrightarrow>
     kc_encode c ctx w p = Ret (w', Some err) \<Longrightarrow>
     kit_reply c ctx r w s = outcome_bind (kc_errorEncoder c ctx err w') (\<lambda>w''. Ret (w'', s'))"
  by (simp add: kit_reply_def)

lemmas kit_reply_simps =
  kit_reply_decode_error kit_reply_endpoint_error kit_reply_encoded kit_reply_encode_error

end
