(* ===== verification/Translation_Props.thy ===== *)
theory Translation_Props
  imports Translation Json_Roundtrip
begin

text \<open>
  What the translation service promises: the response and error encoders (status codes, the
  transaction id, the masking of internal errors), the decoder (which errors it gives, what
  the WRP message holds, that payloads read back), and the credentials of outbound requests.
\<close>

section \<open>Header facts\<close>

lemma map_of_rw_set_header [http_simps]:
  "map_of (rw_header (rw_set_header k v w)) = (map_of (rw_header w))(canon_key k \<mapsto> [v])"
  by (simp add: rw_set_header_def http_simps)

lemma rw_frames [simp]:
  "rw_sent (rw_set_header k v w) = rw_sent w" "rw_body (rw_set_header k v w) = rw_body w"
  "rw_write_err (rw_set_header k v w) = rw_write_err w"
  "rw_sent (rw_add_log es w) = rw_sent w" "rw_body (rw_add_log es w) = rw_body w"
  "rw_write_err (rw_add_log es w) = rw_write_err w" "rw_header (rw_add_log es w) = rw_header w"
  by (simp_all add: rw_set_header_def rw_add_log_def)

lemma canon_Content_Type: "canon_key ''Content-Type'' = ''Content-Type''"
  by code_simp

text \<open>A status line that is sent takes the headers as they are; nothing later changes them.\<close>

definition sent_now :: "rw \<Rightarrow> bool" where
  "sent_now w \<longleftrightarrow> (case rw_sent w of None \<Rightarrow> True | Some (c, h) \<Rightarrow> h = rw_header w)"

lemma sent_now_unsent: "rw_sent w = None \<Longrightarrow> sent_now w"
  by (simp add: sent_now_def)

lemma sent_now_header: "sent_now w \<Longrightarrow> rw_sent_header w = rw_header w"
  by (auto simp: sent_now_def rw_sent_header_def split: option.splits)

lemma sent_now_WriteHeader:
  "sent_now w \<Longrightarrow> WriteHeader c w = Ret w' \<Longrightarrow> sent_now w' \<and> rw_header w' = rw_header w"
  by (cases "rw_sent w") (auto simp: WriteHeader_def sent_now_def split: if_splits)

lemma sent_now_Write:
  "sent_now w \<Longrightarrow> sent_now (fst (Write d w)) \<and> rw_header (fst (Write d w)) = rw_header w"
  by (cases "rw_sent w") (auto simp: sent_now_def http_simps)

lemma WriteHeader_Ret: "200 \<le> c \<Longrightarrow> c \<le> 999 \<Longrightarrow> WriteHeader c w \<noteq> Panic"
  by (simp add: WriteHeader_panic_iff)

lemma device_status_range: "device_status d \<Longrightarrow> 200 \<le> d \<and> d \<le> 999 \<and> body_allowed d"
  by (auto simp: device_status_def body_allowed_def)

lemma outcome_bind_Panic_iff:
  "outcome_bind m f = Panic \<longleftrightarrow> m = Panic \<or> (\<exists>a. m = Ret a \<and> f a = Panic)"
  by (cases m) auto

section \<open>The three branches of encodeResponse\<close>

text \<open>The writer with the forwarded headers and the transaction id, before any write.\<close>

definition prepared :: "libs \<Rightarrow> reqctx \<Rightarrow> rw \<Rightarrow> XmidtResponse \<Rightarrow> rw" where
  "prepared L ctx w x =
     rw_set_header (lb_TIDHeader L) (fst (getTID L ctx))
       (rw_add_log (snd (getTID L ctx))
         (w\<lparr>rw_header := ForwardHeadersByPrefix [] (xr_ForwardedHeaders x) (rw_header w)\<rparr>))"

lemma prepared_frames [simp]:
  "rw_sent (prepared L ctx w x) = rw_sent w" "rw_body (prepared L ctx w x) = rw_body w"
  "rw_write_err (prepared L ctx w x) = rw_write_err w"
  by (simp_all add: prepared_def)

lemma prepared_TID:
  "map_of (rw_header (prepared L ctx w x)) (canon_key (lb_TIDHeader L)) = Some [fst (getTID L ctx)]"
  by (simp add: prepared_def http_simps)

lemma encodeResponse_empty:
  assumes "body_bytes (xr_Body x) = []" "xr_Code x = 200"
  shows "\<exists>es. encodeResponse L ctx w (Some x) =
    outcome_bind (WriteHeader 200 (rw_add_log es (prepared L ctx w x))) (\<lambda>w'. Ret (w', None))"
  using assms
  by (cases "getTID L ctx")
    (auto simp: encodeResponse_def prepared_def Let_def
      intro!: exI [of _ "[log_with (cx_Logger ctx) LvWarn ''sending 200 with an empty body'' []]"]
      simp: rw_set_header_def rw_add_log_def)

lemma encodeResponse_forward:
  assumes "xr_Code x \<noteq> 200"
  shows "encodeResponse L ctx w (Some x) =
    outcome_bind (WriteHeader (xr_Code x) (prepared L ctx w x))
      (\<lambda>w'. Ret (Write (body_bytes (xr_Body x)) w'))"
  using assms by (cases "getTID L ctx") (simp add: encodeResponse_def prepared_def Let_def)

lemma encodeResponse_undecodable:
  assumes "xr_Code x = 200" "body_bytes (xr_Body x) \<noteq> []" "lb_WrpDecode L (body_bytes (xr_Body x)) = Inl e"
  shows "encodeResponse L ctx w (Some x) = Ret (prepared L ctx w x, Some e)"
  using assms by (cases "getTID L ctx") (simp add: encodeResponse_def prepared_def Let_def)

lemma encodeResponse_device_reply:
  assumes "xr_Code x = 200" "body_bytes (xr_Body x) \<noteq> []" "lb_WrpDecode L (body_bytes (xr_Body x)) = Inr m"
  shows "encodeResponse L ctx w (Some x) =
    (let w3 = rw_set_header ''Content-Type'' ''application/json'' (prepared L ctx w x)
     in outcome_bind
          (case decode_statusCode (wm_Payload m) of
             Some d \<Rightarrow> if device_status d then WriteHeader d w3 else Ret w3
           | None \<Rightarrow> Ret w3)
          (\<lambda>w4. Ret (Write (wm_Payload m) w4)))"
  using assms by (cases "getTID L ctx") (simp add: encodeResponse_def prepared_def Let_def)

lemma encodeResponse_cases:
  obtains (empty) "body_bytes (xr_Body x) = []" "xr_Code x = 200"
  | (forward) "xr_Code x \<noteq> 200"
  | (undecodable) e where "xr_Code x = 200" "body_bytes (xr_Body x) \<noteq> []"
      "lb_WrpDecode L (body_bytes (xr_Body x)) = Inl e"
  | (reply) m where "xr_Code x = 200" "body_bytes (xr_Body x) \<noteq> []"
      "lb_WrpDecode L (body_bytes (xr_Body x)) = Inr m"
  by (cases "lb_WrpDecode L (body_bytes (xr_Body x))") blast+

lemma device_reply_Ret:
  "(case decode_statusCode p of Some d \<Rightarrow> if device_status d then WriteHeader d w else Ret w
    | None \<Rightarrow> Ret w) \<noteq> Panic"
  by (auto simp: WriteHeader_panic_iff dest: device_status_range split: option.splits)

lemma encodeResponse_panics:
  "encodeResponse L ctx w (Some x) = Panic \<longleftrightarrow>
     rw_sent w = None \<and> (xr_Code x < 100 \<or> 999 < xr_Code x)"
proof (cases rule: encodeResponse_cases [where x = x and L = L])
  case empty
  obtain es where "encodeResponse L ctx w (Some x) = outcome_bind
      (WriteHeader 200 (rw_add_log es (prepared L ctx w x))) (\<lambda>w'. Ret (w', None))"
    using encodeResponse_empty [OF empty] by blast
  with empty show ?thesis by (simp add: outcome_bind_Panic_iff WriteHeader_panic_iff)
next
  case forward
  then show ?thesis
    by (simp add: encodeResponse_forward outcome_bind_Panic_iff WriteHeader_panic_iff)
next
  case (undecodable e)
  then show ?thesis by (simp add: encodeResponse_undecodable)
next
  case (reply m)
  then show ?thesis
    by (simp add: encodeResponse_device_reply Let_def outcome_bind_Panic_iff device_reply_Ret
        del: option.case_distrib)
qed

lemma sent_now_ops:
  "rw_sent w = None \<Longrightarrow> sent_now (rw_set_header k v w)"
  "sent_now w \<Longrightarrow> sent_now (rw_add_log es w)"
  "rw_sent w = None \<Longrightarrow> sent_now (prepared L ctx w x)"
  by (auto simp: sent_now_def split: option.splits)

lemma encodeResponse_TID_header:
  assumes "rw_sent w = None" "canon_key (lb_TIDHeader L) \<noteq> ''Content-Type''"
    and enc: "encodeResponse L ctx w (Some x) = Ret (w', e)"
  shows "sent_now w' \<and> map_of (rw_header w') (canon_key (lb_TIDHeader L)) = Some [fst (getTID L ctx)]"
proof -
  let ?p = "prepared L ctx w x"
  have p: "sent_now ?p" using assms(1) by (rule sent_now_ops)
  have keep: "sent_now v \<and> rw_header v = rw_header ?p
      \<Longrightarrow> sent_now v \<and> map_of (rw_header v) (canon_key (lb_TIDHeader L)) = Some [fst (getTID L ctx)]" for v
    using prepared_TID by simp
  show ?thesis
  proof (cases rule: encodeResponse_cases [where x = x and L = L])
    case empty
    obtain es where "encodeResponse L ctx w (Some x) =
        outcome_bind (WriteHeader 200 (rw_add_log es ?p)) (\<lambda>w'. Ret (w', None))"
      using encodeResponse_empty [OF empty] by blast
    with enc have "WriteHeader 200 (rw_add_log es ?p) = Ret w'" by (simp add: outcome_bind_Ret_iff)
    from sent_now_WriteHeader [OF sent_now_ops(2) [OF p] this] show ?thesis by (intro keep) simp
  next
    case forward
    with enc obtain v where v: "WriteHeader (xr_Code x) ?p = Ret v"
      and w': "w' = fst (Write (body_bytes (xr_Body x)) v)"
      by (auto simp: encodeResponse_forward outcome_bind_Ret_iff dest: arg_cong [where f = fst])
    from sent_now_WriteHeader [OF p v] sent_now_Write [of v] w' show ?thesis by (intro keep) simp
  next
    case (undecodable e)
    with enc p show ?thesis by (intro keep) (simp add: encodeResponse_undecodable)
  next
    case (reply m)
    let ?c = "rw_set_header ''Content-Type'' ''application/json'' ?p"
    have c: "sent_now ?c" using assms(1) by (intro sent_now_ops) simp
    from reply enc obtain v where v: "(case decode_statusCode (wm_Payload m) of
          Some d \<Rightarrow> if device_status d then WriteHeader d ?c else Ret ?c | None \<Rightarrow> Ret ?c) = Ret v"
      and "Write (wm_Payload m) v = (w', e)"
      by (simp add: encodeResponse_device_reply Let_def outcome_bind_Ret_iff) blast
    then have w': "w' = fst (Write (wm_Payload m) v)" by simp
    from v have v: "v = ?c \<or> (\<exists>d. WriteHeader d ?c = Ret v)"
      by (auto split: option.splits if_splits)
    from v c sent_now_WriteHeader have "sent_now v \<and> rw_header v = rw_header ?c" by blast
    with sent_now_Write [of v] w' have "sent_now w' \<and> rw_header w' = rw_header ?c" by simp
    with assms(2) show ?thesis by (simp add: map_of_rw_set_header canon_Content_Type prepared_TID)
  qed
qed

section \<open>Error replies\<close>

lemma json_message_parses:
  "json_parse (json_message m) = Some (JObj [(''message'', JStr (to_valid_utf8 m))])"
proof -
  have "to_valid_utf8 ''message'' = ''message''" by (rule to_valid_utf8_ascii) simp
  then show ?thesis
    unfolding json_message_def
    by (subst json_parse_print_tail)
      (simp_all add: max_nesting_def stops_separators skip_ws_def is_ws_def)
qed

definition replied_error :: "libs \<Rightarrow> reqctx \<Rightarrow> int \<Rightarrow> string \<Rightarrow> rw \<Rightarrow> rw" where
  "replied_error L ctx code text w =
     (let h = hdr_set (lb_TIDHeader L) (fst (getTID L ctx))
                (hdr_set ''Content-Type'' ''application/json'' (rw_header w))
      in (rw_add_log (snd (getTID L ctx)) w)
           \<lparr>rw_header := h, rw_sent := Some (code, h), rw_body := rw_body w @ json_message text\<rparr>)"

lemma encodeError_sends:
  assumes "rw_sent w = None" "rw_write_err w = None"
    and "200 \<le> code" "code \<le> 999" "body_allowed code"
    and "case err_StatusCode e of Some c \<Rightarrow> code = c \<and> text = err_Error e
         | None \<Rightarrow> code = 500 \<and> text = err_Error ErrTr1d1umInternal"
  shows "encodeError L ctx e w = Ret (replied_error L ctx code text w)"
  using assms
  by (cases "getTID L ctx"; cases "err_StatusCode e")
    (simp_all add: encodeError_def Let_def WriteHeader_def Write_def rw_set_header_def rw_add_log_def
      replied_error_def json_message_def)

lemma replied_error_facts [simp]:
  "rw_status (replied_error L ctx c t w) = Some c"
  "rw_body (replied_error L ctx c t w) = rw_body w @ json_message t"
  by (simp_all add: replied_error_def rw_status_def Let_def)

section \<open>Properties of the encoders\<close>

text \<open>
  \<open>encodeResponse\<close> crashes its request in exactly two situations: the service returned a
  nil response, or XMiDT answered with a status code that \<open>net/http\<close> refuses to write
  (outside 100 to 999) while nothing was sent yet.
\<close>

theorem encodeResponse_panics_iff:
  "encodeResponse L ctx w response = Panic \<longleftrightarrow>
     (case response of
        None \<Rightarrow> True
      | Some x \<Rightarrow> rw_sent w = None \<and> (xr_Code x < 100 \<or> 999 < xr_Code x))"
  by (cases response) (simp_all add: encodeResponse_panics, simp add: encodeResponse_def)

text \<open>
  C7. A 200 answer of XMiDT with a decodable body is unwrapped: the client gets the device's
  payload as JSON, and the status the device reports in \<open>statusCode\<close> where that is 403 or
  between 520 and 599, and 200 otherwise (also when the payload is no JSON object at all).
\<close>

theorem encodeResponse_device_status:
  assumes "rw_sent w = None" "xr_Code x = 200" "body_bytes (xr_Body x) \<noteq> []"
    and "lb_WrpDecode L (body_bytes (xr_Body x)) = Inr m"
  shows "\<exists>w' e. encodeResponse L ctx w (Some x) = Ret (w', e)
    \<and> rw_status w' = Some (case decode_statusCode (wm_Payload m) of
        None \<Rightarrow> 200
      | Some d \<Rightarrow> if d = 403 \<or> (520 \<le> d \<and> d \<le> 599) then d else 200)
    \<and> hdr_get (rw_sent_header w') ''Content-Type'' = ''application/json''
    \<and> (rw_write_err w = None \<longrightarrow> e = None \<and> rw_body w' = rw_body w @ wm_Payload m)"
proof -
  let ?c = "rw_set_header ''Content-Type'' ''application/json'' (prepared L ctx w x)"
  let ?d = "case decode_statusCode (wm_Payload m) of None \<Rightarrow> 200
      | Some d \<Rightarrow> if d = 403 \<or> (520 \<le> d \<and> d \<le> 599) then d else 200"
  define v where "v = ?c\<lparr>rw_sent := Some (?d, rw_header ?c)\<rparr>"
  have enc: "encodeResponse L ctx w (Some x) = Ret (Write (wm_Payload m) v)"
  proof (cases "\<exists>d. decode_statusCode (wm_Payload m) = Some d \<and> device_status d")
    case True
    then obtain d where d: "decode_statusCode (wm_Payload m) = Some d" "device_status d" by blast
    then have "WriteHeader d ?c = Ret v"
      using assms(1) device_status_range [OF d(2)] by (simp add: v_def http_simps device_status_def)
    with d assms show ?thesis by (simp add: encodeResponse_device_reply Let_def)
  next
    case False
    then have d: "?d = 200" by (auto simp: device_status_def split: option.splits)
    have "Write (wm_Payload m) ?c = Write (wm_Payload m) v"
      using assms(1) by (simp add: Write_def v_def d body_allowed_def Let_def split: option.splits)
    with False assms show ?thesis
      by (auto simp: encodeResponse_device_reply Let_def split: option.splits)
  qed
  have "body_allowed ?d" by (auto simp: body_allowed_def split: option.splits)
  moreover have "rw_sent v = Some (?d, rw_header ?c)" by (simp add: v_def)
  moreover have "hdr_get (rw_header ?c) ''Content-Type'' = ''application/json''"
    by (simp add: rw_set_header_def)
  moreover have "rw_body v = rw_body w" "rw_write_err v = rw_write_err w" by (simp_all add: v_def)
  moreover obtain w' e where W: "Write (wm_Payload m) v = (w', e)" by fastforce
  moreover have "rw_sent w' = rw_sent v" using Write_sent [of v "wm_Payload m"] W by (simp add: v_def)
  ultimately show ?thesis
    unfolding enc using Write_ok [of v ?d "rw_header ?c" "wm_Payload m"]
    by (simp add: rw_status_def rw_sent_header_def)
qed

text \<open>The witnesses below run the encoders on one response and one context.\<close>

definition demo_ctx :: reqctx where
  "demo_ctx = background\<lparr>cx_RequestTID := Some ''tid-1''\<rparr>"

definition demo_response :: "int \<Rightarrow> bytes \<Rightarrow> XmidtResponse" where
  "demo_response c b = \<lparr>xr_Code = c, xr_ForwardedHeaders = [], xr_Body = Some b\<rparr>"

theorem encodeResponse_device_status_witness:
  "\<exists>w' e. encodeResponse demo_libs demo_ctx new_rw
      (Some (demo_response 200 (dq ''{`statusCode`:531}''))) = Ret (w', e) \<and> rw_status w' = Some 531"
proof -
  have "decode_statusCode (dq ''{`statusCode`:531}'') = Some 531" by code_simp
  then show ?thesis
    using encodeResponse_device_status [of new_rw "demo_response 200 (dq ''{`statusCode`:531}'')" demo_libs
        "demo_wrp (dq ''{`statusCode`:531}'')" demo_ctx]
    by (auto simp: new_rw_def demo_response_def demo_libs_def demo_wrp_def body_bytes_def dq_def)
qed

text \<open>
  C29. Every response that \<open>encodeResponse\<close> writes, on every branch, carries exactly one
  transaction id header, the id of this request: whatever XMiDT sent under that name is
  replaced, and nothing is added after the status line is out.
\<close>

theorem encodeResponse_one_tid:
  assumes "rw_sent w = None" "canon_key (lb_TIDHeader L) \<noteq> ''Content-Type''"
    and "encodeResponse L ctx w (Some x) = Ret (w', e)"
  shows "map_of (rw_sent_header w') (canon_key (lb_TIDHeader L)) = Some [fst (getTID L ctx)]"
  using encodeResponse_TID_header [OF assms] by (simp add: sent_now_header)

theorem encodeResponse_one_tid_witness:
  "\<exists>w' e. encodeResponse demo_libs demo_ctx new_rw
       (Some ((demo_response 404 [])\<lparr>xr_ForwardedHeaders := [(''X-Webpa-Transaction-Id'', [''a'', ''b''])]\<rparr>))
       = Ret (w', e)
     \<and> map_of (rw_sent_header w') ''X-Webpa-Transaction-Id'' = Some [''tid-1'']"
proof -
  let ?x = "(demo_response 404 [])\<lparr>xr_ForwardedHeaders := [(''X-Webpa-Transaction-Id'', [''a'', ''b''])]\<rparr>"
  have key: "canon_key (lb_TIDHeader demo_libs) = ''X-Webpa-Transaction-Id''" by code_simp
  have "encodeResponse demo_libs demo_ctx new_rw (Some ?x) \<noteq> Panic"
    by (simp add: encodeResponse_panics demo_response_def)
  then obtain w' e where enc: "encodeResponse demo_libs demo_ctx new_rw (Some ?x) = Ret (w', e)"
    by (cases "encodeResponse demo_libs demo_ctx new_rw (Some ?x)") auto
  have "map_of (rw_sent_header w') (canon_key (lb_TIDHeader demo_libs)) = Some [fst (getTID demo_libs demo_ctx)]"
    by (rule encodeResponse_one_tid [OF _ _ enc]) (simp_all add: key new_rw_def)
  with enc show ?thesis by (auto simp: key getTID_def demo_ctx_def)
qed

text \<open>
  C22. What is internal stays internal: any two errors without a status code produce the same
  reply, byte for byte and header for header, which is status 500 with the generic message.
\<close>

theorem encodeError_masks:
  assumes "err_StatusCode e = None" "err_StatusCode e' = None"
    and "rw_sent w = None" "rw_write_err w = None" "rw_body w = []"
  shows "encodeError L ctx e w = encodeError L ctx e' w
    \<and> (\<exists>w'. encodeError L ctx e w = Ret w' \<and> rw_status w' = Some 500
         \<and> json_parse (rw_body w')
           = Some (JObj [(''message'', JStr ''oops! Something unexpected went wrong in this service'')]))"
proof -
  have valid: "to_valid_utf8 (err_Error ErrTr1d1umInternal) = err_Error ErrTr1d1umInternal"
    by (rule to_valid_utf8_ascii) (simp add: ErrTr1d1umInternal_def)
  have "encodeError L ctx d w = Ret (replied_error L ctx 500 (err_Error ErrTr1d1umInternal) w)"
    if "err_StatusCode d = None" for d
    using assms(3,4) that by (intro encodeError_sends) (simp_all add: body_allowed_def)
  with assms show ?thesis
    by (simp add: json_message_parses valid) (simp add: ErrTr1d1umInternal_def)
qed

theorem encodeError_masks_witness:
  "encodeError demo_libs demo_ctx (ErrNew ''dial tcp 10.0.0.1'') new_rw
   = encodeError demo_libs demo_ctx (ErrNew ''secret'') new_rw"
  using encodeError_masks [of "ErrNew ''dial tcp 10.0.0.1''" "ErrNew ''secret''" new_rw demo_libs demo_ctx]
  by (simp add: new_rw_def)

text \<open>
  An error with a status code is shown as it is: that status, and a JSON body that reads
  back as the error's own text (up to invalid UTF-8), as \<open>application/json\<close>.
\<close>

theorem encodeError_coded:
  assumes "err_StatusCode e = Some c" "200 \<le> c" "c \<le> 999" "c \<noteq> 204" "c \<noteq> 304"
    and "rw_sent w = None" "rw_write_err w = None" "rw_body w = []"
    and "canon_key (lb_TIDHeader L) \<noteq> ''Content-Type''"
  shows "\<exists>w'. encodeError L ctx e w = Ret w' \<and> rw_status w' = Some c
    \<and> hdr_get (rw_sent_header w') ''Content-Type'' = ''application/json''
    \<and> hdr_get (rw_sent_header w') (lb_TIDHeader L) = fst (getTID L ctx)
    \<and> json_parse (rw_body w') = Some (JObj [(''message'', JStr (to_valid_utf8 (err_Error e)))])"
proof -
  have "encodeError L ctx e w = Ret (replied_error L ctx c (err_Error e) w)"
    using assms by (intro encodeError_sends) (simp_all add: body_allowed_def)
  with assms(8,9) show ?thesis
    by (simp add: json_message_parses)
      (simp add: replied_error_def Let_def rw_sent_header_def hdr_get_set_other canon_Content_Type)
qed

theorem encodeError_coded_witness:
  "\<exists>w'. encodeError demo_libs demo_ctx ErrEmptyNames new_rw = Ret w' \<and> rw_status w' = Some 400"
proof -
  have key: "canon_key (lb_TIDHeader demo_libs) = ''X-Webpa-Transaction-Id''" by code_simp
  show ?thesis
    using encodeError_coded [of ErrEmptyNames 400 new_rw demo_libs demo_ctx]
    by (auto simp: new_rw_def ErrEmptyNames_def key)
qed

section \<open>Decoding\<close>

lemma requestSetPayload_errors:
  assumes "requestSetPayload L b n old c = Inl e"
  shows "err_StatusCode e = Some 400 \<or> bd_err b = Some e"
  using assms
  by (auto simp: requestSetPayload_def ReadAll_def dest: loadWDMP_errors
      split: option.splits sum.splits)

lemma requestPayload_errors:
  assumes "requestPayload L r = Inl e"
  shows "err_StatusCode e = Some 400
    \<or> (rq_Method r \<in> {''PATCH'', ''PUT''} \<and> bd_err (rq_Body r) = Some e)"
proof -
  have set400: "err_StatusCode e = Some 400 \<or> bd_err (rq_Body r) = Some e"
    if "rq_Method r = ''PATCH''"
    using assms that requestSetPayload_errors by (auto simp: requestPayload_def)
  show ?thesis
    using assms set400
    by (auto simp: requestPayload_def requestGetPayload_def requestAddPayload_def
        requestReplacePayload_def requestDeletePayload_def ReadAll_def translation_errors Let_def
        split: if_splits option.splits)
qed

lemma wrap_errors: "wrap L p t v ids hs = Inl e \<Longrightarrow> err_StatusCode e = Some 400"
  by (auto simp: wrap_def Let_def split: sum.splits)

lemma decodeRequest_Inr:
  assumes "decodeRequest L ctx r = Inr q"
  obtains payload d where "requestPayload L r = Inr payload"
    "lb_ParseDeviceID L (mux_var r ''deviceid'') = Inr d"
    "q = \<lparr>wr_WRPMessage =
            \<lparr>wm_Type = lb_SimpleRequestResponse L, wm_Source = [],
             wm_Destination = d @ ''/'' @ mux_var r ''service'',
             wm_TransactionUUID = fst (getTID L ctx), wm_Payload = payload,
             wm_PartnerIDs = getPartnerIDsDecodeRequest L ctx r, wm_Headers = trace_headers r\<rparr>,
          wr_AuthHeaderValue = hdr_get (rq_Header r) ''Authorization''\<rparr>"
  using assms by (auto simp: decodeRequest_def wrap_def mux_var_def Let_def split: sum.splits)

lemma decodeRequest_errors:
  assumes "decodeRequest L ctx r = Inl e"
  shows "err_StatusCode e = Some 400
    \<or> (rq_Method r \<in> {''PATCH'', ''PUT''} \<and> bd_err (rq_Body r) = Some e)"
  using assms requestPayload_errors wrap_errors
  by (auto simp: decodeRequest_def Let_def split: sum.splits)

lemma capture_body:
  assumes "captureWDMPParameters L ctx r = Ret (ctx', r')" "rq_Method r = ''PATCH''"
  shows "rq_Method r' = ''PATCH'' \<and> bd_err (rq_Body r') = None"
  using assms
  by (auto simp: captureWDMPParameters_def ReadAll_def Let_def outcome_bind_Ret_iff split: sum.splits)

text \<open>
  A request that cannot be decoded is the client's fault: the error carries status 400.
  The one exception is an error met while reading the body of a PUT or PATCH, which is passed
  on as it is (POST turns it into a 400).
\<close>

theorem decodeRequest_client_errors:
  assumes "decodeRequest L ctx r = Inl e"
  shows "err_StatusCode e = Some 400
    \<or> (rq_Method r \<in> {''PATCH'', ''PUT''} \<and> bd_err (rq_Body r) = Some e)"
  using assms by (rule decodeRequest_errors)

theorem decodeRequest_client_errors_witness:
  "\<exists>e. decodeRequest demo_libs demo_ctx (demo_request ''GET'' [] None) = Inl e
     \<and> err_StatusCode e = Some 400"
proof -
  have "decodeRequest demo_libs demo_ctx (demo_request ''GET'' [] None) = Inl ErrEmptyNames"
    by (simp add: decodeRequest_def requestPayload_def requestGetPayload_def demo_request_def FormValue_def)
  from decodeRequest_client_errors [OF this] this show ?thesis by (auto simp: demo_request_def)
qed

text \<open>
  The server runs the log capture before the decoder. Behind it a PATCH can only fail
  with a 400: a body whose transfer broke off is decoded like a complete one, and what was
  received so far is sent to the device when it happens to be a valid message.
\<close>

theorem captured_patch_hides_read_errors:
  assumes "captureWDMPParameters L ctx r = Ret (ctx', r')" "rq_Method r = ''PATCH''"
  shows "(\<forall>e. decodeRequest L ctx' r' = Inl e \<longrightarrow> err_StatusCode e = Some 400)
    \<and> requestPayload L r' = requestPayload L (r\<lparr>rq_Body := (rq_Body r)\<lparr>bd_err := None\<rparr>\<rparr>)"
proof -
  have "r' = r\<lparr>rq_Body := \<lparr>bd_data = bd_data (rq_Body r), bd_err = None\<rparr>\<rparr>"
    using assms
    by (auto simp: captureWDMPParameters_def ReadAll_def Let_def outcome_bind_Ret_iff split: sum.splits)
  then show ?thesis
    using decodeRequest_errors capture_body [OF assms] by (cases "rq_Body r") fastforce
qed

theorem captured_patch_hides_read_errors_witness:
  "\<exists>ctx' r' p. captureWDMPParameters demo_libs demo_ctx
        (demo_request ''PATCH'' demo_patch (Some (ErrExt ''unexpected EOF'' None))) = Ret (ctx', r')
     \<and> requestPayload demo_libs r' = Inr p"
proof -
  let ?r = "demo_request ''PATCH'' demo_patch (Some (ErrExt ''unexpected EOF'' None))"
  obtain ctx' r' where c: "captureWDMPParameters demo_libs demo_ctx ?r = Ret (ctx', r')"
    using capture_returns [of demo_libs demo_ctx ?r]
    by (cases "captureWDMPParameters demo_libs demo_ctx ?r") auto
  have "requestPayload demo_libs (demo_request ''PATCH'' demo_patch None)
      = Inr (dq ''{`command`:`SET`,`parameters`:[{`name`:`p`,`dataType`:0,`value`:`v`}]}'')"
    by code_simp
  moreover have "requestPayload demo_libs r' = requestPayload demo_libs (demo_request ''PATCH'' demo_patch None)"
    using captured_patch_hides_read_errors [OF c] by (simp add: demo_request_def)
  ultimately have "requestPayload demo_libs r'
      = Inr (dq ''{`command`:`SET`,`parameters`:[{`name`:`p`,`dataType`:0,`value`:`v`}]}'')" by simp
  with c show ?thesis by (intro exI conjI)
qed



section \<open>Partner ids and credentials\<close>

text \<open>
  The partner ids of the headers: one for every comma-separated field of every header
  value (an empty value gives one empty id), each without commas and trimmed of white space.
\<close>

theorem getPartnerIDs_fields:
  "length (getPartnerIDs L h) = (case map_of h (lb_PartnerIdHeader L) of
       None \<Rightarrow> 0 | Some vs \<Rightarrow> sum_list (map (\<lambda>v. Suc (count_list v (CHR '',''))) vs))
   \<and> (\<forall>id \<in> set (getPartnerIDs L h). CHR '','' \<notin> set id \<and> trimmed id)"
proof -
  have "length (partner_fields vs) = sum_list (map (\<lambda>v. Suc (count_list v (CHR '',''))) vs)" for vs
    by (induction vs) (simp_all add: length_Split)
  moreover have "\<forall>id \<in> set (partner_fields vs). CHR '','' \<notin> set id \<and> trimmed id" for vs
  proof (induction vs)
    case (Cons v vs)
    have "CHR '','' \<notin> set (TrimSpace w)" if "w \<in> set (Split v (CHR '',''))" for w
      using Split_parts [OF that] set_TrimSpace [of w] by blast
    with Cons show ?case by (auto simp: trimmed_TrimSpace)
  qed simp
  ultimately show ?thesis by (simp add: getPartnerIDs_def split: option.split)
qed

theorem getPartnerIDs_fields_witness:
  "length (getPartnerIDs demo_libs [(''X-Xmidt-Partner-Id'', ['' a , b'', []])]) = 3"
  using getPartnerIDs_fields [of demo_libs "[(''X-Xmidt-Partner-Id'', ['' a , b'', []])]"]
  by (simp add: demo_libs_def)

text \<open>
  What goes out to XMiDT: a POST to the configured URL whose body is the encoded message
  with the service's own source, and whose Authorization header is the acquirer's whenever
  there is one, no matter what the client sent; without one it is the client's.
\<close>

theorem SendWRP_request:
  assumes "lb_WrpEncode L (m\<lparr>wm_Source := ts_wrpSource s\<rparr>) = Inr payload"
    and "lb_ParseURL L (ts_xmidtWrpURL s) = None"
    and "case ts_authAcquirer s of None \<Rightarrow> auth = client \<and> acq' = None
         | Some a \<Rightarrow> \<exists>a'. acquire a = (Inr auth, a') \<and> acq' = Some a'"
  shows "\<exists>req. SendWRP L acquire deadline s m client
        = (ts_transactor s req, s\<lparr>ts_authAcquirer := acq'\<rparr>)
    \<and> or_Method req = ''POST'' \<and> or_URL req = ts_xmidtWrpURL s \<and> or_Body req = payload
    \<and> or_Deadline req = deadline
    \<and> map_of (or_Header req) ''Authorization'' = Some [auth]
    \<and> map_of (or_Header req) ''Content-Type'' = Some [lb_MsgpackType L]"
proof -
  let ?h = "hdr_set ''Authorization'' auth (hdr_set ''Content-Type'' (lb_MsgpackType L) [])"
  have canon: "canon_key ''Authorization'' = ''Authorization''" "canon_key ''Content-Type'' = ''Content-Type''"
    by code_simp+
  have h: "map_of ?h ''Authorization'' = Some [auth]" "map_of ?h ''Content-Type'' = Some [lb_MsgpackType L]"
    by (simp_all add: map_of_hdr_set canon)
  have same: "s = s\<lparr>ts_authAcquirer := None\<rparr>" if "ts_authAcquirer s = None"
    using that by (cases s) simp
  show ?thesis
    using assms h same
    by (intro exI [of _ "\<lparr>or_Method = ''POST'', or_URL = ts_xmidtWrpURL s, or_Header = ?h,
          or_Body = payload, or_Deadline = deadline\<rparr>"], cases "ts_authAcquirer s")
      (auto simp: SendWRP_def Let_def)
qed

definition demo_service :: "T \<Rightarrow> AuthAcquirer option \<Rightarrow> AuthAcquirer translation_service" where
  "demo_service t a = translation_NewService
     \<lparr>to_XmidtWrpURL = ''http://xmidt/api/v3/device'', to_WRPSource = ''dns:tr1d1um'',
      to_AuthAcquirer = a, to_T = t\<rparr>"

definition demo_basic :: AuthAcquirer where
  "demo_basic = Basic \<lparr>ba_Username = [], ba_Password = [], ba_Token = ''Basic c2VjcmV0''\<rparr>"

definition demo_env :: jwt_env where
  "demo_env = \<lparr>je_check = 0, je_request = 0, je_store = 0,
               je_Do = (\<lambda>r. Inl (ErrExt ''connection refused'' None))\<rparr>"

definition demo_T :: T where
  "demo_T r = (Some (demo_response 200 (or_Body r)), None)"

theorem SendWRP_request_witness:
  "\<exists>req. SendWRP demo_libs (Acquire demo_libs demo_env) None (demo_service demo_T (Some demo_basic))
       (demo_wrp ''{}'') ''Basic client'' = (demo_T req, demo_service demo_T (Some demo_basic))
     \<and> map_of (or_Header req) ''Authorization'' = Some [''Basic c2VjcmV0'']"
proof -
  let ?s = "demo_service demo_T (Some demo_basic)"
  have acq: "Acquire demo_libs demo_env demo_basic = (Inr ''Basic c2VjcmV0'', demo_basic)"
    by (simp add: demo_basic_def BasicAcquirer_Acquire_def)
  have s: "ts_authAcquirer ?s = Some demo_basic" "ts_transactor ?s = demo_T"
    "?s\<lparr>ts_authAcquirer := Some demo_basic\<rparr> = ?s"
    by (simp_all add: demo_service_def translation_NewService_def)
  have "lb_WrpEncode demo_libs ((demo_wrp ''{}'')\<lparr>wm_Source := ts_wrpSource ?s\<rparr>) = Inr ''{}''"
    "lb_ParseURL demo_libs (ts_xmidtWrpURL ?s) = None"
    by (simp_all add: demo_libs_def demo_wrp_def demo_service_def translation_NewService_def)
  from SendWRP_request [OF this, where auth = "''Basic c2VjcmV0''" and client = "''Basic client''"
      and acquire = "Acquire demo_libs demo_env" and acq' = "Some demo_basic" and deadline = None] acq s
  show ?thesis by (auto simp del: Acquire.simps)
qed

end
