(* ===== verification/Stat.thy ===== *)
theory Stat
  imports Translation_Props
begin

text \<open>
  Package \<open>stat\<close> (stat/transport.go, endpoint.go, service.go): decoding a request for device
  statistics, asking XMiDT for them, and forwarding the answer. Names that package
  \<open>translation\<close> also uses have the prefix \<open>stat_\<close>.
\<close>

section \<open>The code\<close>

record statRequest =
  st_DeviceID :: string
  st_AuthHeaderValue :: string

definition errResponseIsNil :: goerror where
  "errResponseIsNil = ErrNew ''response is nil''"

definition stat_decodeRequest :: "libs \<Rightarrow> reqctx \<Rightarrow> http_request \<Rightarrow> goerror + statRequest" where
  "stat_decodeRequest L ctx r =
     (case lb_ParseDeviceID L (mux_var r ''deviceid'') of
        Inr deviceID \<Rightarrow>
          Inr \<lparr>st_DeviceID = deviceID, st_AuthHeaderValue = hdr_get (rq_Header r) ''Authorization''\<rparr>
      | Inl err \<Rightarrow> Inl (NewBadRequestError err))"

text \<open>The transaction id of the context; its absence is not logged here.\<close>

definition stat_TID :: "reqctx \<Rightarrow> string" where
  "stat_TID ctx = (case cx_RequestTID ctx of None \<Rightarrow> [] | Some t \<Rightarrow> t)"

definition stat_encodeError :: "libs \<Rightarrow> error_encoder" where
  "stat_encodeError L ctx err w =
     (let w1 = rw_set_header ''Content-Type'' ''application/json'' w;
          w2 = rw_set_header (lb_TIDHeader L) (stat_TID ctx) w1;
          (code, err') = (case err_StatusCode err of
                            Some c \<Rightarrow> (c, err)
                          | None \<Rightarrow> (500, ErrTr1d1umInternal))
      in outcome_bind (WriteHeader code w2)
           (\<lambda>w3. Ret (fst (Write (json_message (err_Error err')) w3))))"

definition stat_encodeResponse ::
  "libs \<Rightarrow> reqctx \<Rightarrow> rw \<Rightarrow> XmidtResponse option \<Rightarrow> (rw \<times> goerror option) outcome" where
  "stat_encodeResponse L ctx w response =
     (case response of
        None \<Rightarrow> Ret (w, Some errResponseIsNil)
      | Some resp \<Rightarrow>
          (case xr_Body resp of
             None \<Rightarrow> Ret (w, Some errResponseIsNil)
           | Some body \<Rightarrow>
               (let w1 = (if xr_Code resp = 200
                          then rw_set_header ''Content-Type'' ''application/json'' w
                          else w\<lparr>rw_header := hdr_del ''Content-Type'' (rw_header w)\<rparr>);
                    w2 = rw_set_header (lb_TIDHeader L) (stat_TID ctx) w1;
                    w3 = w2\<lparr>rw_header := ForwardHeadersByPrefix [] (xr_ForwardedHeaders resp) (rw_header w2)\<rparr>
                in outcome_bind (WriteHeader (xr_Code resp) w3) (\<lambda>w4. Ret (Write body w4)))))"

record 's stat_service =
  ss_transactor :: T
  ss_authAcquirer :: "'s option"
  ss_xmidtStatURL :: string

record 's stat_ServiceOptions =
  so_XmidtStatURL :: string
  so_AuthAcquirer :: "'s option"
  so_HTTPTransactor :: T

definition stat_NewService :: "'s stat_ServiceOptions \<Rightarrow> 's stat_service" where
  "stat_NewService opts =
     \<lparr>ss_transactor = so_HTTPTransactor opts, ss_authAcquirer = so_AuthAcquirer opts,
      ss_xmidtStatURL = so_XmidtStatURL opts\<rparr>"

definition device_variable :: string where
  "device_variable = ''${device}''"

definition RequestStat ::
  "libs \<Rightarrow> 's acquire \<Rightarrow> int option \<Rightarrow> 's stat_service \<Rightarrow> string \<Rightarrow> string
     \<Rightarrow> (XmidtResponse option \<times> goerror option) \<times> 's stat_service" where
  "RequestStat L acquire deadline s authHeaderValue deviceID =
     (let url = Replace1 (ss_xmidtStatURL s) device_variable deviceID in
      case lb_ParseURL L url of
        Some err \<Rightarrow> ((None, Some err), s)
      | None \<Rightarrow>
          (let send = (\<lambda>auth. ss_transactor s
                 \<lparr>or_Method = ''GET'', or_URL = url, or_Header = hdr_set ''Authorization'' auth [],
                  or_Body = [], or_Deadline = deadline\<rparr>)
           in case ss_authAcquirer s of
                None \<Rightarrow> (send authHeaderValue, s)
              | Some a \<Rightarrow>
                  (case acquire a of
                     (Inl err, a') \<Rightarrow> ((None, Some err), s\<lparr>ss_authAcquirer := Some a'\<rparr>)
                   | (Inr auth, a') \<Rightarrow> (send auth, s\<lparr>ss_authAcquirer := Some a'\<rparr>))))"

definition makeStatEndpoint ::
  "libs \<Rightarrow> 's acquire \<Rightarrow> int option \<Rightarrow> reqctx \<Rightarrow> statRequest \<Rightarrow> 's stat_service
     \<Rightarrow> (XmidtResponse option \<times> goerror option) \<times> 's stat_service" where
  "makeStatEndpoint L acquire deadline ctx statReq s =
     RequestStat L acquire deadline s (st_AuthHeaderValue statReq) (st_DeviceID statReq)"

section \<open>Facts\<close>

lemma device_variable_props:
  "device_variable \<noteq> []" "hd device_variable = CHR ''$''"
  by (simp_all add: device_variable_def)

text \<open>A base URL without a dollar sign keeps the variable where the template put it.\<close>

lemma stat_url:
  assumes "CHR ''$'' \<notin> set target"
  shows "Replace1 (target @ ''/device/${device}/stat'') device_variable d = target @ ''/device/'' @ d @ ''/stat''"
proof -
  define a where "a = target @ ''/device/''"
  have a: "CHR ''$'' \<notin> set a" using assms by (simp add: a_def)
  have "\<not> prefix device_variable (drop i (a @ device_variable @ ''/stat''))" if i: "i < length a" for i
  proof -
    obtain x xs where x: "drop i a = x # xs" using i by (cases "drop i a") auto
    then have "x \<in> set a" by (metis in_set_dropD list.set_intros(1))
    with a have "x \<noteq> CHR ''$''" by metis
    with x i show ?thesis by (simp add: device_variable_def)
  qed
  then have "Replace1 (a @ device_variable @ ''/stat'') device_variable d = a @ d @ ''/stat''"
    by (intro Replace1_at) (simp_all add: device_variable_def)
  then show ?thesis by (simp add: a_def device_variable_def)
qed

lemma stat_encodeError_sends:
  assumes "rw_sent w = None" "rw_write_err w = None"
    and "200 \<le> code" "code \<le> 999" "body_allowed code"
    and "case err_StatusCode e of Some c \<Rightarrow> code = c \<and> text = err_Error e
         | None \<Rightarrow> code = 500 \<and> text = err_Error ErrTr1d1umInternal"
  shows "\<exists>w'. stat_encodeError L ctx e w = Ret w' \<and> rw_status w' = Some code
    \<and> rw_body w' = rw_body w @ json_message text"
  using assms
  by (cases "err_StatusCode e")
    (simp_all add: stat_encodeError_def Let_def WriteHeader_def Write_def rw_set_header_def rw_status_def)

lemma stat_encodeResponse_Some:
  assumes "xr_Body x = Some body"
  shows "\<exists>w3. stat_encodeResponse L ctx w (Some x)
      = outcome_bind (WriteHeader (xr_Code x) w3) (\<lambda>w4. Ret (Write body w4))
    \<and> rw_sent w3 = rw_sent w \<and> rw_write_err w3 = rw_write_err w \<and> rw_body w3 = rw_body w
    \<and> rw_header w3 = ForwardHeadersByPrefix [] (xr_ForwardedHeaders x)
        (hdr_set (lb_TIDHeader L) (stat_TID ctx)
          (if xr_Code x = 200 then hdr_set ''Content-Type'' ''application/json'' (rw_header w)
           else hdr_del ''Content-Type'' (rw_header w)))"
  using assms by (auto simp: stat_encodeResponse_def Let_def rw_set_header_def)

lemma not_X_Content_Type: "\<not> prefix ''X'' ''Content-Type''"
  by simp

section \<open>Properties\<close>

text \<open>
  With the URL template the program configures, a statistics request goes by GET to the
  device's own path below the target (which must not contain a dollar sign), with the
  acquirer's credentials when there is one and the client's otherwise.
\<close>

theorem RequestStat_request:
  assumes "ss_xmidtStatURL s = target @ ''/device/${device}/stat''" "CHR ''$'' \<notin> set target"
    and "lb_ParseURL L (target @ ''/device/'' @ d @ ''/stat'') = None"
    and "case ss_authAcquirer s of None \<Rightarrow> auth = client \<and> acq' = None
         | Some a \<Rightarrow> \<exists>a'. acquire a = (Inr auth, a') \<and> acq' = Some a'"
  shows "\<exists>req. RequestStat L acquire deadline s client d
        = (ss_transactor s req, s\<lparr>ss_authAcquirer := acq'\<rparr>)
    \<and> or_Method req = ''GET'' \<and> or_URL req = target @ ''/device/'' @ d @ ''/stat''
    \<and> or_Body req = [] \<and> or_Header req = [(''Authorization'', [auth])]"
proof -
  have h: "hdr_set ''Authorization'' auth [] = [(''Authorization'', [auth])]" by code_simp
  have same: "s = s\<lparr>ss_authAcquirer := None\<rparr>" if "ss_authAcquirer s = None"
    using that by (cases s) simp
  show ?thesis
    using assms(1,3,4) h same stat_url [OF assms(2), of d]
    by (intro exI [of _ "\<lparr>or_Method = ''GET'', or_URL = target @ ''/device/'' @ d @ ''/stat'',
          or_Header = [(''Authorization'', [auth])], or_Body = [], or_Deadline = deadline\<rparr>"],
        cases "ss_authAcquirer s")
      (auto simp: RequestStat_def Let_def)
qed

definition demo_stat :: "T \<Rightarrow> AuthAcquirer option \<Rightarrow> AuthAcquirer stat_service" where
  "demo_stat t a = stat_NewService
     \<lparr>so_XmidtStatURL = ''http://xmidt'' @ ''/device/${device}/stat'', so_AuthAcquirer = a,
      so_HTTPTransactor = t\<rparr>"

theorem RequestStat_request_witness:
  "\<exists>req. RequestStat demo_libs (Acquire demo_libs demo_env) None (demo_stat demo_T None)
       ''Bearer client'' ''mac:112233445566'' = (demo_T req, demo_stat demo_T None)
     \<and> or_URL req = ''http://xmidt/device/mac:112233445566/stat''
     \<and> or_Header req = [(''Authorization'', [''Bearer client''])]"
proof -
  let ?s = "demo_stat demo_T None"
  have s: "ss_authAcquirer ?s = None" "ss_transactor ?s = demo_T" "?s\<lparr>ss_authAcquirer := None\<rparr> = ?s"
    "ss_xmidtStatURL ?s = ''http://xmidt'' @ ''/device/${device}/stat''"
    by (simp_all add: demo_stat_def stat_NewService_def)
  have "lb_ParseURL demo_libs (''http://xmidt'' @ ''/device/'' @ ''mac:112233445566'' @ ''/stat'') = None"
    by (simp add: demo_libs_def)
  from RequestStat_request [OF s(4) _ this, where auth = "''Bearer client''" and client = "''Bearer client''"
      and acquire = "Acquire demo_libs demo_env" and acq' = None and deadline = None] s(1-3)
  show ?thesis by (auto simp del: Acquire.simps)
qed

text \<open>
  The statistics encoder forwards any answer with a body: the status and every byte, with
  Content-Type \<open>application/json\<close> for status 200 and none otherwise (forwarded headers start
  with X, so they never bring one). The transaction id of the request comes first under its
  header name, but ids that XMiDT sent under that name stay behind it, so a client may see
  several.
\<close>

theorem stat_encodeResponse_forwards:
  assumes "rw_sent w = None" "rw_write_err w = None" "rw_header w = []"
    and "200 \<le> xr_Code x" "xr_Code x \<le> 999" "body_allowed (xr_Code x)" "xr_Body x = Some body"
    and "hdr_wf (xr_ForwardedHeaders x)"
    and "\<forall>k \<in> set (map fst (xr_ForwardedHeaders x)). prefix ''X'' k"
    and "prefix ''X'' (canon_key (lb_TIDHeader L))"
  shows "\<exists>w'. stat_encodeResponse L ctx w (Some x) = Ret (w', None)
    \<and> rw_status w' = Some (xr_Code x) \<and> rw_body w' = rw_body w @ body
    \<and> hdr_values (rw_sent_header w') ''Content-Type''
        = (if xr_Code x = 200 then [''application/json''] else [])
    \<and> hdr_values (rw_sent_header w') (canon_key (lb_TIDHeader L))
        = stat_TID ctx # hdr_values (xr_ForwardedHeaders x) (canon_key (lb_TIDHeader L))"
proof -
  define h where "h = hdr_set (lb_TIDHeader L) (stat_TID ctx)
    (if xr_Code x = 200 then hdr_set ''Content-Type'' ''application/json'' [] else hdr_del ''Content-Type'' [])"
  let ?f = "ForwardHeadersByPrefix [] (xr_ForwardedHeaders x) h"
  obtain w3 where enc: "stat_encodeResponse L ctx w (Some x)
      = outcome_bind (WriteHeader (xr_Code x) w3) (\<lambda>w4. Ret (Write body w4))"
    and w3: "rw_sent w3 = None" "rw_write_err w3 = None" "rw_body w3 = rw_body w" "rw_header w3 = ?f"
    using stat_encodeResponse_Some [OF assms(7), of L ctx w] assms(1-3) unfolding h_def by auto
  let ?w = "w3\<lparr>rw_sent := Some (xr_Code x, ?f), rw_body := rw_body w @ body\<rparr>"
  have ret: "stat_encodeResponse L ctx w (Some x) = Ret (?w, None)"
    using assms(4-6) w3 by (simp add: enc http_simps Write_ok)
  have vals: "hdr_values ?f k = hdr_values h k @ hdr_values (xr_ForwardedHeaders x) k" for k
    using map_of_Forward [OF assms(8), of "[]" h k]
    by (auto simp: hdr_values_def forwarded_def split: option.splits)
  have "hdr_values (xr_ForwardedHeaders x) ''Content-Type'' = []"
    using assms(9) not_X_Content_Type by (force simp: hdr_values_def dest: map_of_SomeD split: option.split)
  moreover have "canon_key (lb_TIDHeader L) \<noteq> ''Content-Type''" using assms(10) by auto
  then have "hdr_values h ''Content-Type'' = (if xr_Code x = 200 then [''application/json''] else [])"
    "hdr_values h (canon_key (lb_TIDHeader L)) = [stat_TID ctx]"
    by (simp_all add: h_def hdr_values_def http_simps canon_Content_Type)
  ultimately show ?thesis
    using ret vals by (simp add: rw_status_def rw_sent_header_def)
qed

theorem stat_encodeResponse_forwards_witness:
  "\<exists>w'. stat_encodeResponse demo_libs demo_ctx new_rw
      (Some ((demo_response 200 ''{}'')\<lparr>xr_ForwardedHeaders := [(''X-Webpa-Transaction-Id'', [''up''])]\<rparr>))
      = Ret (w', None)
     \<and> hdr_values (rw_sent_header w') ''X-Webpa-Transaction-Id'' = [''tid-1'', ''up'']"
proof -
  let ?x = "(demo_response 200 ''{}'')\<lparr>xr_ForwardedHeaders := [(''X-Webpa-Transaction-Id'', [''up''])]\<rparr>"
  have key: "canon_key (lb_TIDHeader demo_libs) = ''X-Webpa-Transaction-Id''" by code_simp
  have "hdr_wf (xr_ForwardedHeaders ?x)" by code_simp
  from stat_encodeResponse_forwards [of new_rw ?x "''{}''" demo_libs demo_ctx] this
  show ?thesis
    by (auto simp: key new_rw_def demo_response_def body_allowed_def stat_TID_def demo_ctx_def
        hdr_values_def)
qed

text \<open>
  Against the real transactor the nil checks of the statistics encoder never fire: what a
  successful \<open>RequestStat\<close> returns has a body, so the client is sent XMiDT's own status
  (where that is one that ends a response).
\<close>

theorem stat_response_has_body:
  assumes "ss_transactor s = Transact t now" "rw_sent w = None"
    and "RequestStat L acquire deadline s client d = ((x, None), s')"
  shows "\<exists>resp b. x = Some resp \<and> xr_Body resp = Some b
    \<and> (200 \<le> xr_Code resp \<and> xr_Code resp \<le> 999 \<longrightarrow>
        (\<exists>w' e. stat_encodeResponse L ctx w x = Ret (w', e) \<and> rw_status w' = Some (xr_Code resp)))"
proof -
  obtain req where req: "Transact t now req = (x, None)"
    using assms by (auto simp: RequestStat_def Let_def split: option.splits sum.splits prod.splits)
  then obtain resp where x: "x = Some resp" using xmidt.no_silent_failure [of t now req] by (cases x) auto
  with req obtain b where b: "xr_Body resp = Some b" using xmidt.success_body by blast
  obtain w3 where enc: "stat_encodeResponse L ctx w (Some resp)
      = outcome_bind (WriteHeader (xr_Code resp) w3) (\<lambda>w4. Ret (Write b w4))"
    and w3: "rw_sent w3 = rw_sent w"
    using stat_encodeResponse_Some [OF b] by blast
  have "\<exists>w' e. stat_encodeResponse L ctx w x = Ret (w', e) \<and> rw_status w' = Some (xr_Code resp)"
    if "200 \<le> xr_Code resp" "xr_Code resp \<le> 999"
  proof -
    let ?w = "w3\<lparr>rw_sent := Some (xr_Code resp, rw_header w3)\<rparr>"
    have "stat_encodeResponse L ctx w x = Ret (Write b ?w)"
      using that assms(2) w3 by (simp add: enc x http_simps)
    moreover have "rw_status (fst (Write b ?w)) = Some (xr_Code resp)"
      by (simp add: rw_status_def http_simps)
    ultimately show ?thesis by (cases "Write b ?w") auto
  qed
  with x b show ?thesis by blast
qed

theorem stat_response_has_body_witness:
  "\<exists>x s'. RequestStat demo_libs (Acquire demo_libs demo_env) None
       (demo_stat (Transact \<lparr>tr_RequestTimeout = 5, tr_Do = (\<lambda>r. Inr \<lparr>rs_StatusCode = 200, rs_Header = [],
          rs_Body = \<lparr>bd_data = [], bd_err = None\<rparr>\<rparr>)\<rparr> 0) None) [] ''d'' = ((x, None), s')
     \<and> (\<exists>resp. x = Some resp \<and> xr_Body resp \<noteq> None)"
proof -
  let ?t = "\<lparr>tr_RequestTimeout = 5, tr_Do = (\<lambda>r :: out_request. Inr \<lparr>rs_StatusCode = 200, rs_Header = [],
          rs_Body = \<lparr>bd_data = [], bd_err = None\<rparr>\<rparr>)\<rparr>"
  let ?s = "demo_stat (Transact ?t 0) None"
  have tr: "ss_transactor ?s = Transact ?t 0" by (simp add: demo_stat_def stat_NewService_def)
  have "\<exists>x s'. RequestStat demo_libs (Acquire demo_libs demo_env) None ?s [] ''d'' = ((x, None), s')"
    by (simp add: RequestStat_def demo_stat_def stat_NewService_def demo_libs_def Transact_def ReadAll_def
        device_variable_def Let_def)
  then obtain x s' where r: "RequestStat demo_libs (Acquire demo_libs demo_env) None ?s [] ''d'' = ((x, None), s')"
    by blast
  have "rw_sent new_rw = None" by (simp add: new_rw_def)
  from stat_response_has_body [OF tr this r] obtain resp b where "x = Some resp" "xr_Body resp = Some b"
    by blast
  with r show ?thesis by (intro exI conjI) auto
qed

end
