(* ===== verification/Transaction_Props.thy ===== *)
theory Transaction_Props
  imports Middleware Auth_Acquirer
begin

text \<open>
  What package \<open>transaction\<close> promises: the headers and errors a transaction hands on, ids that
  do not collide, the log fields \<open>Welcome\<close> adds, the response log, and the lifetime of a
  cached token, with the overflow of its expiry.
\<close>

section \<open>The transaction\<close>

lemma forwarded_values:
  assumes "hdr_wf hs"
  shows "hdr_values (ForwardHeadersByPrefix p hs []) k = (if prefix p k then hdr_values hs k else [])"
  using map_of_Forward [OF assms, of p "[]" k]
  by (auto simp: hdr_values_def forwarded_def split: option.splits)

text \<open>
  C24. An answered transaction passes on the status and every byte of the body, and of the
  headers exactly those whose name starts with X, each with all its values in order; an error
  met while reading the body comes with the response, not instead of it. The request that was
  sent has a deadline no later than the configured timeout, and no later than its own.
\<close>

theorem Transact_answer:
  assumes "tr_Do t (r\<lparr>or_Deadline := WithTimeout now (tr_RequestTimeout t) (or_Deadline r)\<rparr>) = Inr resp"
    and "hdr_wf (rs_Header resp)"
  shows "\<exists>x d. Transact t now r = (Some x, bd_err (rs_Body resp))
    \<and> xr_Code x = rs_StatusCode resp \<and> xr_Body x = Some (bd_data (rs_Body resp))
    \<and> (\<forall>k. hdr_values (xr_ForwardedHeaders x) k
          = (if prefix ''X'' k then hdr_values (rs_Header resp) k else []))
    \<and> WithTimeout now (tr_RequestTimeout t) (or_Deadline r) = Some d
    \<and> d \<le> now + tr_RequestTimeout t
    \<and> (case or_Deadline r of None \<Rightarrow> True | Some d' \<Rightarrow> d \<le> d')"
proof -
  have "\<exists>d. WithTimeout now (tr_RequestTimeout t) (or_Deadline r) = Some d
      \<and> d \<le> now + tr_RequestTimeout t \<and> (case or_Deadline r of None \<Rightarrow> True | Some d' \<Rightarrow> d \<le> d')"
    by (auto simp: WithTimeout_def split: option.split)
  with assms show ?thesis
    by (simp add: Transact_def ReadAll_def forwarded_values)
qed

definition demo_out :: out_request where
  "demo_out = \<lparr>or_Method = ''POST'', or_URL = ''http://xmidt'', or_Header = [], or_Body = ''b'',
               or_Deadline = None\<rparr>"

definition demo_resp :: http_response where
  "demo_resp = \<lparr>rs_StatusCode = 200,
     rs_Header = [(''X-A'', [''1'', ''2'']), (''Server'', [''s''])],
     rs_Body = \<lparr>bd_data = ''ok'', bd_err = None\<rparr>\<rparr>"

theorem Transact_answer_witness:
  "\<exists>x. Transact \<lparr>tr_RequestTimeout = 5, tr_Do = (\<lambda>r. Inr demo_resp)\<rparr> 10 demo_out = (Some x, None)
     \<and> hdr_values (xr_ForwardedHeaders x) ''X-A'' = [''1'', ''2'']
     \<and> hdr_values (xr_ForwardedHeaders x) ''Server'' = []"
proof -
  let ?t = "\<lparr>tr_RequestTimeout = 5, tr_Do = (\<lambda>r :: out_request. Inr demo_resp)\<rparr>"
  have wf: "hdr_wf (rs_Header demo_resp)" by code_simp
  obtain x where x: "Transact ?t 10 demo_out = (Some x, bd_err (rs_Body demo_resp))"
    and v: "\<forall>k. hdr_values (xr_ForwardedHeaders x) k
      = (if prefix ''X'' k then hdr_values (rs_Header demo_resp) k else [])"
    using Transact_answer [where t = ?t and r = demo_out and now = 10 and resp = demo_resp] wf by auto
  from v have "hdr_values (xr_ForwardedHeaders x) ''X-A'' = [''1'', ''2'']"
    "hdr_values (xr_ForwardedHeaders x) ''Server'' = []"
    by (auto simp: demo_resp_def hdr_values_def)
  with x show ?thesis by (auto simp: demo_resp_def)
qed

text \<open>
  C23. A transaction that gets no response always says so: it fails with an error that carries
  status 503 and the text of the cause, and a response and its absence never go unexplained.
\<close>

theorem Transact_failure_503:
  "Transact t now r \<noteq> (None, None)
   \<and> (\<forall>e. tr_Do t (r\<lparr>or_Deadline := WithTimeout now (tr_RequestTimeout t) (or_Deadline r)\<rparr>) = Inl e \<longrightarrow>
        (\<exists>e'. Transact t now r = (None, Some e') \<and> err_StatusCode e' = Some 503
              \<and> err_Error e' = err_Error e))"
  using xmidt.no_silent_failure [of t now r] by (simp add: Transact_def)

theorem Transact_failure_503_witness:
  "\<exists>e'. Transact \<lparr>tr_RequestTimeout = 5, tr_Do = (\<lambda>r. Inl (ErrNew ''timeout''))\<rparr> 10 demo_out
          = (None, Some e') \<and> err_StatusCode e' = Some 503"
  using Transact_failure_503 [of "\<lparr>tr_RequestTimeout = 5, tr_Do = (\<lambda>r. Inl (ErrNew ''timeout''))\<rparr>" 10 demo_out]
  by auto

text \<open>
  The result of forwarding does not depend on the order in which the source map is
  visited, which Go leaves open: two orders of the same header give the same lookups.
\<close>

theorem ForwardHeaders_order_free:
  assumes "hdr_wf from" "hdr_wf from'" "set from = set from'"
  shows "map_of (ForwardHeadersByPrefix p from to) = map_of (ForwardHeadersByPrefix p from' to)"
proof
  fix k
  have "map_of from = map_of from'"
    using assms by (intro map_of_eqI) (auto simp: hdr_wf_def map_of_inject_set)
  then show "map_of (ForwardHeadersByPrefix p from to) k = map_of (ForwardHeadersByPrefix p from' to) k"
    using assms(1,2) by (simp add: map_of_Forward forwarded_def hdr_values_def)
qed

theorem ForwardHeaders_order_free_witness:
  "map_of (ForwardHeadersByPrefix ''X'' [(''X-A'', [''1'']), (''X-B'', [''2''])] [])
   = map_of (ForwardHeadersByPrefix ''X'' [(''X-B'', [''2'']), (''X-A'', [''1''])] [])"
proof (rule ForwardHeaders_order_free)
  show "hdr_wf [(''X-A'', [''1'']), (''X-B'', [''2''])]" by code_simp
  show "hdr_wf [(''X-B'', [''2'']), (''X-A'', [''1''])]" by code_simp
qed auto

section \<open>Welcome\<close>

definition fp_suffix :: "FingerprintConfig \<Rightarrow> string \<Rightarrow> string" where
  "fp_suffix cfg token =
     (if fc_LastNDigits cfg > 0 \<and> int (length token) \<ge> fc_LastNDigits cfg
      then drop (nat (int (length token) - fc_LastNDigits cfg)) token else [])"

definition fp_sha :: "libs \<Rightarrow> FingerprintConfig \<Rightarrow> string \<Rightarrow> string" where
  "fp_sha L cfg token = (if fc_SHA256 cfg then hex_encode (lb_Sha256 L token) else [])"

lemma addBearerFingerprint_eq:
  "addBearerFingerprintToLog L ctx r cfg =
     (if (\<not> fc_SHA256 cfg \<and> fc_LastNDigits cfg \<le> 0) \<or> bearerToken r = []
         \<or> (fp_suffix cfg (bearerToken r) = [] \<and> fp_sha L cfg (bearerToken r) = []) then ctx
      else ctx\<lparr>cx_Logger := cx_Logger ctx @ [(''bearerFingerprint'', LObj (MarshalLogObject
             \<lparr>bf_Suffix = fp_suffix cfg (bearerToken r), bf_SHA = fp_sha L cfg (bearerToken r)\<rparr>))]\<rparr>)"
  unfolding addBearerFingerprintToLog_def Let_def fp_suffix_def [symmetric] fp_sha_def [symmetric]
  by simp

lemma fingerprint_fields:
  "\<exists>fs. addBearerFingerprintToLog L ctx r cfg = ctx\<lparr>cx_Logger := cx_Logger ctx @ fs\<rparr>
     \<and> set (map fst fs) \<subseteq> {''bearerFingerprint''} \<and> length fs \<le> 1
     \<and> (bearerToken r = [] \<or> \<not> fc_SHA256 cfg \<and> fc_LastNDigits cfg \<le> 0 \<longrightarrow> fs = [])"
proof -
  have "addBearerFingerprintToLog L ctx r cfg = ctx\<lparr>cx_Logger := cx_Logger ctx @ []\<rparr>
    \<or> bearerToken r \<noteq> [] \<and> (fc_SHA256 cfg \<or> 0 < fc_LastNDigits cfg) \<and>
      (\<exists>v. addBearerFingerprintToLog L ctx r cfg
         = ctx\<lparr>cx_Logger := cx_Logger ctx @ [(''bearerFingerprint'', v)]\<rparr>)"
    unfolding addBearerFingerprint_eq by (simp add: linorder_not_le) blast
  then show ?thesis
  proof (elim disjE conjE exE)
    assume "addBearerFingerprintToLog L ctx r cfg = ctx\<lparr>cx_Logger := cx_Logger ctx @ []\<rparr>"
    then show ?thesis by (intro exI [of _ "[]"]) simp
  next
    fix v
    assume "addBearerFingerprintToLog L ctx r cfg
        = ctx\<lparr>cx_Logger := cx_Logger ctx @ [(''bearerFingerprint'', v)]\<rparr>" "bearerToken r \<noteq> []"
      "0 < fc_LastNDigits cfg"
    then show ?thesis by (intro exI [of _ "[(''bearerFingerprint'', v)]"]) simp
  next
    fix v
    assume "addBearerFingerprintToLog L ctx r cfg
        = ctx\<lparr>cx_Logger := cx_Logger ctx @ [(''bearerFingerprint'', v)]\<rparr>" "bearerToken r \<noteq> []"
      "fc_SHA256 cfg"
    then show ?thesis by (intro exI [of _ "[(''bearerFingerprint'', v)]"]) simp
  qed
qed

text \<open>
  \<open>Welcome\<close> hands the request and the writer on untouched, exactly once, in a context
  whose transaction id is the client's header if it is not empty and a generated id otherwise,
  whose arrival time is set, and whose logger gained the device id and at most one fingerprint
  field (none when the client has no bearer token or fingerprints are switched off). Token,
  trace and response headers of the context stay as they are.
\<close>

theorem Welcome_context:
  "\<exists>fs. Welcome L cfg rnd now delegate ctx r w
      = delegate (ctx\<lparr>cx_RequestTID := Some (if hdr_get (rq_Header r) (lb_TIDHeader L) = [] then genTID rnd
                                              else hdr_get (rq_Header r) (lb_TIDHeader L)),
                      cx_RequestArrivalTime := Some now,
                      cx_Logger := cx_Logger ctx @ [(''deviceid'', LStr (getDeviceId L r))] @ fs\<rparr>) r w
    \<and> set (map fst fs) \<subseteq> {''bearerFingerprint''} \<and> length fs \<le> 1
    \<and> (bearerToken r = [] \<or> \<not> fc_SHA256 cfg \<and> fc_LastNDigits cfg \<le> 0 \<longrightarrow> fs = [])"
proof -
  let ?c = "addDeviceIdToLog L (ctx\<lparr>cx_RequestTID := Some (if hdr_get (rq_Header r) (lb_TIDHeader L) = [] then genTID rnd
      else hdr_get (rq_Header r) (lb_TIDHeader L)), cx_RequestArrivalTime := Some now\<rparr>) r"
  obtain fs where "addBearerFingerprintToLog L ?c r cfg = ?c\<lparr>cx_Logger := cx_Logger ?c @ fs\<rparr>"
    "set (map fst fs) \<subseteq> {''bearerFingerprint''}" "length fs \<le> 1"
    "bearerToken r = [] \<or> \<not> fc_SHA256 cfg \<and> fc_LastNDigits cfg \<le> 0 \<longrightarrow> fs = []"
    using fingerprint_fields [of L ?c r cfg] by blast
  then show ?thesis
    by (intro exI [of _ fs]) (simp add: Welcome_def addDeviceIdToLog_def Let_def)
qed

theorem Welcome_context_witness:
  "Welcome demo_libs \<lparr>fc_SHA256 = False, fc_LastNDigits = 0\<rparr> (Inr (replicate 16 (CHR 0x00))) 7
      (\<lambda>ctx r w. cx_RequestTID ctx) background
      \<lparr>rq_Method = ''GET'', rq_Header = [(''X-Webpa-Transaction-Id'', [''abc''])],
       rq_Body = \<lparr>bd_data = [], bd_err = None\<rparr>, rq_Form = [], rq_Vars = None\<rparr> new_rw = Some ''abc''"
proof -
  let ?r = "\<lparr>rq_Method = ''GET'', rq_Header = [(''X-Webpa-Transaction-Id'', [''abc''])],
       rq_Body = \<lparr>bd_data = [], bd_err = None\<rparr>, rq_Form = [], rq_Vars = None\<rparr>"
  have "hdr_get (rq_Header ?r) (lb_TIDHeader demo_libs) = ''abc''" by code_simp
  then show ?thesis
    using Welcome_context [of demo_libs "\<lparr>fc_SHA256 = False, fc_LastNDigits = 0\<rparr>"
        "Inr (replicate 16 (CHR 0x00))" 7 "\<lambda>ctx r w. cx_RequestTID ctx" background ?r new_rw]
    by auto
qed

text \<open>
  The fingerprint field shows of a bearer token its last \<open>LastNDigits\<close> bytes and the hex
  SHA-256, each only when configured: the suffix is really a suffix of that length, so it is
  the whole token exactly when the token is that long, and a shorter token shows none.
\<close>

theorem fingerprint_suffix:
  "addBearerFingerprintToLog L ctx r cfg = ctx
   \<or> (\<exists>sfx sha. addBearerFingerprintToLog L ctx r cfg = ctx\<lparr>cx_Logger := cx_Logger ctx @
          [(''bearerFingerprint'', LObj (MarshalLogObject \<lparr>bf_Suffix = sfx, bf_SHA = sha\<rparr>))]\<rparr>
      \<and> suffix sfx (bearerToken r)
      \<and> int (length sfx) = (if int (length (bearerToken r)) < fc_LastNDigits cfg then 0
                            else max 0 (fc_LastNDigits cfg))
      \<and> sha = (if fc_SHA256 cfg then hex_encode (lb_Sha256 L (bearerToken r)) else []))"
proof -
  have "suffix (fp_suffix cfg (bearerToken r)) (bearerToken r)"
    by (simp add: fp_suffix_def suffix_drop)
  moreover have "int (length (fp_suffix cfg (bearerToken r)))
      = (if int (length (bearerToken r)) < fc_LastNDigits cfg then 0 else max 0 (fc_LastNDigits cfg))"
    by (simp add: fp_suffix_def)
  ultimately show ?thesis
    unfolding addBearerFingerprint_eq by (auto simp: fp_sha_def)
qed

text \<open>
  Generated transaction ids do not collide: sixteen random bytes give 22 characters of the
  URL-safe alphabet, and different bytes give different ids. When the random source fails
  the id is empty (and not \<open>N/A\<close>).
\<close>

theorem genTID_distinct:
  assumes "length b = 16" "length b' = 16"
  shows "length (genTID (Inr b)) = 22
    \<and> (genTID (Inr b) = genTID (Inr b') \<longleftrightarrow> b = b')
    \<and> set (genTID (Inr b)) \<subseteq> set b64_alphabet
    \<and> genTID (Inl e) = []"
proof -
  have chars: "b64_char n \<in> set b64_alphabet" for n
    by (simp add: b64_char_def b64_alphabet_length)
  have "set (b64url s) \<subseteq> set b64_alphabet" for s
    by (induction s rule: b64url.induct) (simp_all add: chars)
  with assms b64url_inj [of b b'] show ?thesis by (auto simp: genTID_def length_b64url)
qed

theorem genTID_distinct_witness:
  "length (genTID (Inr (replicate 16 (CHR 0x00)))) = 22"
  using genTID_distinct [of "replicate 16 (CHR 0x00)" "replicate 16 (CHR 0x00)"] by simp

section \<open>The response log\<close>

text \<open>
  The response log has its condition the wrong way round. When \<open>Welcome\<close> recorded the
  arrival time (and no trace is active), \<open>Log\<close> writes the error \<open>Request arrival not capture\<close>
  first and its response entry has no duration; without an arrival time there is no such
  error, and the duration is counted from the zero time, which is the largest duration for
  every clock reading after the year 293.
\<close>

theorem Log_condition_inverted:
  assumes "cx_Trace ctx = None" "2 ^ 63 - 1 \<le> now - zero_time"
  shows "Log L codes (ctx\<lparr>cx_RequestArrivalTime := Some t\<rparr>) code now
      = [log_with (cx_Logger ctx) LvError ''Request arrival not capture for logger''
           [(''tid'', LStr (case cx_RequestTID ctx of Some i \<Rightarrow> i | None \<Rightarrow> []))],
         log_with (cx_Logger ctx) LvInfo ''response'' [(''response'', response_value
           \<lparr>re_Code = code, re_Headers = if code \<in> set codes then None else cx_ResponseHeaders ctx\<rparr>)]]
    \<and> Log L codes (ctx\<lparr>cx_RequestArrivalTime := None\<rparr>) code now
      = [log_with (cx_Logger ctx @ [(''duration'', LInt (2 ^ 63 - 1))]) LvInfo ''response''
           [(''response'', response_value
           \<lparr>re_Code = code, re_Headers = if code \<in> set codes then None else cx_ResponseHeaders ctx\<rparr>)]]"
  using assms by (simp add: Log_def Let_def include_headers_iff time_Since_def log_with_def)

theorem Log_condition_inverted_witness:
  "Log demo_libs [] (background\<lparr>cx_RequestArrivalTime := Some 5\<rparr>) 200 9
   = [log_with [] LvError ''Request arrival not capture for logger'' [(''tid'', LStr [])],
      log_with [] LvInfo ''response'' [(''response'', LObj [(''code'', LInt 200)])]]"
  using Log_condition_inverted [of background 9 demo_libs "[]" 5 200]
  by (simp add: background_def zero_time_def response_value_def)

lemma Request_MarshalJSON_None: "Request_MarshalJSON compact re \<noteq> Some b"
proof
  assume "Request_MarshalJSON compact re = Some b"
  then show False
    by (rule Request_MarshalJSON.raw_induct [where P = "\<lambda>_ _ _. False", rotated])
      (auto simp: bind_eq_Some_conv)
qed

lemma response_MarshalJSON_None: "response_MarshalJSON compact rs \<noteq> Some b"
proof
  assume "response_MarshalJSON compact rs = Some b"
  then show False
    by (rule response_MarshalJSON.raw_induct [where P = "\<lambda>_ _ _. False", rotated])
      (auto simp: bind_eq_Some_conv)
qed


section \<open>Cached tokens\<close>

text \<open>
  \<open>JwtAcquirer.Acquire\<close> succeeds exactly when a token is cached that has not expired, or
  the endpoint can be asked and answers 200 with a JSON object that has a non-empty
  \<open>access_token\<close>; the header it hands out is that token behind the scheme. On every failure
  the acquirer is unchanged, and on a cache hit the endpoint is not asked.
\<close>

theorem JwtAcquirer_result:
  "JwtAcquirer_Acquire L env j =
     (if ja_token j \<noteq> [] \<and> je_check env < ja_expiry j
      then (Inr (lb_SchemeBearer L @ '' '' @ ja_token j), j)
      else case fetch_token L env (ja_Config j) of
        Inl e \<Rightarrow> (Inl e, j)
      | Inr t \<Rightarrow> (Inr (lb_SchemeBearer L @ '' '' @ tq_AccessToken t), store_token (je_store env) t j))
   \<and> ((\<exists>t. fetch_token L env (ja_Config j) = Inr t) \<longleftrightarrow>
        lb_ParseURL L (jo_AuthURL (ja_Config j)) = None
        \<and> (\<exists>resp t. je_Do env (token_request env (ja_Config j)) = Inr resp \<and> rs_StatusCode resp = 200
             \<and> decode_token (bd_data (rs_Body resp)) = Some t \<and> tq_AccessToken t \<noteq> []))"
proof
  show "JwtAcquirer_Acquire L env j =
     (if ja_token j \<noteq> [] \<and> je_check env < ja_expiry j
      then (Inr (lb_SchemeBearer L @ '' '' @ ja_token j), j)
      else case fetch_token L env (ja_Config j) of
        Inl e \<Rightarrow> (Inl e, j)
      | Inr t \<Rightarrow> (Inr (lb_SchemeBearer L @ '' '' @ tq_AccessToken t), store_token (je_store env) t j))"
    by (cases rule: Jwt_cases [of env j L]) (auto simp: cached_def bearer_def)
  show "(\<exists>t. fetch_token L env (ja_Config j) = Inr t) \<longleftrightarrow>
        lb_ParseURL L (jo_AuthURL (ja_Config j)) = None
        \<and> (\<exists>resp t. je_Do env (token_request env (ja_Config j)) = Inr resp \<and> rs_StatusCode resp = 200
             \<and> decode_token (bd_data (rs_Body resp)) = Some t \<and> tq_AccessToken t \<noteq> [])"
    by (auto simp: fetch_token_def Let_def split: option.splits sum.splits if_splits)
qed

text \<open>
  C17. After a fetch whose \<open>expires_in\<close> is at most 9223372036 seconds and with a buffer that is
  not negative, the token is reused exactly until \<open>expires_in\<close> minus the buffer after the
  instant it was stored, whatever the endpoint would answer meanwhile.
\<close>

theorem cached_until_expiry:
  assumes "0 < tq_ExpiresIn t" "tq_ExpiresIn t \<le> 9223372036" "0 \<le> sint (jo_Buffer (ja_Config j))"
    and "tq_AccessToken t \<noteq> []" "j' = store_token now t j"
    and "je_check env < now + tq_ExpiresIn t * 1000000000 - sint (jo_Buffer (ja_Config j))"
  shows "JwtAcquirer_Acquire L env j' = (Inr (bearer L (tq_AccessToken t)), j')
    \<and> (\<forall>env'. now + tq_ExpiresIn t * 1000000000 - sint (jo_Buffer (ja_Config j)) \<le> je_check env'
         \<longrightarrow> \<not> cached (je_check env') j')"
proof -
  have exp: "ja_expiry j' = now + tq_ExpiresIn t * 1000000000 - sint (jo_Buffer (ja_Config j))"
    using assms(1-3,5) by (simp add: store_token_def token_expiry_exact)
  then have "cached (je_check env) j'" using assms(4-6) by (simp add: cached_def store_token_def)
  then show ?thesis
    using exp assms(5) by (auto simp: acq_simps store_token_def cached_def)
qed

definition demo_config :: RemoteBearerTokenAcquirerOptions where
  "demo_config = \<lparr>jo_AuthURL = ''http://auth'', jo_Timeout = 1000000000, jo_Buffer = 1000000000\<rparr>"

definition demo_token :: "int \<Rightarrow> token_response" where
  "demo_token e = \<lparr>tq_AccessToken = ''tok'', tq_TokenType = [], tq_ExpiresIn = e\<rparr>"

theorem cached_until_expiry_witness:
  "fst (JwtAcquirer_Acquire demo_libs
      \<lparr>je_check = 1500000000, je_request = 0, je_store = 0, je_Do = (\<lambda>r. Inl ErrTr1d1umInternal)\<rparr>
      (store_token 0 (demo_token 3) (new_JwtAcquirer demo_config))) = Inr ''Bearer tok''"
proof -
  let ?env = "\<lparr>je_check = 1500000000, je_request = 0, je_store = 0, je_Do = (\<lambda>r :: out_request. Inl ErrTr1d1umInternal)\<rparr>"
  let ?j = "new_JwtAcquirer demo_config"
  have t: "tq_ExpiresIn (demo_token 3) = 3" "tq_AccessToken (demo_token 3) = ''tok''"
    "sint (jo_Buffer (ja_Config ?j)) = 1000000000"
    by (simp_all add: demo_token_def new_JwtAcquirer_def demo_config_def)
  have "bearer demo_libs ''tok'' = ''Bearer tok''" by (simp add: bearer_def demo_libs_def)
  moreover have "JwtAcquirer_Acquire demo_libs ?env (store_token 0 (demo_token 3) ?j)
      = (Inr (bearer demo_libs (tq_AccessToken (demo_token 3))), store_token 0 (demo_token 3) ?j)"
    by (rule cached_until_expiry [where j = ?j and now = 0, THEN conjunct1]) (simp_all add: t)
  ultimately show ?thesis by (simp only: t fst_conv)
qed

text \<open>
  A longer \<open>expires_in\<close>, up to 18446744073 seconds, overflows the 64-bit duration: the
  expiry of the token just fetched lies in the past, so it is never reused and every request
  goes to the token endpoint.
\<close>

theorem expires_in_overflow:
  assumes "9223372037 \<le> tq_ExpiresIn t" "tq_ExpiresIn t \<le> 18446744073"
    and "0 \<le> sint (jo_Buffer (ja_Config j))" "now \<le> je_check env"
  shows "\<not> cached (je_check env) (store_token now t j)
    \<and> ja_expiry (store_token now t j) < now"
proof -
  let ?e = "tq_ExpiresIn t"
  have "sint (word_of_int ?e * 1000000000 :: duration) = ?e * 1000000000 - 2 ^ 64"
  proof -
    have "signed_take_bit 63 (?e * 1000000000) = signed_take_bit 63 (?e * 1000000000 - 2 ^ 64)"
      by (rule signed_take_bit_eq_iff_take_bit_eq [THEN iffD2])
        (simp add: take_bit_eq_mod mod_diff_eq)
    also have "\<dots> = ?e * 1000000000 - 2 ^ 64"
      using assms(1,2) by (intro signed_take_bit_int_eq_self) auto
    finally show ?thesis by (simp add: sint_seconds_wrap)
  qed
  then have "ja_expiry (store_token now t j) < now"
    using assms(1-3) by (simp add: store_token_def token_expiry_def sint_minus_duration)
  with assms(4) show ?thesis by (simp add: cached_def)
qed

theorem expires_in_overflow_witness:
  "\<not> cached 0 (store_token 0 (demo_token 10000000000) (new_JwtAcquirer demo_config))"
  using expires_in_overflow [of "demo_token 10000000000" "new_JwtAcquirer demo_config" 0
      "\<lparr>je_check = 0, je_request = 0, je_store = 0, je_Do = (\<lambda>r. Inl ErrTr1d1umInternal)\<rparr>"]
  by (simp add: demo_token_def new_JwtAcquirer_def demo_config_def)

end
