(* ===== verification/Services.thy ===== *)
theory Services
  imports Http_Server Stat Transaction_Props
begin

text \<open>
  The two services behind go-kit: \<open>ConfigHandler\<close> of translation/transport.go and of
  stat/transport.go (what runs before, between and after, and under which routes), and what a
  client gets from a request as a whole: an abstract verdict on the request, and the proof
  that the composed handlers send exactly the reply the verdict stands for.
\<close>

section \<open>The handlers as they are configured\<close>

text \<open>A route of the router: its path template, its methods (all when \<open>None\<close>), its handler.\<close>

record 'o route =
  rt_template :: string
  rt_methods :: "string list option"
  rt_handler :: "'o handler"

text \<open>\<open>sallust.Get\<close> gives the logger of the context, or a default one: never nil.\<close>

definition sallust_Get :: "reqctx \<Rightarrow> log_fields option" where
  "sallust_Get ctx = Some (cx_Logger ctx)"

text \<open>
  What the outside gives while one request is served: the random bytes, the clock at arrival
  and at the end, the deadline of the incoming context.
\<close>

record serve_env =
  se_rand :: "goerror + bytes"
  se_arrival :: int
  se_finish :: int
  se_deadline :: "int option"

record service_config =
  sc_ValidServices :: "string list"
  sc_ReducedLoggingResponseCodes :: "int list"
  sc_BearerFingerprint :: FingerprintConfig

definition translation_kit ::
  "libs \<Rightarrow> 's acquire \<Rightarrow> serve_env \<Rightarrow> service_config
     \<Rightarrow> ('s translation_service, wrpRequest, XmidtResponse option) kit_config" where
  "translation_kit L acquire env c =
     \<lparr>kc_before = [captureWDMPParameters L],
      kc_endpoint = makeTranslationEndpoint L acquire (se_deadline env),
      kc_decode = decodeValidServiceRequest (sc_ValidServices c) (decodeRequest L),
      kc_encode = encodeResponse L,
      kc_errorEncoder = ErrorLogEncoder sallust_Get (encodeError L),
      kc_finalizer = (\<lambda>ctx code r. Log L (sc_ReducedLoggingResponseCodes c) ctx code (se_finish env))\<rparr>"

definition translation_ConfigHandler ::
  "libs \<Rightarrow> (('s translation_service, wrpRequest, XmidtResponse option) kit_config
       \<Rightarrow> 's translation_service io handler)
     \<Rightarrow> ('s translation_service io handler \<Rightarrow> 's translation_service io handler)
     \<Rightarrow> ('s translation_service io handler \<Rightarrow> 's translation_service io handler)
     \<Rightarrow> 's acquire \<Rightarrow> serve_env \<Rightarrow> service_config \<Rightarrow> 's translation_service io route list" where
  "translation_ConfigHandler L serve auth echo acquire env c =
     (let WRPHandler = serve (translation_kit L acquire env c);
          welcome = Welcome L (sc_BearerFingerprint c) (se_rand env) (se_arrival env);
          h = auth (echo (welcome WRPHandler))
      in [\<lparr>rt_template = ''/device/{deviceid}/{service}'',
           rt_methods = Some [''GET'', ''PATCH''], rt_handler = h\<rparr>,
          \<lparr>rt_template = ''/device/{deviceid}/{service}/{parameter}'',
           rt_methods = Some [''DELETE'', ''PUT'', ''POST''], rt_handler = h\<rparr>])"

definition stat_kit ::
  "libs \<Rightarrow> 's acquire \<Rightarrow> serve_env \<Rightarrow> service_config
     \<Rightarrow> ('s stat_service, statRequest, XmidtResponse option) kit_config" where
  "stat_kit L acquire env c =
     \<lparr>kc_before = [],
      kc_endpoint = makeStatEndpoint L acquire (se_deadline env),
      kc_decode = stat_decodeRequest L,
      kc_encode = stat_encodeResponse L,
      kc_errorEncoder = ErrorLogEncoder sallust_Get (stat_encodeError L),
      kc_finalizer = (\<lambda>ctx code r. Log L (sc_ReducedLoggingResponseCodes c) ctx code (se_finish env))\<rparr>"

definition stat_ConfigHandler ::
  "libs \<Rightarrow> (('s stat_service, statRequest, XmidtResponse option) kit_config \<Rightarrow> 's stat_service io handler)
     \<Rightarrow> ('s stat_service io handler \<Rightarrow> 's stat_service io handler)
     \<Rightarrow> ('s stat_service io handler \<Rightarrow> 's stat_service io handler)
     \<Rightarrow> 's acquire \<Rightarrow> serve_env \<Rightarrow> service_config \<Rightarrow> 's stat_service io route list" where
  "stat_ConfigHandler L serve auth echo acquire env c =
     [\<lparr>rt_template = ''/device/{deviceid}/stat'', rt_methods = Some [''GET''],
       rt_handler = auth (echo (Welcome L (sc_BearerFingerprint c) (se_rand env) (se_arrival env)
                            (serve (stat_kit L acquire env c))))\<rparr>]"

section \<open>What a request comes to\<close>

text \<open>
  The abstract specification. An error is shown with its status or masked; an answer of
  XMiDT is forwarded as it is, or unwrapped to the device's own payload.
\<close>

datatype verdict =
    Shown int string
  | Masked
  | Forwarded int bytes
  | Unwrapped int bytes

fun verdict_status :: "verdict \<Rightarrow> int" where
  "verdict_status (Shown c t) = c"
| "verdict_status Masked = 500"
| "verdict_status (Forwarded c b) = c"
| "verdict_status (Unwrapped c b) = c"

fun verdict_body :: "verdict \<Rightarrow> bytes" where
  "verdict_body (Shown c t) = json_message t"
| "verdict_body Masked = json_message ''oops! Something unexpected went wrong in this service''"
| "verdict_body (Forwarded c b) = b"
| "verdict_body (Unwrapped c b) = b"

fun from_xmidt :: "verdict \<Rightarrow> bool" where
  "from_xmidt (Forwarded c b) = True"
| "from_xmidt v = False"

text \<open>A reply HTTP can deliver: a final status, and one that allows a body if there is one.\<close>

definition deliverable :: "verdict \<Rightarrow> bool" where
  "deliverable v \<longleftrightarrow> 200 \<le> verdict_status v \<and> verdict_status v \<le> 999
     \<and> (verdict_body v = [] \<or> body_allowed (verdict_status v))"

definition error_verdict :: "goerror \<Rightarrow> verdict" where
  "error_verdict e = (case err_StatusCode e of Some c \<Rightarrow> Shown c (err_Error e) | None \<Rightarrow> Masked)"

definition answer_verdict :: "libs \<Rightarrow> XmidtResponse \<Rightarrow> verdict" where
  "answer_verdict L x =
     (let body = body_bytes (xr_Body x) in
      if xr_Code x \<noteq> 200 \<or> body = [] then Forwarded (xr_Code x) body
      else case lb_WrpDecode L body of
        Inl e \<Rightarrow> error_verdict e
      | Inr m \<Rightarrow> Unwrapped (case decode_statusCode (wm_Payload m) of
            Some d \<Rightarrow> if d = 403 \<or> (520 \<le> d \<and> d \<le> 599) then d else 200
          | None \<Rightarrow> 200) (wm_Payload m))"

definition translation_spec ::
  "libs \<Rightarrow> 's acquire \<Rightarrow> int option \<Rightarrow> string list \<Rightarrow> reqctx \<Rightarrow> http_request
     \<Rightarrow> 's translation_service \<Rightarrow> verdict option \<times> 's translation_service" where
  "translation_spec L acquire deadline services ctx r s =
     (if mux_var r ''service'' \<notin> set services then (Some (Shown 400 ''unsupported Service''), s)
      else case decodeRequest L ctx r of
        Inl e \<Rightarrow> (Some (error_verdict e), s)
      | Inr q \<Rightarrow>
          (case SendWRP L acquire deadline s (wr_WRPMessage q) (wr_AuthHeaderValue q) of
             ((x, Some e), s') \<Rightarrow> (Some (error_verdict e), s')
           | ((Some x, None), s') \<Rightarrow> (Some (answer_verdict L x), s')
           | ((None, None), s') \<Rightarrow> (None, s')))"

text \<open>The request as the decoder sees it, after the log capture.\<close>

definition captured :: "http_request \<Rightarrow> http_request" where
  "captured r = (if rq_Method r = ''PATCH''
     then r\<lparr>rq_Body := \<lparr>bd_data = bd_data (rq_Body r), bd_err = None\<rparr>\<rparr> else r)"

text \<open>The reply that stands for a verdict, with the transaction id of its request.\<close>

definition renders :: "libs \<Rightarrow> string \<Rightarrow> verdict \<Rightarrow> rw \<Rightarrow> bool" where
  "renders L tid v w \<longleftrightarrow>
     rw_status w = Some (verdict_status v) \<and> rw_body w = verdict_body v
     \<and> map_of (rw_sent_header w) (canon_key (lb_TIDHeader L)) = Some [tid]
     \<and> (from_xmidt v \<or> hdr_get (rw_sent_header w) ''Content-Type'' = ''application/json'')"

section \<open>The handlers around the services\<close>

lemma getTID_logger [simp]: "fst (getTID L (ctx\<lparr>cx_Logger := l\<rparr>)) = fst (getTID L ctx)"
  by (simp add: getTID_def split: option.splits)

lemma getTID_eq: "cx_RequestTID ctx = Some tid \<Longrightarrow> fst (getTID L ctx) = tid"
  by (simp add: getTID_def)

lemma decodeRequest_logger [simp]:
  "decodeRequest L (ctx\<lparr>cx_Logger := l\<rparr>) r = decodeRequest L ctx r"
  by (simp add: decodeRequest_def getPartnerIDsDecodeRequest_def split: sum.splits)

lemma decodeRequest_arrival [simp]:
  "decodeRequest L (ctx\<lparr>cx_RequestArrivalTime := a\<rparr>) r = decodeRequest L ctx r"
  by (simp add: decodeRequest_def getPartnerIDsDecodeRequest_def getTID_def split: sum.splits option.splits)

lemma translation_before:
  "\<exists>fs. run_before [captureWDMPParameters L] ctx r = Ret (ctx\<lparr>cx_Logger := cx_Logger ctx @ fs\<rparr>, captured r)"
proof -
  obtain ctx' r' where c: "captureWDMPParameters L ctx r = Ret (ctx', r')"
    using capture_returns [of L ctx r] by (cases "captureWDMPParameters L ctx r") auto
  from capture_effect [OF c] c show ?thesis by (auto simp: captured_def)
qed

text \<open>What Welcome passes on: the request as it is, the id, the arrival time, more log fields.\<close>

definition request_tid :: "libs \<Rightarrow> serve_env \<Rightarrow> http_request \<Rightarrow> string" where
  "request_tid L env r =
     (let h = hdr_get (rq_Header r) (lb_TIDHeader L) in if h = [] then genTID (se_rand env) else h)"

lemma Welcome_enriches:
  "\<exists>fs. Welcome L cfg (se_rand env) now delegate ctx r w
     = delegate (ctx\<lparr>cx_RequestTID := Some (request_tid L env r), cx_RequestArrivalTime := Some now,
                    cx_Logger := cx_Logger ctx @ fs\<rparr>) r w"
proof -
  let ?c = "ctx\<lparr>cx_RequestTID := Some (request_tid L env r), cx_RequestArrivalTime := Some now\<rparr>"
  obtain fs where "addBearerFingerprintToLog L (addDeviceIdToLog L ?c r) r cfg
      = (addDeviceIdToLog L ?c r)\<lparr>cx_Logger := cx_Logger (addDeviceIdToLog L ?c r) @ fs\<rparr>"
    using fingerprint_fields by blast
  then show ?thesis
    by (intro exI [of _ "[(''deviceid'', LStr (getDeviceId L r))] @ fs"])
      (simp add: Welcome_def Let_def addDeviceIdToLog_def request_tid_def)
qed

section \<open>Rendering a verdict\<close>

lemma renders_log [simp]: "renders L tid v (rw_add_log es w) = renders L tid v w"
  by (cases "rw_sent w") (simp_all add: renders_def rw_status_def rw_sent_header_def)

lemma ErrorLogEncoder_Ret:
  assumes "\<And>es. \<exists>w'. ee ctx e (rw_add_log es w) = Ret w' \<and> P w'" "\<exists>w'. ee ctx e w = Ret w' \<and> P w'"
  shows "\<exists>w'. ErrorLogEncoder g ee ctx e w = Ret w' \<and> P w'"
  using ErrorLogEncoder_cases [of g ee ctx e w] assms by auto

lemma renders_replied_error:
  assumes "rw_body w = []" "canon_key (lb_TIDHeader L) \<noteq> ''Content-Type''" "deliverable (error_verdict e)"
    and "rw_sent w = None" "rw_write_err w = None" "fst (getTID L ctx) = tid"
  shows "\<exists>w'. encodeError L ctx e w = Ret w' \<and> renders L tid (error_verdict e) w'"
proof -
  let ?code = "verdict_status (error_verdict e)"
  let ?text = "case err_StatusCode e of Some c \<Rightarrow> err_Error e | None \<Rightarrow> err_Error ErrTr1d1umInternal"
  have v: "verdict_body (error_verdict e) = json_message ?text" "\<not> from_xmidt (error_verdict e)"
    by (simp_all add: error_verdict_def ErrTr1d1umInternal_def split: option.splits)
  have "json_message t \<noteq> []" for t by (simp add: json_message_def)
  with assms(3) v have d: "200 \<le> ?code" "?code \<le> 999" "body_allowed ?code"
    by (auto simp: deliverable_def)
  have "case err_StatusCode e of Some c \<Rightarrow> ?code = c \<and> ?text = err_Error e
        | None \<Rightarrow> ?code = 500 \<and> ?text = err_Error ErrTr1d1umInternal"
    by (simp add: error_verdict_def split: option.splits)
  from encodeError_sends [OF assms(4,5) d this]
  have "encodeError L ctx e w = Ret (replied_error L ctx ?code ?text w)" .
  moreover have "renders L tid (error_verdict e) (replied_error L ctx ?code ?text w)"
    unfolding renders_def using assms(1,2,6) v
    by (simp, simp add: replied_error_def Let_def rw_sent_header_def map_of_hdr_set hdr_get_set_other
        canon_Content_Type)
  ultimately show ?thesis by blast
qed

lemma renders_error:
  assumes "rw_body w = []" "canon_key (lb_TIDHeader L) \<noteq> ''Content-Type''" "deliverable (error_verdict e)"
    and "rw_sent w = None" "rw_write_err w = None" "fst (getTID L ctx) = tid"
  shows "\<exists>w'. ErrorLogEncoder g (encodeError L) ctx e w = Ret w' \<and> renders L tid (error_verdict e) w'"
  using assms by (intro ErrorLogEncoder_Ret renders_replied_error) simp_all

lemma renders_answer:
  assumes "rw_body w = []" "canon_key (lb_TIDHeader L) \<noteq> ''Content-Type''" "deliverable (answer_verdict L x)"
    and "rw_sent w = None" "rw_write_err w = None" "fst (getTID L ctx) = tid"
  shows "(\<exists>w'. encodeResponse L ctx w (Some x) = Ret (w', None) \<and> renders L tid (answer_verdict L x) w')
    \<or> (\<exists>e. encodeResponse L ctx w (Some x) = Ret (prepared L ctx w x, Some e)
         \<and> answer_verdict L x = error_verdict e)"
proof (cases rule: encodeResponse_cases [where x = x and L = L])
  case empty
  then obtain es where "encodeResponse L ctx w (Some x) = outcome_bind
      (WriteHeader 200 (rw_add_log es (prepared L ctx w x))) (\<lambda>w'. Ret (w', None))"
    using encodeResponse_empty by blast
  with empty assms show ?thesis
    by (simp add: answer_verdict_def renders_def WriteHeader_def rw_status_def rw_sent_header_def
        prepared_TID)
next
  case forward
  let ?p = "prepared L ctx w x" and ?b = "body_bytes (xr_Body x)"
  from forward assms(3) have v: "answer_verdict L x = Forwarded (xr_Code x) ?b"
    "200 \<le> xr_Code x" "xr_Code x \<le> 999" "?b = [] \<or> body_allowed (xr_Code x)"
    by (simp_all add: answer_verdict_def deliverable_def)
  have "encodeResponse L ctx w (Some x)
      = Ret (?p\<lparr>rw_sent := Some (xr_Code x, rw_header ?p), rw_body := ?b\<rparr>, None)"
    using forward v(2-4) assms
    by (cases "?b = []") (simp_all add: encodeResponse_forward WriteHeader_def Write_def)
  with assms v show ?thesis by (simp add: renders_def rw_status_def rw_sent_header_def prepared_TID)
next
  case (undecodable e)
  then show ?thesis by (simp add: encodeResponse_undecodable answer_verdict_def)
next
  case (reply m)
  let ?c = "rw_set_header ''Content-Type'' ''application/json'' (prepared L ctx w x)"
  from reply obtain d where v: "answer_verdict L x = Unwrapped d (wm_Payload m)"
    and d: "d = (case decode_statusCode (wm_Payload m) of
          Some d \<Rightarrow> if device_status d then d else 200 | None \<Rightarrow> 200)"
    unfolding device_status_def by (simp add: answer_verdict_def)
  have "body_allowed d" unfolding d
    by (auto dest: device_status_range simp: body_allowed_def split: option.splits)
  have "encodeResponse L ctx w (Some x)
      = Ret (?c\<lparr>rw_sent := Some (d, rw_header ?c), rw_body := wm_Payload m\<rparr>, None)"
    using reply assms \<open>body_allowed d\<close>
    by (auto simp: encodeResponse_device_reply Let_def d Write_def WriteHeader_def body_allowed_def
        device_status_def split: option.splits)
  moreover have "map_of (rw_header ?c) (canon_key (lb_TIDHeader L)) = Some [tid]"
    using assms(2,6) by (simp add: map_of_rw_set_header canon_Content_Type prepared_TID)
  moreover have "hdr_get (rw_header ?c) ''Content-Type'' = ''application/json''"
    by (simp add: rw_set_header_def)
  ultimately show ?thesis by (simp add: v renders_def rw_status_def rw_sent_header_def)
qed

lemma translation_spec_frame [simp]:
  "translation_spec L acquire d services (ctx\<lparr>cx_Logger := l\<rparr>) r s
     = translation_spec L acquire d services ctx r s"
  "translation_spec L acquire d services (ctx\<lparr>cx_RequestArrivalTime := a\<rparr>) r s
     = translation_spec L acquire d services ctx r s"
  by (simp_all add: translation_spec_def)

lemma contains_iff: "contains i es \<longleftrightarrow> i \<in> set es"
  by (induction es) auto

lemma translation_kit_sel [simp]:
  "kc_before (translation_kit L acquire env c) = [captureWDMPParameters L]"
  "kc_endpoint (translation_kit L acquire env c) = makeTranslationEndpoint L acquire (se_deadline env)"
  "kc_decode (translation_kit L acquire env c)
     = decodeValidServiceRequest (sc_ValidServices c) (decodeRequest L)"
  "kc_encode (translation_kit L acquire env c) = encodeResponse L"
  "kc_errorEncoder (translation_kit L acquire env c) = ErrorLogEncoder sallust_Get (encodeError L)"
  by (simp_all add: translation_kit_def)

lemma translation_kit_reply:
  assumes "rw_body w = []" "canon_key (lb_TIDHeader L) \<noteq> ''Content-Type''" "deliverable v"
    and "rw_sent w = None" "rw_write_err w = None" "fst (getTID L ctx) = tid"
    and spec: "translation_spec L acquire (se_deadline env) (sc_ValidServices c) ctx r s = (Some v, s')"
  shows "\<exists>w'. kit_reply (translation_kit L acquire env c) ctx r w s = Ret (w', s') \<and> renders L tid v w'"
proof -
  let ?k = "translation_kit L acquire env c"
  have err: "\<exists>w'. outcome_bind (kc_errorEncoder ?k ctx e w) (\<lambda>w'. Ret (w', s')) = Ret (w', s') \<and> renders L tid v w'"
    if "v = error_verdict e" for e
  proof -
    from assms(3) that have "deliverable (error_verdict e)" by simp
    from renders_error [OF assms(1,2) this assms(4-6), of sallust_Get] that show ?thesis by auto
  qed
  show ?thesis
  proof (cases "mux_var r ''service'' \<in> set (sc_ValidServices c)")
    case False
    then have "kc_decode ?k ctx r = Inl ErrInvalidService"
      by (simp add: decodeValidServiceRequest_def contains_iff)
    moreover from False spec have "v = error_verdict ErrInvalidService" "s' = s"
      by (auto simp: translation_spec_def error_verdict_def ErrInvalidService_def)
    ultimately show ?thesis using err by (simp add: kit_reply_decode_error)
  next
    case True
    then have dec: "kc_decode ?k ctx r = decodeRequest L ctx r"
      by (simp add: decodeValidServiceRequest_def contains_iff)
    show ?thesis
    proof (cases "decodeRequest L ctx r")
      case (Inl e)
      with True spec have "v = error_verdict e" "s' = s" by (auto simp: translation_spec_def)
      with Inl dec err show ?thesis by (simp add: kit_reply_decode_error)
    next
      case (Inr q)
      obtain x oe s1 where call: "kc_endpoint ?k ctx q s = ((x, oe), s1)" by (metis surj_pair)
      with True Inr spec have v: "s1 = s'" "case oe of Some e \<Rightarrow> v = error_verdict e
          | None \<Rightarrow> \<exists>y. x = Some y \<and> v = answer_verdict L y"
        by (auto simp: translation_spec_def makeTranslationEndpoint_def split: option.splits)
      show ?thesis
      proof (cases oe)
        case (Some e)
        with v dec Inr call err show ?thesis by (simp add: kit_reply_endpoint_error)
      next
        case None
        with v obtain y where y: "x = Some y" "v = answer_verdict L y" by auto
        from assms(3) y have "deliverable (answer_verdict L y)" by simp
        from renders_answer [OF assms(1,2) this assms(4-6)] show ?thesis
        proof (elim disjE exE conjE)
          fix w' assume "encodeResponse L ctx w (Some y) = Ret (w', None)" "renders L tid (answer_verdict L y) w'"
          with None v dec Inr call y show ?thesis by (simp add: kit_reply_encoded)
        next
          fix e assume e: "encodeResponse L ctx w (Some y) = Ret (prepared L ctx w y, Some e)"
            "answer_verdict L y = error_verdict e"
          from assms(3) y e have "deliverable (error_verdict e)" by simp
          from renders_error [OF _ assms(2) this _ _ assms(6), of "prepared L ctx w y" sallust_Get] assms(1,4,5)
          obtain w' where "kc_errorEncoder ?k ctx e (prepared L ctx w y) = Ret w'" "renders L tid v w'"
            using y e by auto
          with None v dec Inr call y e show ?thesis by (simp add: kit_reply_encode_error)
        qed
      qed
    qed
  qed
qed

text \<open>
  Through a route of the service: \<open>Welcome\<close>, the log capture, the service filter, the
  decoder, the acquirer, the transactor, the encoders.
\<close>

lemma translation_route_renders:
  assumes "kit_server_ok serve" "\<forall>h. auth (echo h) ctx0 r w0 = h ctx r w"
    and "rw_sent w = None" "rw_write_err w = None" "rw_body w = []"
    and "canon_key (lb_TIDHeader L) \<noteq> ''Content-Type''"
    and "route \<in> set (translation_ConfigHandler L serve auth echo acquire env c)"
    and "translation_spec L acquire (se_deadline env) (sc_ValidServices c)
           (ctx\<lparr>cx_RequestTID := Some (request_tid L env r)\<rparr>) (captured r) s = (Some v, s')"
    and "deliverable v"
  shows "\<exists>w'. rt_handler route ctx0 r w0 s = Ret (w', s') \<and> renders L (request_tid L env r) v w'"
proof -
  let ?k = "translation_kit L acquire env c" and ?tid = "request_tid L env r"
  have "rt_handler route ctx0 r w0 s
      = Welcome L (sc_BearerFingerprint c) (se_rand env) (se_arrival env) (serve ?k) ctx r w s"
    using assms(2,7) by (auto simp: translation_ConfigHandler_def Let_def)
  moreover obtain fs where "Welcome L (sc_BearerFingerprint c) (se_rand env) (se_arrival env) (serve ?k) ctx r w
      = serve ?k (ctx\<lparr>cx_RequestTID := Some ?tid, cx_RequestArrivalTime := Some (se_arrival env),
                     cx_Logger := cx_Logger ctx @ fs\<rparr>) r w"
    using Welcome_enriches by blast
  moreover define ctx1 where "ctx1 = ctx\<lparr>cx_RequestTID := Some ?tid,
      cx_RequestArrivalTime := Some (se_arrival env), cx_Logger := cx_Logger ctx @ fs\<rparr>"
  moreover obtain fs' where before: "run_before (kc_before ?k) ctx1 r
      = Ret (ctx1\<lparr>cx_Logger := cx_Logger ctx1 @ fs'\<rparr>, captured r)"
    using translation_before [of L ctx1 r] unfolding translation_kit_sel by blast
  moreover define ctx2 where "ctx2 = ctx1\<lparr>cx_Logger := cx_Logger ctx1 @ fs'\<rparr>"
  moreover have "fst (getTID L ctx2) = ?tid"
    by (rule getTID_eq) (simp add: ctx2_def ctx1_def)
  moreover have "translation_spec L acquire (se_deadline env) (sc_ValidServices c) ctx2 (captured r) s = (Some v, s')"
    using assms(8) by (simp add: ctx2_def ctx1_def)
  ultimately obtain w1 where "kit_reply ?k ctx2 (captured r) w s = Ret (w1, s')" "renders L ?tid v w1"
    using translation_kit_reply [OF assms(5,6,9,3,4)] by blast
  with kit_serve [OF assms(1) before] ctx2_def
  obtain es where "serve ?k ctx1 r w s = Ret (rw_add_log es w1, s')" by metis
  with \<open>renders L ?tid v w1\<close> show ?thesis
    using \<open>rt_handler route ctx0 r w0 s = _\<close> \<open>Welcome L _ _ _ _ ctx r w = _\<close> ctx1_def by auto
qed

text \<open>With the transactor of package \<open>transaction\<close> every request has a verdict.\<close>

lemma SendWRP_transacts:
  "\<exists>req. fst (SendWRP L acquire d s m auth) = ts_transactor s req
   \<or> (\<exists>e. fst (SendWRP L acquire d s m auth) = (None, Some e))"
  by (auto simp: SendWRP_def Let_def split: sum.splits option.splits prod.splits)

lemma translation_spec_total:
  assumes "ts_transactor s = Transact t now"
  shows "\<exists>v s'. translation_spec L acquire d services ctx r s = (Some v, s')"
proof -
  have "fst (SendWRP L acquire d s m auth) \<noteq> (None, None)" for m auth
    using SendWRP_transacts [of L acquire d s m auth] xmidt.no_silent_failure [of t now]
    unfolding assms by (metis option.discI prod.inject)
  then have "SendWRP L acquire d s m auth \<noteq> ((None, None), s')" for m auth s'
    by (metis fst_conv)
  then show ?thesis
    unfolding translation_spec_def by (auto split: sum.split prod.split option.split)
qed

section \<open>The statistics service\<close>

definition stat_spec ::
  "libs \<Rightarrow> 's acquire \<Rightarrow> int option \<Rightarrow> reqctx \<Rightarrow> http_request \<Rightarrow> 's stat_service
     \<Rightarrow> verdict option \<times> 's stat_service" where
  "stat_spec L acquire deadline ctx r s =
     (case stat_decodeRequest L ctx r of
        Inl e \<Rightarrow> (Some (error_verdict e), s)
      | Inr q \<Rightarrow>
          (case RequestStat L acquire deadline s (st_AuthHeaderValue q) (st_DeviceID q) of
             ((x, Some e), s') \<Rightarrow> (Some (error_verdict e), s')
           | ((Some x, None), s') \<Rightarrow>
               (map_option (Forwarded (xr_Code x)) (xr_Body x), s')
           | ((None, None), s') \<Rightarrow> (None, s')))"

text \<open>Here the answer's own transaction ids may follow the one of the request.\<close>

definition stat_renders :: "libs \<Rightarrow> string \<Rightarrow> verdict \<Rightarrow> rw \<Rightarrow> bool" where
  "stat_renders L tid v w \<longleftrightarrow>
     rw_status w = Some (verdict_status v) \<and> rw_body w = verdict_body v
     \<and> hdr_get (rw_sent_header w) (lb_TIDHeader L) = tid
     \<and> (from_xmidt v \<or> hdr_get (rw_sent_header w) ''Content-Type'' = ''application/json'')"

lemma stat_renders_log [simp]: "stat_renders L tid v (rw_add_log es w) = stat_renders L tid v w"
  by (cases "rw_sent w") (simp_all add: stat_renders_def rw_status_def rw_sent_header_def)

lemma stat_kit_sel [simp]:
  "kc_before (stat_kit L acquire env c) = []"
  "kc_endpoint (stat_kit L acquire env c) = makeStatEndpoint L acquire (se_deadline env)"
  "kc_decode (stat_kit L acquire env c) = stat_decodeRequest L"
  "kc_encode (stat_kit L acquire env c) = stat_encodeResponse L"
  "kc_errorEncoder (stat_kit L acquire env c) = ErrorLogEncoder sallust_Get (stat_encodeError L)"
  by (simp_all add: stat_kit_def)

lemma stat_renders_replied_error:
  assumes "rw_body w = []" "canon_key (lb_TIDHeader L) \<noteq> ''Content-Type''" "deliverable (error_verdict e)"
    and "rw_sent w = None" "rw_write_err w = None" "stat_TID ctx = tid"
  shows "\<exists>w'. stat_encodeError L ctx e w = Ret w' \<and> stat_renders L tid (error_verdict e) w'"
proof -
  have "json_message t \<noteq> []" for t by (simp add: json_message_def)
  with assms(3) have "200 \<le> verdict_status (error_verdict e)" "verdict_status (error_verdict e) \<le> 999"
    "body_allowed (verdict_status (error_verdict e))"
    by (auto simp: deliverable_def error_verdict_def split: option.splits)
  with assms show ?thesis
    by (cases "err_StatusCode e")
      (auto simp: stat_encodeError_def error_verdict_def Let_def WriteHeader_def Write_def
        rw_set_header_def stat_renders_def rw_status_def rw_sent_header_def hdr_get_set_other
        canon_Content_Type ErrTr1d1umInternal_def)
qed

lemma stat_renders_error:
  assumes "rw_body w = []" "canon_key (lb_TIDHeader L) \<noteq> ''Content-Type''" "deliverable (error_verdict e)"
    and "rw_sent w = None" "rw_write_err w = None" "stat_TID ctx = tid"
  shows "\<exists>w'. ErrorLogEncoder g (stat_encodeError L) ctx e w = Ret w' \<and> stat_renders L tid (error_verdict e) w'"
  using assms by (intro ErrorLogEncoder_Ret stat_renders_replied_error) simp_all

lemma stat_renders_answer:
  assumes "rw_body w = []" "rw_sent w = None" "rw_write_err w = None" "stat_TID ctx = tid"
    and "xr_Body x = Some b" "hdr_wf (xr_ForwardedHeaders x)" "deliverable (Forwarded (xr_Code x) b)"
  shows "\<exists>w'. stat_encodeResponse L ctx w (Some x) = Ret (w', None)
    \<and> stat_renders L tid (Forwarded (xr_Code x) b) w'"
proof -
  let ?h = "hdr_set (lb_TIDHeader L) tid
    (if xr_Code x = 200 then hdr_set ''Content-Type'' ''application/json'' (rw_header w)
     else hdr_del ''Content-Type'' (rw_header w))"
  let ?f = "ForwardHeadersByPrefix [] (xr_ForwardedHeaders x) ?h"
  obtain w3 where enc: "stat_encodeResponse L ctx w (Some x)
      = outcome_bind (WriteHeader (xr_Code x) w3) (\<lambda>w4. Ret (Write b w4))"
    and w3: "rw_sent w3 = None" "rw_write_err w3 = None" "rw_body w3 = []" "rw_header w3 = ?f"
    using stat_encodeResponse_Some [OF assms(5), of L ctx w] assms(1-4) by auto
  have "stat_encodeResponse L ctx w (Some x)
      = Ret (w3\<lparr>rw_sent := Some (xr_Code x, ?f), rw_body := b\<rparr>, None)"
    using assms(7) w3 unfolding deliverable_def
    by (cases "b = []") (simp_all add: enc WriteHeader_def Write_def)
  moreover have "hdr_get ?f (lb_TIDHeader L) = tid"
    using map_of_Forward [OF assms(6), of "[]" ?h "canon_key (lb_TIDHeader L)"]
    by (simp add: hdr_get_def hdr_values_def map_of_hdr_set split: list.split)
  ultimately show ?thesis by (simp add: stat_renders_def rw_status_def rw_sent_header_def)
qed

lemma RequestStat_transacts:
  "\<exists>req. fst (RequestStat L acquire d s auth i) = ss_transactor s req
   \<or> (\<exists>e. fst (RequestStat L acquire d s auth i) = (None, Some e))"
  by (auto simp: RequestStat_def Let_def split: option.splits prod.splits sum.splits)

lemma stat_answer_facts:
  assumes "ss_transactor s = Transact t now" "RequestStat L acquire d s auth i = ((x, None), s')"
  shows "\<exists>y b. x = Some y \<and> xr_Body y = Some b \<and> hdr_wf (xr_ForwardedHeaders y)"
proof -
  have "fst (RequestStat L acquire d s auth i) = (x, None)" using assms(2) by simp
  then obtain req where call: "Transact t now req = (x, None)"
    using RequestStat_transacts [of L acquire d s auth i] assms(1) by auto
  then obtain y where "x = Some y" using xmidt.no_silent_failure [of t now req] by (cases x) auto
  with call show ?thesis using xmidt.success_body xmidt.response_header by blast
qed

lemma stat_spec_total:
  assumes "ss_transactor s = Transact t now"
  shows "\<exists>v s'. stat_spec L acquire d ctx r s = (Some v, s')"
proof (cases "stat_decodeRequest L ctx r")
  case (Inr q)
  obtain x oe s1 where call: "RequestStat L acquire d s (st_AuthHeaderValue q) (st_DeviceID q) = ((x, oe), s1)"
    by (metis surj_pair)
  show ?thesis
  proof (cases oe)
    case None
    with stat_answer_facts [OF assms] call obtain y b where "x = Some y" "xr_Body y = Some b" by metis
    with Inr call None show ?thesis by (simp add: stat_spec_def)
  qed (use Inr call in \<open>simp add: stat_spec_def split: option.split\<close>)
qed (simp add: stat_spec_def)

lemma stat_kit_reply:
  assumes "rw_body w = []" "canon_key (lb_TIDHeader L) \<noteq> ''Content-Type''" "deliverable v"
    and "rw_sent w = None" "rw_write_err w = None" "stat_TID ctx = tid"
    and real: "ss_transactor s = Transact t now"
    and spec: "stat_spec L acquire (se_deadline env) ctx r s = (Some v, s')"
  shows "\<exists>w'. kit_reply (stat_kit L acquire env c) ctx r w s = Ret (w', s') \<and> stat_renders L tid v w'"
proof -
  let ?k = "stat_kit L acquire env c"
  have err: "\<exists>w'. outcome_bind (kc_errorEncoder ?k ctx e w) (\<lambda>w'. Ret (w', s')) = Ret (w', s') \<and> stat_renders L tid v w'"
    if "v = error_verdict e" for e
  proof -
    from assms(3) that have "deliverable (error_verdict e)" by simp
    from stat_renders_error [OF assms(1,2) this assms(4-6), of sallust_Get] that show ?thesis by auto
  qed
  show ?thesis
  proof (cases "stat_decodeRequest L ctx r")
    case (Inl e)
    with spec have "v = error_verdict e" "s' = s" by (simp_all add: stat_spec_def)
    with Inl err show ?thesis by (simp add: kit_reply_decode_error)
  next
    case (Inr q)
    obtain x oe s1 where call: "RequestStat L acquire (se_deadline env) s (st_AuthHeaderValue q) (st_DeviceID q)
        = ((x, oe), s1)"
      by (metis surj_pair)
    then have ep: "kc_endpoint ?k ctx q s = ((x, oe), s1)" by (simp add: makeStatEndpoint_def)
    show ?thesis
    proof (cases oe)
      case (Some e)
      with spec Inr call have "v = error_verdict e" "s1 = s'"
        by (simp_all add: stat_spec_def split: option.splits)
      with Some Inr ep err show ?thesis by (simp add: kit_reply_endpoint_error)
    next
      case None
      with stat_answer_facts [OF real] call obtain y b where
        y: "x = Some y" "xr_Body y = Some b" "hdr_wf (xr_ForwardedHeaders y)" by metis
      with None spec Inr call have v: "v = Forwarded (xr_Code y) b" "s1 = s'" by (simp_all add: stat_spec_def)
      with assms(3) have del: "deliverable (Forwarded (xr_Code y) b)" by simp
      obtain w' where "stat_encodeResponse L ctx w (Some y) = Ret (w', None)" "stat_renders L tid v w'"
        using stat_renders_answer [OF assms(1,4-6) y(2,3) del, of L] v by auto
      with v y None Inr ep show ?thesis by (auto simp: kit_reply_encoded)
    qed
  qed
qed

lemma stat_spec_frame [simp]:
  "stat_spec L acquire d (ctx\<lparr>cx_Logger := l\<rparr>) r s = stat_spec L acquire d ctx r s"
  "stat_spec L acquire d (ctx\<lparr>cx_RequestArrivalTime := a\<rparr>) r s = stat_spec L acquire d ctx r s"
  "stat_spec L acquire d (ctx\<lparr>cx_RequestTID := i\<rparr>) r s = stat_spec L acquire d ctx r s"
  by (simp_all add: stat_spec_def stat_decodeRequest_def)

lemma stat_route_renders:
  assumes "kit_server_ok serve" "\<forall>h. auth (echo h) ctx0 r w0 = h ctx r w"
    and "rw_sent w = None" "rw_write_err w = None" "rw_body w = []"
    and "canon_key (lb_TIDHeader L) \<noteq> ''Content-Type''"
    and "route \<in> set (stat_ConfigHandler L serve auth echo acquire env c)"
    and "ss_transactor s = Transact t now"
    and "stat_spec L acquire (se_deadline env) ctx r s = (Some v, s')" "deliverable v"
  shows "\<exists>w'. rt_handler route ctx0 r w0 s = Ret (w', s') \<and> stat_renders L (request_tid L env r) v w'"
proof -
  let ?k = "stat_kit L acquire env c" and ?tid = "request_tid L env r"
  have route: "rt_handler route ctx0 r w0 s
      = Welcome L (sc_BearerFingerprint c) (se_rand env) (se_arrival env) (serve ?k) ctx r w s"
    using assms(2,7) by (simp add: stat_ConfigHandler_def)
  obtain fs where enriched: "Welcome L (sc_BearerFingerprint c) (se_rand env) (se_arrival env) (serve ?k) ctx r w
      = serve ?k (ctx\<lparr>cx_RequestTID := Some ?tid, cx_RequestArrivalTime := Some (se_arrival env),
                     cx_Logger := cx_Logger ctx @ fs\<rparr>) r w"
    using Welcome_enriches by blast
  define ctx1 where "ctx1 = ctx\<lparr>cx_RequestTID := Some ?tid,
      cx_RequestArrivalTime := Some (se_arrival env), cx_Logger := cx_Logger ctx @ fs\<rparr>"
  have "stat_TID ctx1 = ?tid" by (simp add: stat_TID_def ctx1_def)
  moreover have "stat_spec L acquire (se_deadline env) ctx1 r s = (Some v, s')"
    using assms(9) by (simp add: ctx1_def)
  ultimately obtain w1 where "kit_reply ?k ctx1 r w s = Ret (w1, s')" "stat_renders L ?tid v w1"
    using stat_kit_reply [OF assms(5,6,10,3,4) _ assms(8)] by blast
  with kit_serve [OF assms(1), of ?k ctx1 r ctx1 r w s w1 s'] route enriched ctx1_def show ?thesis by auto
qed

end
