(* ===== verification/Go_Time.thy ===== *)
theory Go_Time
  imports Go_Strings "HOL-Library.Word"
begin

text \<open>
  \<open>time.Duration\<close>: a signed 64-bit count of nanoseconds, and the text \<open>Duration.String\<close>
  has for it (\<open>5m0s\<close>, \<open>1.5s\<close>, \<open>20ms\<close>), which the program prints into warnings.
\<close>

text \<open>The last \<open>prec\<close> digits of a number, with leading zeros.\<close>

fun low_digits :: "nat \<Rightarrow> nat \<Rightarrow> string" where
  "low_digits 0 v = []"
| "low_digits (Suc prec) v = low_digits prec (v div 10) @ [digit_char (v mod 10)]"

text \<open>\<open>fmtFrac\<close>: the fraction without trailing zeros, nothing at all when it is zero.\<close>

definition fmt_frac :: "nat \<Rightarrow> nat \<Rightarrow> string" where
  "fmt_frac prec v =
     (let ds = rev (dropWhile (\<lambda>c. c = CHR ''0'') (rev (low_digits prec v)))
      in if ds = [] then [] else CHR ''.'' # ds)"

definition micro_sign :: string where
  "micro_sign = [CHR 0xC2, CHR 0xB5]"

definition show_unsigned_duration :: "nat \<Rightarrow> string" where
  "show_unsigned_duration u =
     (if u = 0 then ''0s''
      else if u < 1000 then show_nat u @ ''ns''
      else if u < 1000000 then show_nat (u div 1000) @ fmt_frac 3 u @ micro_sign @ ''s''
      else if u < 1000000000 then show_nat (u div 1000000) @ fmt_frac 6 u @ ''ms''
      else
        (let s = u div 1000000000; m = s div 60; h = m div 60 in
         (if h > 0 then show_nat h @ ''h'' else [])
         @ (if m > 0 then show_nat (m mod 60) @ ''m'' else [])
         @ show_nat (s mod 60) @ fmt_frac 9 u @ ''s''))"

definition show_duration :: "64 word \<Rightarrow> string" where
  "show_duration d =
     (if sint d < 0 then CHR ''-'' # show_unsigned_duration (nat (- sint d))
      else show_unsigned_duration (nat (sint d)))"

lemma low_digits_numeral [simp]:
  "low_digits (numeral k) v = low_digits (pred_numeral k) (v div 10) @ [digit_char (v mod 10)]"
  by (simp only: numeral_eq_Suc low_digits.simps)

lemma show_duration_examples:
  "show_duration 300000000000 = ''5m0s''"
  "show_duration 1500000000 = ''1.5s''"
  "show_duration (- 20000000) = ''-20ms''"
  "show_duration 3600000000000 = ''1h0m0s''"
  by (simp_all add: show_duration_def show_unsigned_duration_def Let_def fmt_frac_def
      show_nat.simps digit_char_def char_of_def bit_iff_odd)

end
