(* ===== verification/Webhooks.thy ===== *)
theory Webhooks
  imports Services Go_Time
begin

text \<open>
  The webhook routes (routes.go): \<open>fixV2Duration\<close>, the middleware that repairs the duration
  and the until time of registrations made through the old API version before they reach the
  webhook library (ancla), its error replies, and the registration of the two routes. The
  registration type of webhook-schema, its JSON codec and its two checks are parameters.
\<close>

section \<open>Registrations and what checks them\<close>

text \<open>
  The two fields of \<open>webhook.RegistrationV1\<close> the code reads and writes; \<open>Until\<close> is \<open>None\<close> for
  the zero time. All other fields are left open.
\<close>

record 'x registration =
  rg_Duration :: "64 word"
  rg_Until :: "int option"
  rg_other :: 'x

text \<open>An error of \<open>json.Unmarshal\<close>: a \<open>*json.UnmarshalTypeError\<close> or any other.\<close>

datatype unmarshal_error = UnmarshalTypeError string string | OtherUnmarshalError string

text \<open>
  What is outside: the logger sallusthttp finds in a request, the codec, and the checks
  \<open>ValidateDuration(max)\<close> and \<open>CheckUntil(now, jitter, max)\<close>.
\<close>

record 'x webhook_libs =
  wl_Get :: "reqctx \<Rightarrow> log_fields option"
  wl_Unmarshal :: "bytes \<Rightarrow> unmarshal_error + 'x registration"
  wl_Marshal :: "'x registration \<Rightarrow> goerror + bytes"
  wl_ValidateDuration :: "'x registration \<Rightarrow> 64 word \<Rightarrow> goerror option"
  wl_CheckUntil :: "'x registration \<Rightarrow> int \<Rightarrow> 64 word \<Rightarrow> 64 word \<Rightarrow> goerror option"

text \<open>
  \<open>TTLVConfig\<close>; a clock is a value of type \<open>'c\<close>, and what it reads during a request is an
  argument of the handler.
\<close>

record 'c TTLVConfig =
  tv_Max :: "64 word"
  tv_Jitter :: "64 word"
  tv_Now :: "'c option"

definition errFailedWebhookUnmarshal :: goerror where
  "errFailedWebhookUnmarshal = ErrNew ''failed to JSON unmarshal webhook''"

definition v2WarningHeader :: string where
  "v2WarningHeader = ''X-Xmidt-Warning''"

definition apiVersion :: string where "apiVersion = ''v3''"
definition prevAPIVersion :: string where "prevAPIVersion = ''v2''"

section \<open>The middleware\<close>

text \<open>A nil logger is dereferenced: the call panics.\<close>

definition v2ErrEncode :: "log_fields option \<Rightarrow> goerror \<Rightarrow> int \<Rightarrow> rw \<Rightarrow> rw outcome" where
  "v2ErrEncode logger err code w =
     (let code' = (if code = 0 then 500 else code) in
      case logger of
        None \<Rightarrow> Panic
      | Some l \<Rightarrow>
          outcome_bind
            (WriteHeader code'
              (rw_add_log [log_with l LvError ''sending non-200, non-404 response''
                 [(''error'', LStr (err_Error err)), (''code'', LInt code')]] w))
            (\<lambda>w'. Ret (fst (Write (json_message (err_Error err)) w'))))"

definition unmarshal_failure :: "unmarshal_error \<Rightarrow> goerror" where
  "unmarshal_failure e =
     (case e of
        UnmarshalTypeError field type \<Rightarrow>
          ErrWrap (err_Error errFailedWebhookUnmarshal @ '': '' @ field @ '' must be of type '' @ type)
            errFailedWebhookUnmarshal
      | OtherUnmarshalError text \<Rightarrow>
          ErrWrap (err_Error errFailedWebhookUnmarshal @ '': '' @ text) errFailedWebhookUnmarshal)"

text \<open>
  The repair of a registration (the checks between unmarshalling and marshalling): the new
  registration and the warning that is added to the response, if any.
\<close>

definition fix_registration ::
  "'x webhook_libs \<Rightarrow> 'c TTLVConfig \<Rightarrow> int \<Rightarrow> 'x registration \<Rightarrow> 'x registration \<times> string option" where
  "fix_registration WL config now wr =
     (case rg_Until wr of
        None \<Rightarrow>
          if rg_Duration wr = 0 then
            (wr\<lparr>rg_Duration := tv_Max config\<rparr>,
             Some (''Unset duration and until fields will not be accepted in v3, webhook duration defaulted to ''
                   @ show_duration (tv_Max config)))
          else
            (case wl_ValidateDuration WL wr (tv_Max config) of
               None \<Rightarrow> (wr, None)
             | Some durationErr \<Rightarrow>
                 (wr\<lparr>rg_Duration := tv_Max config\<rparr>,
                  Some (''Invalid duration will not be accepted in v3: '' @ err_Error durationErr
                        @ '', webhook duration defaulted to '' @ show_duration (tv_Max config))))
      | Some until \<Rightarrow>
          (case wl_CheckUntil WL wr now (tv_Jitter config) (tv_Max config) of
             None \<Rightarrow> (wr, None)
           | Some untilErr \<Rightarrow>
               (wr\<lparr>rg_Until := None, rg_Duration := tv_Max config\<rparr>,
                Some (''Invalid until value will not be accepted in v3: '' @ err_Error untilErr
                      @ '', webhook duration defaulted to '' @ show_duration (tv_Max config)))))"

definition add_warning :: "string option \<Rightarrow> rw \<Rightarrow> rw" where
  "add_warning warning w =
     (case warning of
        None \<Rightarrow> w
      | Some text \<Rightarrow> w\<lparr>rw_header := hdr_add v2WarningHeader text (rw_header w)\<rparr>)"

text \<open>
  The handler. Its state has the variable \<open>v2Handler\<close> that the closure captures: the request
  that finds it nil stores \<open>next\<close> in it. A failure to marshal is reported, but the function
  goes on, with an empty body.
\<close>

definition fixV2_handler ::
  "'x webhook_libs \<Rightarrow> (reqctx \<Rightarrow> log_fields option) option \<Rightarrow> 'c TTLVConfig \<Rightarrow> ('c \<Rightarrow> int)
     \<Rightarrow> 's io handler \<Rightarrow> ('s \<times> 's io handler option) io handler" where
  "fixV2_handler WL getLogger config reads nextHandler ctx r w st =
     (case st of (s, v2Handler) \<Rightarrow>
      if rq_Vars r = None \<or> mux_var r ''version'' \<noteq> prevAPIVersion then
        on_fst (nextHandler ctx r w) st
      else
        let logger = (case wl_Get WL ctx of
              Some l \<Rightarrow> Some l
            | None \<Rightarrow> (case getLogger of None \<Rightarrow> None | Some g \<Rightarrow> g ctx));
            fail = (\<lambda>err code. outcome_bind (v2ErrEncode logger err code w) (\<lambda>w'. Ret (w', st)));
            h = (case v2Handler of None \<Rightarrow> nextHandler | Some v \<Rightarrow> v);
            serve = (\<lambda>body w'. on_fst (h ctx (r\<lparr>rq_Body := \<lparr>bd_data = body, bd_err = None\<rparr>\<rparr>) w') (s, Some h))
        in (case ReadAll (rq_Body r) of
             (_, Some err) \<Rightarrow> fail err 0
           | (payload, None) \<Rightarrow>
               (case wl_Unmarshal WL payload of
                  Inl e \<Rightarrow> fail (unmarshal_failure e) 400
                | Inr wr \<Rightarrow>
                    (case fix_registration WL config (reads (the (tv_Now config))) wr of
                       (wr', warning) \<Rightarrow>
                         let w1 = add_warning warning w in
                         case wl_Marshal WL wr' of
                           Inl err \<Rightarrow>
                             outcome_bind
                               (v2ErrEncode logger (ErrNew (''failed to recreate request body: '' @ err_Error err)) 0 w1)
                               (\<lambda>w2. serve [] w2)
                         | Inr body \<Rightarrow> serve body w1))))"

text \<open>\<open>fixV2Duration\<close>: the checks of the configuration, and the constructor of the handler.\<close>

definition fixV2Duration ::
  "'x webhook_libs \<Rightarrow> 'c \<Rightarrow> (reqctx \<Rightarrow> log_fields option) option \<Rightarrow> 'c TTLVConfig
     \<Rightarrow> goerror + (('c \<Rightarrow> int) \<Rightarrow> 's io handler \<Rightarrow> ('s \<times> 's io handler option) io handler)" where
  "fixV2Duration WL time_Now getLogger config =
     (let config' = (if tv_Now config = None then config\<lparr>tv_Now := Some time_Now\<rparr> else config) in
      if sint (tv_Max config') < 0 then
        Inl (ErrNew ''failed to initialize duration validation: max TTL must be non-negative'')
      else if sint (tv_Jitter config') < 0 then
        Inl (ErrNew ''failed to initialize duration validation: jitter must be non-negative'')
      else Inr (fixV2_handler WL getLogger config'))"

text \<open>
  \<open>handleWebhookRoutes\<close>: the two routes, when both handlers are there. The chains around them
  are arguments, as in the services.
\<close>

definition handleWebhookRoutes ::
  "'x webhook_libs \<Rightarrow> 'c \<Rightarrow> ('c \<Rightarrow> int) \<Rightarrow> 'c TTLVConfig
     \<Rightarrow> (('s \<times> 's io handler option) io handler \<Rightarrow> ('s \<times> 's io handler option) io handler)
     \<Rightarrow> ('s io handler \<Rightarrow> 's io handler) \<Rightarrow> 's io handler option \<Rightarrow> 's io handler option
     \<Rightarrow> goerror + ('s \<times> 's io handler option) io route list" where
  "handleWebhookRoutes WL time_Now reads ttl auth echo addHandler getAllHandler =
     (case (addHandler, getAllHandler) of
        (Some add, Some getAll) \<Rightarrow>
          (case fixV2Duration WL time_Now (Some sallust_Get) ttl of
             Inl err \<Rightarrow> Inl err
           | Inr fixV2Middleware \<Rightarrow>
               Inr [\<lparr>rt_template = ''/hook'', rt_methods = Some [''POST''],
                     rt_handler = auth (fixV2Middleware reads (echo add))\<rparr>,
                    \<lparr>rt_template = ''/hooks'', rt_methods = None,
                     rt_handler = auth (\<lambda>ctx r w. on_fst (echo getAll ctx r w))\<rparr>])
      | _ \<Rightarrow> Inr [])"

end
