(* ===== verification/Metrics.thy ===== *)
theory Metrics
  imports Go_Prelude
begin

text \<open>
  metrics.go: the counter of retries that is registered with prometheus, its label and the
  values of the label. \<open>CurryWith\<close> of a counter vector is a parameter of the services that use
  it; \<open>curry_ok\<close> is its documented behaviour.
\<close>

type_synonym labels = "(string \<times> string) list"

text \<open>A counter vector: the labels that are still open, and the ones that are fixed.\<close>

record counter_vec =
  cv_Name :: string
  cv_Help :: string
  cv_open :: "string list"
  cv_fixed :: labels

definition serviceConfigsRetriesCounter :: string where
  "serviceConfigsRetriesCounter = ''service_configs_retries''"

definition apiLabel :: string where "apiLabel = ''api''"

definition stat_api :: string where "stat_api = ''stat''"
definition device_api :: string where "device_api = ''device''"

definition provideMetrics :: counter_vec where
  "provideMetrics =
     \<lparr>cv_Name = serviceConfigsRetriesCounter,
      cv_Help = ''Count of retries for xmidt service configs api calls.'',
      cv_open = [apiLabel], cv_fixed = []\<rparr>"

text \<open>
  The documented behaviour of \<open>CurryWith\<close>: labels that are open are fixed and there is no
  error; a label that is not open is an error, and the vector is nil then.
\<close>

definition curry_ok :: "(counter_vec \<Rightarrow> labels \<Rightarrow> counter_vec option \<times> goerror option) \<Rightarrow> bool" where
  "curry_ok cw \<longleftrightarrow>
     (\<forall>v ls. if set (map fst ls) \<subseteq> set (cv_open v)
        then cw v ls = (Some (v\<lparr>cv_open := filter (\<lambda>l. l \<notin> set (map fst ls)) (cv_open v),
                                   cv_fixed := cv_fixed v @ ls\<rparr>), None)
        else \<exists>e. cw v ls = (None, Some e))"

definition plain_curry :: "counter_vec \<Rightarrow> labels \<Rightarrow> counter_vec option \<times> goerror option" where
  "plain_curry v ls =
     (if set (map fst ls) \<subseteq> set (cv_open v)
      then (Some (v\<lparr>cv_open := filter (\<lambda>l. l \<notin> set (map fst ls)) (cv_open v), cv_fixed := cv_fixed v @ ls\<rparr>), None)
      else (None, Some (ErrExt ''label name not found in value map'' None)))"

lemma plain_curry_ok: "curry_ok plain_curry"
  by (simp add: curry_ok_def plain_curry_def)

text \<open>The counter of one API, of the registered vector.\<close>

definition api_counter :: "string \<Rightarrow> counter_vec" where
  "api_counter api = provideMetrics\<lparr>cv_open := [], cv_fixed := [(apiLabel, api)]\<rparr>"

lemma curry_registered:
  "curry_ok cw \<Longrightarrow> cw provideMetrics [(apiLabel, api)] = (Some (api_counter api), None)"
  by (simp add: curry_ok_def api_counter_def provideMetrics_def)

end
