(* ===== verification/Primary_Handler.thy ===== *)
theory Primary_Handler
  imports Webhooks Metrics
begin

text \<open>
  primaryHandler.go: which acquirer a configuration gives, the options of the two services
  (URLs, timeouts, retries), the validators and handlers of the webhook service, and its
  in-memory store. The retrying transactor of webpa-common, the HTTP client, the counters of
  prometheus, the URL checker of ancla and its handlers are parameters.
\<close>

section \<open>Acquirers and service options\<close>

record authAcquirerConfig =
  aq_JWT :: RemoteBearerTokenAcquirerOptions
  aq_Basic :: string

definition err_acquirer_config :: goerror where
  "err_acquirer_config = ErrNew ''auth acquirer not configured properly''"

definition createAuthAcquirer :: "authAcquirerConfig \<Rightarrow> goerror + AuthAcquirer" where
  "createAuthAcquirer config =
     (if jo_AuthURL (aq_JWT config) \<noteq> [] \<and> jo_Buffer (aq_JWT config) \<noteq> 0 \<and> jo_Timeout (aq_JWT config) \<noteq> 0
      then Inr (Jwt (new_JwtAcquirer (aq_JWT config)))
      else if aq_Basic config \<noteq> [] then
        Inr (Basic \<lparr>ba_Username = [], ba_Password = [], ba_Token = aq_Basic config\<rparr>)
      else Inl err_acquirer_config)"

record httpClientTimeout =
  ht_ClientTimeout :: duration
  ht_RequestTimeout :: duration
  ht_NetDialerTimeout :: duration

text \<open>What \<open>newHTTPClient\<close> sets of the client: its own timeout and the one of its dialer.\<close>

record http_client =
  hc_Timeout :: duration
  hc_DialTimeout :: duration

definition newHTTPClient :: "httpClientTimeout \<Rightarrow> http_client" where
  "newHTTPClient timeouts =
     \<lparr>hc_Timeout = ht_ClientTimeout timeouts, hc_DialTimeout = ht_NetDialerTimeout timeouts\<rparr>"

record retry_options =
  ro_Retries :: int
  ro_Interval :: duration
  ro_Counter :: "counter_vec option"

record ServiceOptionsIn =
  si_XmidtClientTimeout :: httpClientTimeout
  si_RequestMaxRetries :: int
  si_RequestRetryInterval :: duration
  si_TargetURL :: string
  si_WRPSource :: string
  si_ServiceConfigsRetries :: counter_vec

text \<open>
  What is outside: what a client does with a request, \<open>xhttp.RetryTransactor\<close>, and
  \<open>CurryWith\<close>, which fixes labels of a counter vector or fails.
\<close>

record http_libs =
  hl_Do :: "http_client \<Rightarrow> out_request \<Rightarrow> goerror + http_response"
  hl_RetryTransactor ::
    "retry_options \<Rightarrow> (out_request \<Rightarrow> goerror + http_response) \<Rightarrow> out_request \<Rightarrow> goerror + http_response"
  hl_CurryWith :: "counter_vec \<Rightarrow> labels \<Rightarrow> counter_vec option \<times> goerror option"

definition retries_counter :: "http_libs \<Rightarrow> ServiceOptionsIn \<Rightarrow> string \<Rightarrow> counter_vec option \<times> goerror option" where
  "retries_counter HL i api = hl_CurryWith HL (si_ServiceConfigsRetries i) [(apiLabel, api)]"

text \<open>The transactor of one API; \<open>now\<close> is the clock when a transaction starts.\<close>

definition api_transactor :: "http_libs \<Rightarrow> ServiceOptionsIn \<Rightarrow> string \<Rightarrow> transactor" where
  "api_transactor HL i api =
     New \<lparr>op_RequestTimeout = sint (ht_RequestTimeout (si_XmidtClientTimeout i)),
          op_Do = hl_RetryTransactor HL
            \<lparr>ro_Retries = si_RequestMaxRetries i, ro_Interval = si_RequestRetryInterval i,
             ro_Counter = fst (retries_counter HL i api)\<rparr>
            (hl_Do HL (newHTTPClient (si_XmidtClientTimeout i)))\<rparr>"

definition provideServiceOptions ::
  "http_libs \<Rightarrow> int \<Rightarrow> ServiceOptionsIn
     \<Rightarrow> ('s stat_ServiceOptions \<times> 's translation_options) \<times> goerror option" where
  "provideServiceOptions HL now i =
     (let errs = errors_Join [None, snd (retries_counter HL i stat_api)];
          statOptions = \<lparr>so_XmidtStatURL = si_TargetURL i @ ''/device/${device}/stat'',
                         so_AuthAcquirer = None,
                         so_HTTPTransactor = Transact (api_transactor HL i stat_api) now\<rparr>;
          errs' = errors_Join [errs, snd (retries_counter HL i device_api)];
          translationOptions = \<lparr>to_XmidtWrpURL = si_TargetURL i @ ''/device'',
                                to_WRPSource = si_WRPSource i,
                                to_AuthAcquirer = None,
                                to_T = Transact (api_transactor HL i device_api) now\<rparr>
      in ((statOptions, translationOptions), errs'))"

section \<open>Validators of webhooks\<close>

text \<open>
  The fields of ancla's \<open>SchemaURLValidatorConfig\<close> the code reads or writes; the other ones
  are left open.
\<close>

record ('c, 'x) validator_config =
  vc_AllowLoopback :: bool
  vc_AllowIP :: bool
  vc_AllowSpecialUseDomains :: bool
  vc_TTL :: "'c TTLVConfig"
  vc_other :: 'x

record ('c, 'x) ancla_config =
  an_Validation :: "('c, 'x) validator_config"
  an_DisablePartnerIDs :: bool

text \<open>\<open>BuildURLChecker\<close> and \<open>BuildOptions\<close> of a validator configuration.\<close>

record ('c, 'x, 'v) ancla_libs =
  nl_BuildURLChecker :: "('c, 'x) validator_config \<Rightarrow> goerror + 'v"
  nl_BuildOptions :: "('c, 'x) validator_config \<Rightarrow> 'v \<Rightarrow> 'v list"

definition buildWebhookValidators ::
  "('c, 'x, 'v) ancla_libs \<Rightarrow> 'c \<Rightarrow> ('c, 'x) validator_config \<Rightarrow> goerror + 'v list" where
  "buildWebhookValidators NL time_Now validation =
     (let v = (if tv_Now (vc_TTL validation) = None
               then validation\<lparr>vc_TTL := (vc_TTL validation)\<lparr>tv_Now := Some time_Now\<rparr>\<rparr> else validation)
      in case nl_BuildURLChecker NL v of
           Inl err \<Rightarrow> Inl err
         | Inr checker \<Rightarrow> Inr (nl_BuildOptions NL v checker))"

definition v2WebhookValidators ::
  "('c, 'x, 'v) ancla_libs \<Rightarrow> 'c \<Rightarrow> ('c, 'x) ancla_config \<Rightarrow> goerror + 'v list" where
  "v2WebhookValidators NL time_Now c =
     buildWebhookValidators NL time_Now
       ((an_Validation c)\<lparr>vc_AllowLoopback := True, vc_AllowIP := True, vc_AllowSpecialUseDomains := True\<rparr>)"

section \<open>The in-memory webhook service\<close>

text \<open>\<open>simpleWebhookService\<close>: its state is the slice; the owner is only logged.\<close>

type_synonym 'm webhook_store = "'m list"

definition webhook_Add :: "string \<Rightarrow> 'm \<Rightarrow> 'm webhook_store \<Rightarrow> goerror option \<times> 'm webhook_store" where
  "webhook_Add owner manifest store = (None, store @ [manifest])"

definition webhook_GetAll :: "'m webhook_store \<Rightarrow> ('m list \<times> goerror option) \<times> 'm webhook_store" where
  "webhook_GetAll store = ((take (length store) store, None), store)"

text \<open>
  The interface \<open>ancla.Service\<close> as its handlers rely on it: \<open>listed\<close> is what a state of the
  service holds. Adding succeeds and appends, listing returns everything and changes nothing.
\<close>

locale webhook_service =
  fixes add :: "string \<Rightarrow> 'm \<Rightarrow> 's \<Rightarrow> goerror option \<times> 's"
    and getAll :: "'s \<Rightarrow> ('m list \<times> goerror option) \<times> 's"
    and listed :: "'s \<Rightarrow> 'm list"
  assumes add_appends: "add owner m st = (e, st') \<Longrightarrow> e = None \<and> listed st' = listed st @ [m]"
    and getAll_lists: "getAll st = ((all, e), st') \<Longrightarrow> all = listed st \<and> e = None \<and> listed st' = listed st"
begin

lemma getAll_after_add:
  assumes "add owner m st = (e, st')" "getAll st' = ((all, e'), st'')"
  shows "last all = m \<and> butlast all = listed st"
  using add_appends [OF assms(1)] getAll_lists [OF assms(2)] by simp

lemma getAll_twice:
  assumes "getAll st = ((all, e), st')" "getAll st' = ((all', e'), st'')"
  shows "all' = all"
  using getAll_lists [OF assms(1)] getAll_lists [OF assms(2)] by simp

end

interpretation memory: webhook_service webhook_Add webhook_GetAll "\<lambda>store. store"
  by unfold_locales (simp_all add: webhook_Add_def webhook_GetAll_def)

section \<open>The webhook handlers\<close>

record 'v handler_config =
  hg_V :: "'v list"
  hg_DisablePartnerIDs :: bool

text \<open>
  The constructors of ancla's handlers, which are given the operations of the service and a
  configuration.
\<close>

record ('m, 'v, 's) ancla_handlers =
  nh_Add :: "(string \<Rightarrow> 'm \<Rightarrow> 'm webhook_store \<Rightarrow> goerror option \<times> 'm webhook_store)
     \<Rightarrow> 'v handler_config \<Rightarrow> 's io handler"
  nh_GetAll :: "('m webhook_store \<Rightarrow> ('m list \<times> goerror option) \<times> 'm webhook_store)
     \<Rightarrow> 'v handler_config \<Rightarrow> 's io handler"

record 's webhook_handlers =
  wh_Add :: "'s io handler option"
  wh_V2Add :: "'s io handler option"
  wh_GetAll :: "'s io handler option"

definition no_webhook_handlers :: "'s webhook_handlers" where
  "no_webhook_handlers = \<lparr>wh_Add = None, wh_V2Add = None, wh_GetAll = None\<rparr>"

text \<open>
  \<open>isSet\<close> is \<open>V.IsSet(webhookConfigKey)\<close>. The two lines for the startup log are left out, and so
  is the logger that the handlers are given.
\<close>

definition provideWebhookHandlers ::
  "('c, 'x, 'v) ancla_libs \<Rightarrow> ('m, 'v, 's) ancla_handlers \<Rightarrow> 'c \<Rightarrow> bool \<Rightarrow> ('c, 'x) ancla_config
     \<Rightarrow> 's webhook_handlers \<times> goerror option" where
  "provideWebhookHandlers NL NH time_Now isSet config =
     (if \<not> isSet then (no_webhook_handlers, None)
      else case buildWebhookValidators NL time_Now (an_Validation config) of
        Inl err \<Rightarrow>
          (no_webhook_handlers, Some (ErrWrap (''failed to initialize webhook validators: '' @ err_Error err) err))
      | Inr builtValidators \<Rightarrow>
          (case v2WebhookValidators NL time_Now config of
             Inl err \<Rightarrow>
               (no_webhook_handlers, Some (ErrWrap (''failed to setup v2 webhook validators: '' @ err_Error err) err))
           | Inr v2Validators \<Rightarrow>
               (let handlerConfig = \<lparr>hg_V = builtValidators, hg_DisablePartnerIDs = an_DisablePartnerIDs config\<rparr>;
                    v2HandlerConfig = handlerConfig\<lparr>hg_V := v2Validators\<rparr>
                in (\<lparr>wh_Add = Some (nh_Add NH webhook_Add handlerConfig),
                     wh_V2Add = Some (nh_Add NH webhook_Add v2HandlerConfig),
                     wh_GetAll = Some (nh_GetAll NH webhook_GetAll handlerConfig)\<rparr>, None))))"

end
