(* ===== verification/App.thy ===== *)
theory App
  imports Primary_Handler
begin

text \<open>
  The program around the services: main.go (constants, defaults, client timeouts, version,
  exit codes), setup.go (flags, configuration, logger) and basculeLogging.go (headers without
  credentials). pflag, viper, sallust and fx are parameters.
\<close>

section \<open>Headers for the log (basculeLogging.go)\<close>

definition sanitizeHeaders :: "header \<Rightarrow> header" where
  "sanitizeHeaders headers =
     (let filtered = headers; authHeader = hdr_get filtered ''Authorization'' in
      if authHeader \<noteq> [] then
        (let filtered' = hdr_del ''Authorization'' filtered;
             parts = Split authHeader (CHR '' '')
         in if length parts = 2 then hdr_set ''Authorization-Type'' (parts ! 0) filtered' else filtered')
      else filtered)"

section \<open>Constants, defaults and timeouts (main.go)\<close>

definition DefaultKeyID :: string where "DefaultKeyID = ''current''"
definition applicationName :: string where "applicationName = ''tr1d1um''"

text \<open>What the constants' constructor provides, under its name.\<close>

definition provided_consts :: "string \<times> string" where
  "provided_consts = (''default_key_id'', DefaultKeyID)"

text \<open>The keys of the configuration.\<close>

definition translationServicesKey :: string where "translationServicesKey = ''supportedServices''"
definition targetURLKey :: string where "targetURLKey = ''targetURL''"
definition netDialerTimeoutKey :: string where "netDialerTimeoutKey = ''netDialerTimeout''"
definition clientTimeoutKey :: string where "clientTimeoutKey = ''clientTimeout''"
definition reqTimeoutKey :: string where "reqTimeoutKey = ''respWaitTimeout''"
definition reqRetryIntervalKey :: string where "reqRetryIntervalKey = ''requestRetryInterval''"
definition reqMaxRetriesKey :: string where "reqMaxRetriesKey = ''requestMaxRetries''"
definition wrpSourceKey :: string where "wrpSourceKey = ''WRPSource''"
definition hooksSchemeKey :: string where "hooksSchemeKey = ''hooksScheme''"
definition reducedTransactionLoggingCodesKey :: string where "reducedTransactionLoggingCodesKey = ''logging.reducedLoggingResponseCodes''"
definition authAcquirerKey :: string where "authAcquirerKey = ''authAcquirer''"
definition webhookConfigKey :: string where "webhookConfigKey = ''webhook''"
definition tracingConfigKey :: string where "tracingConfigKey = ''tracing''"
definition fingerprintCredsKey :: string where "fingerprintCredsKey = ''fingerprintCreds''"

text \<open>A value of the configuration; \<open>CvMap\<close> says that there are values below its key.\<close>

datatype config_value =
    CvStr string
  | CvInt int
  | CvBool bool
  | CvStrs "string list"
  | CvInts "int list"
  | CvMap

text \<open>The map \<open>defaults\<close>, as key and value pairs.\<close>

definition defaults :: "(string \<times> config_value) list" where
  "defaults =
     [(translationServicesKey, CvStrs []), (targetURLKey, CvStr ''localhost:6000''),
      (netDialerTimeoutKey, CvStr ''5s''), (clientTimeoutKey, CvStr ''50s''),
      (reqTimeoutKey, CvStr ''40s''), (reqRetryIntervalKey, CvStr ''2s''),
      (reqMaxRetriesKey, CvInt 2), (wrpSourceKey, CvStr ''dns:localhost''),
      (hooksSchemeKey, CvStr ''https'')]"

definition seconds :: "int \<Rightarrow> duration" where
  "seconds n = word_of_int n * 1000000000"

definition configureXmidtClientTimeout :: "httpClientTimeout \<Rightarrow> httpClientTimeout" where
  "configureXmidtClientTimeout xct0 =
     (let xct1 = (if ht_ClientTimeout xct0 = 0 then xct0\<lparr>ht_ClientTimeout := seconds 135\<rparr> else xct0);
          xct2 = (if ht_NetDialerTimeout xct1 = 0 then xct1\<lparr>ht_NetDialerTimeout := seconds 5\<rparr> else xct1)
      in if ht_RequestTimeout xct2 = 0 then xct2\<lparr>ht_RequestTimeout := seconds 129\<rparr> else xct2)"

definition configureArgusClientTimeout :: "httpClientTimeout \<Rightarrow> httpClientTimeout" where
  "configureArgusClientTimeout act0 =
     (let act1 = (if ht_ClientTimeout act0 = 0 then act0\<lparr>ht_ClientTimeout := seconds 50\<rparr> else act0)
      in if ht_NetDialerTimeout act1 = 0 then act1\<lparr>ht_NetDialerTimeout := seconds 5\<rparr> else act1)"

text \<open>
  \<open>loadTracing\<close>: the configuration (its application name and the rest) goes to
  \<open>candlelight.New\<close>, which gives a tracing value and whether it is a no-op.
\<close>

definition loadTracing ::
  "(string \<times> 't \<Rightarrow> goerror + ('tracing \<times> bool)) \<Rightarrow> 'tracing \<Rightarrow> string \<times> 't
     \<Rightarrow> ('tracing \<times> goerror option) \<times> log_entry list" where
  "loadTracing newTracing zeroTracing config =
     (case newTracing (applicationName, snd config) of
        Inl err \<Rightarrow> ((zeroTracing, Some err), [])
      | Inr (tracing, isNoop) \<Rightarrow>
          ((tracing, None),
           [log_with [] LvInfo ''tracing status''
              [(''enabled'', LStr (if \<not> isNoop then ''true'' else ''false''))]]))"

section \<open>Flags, configuration and logger (setup.go)\<close>

text \<open>What the three flags of \<open>setupFlagSet\<close> hold after parsing, and their defaults.\<close>

record flags =
  fl_file :: string
  fl_debug :: bool
  fl_version :: bool

definition setupFlagSet :: flags where
  "setupFlagSet = \<lparr>fl_file = [], fl_debug = False, fl_version = False\<rparr>"

text \<open>
  A viper instance: values that were set, values of the configuration file, and defaults, in
  this order of precedence. Keys are kept in lower case, as viper does;
  \<open>UnmarshalKey k\<close> sees the key \<open>k\<close> and the keys below it.
\<close>

record viper =
  vp_set :: "string \<rightharpoonup> config_value"
  vp_file :: "string \<rightharpoonup> config_value"
  vp_default :: "string \<rightharpoonup> config_value"

definition viper_key :: "string \<Rightarrow> string" where
  "viper_key k = map to_lower k"

definition viper_get :: "viper \<Rightarrow> string \<Rightarrow> config_value option" where
  "viper_get v k =
     (case vp_set v (viper_key k) of Some x \<Rightarrow> Some x
      | None \<Rightarrow> (case vp_file v (viper_key k) of Some x \<Rightarrow> Some x
                | None \<Rightarrow> vp_default v (viper_key k)))"

definition viper_IsSet :: "viper \<Rightarrow> string \<Rightarrow> bool" where
  "viper_IsSet v k \<longleftrightarrow> viper_get v k \<noteq> None"

definition viper_below :: "viper \<Rightarrow> string \<Rightarrow> string \<rightharpoonup> config_value" where
  "viper_below v k x = (if viper_key x = viper_key k \<or> prefix (viper_key k @ ''.'') (viper_key x) then viper_get v x else None)"

text \<open>Where the configuration is read from.\<close>

datatype config_source = ConfigFile string | SearchPath string "string list"

text \<open>
  What is outside: parsing the arguments (\<open>-h\<close> gives the error \<open>pflag.ErrHelp\<close>), reading a
  configuration, and building a logger from its part of the configuration.
\<close>

record 'l app_libs =
  pl_Parse :: "flags \<Rightarrow> string list \<Rightarrow> goerror + flags"
  pl_ReadInConfig :: "config_source \<Rightarrow> goerror + (string \<rightharpoonup> config_value)"
  pl_Build :: "(string \<rightharpoonup> config_value) \<Rightarrow> goerror + 'l"
  pl_ErrHelp :: goerror

definition config_search :: "flags \<Rightarrow> config_source" where
  "config_search fs =
     (if length (fl_file fs) > 0 then ConfigFile (fl_file fs)
      else SearchPath applicationName [''/etc/'' @ applicationName, ''$HOME/.'' @ applicationName, ''.''])"

text \<open>
  \<open>setup\<close> (\<open>app_setup\<close> here); an error of building the logger panics (\<open>zap.Must\<close>). The result is the viper
  instance, the logger, the flags and the error.
\<close>

definition app_setup ::
  "'l app_libs \<Rightarrow> string list \<Rightarrow> (viper option \<times> 'l option \<times> flags \<times> goerror option) outcome" where
  "app_setup PL args =
     (case pl_Parse PL setupFlagSet args of
        Inl err \<Rightarrow>
          Ret (None, None, setupFlagSet, Some (ErrWrap (''failed to create parse args: '' @ err_Error err) err))
      | Inr fs \<Rightarrow>
          (let v = \<lparr>vp_set = Map.empty, vp_file = Map.empty, vp_default = map_of (map (apfst viper_key) defaults)\<rparr> in
           case pl_ReadInConfig PL (config_search fs) of
             Inl err \<Rightarrow>
               Ret (Some v, None, fs, Some (ErrWrap (''failed to read config file: '' @ err_Error err) err))
           | Inr file \<Rightarrow>
               (let v1 = v\<lparr>vp_file := file\<rparr>;
                    v2 = (if fl_debug fs then v1\<lparr>vp_set := (vp_set v1)(viper_key ''log.level'' \<mapsto> CvStr ''DEBUG'')\<rparr> else v1)
                in case pl_Build PL (viper_below v2 ''logging'') of
                     Inl err \<Rightarrow> Panic
                   | Inr l \<Rightarrow> Ret (Some v2, Some l, fs, None))))"

section \<open>Version and exit codes (main.go)\<close>

record build_info =
  bi_Version :: string
  bi_GoVersion :: string
  bi_Date :: string
  bi_Commit :: string
  bi_GOOS :: string
  bi_GOARCH :: string

definition printVersionInfo :: "build_info \<Rightarrow> string" where
  "printVersionInfo b =
     applicationName @ '':'' @ [CHR 0x0A]
     @ ''  version: '' @ [CHR 0x09] @ bi_Version b @ [CHR 0x0A]
     @ ''  go version: '' @ [CHR 0x09] @ bi_GoVersion b @ [CHR 0x0A]
     @ ''  built time: '' @ [CHR 0x09] @ bi_Date b @ [CHR 0x0A]
     @ ''  git commit: '' @ [CHR 0x09] @ bi_Commit b @ [CHR 0x0A]
     @ ''  os/arch: '' @ [CHR 0x09] @ bi_GOOS b @ ''/'' @ bi_GOARCH b @ [CHR 0x0A]"

text \<open>Whether the program is done, the error, and what went to the standard output.\<close>

definition printVersion ::
  "'l app_libs \<Rightarrow> build_info \<Rightarrow> flags \<Rightarrow> string list \<Rightarrow> (bool \<times> goerror option) \<times> string" where
  "printVersion PL b f arguments =
     (case pl_Parse PL f arguments of
        Inl err \<Rightarrow> ((True, Some err), [])
      | Inr f' \<Rightarrow>
          if fl_version f' then ((True, None), printVersionInfo b) else ((False, None), []))"

text \<open>
  How the process ends: its exit code, the standard output, and whether the application ran.
  \<open>app\<close> is the error \<open>fx.New\<close> leaves in the application for a configuration and a logger, if
  any. A process that panics has no run.
\<close>

record process_end =
  pe_code :: int
  pe_stdout :: string
  pe_ran :: bool

definition exitIfError :: "goerror option \<Rightarrow> int option" where
  "exitIfError err = (case err of None \<Rightarrow> None | Some e \<Rightarrow> Some 1)"

definition tr1d1um ::
  "'l app_libs \<Rightarrow> build_info \<Rightarrow> (viper \<Rightarrow> 'l \<Rightarrow> goerror option) \<Rightarrow> string list \<Rightarrow> process_end outcome" where
  "tr1d1um PL b app arguments =
     outcome_bind (app_setup PL arguments) (\<lambda>(v, l, f, err).
       case err of
         Some e \<Rightarrow> Ret \<lparr>pe_code = 1, pe_stdout = [], pe_ran = False\<rparr>
       | None \<Rightarrow>
           (case printVersion PL b f arguments of
              ((True, parseErr), out) \<Rightarrow>
                (case exitIfError (map_option (\<lambda>e. ErrWrap (''failed to parse arguments: '' @ err_Error e) e) parseErr) of
                   Some code \<Rightarrow> Ret \<lparr>pe_code = code, pe_stdout = out, pe_ran = False\<rparr>
                 | None \<Rightarrow> Ret \<lparr>pe_code = 0, pe_stdout = out, pe_ran = False\<rparr>)
            | ((False, _), out) \<Rightarrow>
                (case app (the v) (the l) of
                   Some e \<Rightarrow>
                     if err_Is e (pl_ErrHelp PL) then Ret \<lparr>pe_code = 0, pe_stdout = out, pe_ran = False\<rparr>
                     else Ret \<lparr>pe_code = 2, pe_stdout = out, pe_ran = False\<rparr>
                 | None \<Rightarrow> Ret \<lparr>pe_code = 0, pe_stdout = out, pe_ran = True\<rparr>)))"

end
