(* ===== verification/Webhooks_Props.thy ===== *)
theory Webhooks_Props
  imports Webhooks
begin

text \<open>
  What the webhook middleware promises: requests of the current version pass through, a
  registration of the old version that reaches the library has passed its checks or has the
  default duration, what cannot be read is refused, and the captured handler variable does no
  harm. One branch goes on after its error reply.
\<close>

section \<open>The repair of a registration\<close>

text \<open>
  The specification: nothing but duration and until is touched; an until time is kept only if
  its check passes, and otherwise the duration is the maximum or one that was set and passes.
\<close>

definition acceptable ::
  "'x webhook_libs \<Rightarrow> 'c TTLVConfig \<Rightarrow> int \<Rightarrow> 'x registration \<Rightarrow> 'x registration \<Rightarrow> bool" where
  "acceptable WL config now wr wr' \<longleftrightarrow>
     rg_other wr' = rg_other wr
     \<and> (case rg_Until wr' of
          Some u \<Rightarrow> wr' = wr \<and> wl_CheckUntil WL wr now (tv_Jitter config) (tv_Max config) = None
        | None \<Rightarrow> rg_Duration wr' = tv_Max config
            \<or> (wr' = wr \<and> rg_Duration wr \<noteq> 0 \<and> wl_ValidateDuration WL wr (tv_Max config) = None))"

text \<open>A registration that needs no repair.\<close>

definition sound :: "'x webhook_libs \<Rightarrow> 'c TTLVConfig \<Rightarrow> int \<Rightarrow> 'x registration \<Rightarrow> bool" where
  "sound WL config now wr \<longleftrightarrow>
     (case rg_Until wr of
        None \<Rightarrow> rg_Duration wr \<noteq> 0 \<and> wl_ValidateDuration WL wr (tv_Max config) = None
      | Some u \<Rightarrow> wl_CheckUntil WL wr now (tv_Jitter config) (tv_Max config) = None)"

lemma fix_registration_acceptable:
  "acceptable WL config now wr (fst (fix_registration WL config now wr))"
  by (auto simp: acceptable_def fix_registration_def split: option.splits)

lemma fix_registration_sound:
  "sound WL config now wr \<Longrightarrow> fix_registration WL config now wr = (wr, None)"
  by (auto simp: sound_def fix_registration_def split: option.splits)

lemma fix_registration_unsound:
  "\<not> sound WL config now wr \<Longrightarrow>
     fst (fix_registration WL config now wr) = wr\<lparr>rg_Until := None, rg_Duration := tv_Max config\<rparr>
     \<and> snd (fix_registration WL config now wr) \<noteq> None"
  by (cases wr) (auto simp: sound_def fix_registration_def split: option.splits)

section \<open>The handler on each kind of request\<close>

definition is_v2 :: "http_request \<Rightarrow> bool" where
  "is_v2 r \<longleftrightarrow> rq_Vars r \<noteq> None \<and> mux_var r ''version'' = prevAPIVersion"

definition with_body :: "bytes \<Rightarrow> http_request \<Rightarrow> http_request" where
  "with_body b r = r\<lparr>rq_Body := \<lparr>bd_data = b, bd_err = None\<rparr>\<rparr>"

text \<open>The handler that a request of the old version goes on to.\<close>

definition chosen :: "'s io handler \<Rightarrow> 's io handler option \<Rightarrow> 's io handler" where
  "chosen nextHandler v = (case v of None \<Rightarrow> nextHandler | Some h \<Rightarrow> h)"

definition v2_logger ::
  "'x webhook_libs \<Rightarrow> (reqctx \<Rightarrow> log_fields option) option \<Rightarrow> reqctx \<Rightarrow> log_fields option" where
  "v2_logger WL getLogger ctx =
     (case wl_Get WL ctx of
        Some l \<Rightarrow> Some l
      | None \<Rightarrow> (case getLogger of None \<Rightarrow> None | Some g \<Rightarrow> g ctx))"

lemma fixV2_other_version:
  "\<not> is_v2 r \<Longrightarrow> fixV2_handler WL g config reads nextHandler ctx r w st = on_fst (nextHandler ctx r w) st"
  by (auto simp: fixV2_handler_def is_v2_def split: prod.split)

lemma fixV2_read_error:
  "is_v2 r \<Longrightarrow> bd_err (rq_Body r) = Some err \<Longrightarrow>
     fixV2_handler WL g config reads nextHandler ctx r w st
     = outcome_bind (v2ErrEncode (v2_logger WL g ctx) err 0 w) (\<lambda>w'. Ret (w', st))"
  by (auto simp: fixV2_handler_def is_v2_def v2_logger_def ReadAll_def Let_def split: prod.split)

lemma fixV2_unmarshal_error:
  "is_v2 r \<Longrightarrow> bd_err (rq_Body r) = None \<Longrightarrow> wl_Unmarshal WL (bd_data (rq_Body r)) = Inl e \<Longrightarrow>
     fixV2_handler WL g config reads nextHandler ctx r w st
     = outcome_bind (v2ErrEncode (v2_logger WL g ctx) (unmarshal_failure e) 400 w) (\<lambda>w'. Ret (w', st))"
  by (auto simp: fixV2_handler_def is_v2_def v2_logger_def ReadAll_def Let_def split: prod.split)

lemma fixV2_registered:
  assumes "is_v2 r" "bd_err (rq_Body r) = None" "wl_Unmarshal WL (bd_data (rq_Body r)) = Inr wr"
    and "fix_registration WL config (reads (the (tv_Now config))) wr = (wr', warning)"
  shows "fixV2_handler WL g config reads nextHandler ctx r w (s, v) =
    (case wl_Marshal WL wr' of
       Inl err \<Rightarrow>
         outcome_bind (v2ErrEncode (v2_logger WL g ctx)
             (ErrNew (''failed to recreate request body: '' @ err_Error err)) 0 (add_warning warning w))
           (\<lambda>w2. on_fst (chosen nextHandler v ctx (with_body [] r) w2) (s, Some (chosen nextHandler v)))
     | Inr body \<Rightarrow>
         on_fst (chosen nextHandler v ctx (with_body body r) (add_warning warning w)) (s, Some (chosen nextHandler v)))"
  using assms unfolding chosen_def with_body_def v2_logger_def
  by (auto simp: fixV2_handler_def is_v2_def ReadAll_def Let_def)

lemma v2ErrEncode_sends:
  assumes "rw_sent w = None" "rw_write_err w = None"
    and "code' = (if code = 0 then 500 else code)" "200 \<le> code'" "code' \<le> 999" "body_allowed code'"
  shows "\<exists>w'. v2ErrEncode (Some l) err code w = Ret w' \<and> rw_status w' = Some code'
    \<and> rw_body w' = rw_body w @ json_message (err_Error err) \<and> rw_sent_header w' = rw_header w"
  using assms
  by (auto simp: v2ErrEncode_def Let_def WriteHeader_def Write_def rw_status_def rw_sent_header_def
      rw_add_log_def split: if_splits)

lemma add_warning_frame [simp]:
  "rw_sent (add_warning x w) = rw_sent w" "rw_write_err (add_warning x w) = rw_write_err w"
  "rw_body (add_warning x w) = rw_body w"
  by (simp_all add: add_warning_def split: option.split)

section \<open>The captured variable\<close>

lemma chosen_simps: "chosen n None = n" "chosen n (Some h) = h"
  by (simp_all add: chosen_def)

text \<open>Requests one after the other: the replies in order, and the state in the end.\<close>

fun serve_all :: "'s io handler \<Rightarrow> (reqctx \<times> http_request \<times> rw) list \<Rightarrow> 's \<Rightarrow> (rw list \<times> 's) outcome" where
  "serve_all h [] s = Ret ([], s)"
| "serve_all h ((ctx, r, w) # qs) s =
     outcome_bind (h ctx r w s) (\<lambda>(w', s').
       outcome_bind (serve_all h qs s') (\<lambda>(ws, s''). Ret (w' # ws, s'')))"

text \<open>What is visible of a run: everything but the variable.\<close>

definition visible :: "(rw list \<times> ('s \<times> 't)) outcome \<Rightarrow> (rw list \<times> 's) outcome" where
  "visible m = outcome_bind m (\<lambda>(ws, st). Ret (ws, fst st))"

lemma on_fst_capture:
  "on_fst io (s, v') = outcome_bind (on_fst io (s, v)) (\<lambda>(w, st). Ret (w, (fst st, v')))"
  by (cases "io s") (auto simp: on_fst_def split: prod.split)

lemma on_fst_snd: "on_fst io (s, x) = Ret (w', st) \<Longrightarrow> snd st = x"
  by (cases "io s") (auto simp: on_fst_def)

lemma fixV2_capture:
  assumes "v = None \<or> v = Some nextHandler"
  shows "\<exists>v'. (v' = None \<or> v' = Some nextHandler)
    \<and> fixV2_handler WL g config reads nextHandler ctx r w (s, v)
      = outcome_bind (fixV2_handler WL g config reads nextHandler ctx r w (s, Some nextHandler))
          (\<lambda>(w', st). Ret (w', (fst st, v')))
    \<and> (\<forall>w' st. fixV2_handler WL g config reads nextHandler ctx r w (s, Some nextHandler) = Ret (w', st)
          \<longrightarrow> snd st = Some nextHandler)"
proof -
  have bind: "outcome_bind m (\<lambda>w'. Ret (w', (s, v))) = outcome_bind (outcome_bind m (\<lambda>w'. Ret (w', (s, Some nextHandler))))
      (\<lambda>(w', st). Ret (w', (fst st, v)))" for m
    by (cases m) auto
  consider (other) "\<not> is_v2 r" | (unread) err where "is_v2 r" "bd_err (rq_Body r) = Some err"
    | (bad) e where "is_v2 r" "bd_err (rq_Body r) = None" "wl_Unmarshal WL (bd_data (rq_Body r)) = Inl e"
    | (good) wr where "is_v2 r" "bd_err (rq_Body r) = None" "wl_Unmarshal WL (bd_data (rq_Body r)) = Inr wr"
    by (cases "bd_err (rq_Body r)"; cases "wl_Unmarshal WL (bd_data (rq_Body r))") blast+
  then show ?thesis
  proof cases
    case other
    with assms show ?thesis
      by (intro exI [of _ v]) (auto simp: fixV2_other_version intro: on_fst_capture dest!: on_fst_snd)
  next
    case unread
    with assms bind show ?thesis
      by (intro exI [of _ v]) (auto simp: fixV2_read_error outcome_bind_Ret_iff)
  next
    case bad
    with assms bind show ?thesis
      by (intro exI [of _ v]) (auto simp: fixV2_unmarshal_error outcome_bind_Ret_iff)
  next
    case good
    obtain wr' warning where repaired:
      "fix_registration WL config (reads (the (tv_Now config))) wr = (wr', warning)" by fastforce
    have same: "fixV2_handler WL g config reads nextHandler ctx r w (s, v)
        = fixV2_handler WL g config reads nextHandler ctx r w (s, Some nextHandler)"
      unfolding fixV2_registered [where reads = reads, OF good repaired]
      using assms by (elim disjE) (simp_all only: chosen_simps)
    have keep: "snd st = Some nextHandler"
      if "fixV2_handler WL g config reads nextHandler ctx r w (s, Some nextHandler) = Ret (w', st)" for w' st
      using that
      by (auto simp: fixV2_registered [where reads = reads, OF good repaired] chosen_simps outcome_bind_Ret_iff
          split: sum.splits dest!: on_fst_snd)
    show ?thesis
      using same keep
      by (intro exI [of _ "Some nextHandler"])
        (cases "fixV2_handler WL g config reads nextHandler ctx r w (s, Some nextHandler)", auto)
  qed
qed

lemma serve_all_capture:
  assumes "v = None \<or> v = Some nextHandler"
  shows "visible (serve_all (fixV2_handler WL g config reads nextHandler) qs (s, v))
    = visible (serve_all (fixV2_handler WL g config reads nextHandler) qs (s, Some nextHandler))"
  using assms
proof (induction qs arbitrary: s v)
  case Nil
  then show ?case by (simp add: visible_def)
next
  case (Cons q qs)
  obtain ctx r w where q: "q = (ctx, r, w)" by (cases q)
  let ?H = "fixV2_handler WL g config reads nextHandler"
  obtain v' where v': "v' = None \<or> v' = Some nextHandler"
    and step: "?H ctx r w (s, v) = outcome_bind (?H ctx r w (s, Some nextHandler)) (\<lambda>(w', st). Ret (w', (fst st, v')))"
    and keep: "\<And>w' st. ?H ctx r w (s, Some nextHandler) = Ret (w', st) \<Longrightarrow> snd st = Some nextHandler"
    using fixV2_capture [OF Cons.prems, of WL g config reads ctx r w s] by blast
  show ?case
  proof (cases "?H ctx r w (s, Some nextHandler)")
    case (Ret p)
    obtain w' s' where p: "p = (w', (s', Some nextHandler))" using keep [of "fst p" "snd p"] Ret by (cases p) auto
    have "visible (serve_all ?H qs (s', v')) = visible (serve_all ?H qs (s', Some nextHandler))"
      using Cons.IH [OF v'] .
    then show ?thesis
      by (cases "serve_all ?H qs (s', v')"; cases "serve_all ?H qs (s', Some nextHandler)")
        (auto simp: visible_def q step Ret p)
  qed (simp add: visible_def q step)
qed

section \<open>Properties\<close>


definition demo_webhooks :: "(bytes \<Rightarrow> unmarshal_error + unit registration) \<Rightarrow> unit webhook_libs" where
  "demo_webhooks f = \<lparr>wl_Get = (\<lambda>ctx. None), wl_Unmarshal = f,
     wl_Marshal = (\<lambda>x. Inr (show_int (sint (rg_Duration x)))),
     wl_ValidateDuration = (\<lambda>x m. None), wl_CheckUntil = (\<lambda>x n j m. None)\<rparr>"

definition demo_ttl :: "unit TTLVConfig" where
  "demo_ttl = \<lparr>tv_Max = 300000000000, tv_Jitter = 1000000000, tv_Now = Some ()\<rparr>"

definition demo_hook :: "bytes \<Rightarrow> goerror option \<Rightarrow> http_request" where
  "demo_hook b e = (demo_request ''POST'' b e)\<lparr>rq_Vars := Some [(''version'', ''v2'')]\<rparr>"

lemma demo_hook_v2: "is_v2 (demo_hook b e)"
  by (simp add: is_v2_def demo_hook_def mux_var_def gomap_str_def prevAPIVersion_def)

definition demo_add :: "nat io handler" where
  "demo_add ctx r w s = Ret (fst (Write (bd_data (rq_Body r)) w), Suc s)"


text \<open>
  What cannot be read is refused and reaches no handler: a body that is no registration with
  status 400 and the reason, a body whose transfer failed with status 500 and, unlike in the
  translation service, the text of the internal error.
\<close>

theorem v2_unreadable_refused:
  assumes "is_v2 r" "rw_sent w = None" "rw_write_err w = None" "rw_body w = []"
    and "v2_logger WL g ctx = Some l"
    and "code = (case bd_err (rq_Body r) of Some err \<Rightarrow> 500 | None \<Rightarrow> 400)"
    and "case bd_err (rq_Body r) of Some err \<Rightarrow> text = err_Error err
         | None \<Rightarrow> \<exists>e. wl_Unmarshal WL (bd_data (rq_Body r)) = Inl e \<and> text = err_Error (unmarshal_failure e)"
  shows "\<exists>w'. fixV2_handler WL g config reads nextHandler ctx r w st = Ret (w', st)
    \<and> rw_status w' = Some code
    \<and> json_parse (rw_body w') = Some (JObj [(''message'', JStr (to_valid_utf8 text))])"
proof (cases "bd_err (rq_Body r)")
  case (Some err)
  obtain w' where "v2ErrEncode (Some l) err 0 w = Ret w'" "rw_status w' = Some 500"
      "rw_body w' = json_message (err_Error err)"
    using v2ErrEncode_sends [OF assms(2,3), of 500 0 l err] assms(4) by (auto simp: body_allowed_def)
  with Some assms(5-7) show ?thesis by (simp add: fixV2_read_error [OF assms(1)] json_message_parses)
next
  case None
  then obtain e where e: "wl_Unmarshal WL (bd_data (rq_Body r)) = Inl e" "text = err_Error (unmarshal_failure e)"
    using assms(7) by auto
  obtain w' where "v2ErrEncode (Some l) (unmarshal_failure e) 400 w = Ret w'" "rw_status w' = Some 400"
      "rw_body w' = json_message (err_Error (unmarshal_failure e))"
    using v2ErrEncode_sends [OF assms(2,3), of 400 400 l "unmarshal_failure e"] assms(4)
    by (auto simp: body_allowed_def)
  with None e assms(5,6) show ?thesis
    by (simp add: fixV2_unmarshal_error [OF assms(1)] json_message_parses)
qed

theorem v2_unreadable_refused_witness:
  "\<exists>w'. fixV2_handler (demo_webhooks (\<lambda>b. Inl (UnmarshalTypeError ''duration'' ''webhook.CustomDuration'')))
       (Some sallust_Get) demo_ttl (\<lambda>_. 0) demo_add background (demo_hook ''{}'' None) new_rw (0, None)
     = Ret (w', (0, None)) \<and> rw_status w' = Some 400"
proof -
  let ?WL = "demo_webhooks (\<lambda>b. Inl (UnmarshalTypeError ''duration'' ''webhook.CustomDuration''))"
  have "v2_logger ?WL (Some sallust_Get) background = Some []"
    by (simp add: v2_logger_def demo_webhooks_def sallust_Get_def background_def)
  from v2_unreadable_refused [OF demo_hook_v2 _ _ _ this refl, of new_rw "''{}''" None, OF _ _ _ _, of _ demo_ttl
      "\<lambda>_. 0" demo_add "(0, None)"] show ?thesis
    by (auto simp: demo_webhooks_def demo_hook_def demo_request_def)
qed

text \<open>
  A registration that cannot be written back is reported with status 500, but for want of a
  return the handler is called all the same, on a request with an empty body: its bytes follow
  the error message in the same reply.
\<close>

theorem v2_marshal_error_goes_on:
  assumes "is_v2 r" "bd_err (rq_Body r) = None" "wl_Unmarshal WL (bd_data (rq_Body r)) = Inr wr"
    and "\<forall>x. wl_Marshal WL x = Inl err"
    and "rw_sent w = None" "rw_write_err w = None" "v2_logger WL g ctx = Some l"
  shows "\<exists>w2. rw_status w2 = Some 500
    \<and> rw_body w2 = rw_body w @ json_message (''failed to recreate request body: '' @ err_Error err)
    \<and> fixV2_handler WL g config reads nextHandler ctx r w (s, v)
      = on_fst (chosen nextHandler v ctx (with_body [] r) w2) (s, Some (chosen nextHandler v))"
proof -
  obtain wr' warning where repaired:
    "fix_registration WL config (reads (the (tv_Now config))) wr = (wr', warning)" by fastforce
  let ?e = "ErrNew (''failed to recreate request body: '' @ err_Error err)"
  obtain w2 where "v2ErrEncode (Some l) ?e 0 (add_warning warning w) = Ret w2" "rw_status w2 = Some 500"
      "rw_body w2 = rw_body w @ json_message (err_Error ?e)"
    using v2ErrEncode_sends [of "add_warning warning w" 500 0 l ?e] assms(5,6) by (auto simp: body_allowed_def)
  then show ?thesis
    using fixV2_registered [where reads = reads, OF assms(1-3) repaired, of g nextHandler ctx w s v] assms(4,7)
    by auto
qed

theorem v2_marshal_error_goes_on_witness:
  "\<exists>w'. fixV2_handler ((demo_webhooks (\<lambda>b. Inr \<lparr>rg_Duration = 0, rg_Until = None, rg_other = ()\<rparr>))
            \<lparr>wl_Marshal := \<lambda>x. Inl (ErrExt ''unsupported value'' None)\<rparr>)
       (Some sallust_Get) demo_ttl (\<lambda>_. 0) demo_add background (demo_hook ''{}'' None) new_rw (0, None)
     = Ret (w', (1, Some demo_add))"
proof -
  let ?WL = "(demo_webhooks (\<lambda>b. Inr \<lparr>rg_Duration = 0, rg_Until = None, rg_other = ()\<rparr>))
            \<lparr>wl_Marshal := \<lambda>x. Inl (ErrExt ''unsupported value'' None)\<rparr>"
  have "wl_Unmarshal ?WL (bd_data (rq_Body (demo_hook ''{}'' None)))
      = Inr \<lparr>rg_Duration = 0, rg_Until = None, rg_other = ()\<rparr>"
    "\<forall>x. wl_Marshal ?WL x = Inl (ErrExt ''unsupported value'' None)"
    "bd_err (rq_Body (demo_hook ''{}'' None)) = None"
    "v2_logger ?WL (Some sallust_Get) background = Some []"
    by (simp_all add: demo_webhooks_def demo_hook_def demo_request_def v2_logger_def sallust_Get_def background_def)
  from v2_marshal_error_goes_on [OF demo_hook_v2 this(3,1,2) _ _ this(4), of new_rw demo_ttl "\<lambda>_. 0" demo_add 0 None]
  show ?thesis by (auto simp: chosen_def demo_add_def on_fst_def)
qed

text \<open>
  The closure stores \<open>next\<close> in the variable it captured when no handler for the old version
  was configured. For the one chain the program builds this is invisible: over any sequence of
  requests, replies and state are those of a middleware that was given \<open>next\<close> as its handler
  for the old version from the start.
\<close>

theorem captured_handler_invisible:
  "visible (serve_all (fixV2_handler WL g config reads nextHandler) qs (s, None))
   = visible (serve_all (fixV2_handler WL g config reads nextHandler) qs (s, Some nextHandler))"
  by (rule serve_all_capture) simp

end
