(* ===== verification/Primary_Props.thy ===== *)
theory Primary_Props
  imports Primary_Handler Webhooks_Props
begin

text \<open>
  What the construction of the services promises: the acquirer a configuration gives, the
  requests of services built from the options, all or none of the webhook handlers, and the
  webhook store, in order when its operations take turns and with lost updates when two
  goroutines add at once.
\<close>

section \<open>Acquirers\<close>

text \<open>
  The JWT configuration wins when its URL, buffer and timeout are all set; otherwise the Basic
  value is handed out as it is, unchanged and forever; with neither there is no acquirer. A
  new JWT acquirer has no token, so its first call always asks the endpoint.
\<close>

theorem createAuthAcquirer_choice:
  "case createAuthAcquirer c of
     Inl e \<Rightarrow> aq_Basic c = []
       \<and> (jo_AuthURL (aq_JWT c) = [] \<or> jo_Buffer (aq_JWT c) = 0 \<or> jo_Timeout (aq_JWT c) = 0)
   | Inr (Basic b) \<Rightarrow> aq_Basic c \<noteq> []
       \<and> (jo_AuthURL (aq_JWT c) = [] \<or> jo_Buffer (aq_JWT c) = 0 \<or> jo_Timeout (aq_JWT c) = 0)
       \<and> (\<forall>L env. Acquire L env (Basic b) = (Inr (aq_Basic c), Basic b))
   | Inr (Jwt j) \<Rightarrow> jo_AuthURL (aq_JWT c) \<noteq> [] \<and> jo_Buffer (aq_JWT c) \<noteq> 0 \<and> jo_Timeout (aq_JWT c) \<noteq> 0
       \<and> ja_Config j = aq_JWT c \<and> (\<forall>now. \<not> cached now j)"
  by (auto simp: createAuthAcquirer_def BasicAcquirer_Acquire_def new_JwtAcquirer_def cached_def)

section \<open>Requests of the configured services\<close>

lemma api_transactor_sel:
  "tr_RequestTimeout (api_transactor HL i api) = sint (ht_RequestTimeout (si_XmidtClientTimeout i))"
  "tr_Do (api_transactor HL i api) = hl_RetryTransactor HL
     \<lparr>ro_Retries = si_RequestMaxRetries i, ro_Interval = si_RequestRetryInterval i,
      ro_Counter = fst (retries_counter HL i api)\<rparr>
     (hl_Do HL (newHTTPClient (si_XmidtClientTimeout i)))"
  by (simp_all add: api_transactor_def New_def)

text \<open>With the registered counter the options have no error, and retries count under the API.\<close>

lemma registered_counter:
  assumes "curry_ok (hl_CurryWith HL)" "si_ServiceConfigsRetries i = provideMetrics"
  shows "retries_counter HL i api = (Some (api_counter api), None)"
  using assms by (simp add: retries_counter_def curry_registered)

lemma service_options_succeed:
  "curry_ok (hl_CurryWith HL) \<Longrightarrow> si_ServiceConfigsRetries i = provideMetrics
     \<Longrightarrow> snd (provideServiceOptions HL now i) = None"
  by (simp add: provideServiceOptions_def Let_def registered_counter errors_Join_None_iff)

definition credentials :: "'s acquire \<Rightarrow> 's option \<Rightarrow> string \<Rightarrow> string \<Rightarrow> bool" where
  "credentials acquire a client auth \<longleftrightarrow>
     (case a of None \<Rightarrow> auth = client | Some x \<Rightarrow> \<exists>x'. acquire x = (Inr auth, x'))"

lemma stat_request_configured:
  assumes "provideServiceOptions HL now i = ((so, to), err)" "CHR ''$'' \<notin> set (si_TargetURL i)"
    and "lb_ParseURL L (si_TargetURL i @ ''/device/'' @ d @ ''/stat'') = None"
    and "credentials acquire a client auth"
  shows "\<exists>r. fst (RequestStat L acquire None (stat_NewService (so\<lparr>so_AuthAcquirer := a\<rparr>)) client d)
      = Transact (api_transactor HL i ''stat'') now r
    \<and> or_URL r = si_TargetURL i @ ''/device/'' @ d @ ''/stat'' \<and> or_Method r = ''GET''
    \<and> hdr_get (or_Header r) ''Authorization'' = auth \<and> or_Deadline r = None"
proof -
  have so: "so = \<lparr>so_XmidtStatURL = si_TargetURL i @ ''/device/${device}/stat'', so_AuthAcquirer = None,
      so_HTTPTransactor = Transact (api_transactor HL i ''stat'') now\<rparr>"
    using assms(1) by (auto simp: provideServiceOptions_def Let_def stat_api_def)
  show ?thesis
    using assms(3,4)
    by (cases a) (auto simp: RequestStat_def Let_def so stat_NewService_def stat_url [OF assms(2)] credentials_def
        intro!: exI [of _ "\<lparr>or_Method = ''GET'', or_URL = si_TargetURL i @ ''/device/'' @ d @ ''/stat'',
          or_Header = hdr_set ''Authorization'' auth [], or_Body = [], or_Deadline = None\<rparr>"])
qed

lemma wrp_request_configured:
  assumes "provideServiceOptions HL now i = ((so, to), err)"
    and "lb_ParseURL L (si_TargetURL i @ ''/device'') = None"
    and "lb_WrpEncode L (m\<lparr>wm_Source := si_WRPSource i\<rparr>) = Inr payload"
    and "credentials acquire a client auth"
  shows "\<exists>r. fst (SendWRP L acquire None (translation_NewService (to\<lparr>to_AuthAcquirer := a\<rparr>)) m client)
      = Transact (api_transactor HL i ''device'') now r
    \<and> or_URL r = si_TargetURL i @ ''/device'' \<and> or_Method r = ''POST'' \<and> or_Body r = payload
    \<and> hdr_get (or_Header r) ''Authorization'' = auth \<and> or_Deadline r = None"
proof -
  have to: "to = \<lparr>to_XmidtWrpURL = si_TargetURL i @ ''/device'', to_WRPSource = si_WRPSource i,
      to_AuthAcquirer = None, to_T = Transact (api_transactor HL i ''device'') now\<rparr>"
    using assms(1) by (auto simp: provideServiceOptions_def Let_def device_api_def)
  show ?thesis
    using assms(2-4)
    by (cases a) (auto simp: SendWRP_def Let_def to translation_NewService_def credentials_def
        intro!: exI [of _ "\<lparr>or_Method = ''POST'', or_URL = si_TargetURL i @ ''/device'',
          or_Header = hdr_set ''Authorization'' auth (hdr_set ''Content-Type'' (lb_MsgpackType L) []),
          or_Body = payload, or_Deadline = None\<rparr>"])
qed

text \<open>
  C31. A service built from the configured options, with or without an acquirer, sends its requests
  to the configured target: statistics by GET to the device's own path, through the retrying
  transactor that counts under the label \<open>stat\<close>, and WRP messages by POST to the device path,
  under the label \<open>device\<close>; both with the credentials of the acquirer if there is one, and with
  the configured request timeout as their deadline.
\<close>

theorem configured_requests:
  assumes "provideServiceOptions HL now i = ((so, to), err)" "CHR ''$'' \<notin> set (si_TargetURL i)"
    and "lb_ParseURL L (si_TargetURL i @ ''/device/'' @ d @ ''/stat'') = None"
    and "lb_ParseURL L (si_TargetURL i @ ''/device'') = None"
    and "lb_WrpEncode L (m\<lparr>wm_Source := si_WRPSource i\<rparr>) = Inr payload"
    and "credentials acquire a client auth"
  shows "\<exists>r r'. fst (RequestStat L acquire None (stat_NewService (so\<lparr>so_AuthAcquirer := a\<rparr>)) client d)
        = Transact (api_transactor HL i ''stat'') now r
    \<and> fst (SendWRP L acquire None (translation_NewService (to\<lparr>to_AuthAcquirer := a\<rparr>)) m client)
        = Transact (api_transactor HL i ''device'') now r'
    \<and> or_Method r = ''GET'' \<and> or_URL r = si_TargetURL i @ ''/device/'' @ d @ ''/stat''
    \<and> or_Method r' = ''POST'' \<and> or_URL r' = si_TargetURL i @ ''/device'' \<and> or_Body r' = payload
    \<and> (\<forall>x \<in> {r, r'}. hdr_get (or_Header x) ''Authorization'' = auth
         \<and> WithTimeout now (tr_RequestTimeout (api_transactor HL i ''stat'')) (or_Deadline x)
           = Some (now + sint (ht_RequestTimeout (si_XmidtClientTimeout i))))"
proof -
  obtain r where r: "fst (RequestStat L acquire None (stat_NewService (so\<lparr>so_AuthAcquirer := a\<rparr>)) client d)
        = Transact (api_transactor HL i ''stat'') now r"
      "or_URL r = si_TargetURL i @ ''/device/'' @ d @ ''/stat''" "or_Method r = ''GET''"
      "hdr_get (or_Header r) ''Authorization'' = auth" "or_Deadline r = None"
    using stat_request_configured [OF assms(1-3,6)] by blast
  obtain r' where r': "fst (SendWRP L acquire None (translation_NewService (to\<lparr>to_AuthAcquirer := a\<rparr>)) m client)
        = Transact (api_transactor HL i ''device'') now r'"
      "or_URL r' = si_TargetURL i @ ''/device''" "or_Method r' = ''POST''" "or_Body r' = payload"
      "hdr_get (or_Header r') ''Authorization'' = auth" "or_Deadline r' = None"
    using wrp_request_configured [OF assms(1,4-6)] by blast
  show ?thesis
    using r r' by (intro exI [of _ r] exI [of _ r']) (simp add: WithTimeout_def api_transactor_sel)
qed

definition demo_options :: ServiceOptionsIn where
  "demo_options = \<lparr>si_XmidtClientTimeout = \<lparr>ht_ClientTimeout = 135000000000,
       ht_RequestTimeout = 129000000000, ht_NetDialerTimeout = 5000000000\<rparr>,
     si_RequestMaxRetries = 2, si_RequestRetryInterval = 2000000000,
     si_TargetURL = ''http://xmidt'', si_WRPSource = ''dns:tr1d1um'',
     si_ServiceConfigsRetries = provideMetrics\<rparr>"

definition demo_http :: http_libs where
  "demo_http = \<lparr>hl_Do = (\<lambda>c r. Inl (ErrExt ''refused'' None)), hl_RetryTransactor = (\<lambda>x f. f),
                hl_CurryWith = plain_curry\<rparr>"

theorem configured_requests_witness:
  "\<exists>r. fst (SendWRP demo_libs (Acquire demo_libs demo_env) None (translation_NewService
          (snd (fst (provideServiceOptions demo_http 0 demo_options)))) (demo_wrp ''{}'') ''Basic c'')
      = Transact (api_transactor demo_http demo_options ''device'') 0 r
    \<and> or_URL r = ''http://xmidt/device''"
proof -
  obtain so to err where p: "provideServiceOptions demo_http 0 demo_options
      = ((so :: AuthAcquirer stat_ServiceOptions, to :: AuthAcquirer translation_options), err)"
    by (metis surj_pair)
  have "to\<lparr>to_AuthAcquirer := None\<rparr> = to"
    using p by (auto simp: provideServiceOptions_def Let_def)
  moreover have "CHR ''$'' \<notin> set (si_TargetURL demo_options)"
    "lb_ParseURL demo_libs (si_TargetURL demo_options @ ''/device/'' @ ''x'' @ ''/stat'') = None"
    "lb_ParseURL demo_libs (si_TargetURL demo_options @ ''/device'') = None"
    "lb_WrpEncode demo_libs ((demo_wrp ''{}'')\<lparr>wm_Source := si_WRPSource demo_options\<rparr>) = Inr ''{}''"
    "credentials (Acquire demo_libs demo_env) None ''Basic c'' ''Basic c''"
    "si_TargetURL demo_options = ''http://xmidt''"
    by (simp_all add: demo_options_def demo_libs_def demo_wrp_def credentials_def)
  ultimately show ?thesis
    using configured_requests [OF p, of demo_libs "''x''" "demo_wrp ''{}''" "''{}''" "Acquire demo_libs demo_env"
        None "''Basic c''" "''Basic c''"] p
    by auto
qed

section \<open>The webhook handlers\<close>

text \<open>
  The webhook handlers come all or not at all: none when webhooks are not configured (and no
  error then), none when a validator configuration is refused (and the error says which), and
  otherwise all three, built on one service. The validators of the old version are those of
  the configuration with loopback addresses, IP addresses and special-use domains allowed, and
  nothing else changed; the ones of the current version are those of the configuration itself.
\<close>

theorem webhook_handlers_all_or_none:
  "case provideWebhookHandlers NL NH time_Now isSet config of (out, err) \<Rightarrow>
     (err = None \<and> isSet \<longleftrightarrow> wh_Add out \<noteq> None) \<and> (wh_Add out = None \<longleftrightarrow> out = no_webhook_handlers)
     \<and> (\<forall>h. wh_Add out = Some h \<longrightarrow>
          (\<exists>V V2. buildWebhookValidators NL time_Now (an_Validation config) = Inr V
            \<and> buildWebhookValidators NL time_Now ((an_Validation config)\<lparr>vc_AllowLoopback := True,
                vc_AllowIP := True, vc_AllowSpecialUseDomains := True\<rparr>) = Inr V2
            \<and> h = nh_Add NH webhook_Add \<lparr>hg_V = V, hg_DisablePartnerIDs = an_DisablePartnerIDs config\<rparr>
            \<and> wh_V2Add out = Some (nh_Add NH webhook_Add
                \<lparr>hg_V = V2, hg_DisablePartnerIDs = an_DisablePartnerIDs config\<rparr>)
            \<and> wh_GetAll out = Some (nh_GetAll NH webhook_GetAll
                \<lparr>hg_V = V, hg_DisablePartnerIDs = an_DisablePartnerIDs config\<rparr>)))"
  by (auto simp: provideWebhookHandlers_def no_webhook_handlers_def v2WebhookValidators_def Let_def
      split: sum.split)

text \<open>A library without validators and one that refuses.\<close>

definition demo_ancla :: "(unit, unit, nat) ancla_libs" where
  "demo_ancla = \<lparr>nl_BuildURLChecker = (\<lambda>c. if vc_AllowLoopback c then Inr 2 else Inr 1),
                 nl_BuildOptions = (\<lambda>c v. [v])\<rparr>"

definition demo_ancla_config :: "(unit, unit) ancla_config" where
  "demo_ancla_config = \<lparr>an_Validation = \<lparr>vc_AllowLoopback = False, vc_AllowIP = False,
      vc_AllowSpecialUseDomains = False, vc_TTL = demo_ttl, vc_other = ()\<rparr>, an_DisablePartnerIDs = True\<rparr>"

definition demo_handlers :: "(string, nat, nat) ancla_handlers" where
  "demo_handlers = \<lparr>nh_Add = (\<lambda>f c ctx r w s. Ret (w, s + sum_list (hg_V c))),
                    nh_GetAll = (\<lambda>f c ctx r w s. Ret (w, s))\<rparr>"

theorem webhook_handlers_all_or_none_witness:
  "wh_V2Add (fst (provideWebhookHandlers demo_ancla demo_handlers () True demo_ancla_config))
   = Some (nh_Add demo_handlers webhook_Add \<lparr>hg_V = [2], hg_DisablePartnerIDs = True\<rparr>)"
proof -
  obtain out err where p: "provideWebhookHandlers demo_ancla demo_handlers () True demo_ancla_config = (out, err)"
    by fastforce
  then have "err = None"
    by (auto simp: provideWebhookHandlers_def buildWebhookValidators_def v2WebhookValidators_def demo_ancla_def
        demo_ancla_config_def demo_ttl_def Let_def)
  with webhook_handlers_all_or_none [where NL = demo_ancla and NH = demo_handlers and time_Now = "()" and isSet = True and config = demo_ancla_config] p
  obtain h where "wh_Add out = Some h" by auto
  with webhook_handlers_all_or_none [where NL = demo_ancla and NH = demo_handlers and time_Now = "()" and isSet = True and config = demo_ancla_config] p
  obtain V2 where "buildWebhookValidators demo_ancla () ((an_Validation demo_ancla_config)\<lparr>vc_AllowLoopback := True,
      vc_AllowIP := True, vc_AllowSpecialUseDomains := True\<rparr>) = Inr V2"
    "wh_V2Add out = Some (nh_Add demo_handlers webhook_Add
       \<lparr>hg_V = V2, hg_DisablePartnerIDs = an_DisablePartnerIDs demo_ancla_config\<rparr>)"
    by auto
  with p show ?thesis
    by (auto simp: buildWebhookValidators_def demo_ancla_def demo_ancla_config_def demo_ttl_def Let_def)
qed

section \<open>The webhook store, one operation after the other\<close>

datatype 'm store_op = AddOp string 'm | GetAllOp

text \<open>
  The result of each operation (the list a \<open>GetAll\<close> returned) and the state at the end, of any
  service.
\<close>

fun run_ops ::
  "(string \<Rightarrow> 'm \<Rightarrow> 's \<Rightarrow> goerror option \<times> 's) \<Rightarrow> ('s \<Rightarrow> ('m list \<times> goerror option) \<times> 's)
     \<Rightarrow> 'm store_op list \<Rightarrow> 's \<Rightarrow> 'm list option list \<times> 's" where
  "run_ops add getAll [] st = ([], st)"
| "run_ops add getAll (AddOp owner m # ops) st =
     (let (rs, st') = run_ops add getAll ops (snd (add owner m st)) in (None # rs, st'))"
| "run_ops add getAll (GetAllOp # ops) st =
     (let ((all, e), st1) = getAll st; (rs, st') = run_ops add getAll ops st1 in (Some all # rs, st'))"

abbreviation run_store :: "'m store_op list \<Rightarrow> 'm webhook_store \<Rightarrow> 'm list option list \<times> 'm webhook_store" where
  "run_store \<equiv> run_ops webhook_Add webhook_GetAll"

fun added :: "'m store_op list \<Rightarrow> 'm list" where
  "added [] = []"
| "added (AddOp owner m # ops) = m # added ops"
| "added (GetAllOp # ops) = added ops"

text \<open>What every service that keeps the contract does with a sequence of operations.\<close>

context webhook_service
begin

lemma run_ops_history:
  "length (fst (run_ops add getAll ops st)) = length ops
   \<and> (\<forall>k < length ops. fst (run_ops add getAll ops st) ! k
        = (case ops ! k of AddOp owner m \<Rightarrow> None | GetAllOp \<Rightarrow> Some (listed st @ added (take k ops))))
   \<and> listed (snd (run_ops add getAll ops st)) = listed st @ added ops"
proof (induction ops arbitrary: st)
  case (Cons x ops)
  show ?case
  proof (cases x)
    case (AddOp owner m)
    obtain e st' where st': "add owner m st = (e, st')" by fastforce
    with Cons.IH [of st'] add_appends [OF st'] AddOp show ?thesis
      by (cases "run_ops add getAll ops st'") (auto simp: nth_Cons' take_Cons' split: store_op.splits)
  next
    case GetAllOp
    obtain all e st' where st': "getAll st = ((all, e), st')" by (metis surj_pair)
    with Cons.IH [of st'] getAll_lists [OF st'] GetAllOp show ?thesis
      by (cases "run_ops add getAll ops st'") (auto simp: nth_Cons' take_Cons' split: store_op.splits)
  qed
qed simp

end

text \<open>
  Operations that take turns never lose anything: every \<open>GetAll\<close> returns exactly the webhooks
  added before it, in the order they were added, with no error.
\<close>

theorem webhook_store_history:
  assumes "k < length ops" "ops ! k = GetAllOp"
  shows "fst (run_store ops []) ! k = Some (added (take k ops))"
  using memory.run_ops_history [of ops "[]"] assms by simp

theorem webhook_store_history_witness:
  "fst (run_store [AddOp ''a'' (1::nat), AddOp ''b'' 2, GetAllOp] []) ! 2 = Some [1, 2]"
  using webhook_store_history [of 2 "[AddOp ''a'' (1::nat), AddOp ''b'' 2, GetAllOp]"]
  by (simp add: numeral_2_eq_2)

section \<open>The webhook store, used by several goroutines\<close>

text \<open>
  \<open>s.store = append(s.store, manifest)\<close> reads the slice and then writes it, with no lock. One
  step for each (that \<open>append\<close> may also write into an array two slices share, and that the
  words of a slice may be read apart, only adds interference). Goroutine \<open>i\<close> adds \<open>man i\<close>.
\<close>

datatype 'm add_pc = AddStart | AddRead "'m list" | AddDone

record 'm store_conf =
  sr_store :: "'m webhook_store"
  sr_pc :: "nat \<Rightarrow> 'm add_pc"

inductive add_step :: "(nat \<Rightarrow> 'm) \<Rightarrow> 'm store_conf \<Rightarrow> 'm store_conf \<Rightarrow> bool" for man where
  load: "sr_pc c i = AddStart \<Longrightarrow>
    add_step man c (c\<lparr>sr_pc := (sr_pc c)(i := AddRead (sr_store c))\<rparr>)"
| put: "sr_pc c i = AddRead st \<Longrightarrow>
    add_step man c (c\<lparr>sr_store := snd (webhook_Add owner (man i) st), sr_pc := (sr_pc c)(i := AddDone)\<rparr>)"

definition add_init :: "'m store_conf" where
  "add_init = \<lparr>sr_store = [], sr_pc = (\<lambda>i. AddStart)\<rparr>"

text \<open>
  C35. Two calls of \<open>Add\<close> at the same time can lose a webhook: both have returned without an error,
  and only one of the two is in the store.
\<close>

theorem webhook_lost_update:
  "\<exists>c. (add_step man)\<^sup>*\<^sup>* add_init c \<and> sr_pc c 0 = AddDone \<and> sr_pc c 1 = AddDone
     \<and> fst (fst (webhook_GetAll (sr_store c))) = [man 1]"
proof -
  let ?r0 = "\<lparr>sr_store = [], sr_pc = (\<lambda>i. AddStart)(0 := AddRead [])\<rparr>"
  let ?r1 = "\<lparr>sr_store = [], sr_pc = (\<lambda>i. AddStart)(0 := AddRead [], 1 := AddRead [])\<rparr>"
  let ?w0 = "\<lparr>sr_store = [man 0], sr_pc = (\<lambda>i. AddStart)(0 := AddDone, 1 := AddRead [])\<rparr>"
  let ?w1 = "\<lparr>sr_store = [man 1], sr_pc = (\<lambda>i. AddStart)(0 := AddDone, 1 := AddDone)\<rparr>"
  have "add_step man add_init ?r0"
    using add_step.load [of add_init 0 man] by (simp add: add_init_def)
  moreover have "add_step man ?r0 ?r1"
    using add_step.load [of ?r0 1 man] by simp
  moreover have "add_step man ?r1 ?w0"
    using add_step.put [of ?r1 0 "[]" man] by (simp add: webhook_Add_def fun_upd_twist)
  moreover have "add_step man ?w0 ?w1"
    using add_step.put [of ?w0 1 "[]" man] by (simp add: webhook_Add_def)
  ultimately have "(add_step man)\<^sup>*\<^sup>* add_init ?w1"
    by (meson rtranclp.rtrancl_into_rtrancl rtranclp.rtrancl_refl)
  then show ?thesis by (intro exI [of _ ?w1]) (simp add: webhook_GetAll_def)
qed

end
