(* ===== verification/Services_Props.thy ===== *)
theory Services_Props
  imports Services
begin

text \<open>
  What a client of the two services can rely on, proved of the handlers as they are composed:
  every request is answered as its verdict says, failures of the network and of the
  credentials keep to themselves, and only configured services are reachable.
\<close>

text \<open>
  C3. A request to the translation service, from the authenticated request to the last byte of
  the reply: the composed handlers always answer (no panic), with exactly the reply its
  verdict stands for (status, body, content type, and one transaction id: the client's own or
  a generated one), and leave the service in the state the specification says. The only
  premise on XMiDT is that the statuses it sends are ones HTTP can deliver.
\<close>

theorem translation_serves_spec:
  assumes "kit_server_ok serve" "\<forall>h. auth (echo h) ctx0 r w0 = h ctx r w"
    and "rw_sent w = None" "rw_write_err w = None" "rw_body w = []"
    and "canon_key (lb_TIDHeader L) \<noteq> ''Content-Type''"
    and "route \<in> set (translation_ConfigHandler L serve auth echo acquire env c)"
    and "ts_transactor s = Transact t now"
    and "spec = translation_spec L acquire (se_deadline env) (sc_ValidServices c)
           (ctx\<lparr>cx_RequestTID := Some (request_tid L env r)\<rparr>) (captured r) s"
    and "\<forall>v. fst spec = Some v \<longrightarrow> deliverable v"
  shows "\<exists>v w'. fst spec = Some v \<and> rt_handler route ctx0 r w0 s = Ret (w', snd spec)
    \<and> renders L (request_tid L env r) v w'"
proof -
  obtain v s' where v: "spec = (Some v, s')"
    using translation_spec_total [OF assms(8)] assms(9) by blast
  with assms(10) have "deliverable v" by simp
  from translation_route_renders [OF assms(1-7) v [unfolded assms(9)] this] v show ?thesis by simp
qed

text \<open>One configuration for the witnesses: nothing around the service but Welcome.\<close>

definition demo_serve_env :: serve_env where
  "demo_serve_env = \<lparr>se_rand = Inr (replicate 16 (CHR 0x00)), se_arrival = 0, se_finish = 0,
                     se_deadline = None\<rparr>"

definition demo_service_config :: service_config where
  "demo_service_config = \<lparr>sc_ValidServices = [''config''], sc_ReducedLoggingResponseCodes = [],
     sc_BearerFingerprint = \<lparr>fc_SHA256 = False, fc_LastNDigits = 0\<rparr>\<rparr>"

definition demo_xmidt :: "(out_request \<Rightarrow> goerror + http_response) \<Rightarrow> transactor" where
  "demo_xmidt f = \<lparr>tr_RequestTimeout = 129000000000, tr_Do = f\<rparr>"

lemma demo_TID_key: "canon_key (lb_TIDHeader demo_libs) \<noteq> ''Content-Type''"
  by code_simp

text \<open>A service whose XMiDT is down.\<close>

definition demo_down :: "AuthAcquirer option \<Rightarrow> AuthAcquirer translation_service" where
  "demo_down a = demo_service (Transact (demo_xmidt (\<lambda>r. Inl (ErrExt ''refused'' None))) 0) a"

definition demo_route :: "AuthAcquirer translation_service io route" where
  "demo_route = hd (translation_ConfigHandler demo_libs plain_server id id
     (Acquire demo_libs demo_env) demo_serve_env demo_service_config)"

lemma demo_route_in:
  "demo_route \<in> set (translation_ConfigHandler demo_libs plain_server id id
     (Acquire demo_libs demo_env) demo_serve_env demo_service_config)"
  by (simp add: demo_route_def translation_ConfigHandler_def Let_def)

lemma demo_down_sel [simp]:
  "ts_transactor (demo_down a) = Transact (demo_xmidt (\<lambda>r. Inl (ErrExt ''refused'' None))) 0"
  "ts_authAcquirer (demo_down a) = a" "ts_wrpSource (demo_down a) = ''dns:tr1d1um''"
  "ts_xmidtWrpURL (demo_down a) = ''http://xmidt/api/v3/device''"
  by (simp_all add: demo_down_def demo_service_def translation_NewService_def)

theorem translation_serves_spec_witness:
  "\<exists>w'. rt_handler demo_route background (demo_request ''GET'' [] None) new_rw (demo_down None)
      = Ret (w', demo_down None) \<and> rw_status w' = Some 400"
proof -
  let ?r = "demo_request ''GET'' [] None"
  let ?spec = "translation_spec demo_libs (Acquire demo_libs demo_env) (se_deadline demo_serve_env)
    (sc_ValidServices demo_service_config)
    (background\<lparr>cx_RequestTID := Some (request_tid demo_libs demo_serve_env ?r)\<rparr>) (captured ?r) (demo_down None)"
  have "requestPayload demo_libs ?r = Inl ErrEmptyNames"
    by (simp add: requestPayload_def demo_request_def requestGetPayload_def FormValue_def)
  then have spec: "?spec = (Some (Shown 400 ''names parameter is required''), demo_down None)"
    by (simp add: translation_spec_def captured_def decodeRequest_def demo_service_config_def
        error_verdict_def ErrEmptyNames_def mux_var_def gomap_str_def demo_request_def)
  have "\<exists>v w'. fst ?spec = Some v
      \<and> rt_handler demo_route background ?r new_rw (demo_down None) = Ret (w', snd ?spec)
      \<and> renders demo_libs (request_tid demo_libs demo_serve_env ?r) v w'"
    by (rule translation_serves_spec [OF plain_server_ok _ _ _ _ demo_TID_key demo_route_in demo_down_sel(1) refl,
        where w = new_rw])
      (simp_all add: spec deliverable_def body_allowed_def)
  then show ?thesis by (auto simp: spec renders_def)
qed

text \<open>
  When XMiDT cannot be reached, a request that got that far is answered with status 503 and
  the text of the network error; the acquirer keeps the state its call left it in.
\<close>

theorem transport_failure_503:
  assumes "kit_server_ok serve" "\<forall>h. auth (echo h) ctx0 r w0 = h ctx r w"
    and "rw_sent w = None" "rw_write_err w = None" "rw_body w = []"
    and "canon_key (lb_TIDHeader L) \<noteq> ''Content-Type''"
    and "route \<in> set (translation_ConfigHandler L serve auth echo (Acquire L jenv) env c)"
    and "ts_transactor s = Transact t now" "\<forall>req. tr_Do t req = Inl e"
    and "mux_var r ''service'' \<in> set (sc_ValidServices c)"
    and "decodeRequest L (ctx\<lparr>cx_RequestTID := Some (request_tid L env r)\<rparr>) (captured r) = Inr q"
    and "lb_WrpEncode L ((wr_WRPMessage q)\<lparr>wm_Source := ts_wrpSource s\<rparr>) = Inr payload"
    and "lb_ParseURL L (ts_xmidtWrpURL s) = None"
    and "ts_authAcquirer s = Some a" "Acquire L jenv a = (Inr cred, a')"
  shows "\<exists>w'. rt_handler route ctx0 r w0 s = Ret (w', s\<lparr>ts_authAcquirer := Some a'\<rparr>)
    \<and> renders L (request_tid L env r) (Shown 503 (err_Error e)) w'"
proof (rule translation_route_renders [OF assms(1-7)])
  have "Transact t now req = (None, Some (NewCodedError e 503))" for req
    using assms(9) by (simp add: Transact_def)
  moreover have "mux_var (captured r) k = mux_var r k" for k by (simp add: captured_def mux_var_def)
  ultimately show "translation_spec L (Acquire L jenv) (se_deadline env) (sc_ValidServices c)
      (ctx\<lparr>cx_RequestTID := Some (request_tid L env r)\<rparr>) (captured r) s
    = (Some (Shown 503 (err_Error e)), s\<lparr>ts_authAcquirer := Some a'\<rparr>)"
    using assms(8,10-15) by (simp add: translation_spec_def SendWRP_def error_verdict_def)
qed (simp add: deliverable_def body_allowed_def)

definition demo_get :: http_request where
  "demo_get = (demo_request ''GET'' [] None)\<lparr>rq_Form := [(''names'', [''Device.Uptime''])]\<rparr>"

lemma demo_get_decodes:
  "\<exists>q. decodeRequest demo_libs ctx (captured demo_get) = Inr q"
  by (simp add: demo_get_def captured_def decodeRequest_def requestPayload_def requestGetPayload_def
      FormValue_def wrap_def demo_request_def gomap_str_def demo_libs_def demo_ParseDeviceID_def Let_def)

lemma demo_get_service:
  "mux_var demo_get ''service'' \<in> set (sc_ValidServices demo_service_config)"
  by (simp add: mux_var_def demo_get_def demo_request_def gomap_str_def demo_service_config_def)

lemma demo_libs_total: "lb_WrpEncode demo_libs m = Inr (wm_Payload m)"
  "lb_ParseURL demo_libs ''http://xmidt/api/v3/device'' = None"
  by (simp_all add: demo_libs_def)

theorem transport_failure_503_witness:
  "\<exists>w'. rt_handler demo_route background demo_get new_rw (demo_down (Some demo_basic))
      = Ret (w', demo_down (Some demo_basic)) \<and> rw_status w' = Some 503"
proof -
  let ?s = "demo_down (Some demo_basic)"
  obtain q where q: "decodeRequest demo_libs
      (background\<lparr>cx_RequestTID := Some (request_tid demo_libs demo_serve_env demo_get)\<rparr>) (captured demo_get) = Inr q"
    using demo_get_decodes by blast
  have acq: "Acquire demo_libs demo_env demo_basic = (Inr ''Basic c2VjcmV0'', demo_basic)"
    by (simp add: demo_basic_def BasicAcquirer_Acquire_def)
  have "?s\<lparr>ts_authAcquirer := Some demo_basic\<rparr> = ?s"
    by (simp add: demo_down_def demo_service_def translation_NewService_def)
  moreover have "\<exists>w'. rt_handler demo_route background demo_get new_rw ?s
        = Ret (w', ?s\<lparr>ts_authAcquirer := Some demo_basic\<rparr>)
      \<and> renders demo_libs (request_tid demo_libs demo_serve_env demo_get)
          (Shown 503 (err_Error (ErrExt ''refused'' None))) w'"
    by (rule transport_failure_503 [where auth = id and echo = id and w = new_rw,
          OF plain_server_ok _ _ _ _ demo_TID_key demo_route_in demo_down_sel(1) _ demo_get_service q
            demo_libs_total(1) _ demo_down_sel(2) acq])
      (simp_all add: demo_libs_total(2) demo_xmidt_def)
  ultimately show ?thesis by (auto simp: renders_def)
qed



text \<open>
  A service that is not on the configured list never reaches XMiDT, whatever else the request
  holds, and whatever the state of the service, its acquirer and its transactor: status 400.
  With the default configuration (an empty list) this is every request.
\<close>

theorem unsupported_service_400:
  assumes "kit_server_ok serve" "\<forall>h. auth (echo h) ctx0 r w0 = h ctx r w"
    and "rw_sent w = None" "rw_write_err w = None" "rw_body w = []"
    and "canon_key (lb_TIDHeader L) \<noteq> ''Content-Type''"
    and "route \<in> set (translation_ConfigHandler L serve auth echo acquire env c)"
    and "mux_var r ''service'' \<notin> set (sc_ValidServices c)"
  shows "\<forall>s. \<exists>w'. rt_handler route ctx0 r w0 s = Ret (w', s)
    \<and> renders L (request_tid L env r) (Shown 400 ''unsupported Service'') w'"
proof
  fix s
  have "mux_var (captured r) k = mux_var r k" for k by (simp add: captured_def mux_var_def)
  with assms(8) show "\<exists>w'. rt_handler route ctx0 r w0 s = Ret (w', s)
      \<and> renders L (request_tid L env r) (Shown 400 ''unsupported Service'') w'"
    by (intro translation_route_renders [OF assms(1-7)])
      (simp_all add: translation_spec_def deliverable_def body_allowed_def)
qed

theorem unsupported_service_400_witness:
  "\<exists>w'. rt_handler demo_route background
        (demo_get\<lparr>rq_Vars := Some [(''deviceid'', ''mac:112233445566''), (''service'', ''iot'')]\<rparr>)
        new_rw (demo_down None) = Ret (w', demo_down None) \<and> rw_status w' = Some 400"
proof -
  let ?r = "demo_get\<lparr>rq_Vars := Some [(''deviceid'', ''mac:112233445566''), (''service'', ''iot'')]\<rparr>"
  have "\<forall>s. \<exists>w'. rt_handler demo_route background ?r new_rw s = Ret (w', s)
      \<and> renders demo_libs (request_tid demo_libs demo_serve_env ?r) (Shown 400 ''unsupported Service'') w'"
    by (rule unsupported_service_400 [where auth = id and echo = id and w = new_rw and ctx = background,
          OF plain_server_ok _ _ _ _ demo_TID_key demo_route_in])
      (simp_all add: mux_var_def gomap_str_def demo_service_config_def)
  then have "\<exists>w'. rt_handler demo_route background ?r new_rw (demo_down None) = Ret (w', demo_down None)
      \<and> renders demo_libs (request_tid demo_libs demo_serve_env ?r) (Shown 400 ''unsupported Service'') w'"
    by (rule spec)
  then show ?thesis by (auto simp: renders_def)
qed

text \<open>
  C4. The same for the statistics service: every authenticated request is answered, an error with
  its status or masked, an answer of XMiDT with its status and every byte of its body, and the
  first transaction id of the reply is the one of the request.
\<close>

theorem stat_serves_spec:
  assumes "kit_server_ok serve" "\<forall>h. auth (echo h) ctx0 r w0 = h ctx r w"
    and "rw_sent w = None" "rw_write_err w = None" "rw_body w = []"
    and "canon_key (lb_TIDHeader L) \<noteq> ''Content-Type''"
    and "route \<in> set (stat_ConfigHandler L serve auth echo acquire env c)"
    and "ss_transactor s = Transact t now"
    and "spec = stat_spec L acquire (se_deadline env) ctx r s"
    and "\<forall>v. fst spec = Some v \<longrightarrow> deliverable v"
  shows "\<exists>v w'. fst spec = Some v \<and> rt_handler route ctx0 r w0 s = Ret (w', snd spec)
    \<and> stat_renders L (request_tid L env r) v w'"
proof -
  obtain v s' where v: "spec = (Some v, s')"
    using stat_spec_total [OF assms(8)] assms(9) by blast
  with assms(10) have "deliverable v" by simp
  from stat_route_renders [OF assms(1-8) v [unfolded assms(9)] this] v show ?thesis by simp
qed

definition demo_stat_route :: "AuthAcquirer stat_service io route" where
  "demo_stat_route = hd (stat_ConfigHandler demo_libs plain_server id id
     (Acquire demo_libs demo_env) demo_serve_env demo_service_config)"

theorem stat_serves_spec_witness:
  "\<exists>w'. rt_handler demo_stat_route background (demo_get\<lparr>rq_Vars := None\<rparr>) new_rw
        (demo_stat (Transact (demo_xmidt (\<lambda>r. Inl (ErrExt ''refused'' None))) 0) None)
      = Ret (w', demo_stat (Transact (demo_xmidt (\<lambda>r. Inl (ErrExt ''refused'' None))) 0) None)
    \<and> rw_status w' = Some 400"
proof -
  let ?r = "demo_get\<lparr>rq_Vars := None\<rparr>"
  let ?s = "demo_stat (Transact (demo_xmidt (\<lambda>r. Inl (ErrExt ''refused'' None))) 0) None"
  let ?spec = "stat_spec demo_libs (Acquire demo_libs demo_env) (se_deadline demo_serve_env) background ?r ?s"
  have spec: "?spec = (Some (Shown 400 ''invalid device name''), ?s)"
    by (simp add: stat_spec_def stat_decodeRequest_def mux_var_def demo_libs_def demo_ParseDeviceID_def
        error_verdict_def)
  have "demo_stat_route \<in> set (stat_ConfigHandler demo_libs plain_server id id
      (Acquire demo_libs demo_env) demo_serve_env demo_service_config)"
    "ss_transactor ?s = Transact (demo_xmidt (\<lambda>r. Inl (ErrExt ''refused'' None))) 0"
    by (simp_all add: demo_stat_route_def stat_ConfigHandler_def demo_stat_def stat_NewService_def)
  then have "\<exists>v w'. fst ?spec = Some v \<and> rt_handler demo_stat_route background ?r new_rw ?s = Ret (w', snd ?spec)
      \<and> stat_renders demo_libs (request_tid demo_libs demo_serve_env ?r) v w'"
    by (intro stat_serves_spec [where auth = id and echo = id and w = new_rw,
          OF plain_server_ok _ _ _ _ demo_TID_key _ _ refl])
      (simp_all add: spec deliverable_def body_allowed_def)
  then show ?thesis by (auto simp: spec stat_renders_def)
qed

end
