(* ===== verification/Routes.thy ===== *)
theory Routes
  imports Primary_Props Services_Props
begin

text \<open>
  The route tables (routes.go): the API prefix, the endpoints of the two services with the
  acquirer they share, the alternate server, metrics and health, and the chains of metrics
  middleware. The router (gorilla/mux) is a parameter; \<open>mux_ok\<close> is its documented behaviour.
\<close>

section \<open>The code\<close>

definition apiBase :: string where
  "apiBase = ''api/'' @ apiVersion"

definition apiBaseDualVersion :: string where
  "apiBaseDualVersion = ''api/{version:'' @ apiVersion @ ''|'' @ prevAPIVersion @ ''}''"

definition provideURLPrefix :: "bool \<Rightarrow> string" where
  "provideURLPrefix prevVerSupport =
     (let urlPrefix = ''/'' @ apiBase in
      if prevVerSupport then ''/'' @ apiBaseDualVersion else urlPrefix)"

text \<open>The routes that a subrouter with a path prefix contributes.\<close>

definition provideAPIRouter :: "string \<Rightarrow> 'o route list \<Rightarrow> 'o route list" where
  "provideAPIRouter base routes = map (\<lambda>rt. rt\<lparr>rt_template := base @ rt_template rt\<rparr>) routes"

text \<open>
  The alternate server hands every path of the API to the API router itself (\<open>api\<close>).
\<close>

definition alt_templates :: "string list" where
  "alt_templates = [''/device/{deviceid}/{service}'', ''/device/{deviceid}/{service}/{parameter}'',
     ''/device/{deviceid}/stat'', ''/hook'', ''/hooks'']"

definition buildAPIAltRouter :: "string \<Rightarrow> 'o handler \<Rightarrow> 'o route list" where
  "buildAPIAltRouter base api =
     map (\<lambda>t. \<lparr>rt_template = base @ t, rt_methods = None, rt_handler = api\<rparr>) alt_templates"

definition buildMetricsRoutes :: "'o route list option \<Rightarrow> 'o handler option \<Rightarrow> 'o route list option" where
  "buildMetricsRoutes router handler =
     (case (router, handler) of
        (Some routes, Some h) \<Rightarrow>
          Some (routes @ [\<lparr>rt_template = ''/metrics'', rt_methods = Some [''GET''], rt_handler = h\<rparr>])
      | _ \<Rightarrow> router)"

definition health_routes :: "'s io route list" where
  "health_routes = [\<lparr>rt_template = ''/health'', rt_methods = Some [''GET''],
     rt_handler = (\<lambda>ctx r w s. outcome_bind (WriteHeader 200 w) (\<lambda>w'. Ret (w', s)))\<rparr>]"

text \<open>The chains of the three servers; the zero \<open>alice.Chain\<close> wraps nothing.\<close>

record 'o metric_chains =
  mc_Primary :: "'o handler \<Rightarrow> 'o handler"
  mc_Alternate :: "'o handler \<Rightarrow> 'o handler"
  mc_Health :: "'o handler \<Rightarrow> 'o handler"

definition metricMiddleware ::
  "(string \<Rightarrow> goerror + ('o handler \<Rightarrow> 'o handler)) \<Rightarrow> 'o metric_chains" where
  "metricMiddleware NewInstrumenter =
     (case (NewInstrumenter ''server_primary'', NewInstrumenter ''server_alternate'', NewInstrumenter ''server_health'') of
        (Inr primary, Inr alternate, Inr health) \<Rightarrow>
          \<lparr>mc_Primary = primary, mc_Alternate = alternate, mc_Health = health\<rparr>
      | _ \<Rightarrow> \<lparr>mc_Primary = (\<lambda>h. h), mc_Alternate = (\<lambda>h. h), mc_Health = (\<lambda>h. h)\<rparr>)"

text \<open>
  \<open>handlePrimaryEndpoint\<close>: both services get the same acquirer (a pointer), so its state is
  one component of the state of the process, beside the state \<open>'h\<close> of the webhooks.
\<close>

record 'h server_state =
  sv_acquirer :: "AuthAcquirer option"
  sv_hooks :: 'h

definition share_stat ::
  "AuthAcquirer stat_service \<Rightarrow> AuthAcquirer stat_service io \<Rightarrow> 'h server_state io" where
  "share_stat ss io st =
     outcome_bind (io (ss\<lparr>ss_authAcquirer := sv_acquirer st\<rparr>))
       (\<lambda>(w, s). Ret (w, st\<lparr>sv_acquirer := ss_authAcquirer s\<rparr>))"

definition share_translation ::
  "AuthAcquirer translation_service \<Rightarrow> AuthAcquirer translation_service io \<Rightarrow> 'h server_state io" where
  "share_translation ts io st =
     outcome_bind (io (ts\<lparr>ts_authAcquirer := sv_acquirer st\<rparr>))
       (\<lambda>(w, s). Ret (w, st\<lparr>sv_acquirer := ts_authAcquirer s\<rparr>))"

definition lift_route :: "('a \<Rightarrow> 'b) \<Rightarrow> 'a route \<Rightarrow> 'b route" where
  "lift_route f rt = \<lparr>rt_template = rt_template rt, rt_methods = rt_methods rt,
                      rt_handler = (\<lambda>ctx r w. f (rt_handler rt ctx r w))\<rparr>"

text \<open>
  The acquirer that is put into the options, and what is logged: nothing is configured when
  the key is not set, and a configuration without any acquirer is only logged.
\<close>

definition configure_acquirer :: "bool \<Rightarrow> authAcquirerConfig \<Rightarrow> AuthAcquirer option \<times> log_entry list" where
  "configure_acquirer isSet config =
     (if isSet then
        (case createAuthAcquirer config of
           Inl err \<Rightarrow> (None, [log_with [] LvError ''Could not configure auth acquirer''
                              [(''error'', LStr (err_Error err))]])
         | Inr acquirer \<Rightarrow> (Some acquirer,
             [log_with [] LvInfo ''Outbound request authentication token acquirer enabled'' []]))
      else (None, []))"

definition handlePrimaryEndpoint ::
  "libs
   \<Rightarrow> ((AuthAcquirer stat_service, statRequest, XmidtResponse option) kit_config \<Rightarrow> AuthAcquirer stat_service io handler)
   \<Rightarrow> ((AuthAcquirer translation_service, wrpRequest, XmidtResponse option) kit_config
        \<Rightarrow> AuthAcquirer translation_service io handler)
   \<Rightarrow> (AuthAcquirer stat_service io handler \<Rightarrow> AuthAcquirer stat_service io handler)
   \<Rightarrow> (AuthAcquirer stat_service io handler \<Rightarrow> AuthAcquirer stat_service io handler)
   \<Rightarrow> (AuthAcquirer translation_service io handler \<Rightarrow> AuthAcquirer translation_service io handler)
   \<Rightarrow> (AuthAcquirer translation_service io handler \<Rightarrow> AuthAcquirer translation_service io handler)
   \<Rightarrow> jwt_env \<Rightarrow> serve_env \<Rightarrow> service_config \<Rightarrow> bool \<Rightarrow> authAcquirerConfig
   \<Rightarrow> AuthAcquirer stat_ServiceOptions \<times> AuthAcquirer translation_options
   \<Rightarrow> 'h server_state io route list \<times> AuthAcquirer option \<times> log_entry list" where
  "handlePrimaryEndpoint L serve_s serve_t auth_s echo_s auth_t echo_t jenv env c isSet config opts =
     (case configure_acquirer isSet config of
        (acquirer, logs) \<Rightarrow>
          let statOptions = (case acquirer of None \<Rightarrow> fst opts
                | Some a \<Rightarrow> (fst opts)\<lparr>so_AuthAcquirer := Some a\<rparr>);
              translationOptions = (case acquirer of None \<Rightarrow> snd opts
                | Some a \<Rightarrow> (snd opts)\<lparr>to_AuthAcquirer := Some a\<rparr>);
              ss = stat_NewService statOptions;
              ts = translation_NewService translationOptions
          in (map (lift_route (share_stat ss))
                (stat_ConfigHandler L serve_s auth_s echo_s (Acquire L jenv) env c)
              @ map (lift_route (share_translation ts))
                (translation_ConfigHandler L serve_t auth_t echo_t (Acquire L jenv) env c),
              ts_authAcquirer ts, logs))"

text \<open>The webhook handlers work on their own part of the state.\<close>

definition share_hooks :: "'h io \<Rightarrow> 'h server_state io" where
  "share_hooks io st = outcome_bind (io (sv_hooks st)) (\<lambda>(w, h). Ret (w, st\<lparr>sv_hooks := h\<rparr>))"

text \<open>
  \<open>provideServers\<close>: the four servers, each a handler per path inside its chain of metrics
  middleware. \<open>serve\<close> is the router, \<open>primary\<close> the routes of the two services, \<open>hooks\<close> the
  ones of the webhooks or the error that stops the program, \<open>router\<close> and \<open>handler\<close> the
  metrics server's router and handler, if any. (The server for profiling has no code here.)
\<close>

record 'o servers =
  srv_primary :: "string \<Rightarrow> 'o handler"
  srv_alternate :: "string \<Rightarrow> 'o handler"
  srv_health :: "string \<Rightarrow> 'o handler"
  srv_metrics :: "(string \<Rightarrow> 'o handler) option"

definition provideServers ::
  "('s io route list \<Rightarrow> string \<Rightarrow> 's io handler) \<Rightarrow> 's io metric_chains \<Rightarrow> string
     \<Rightarrow> 's io route list \<Rightarrow> goerror + 's io route list \<Rightarrow> 's io route list option \<Rightarrow> 's io handler option
     \<Rightarrow> goerror + 's io servers" where
  "provideServers serve mcs base primary hooks router handler =
     (case hooks of
        Inl err \<Rightarrow> Inl err
      | Inr hs \<Rightarrow>
          (let api = serve (provideAPIRouter base (primary @ hs)) in
           Inr \<lparr>srv_primary = (\<lambda>path. mc_Primary mcs (api path)),
                srv_alternate = (\<lambda>path. mc_Alternate mcs (serve (buildAPIAltRouter base (api path)) path)),
                srv_health = (\<lambda>path. mc_Health mcs (serve health_routes path)),
                srv_metrics = map_option serve (buildMetricsRoutes router handler)\<rparr>))"

section \<open>The router\<close>

text \<open>
  What the documentation of the router says: routes are tested in the order they were added,
  and the first whose template and methods match serves the request, with the variables of the
  match; when some template matches but no method does, the reply is \<open>mna\<close> (status 405), and
  otherwise \<open>nf\<close> (status 404). \<open>mt\<close> matches a template with a path.
\<close>

definition takes_method :: "'o route \<Rightarrow> string \<Rightarrow> bool" where
  "takes_method rt m \<longleftrightarrow> (case rt_methods rt of None \<Rightarrow> True | Some ms \<Rightarrow> m \<in> set ms)"

definition mux_ok ::
  "(string \<Rightarrow> string \<Rightarrow> string gomap option) \<Rightarrow> (rw \<Rightarrow> 'o) \<Rightarrow> (rw \<Rightarrow> 'o)
     \<Rightarrow> ('o route list \<Rightarrow> string \<Rightarrow> 'o handler) \<Rightarrow> bool" where
  "mux_ok mt nf mna serve \<longleftrightarrow>
     (\<forall>rs path ctx r w. serve rs path ctx r w =
        (case find (\<lambda>rt. mt (rt_template rt) path \<noteq> None \<and> takes_method rt (rq_Method r)) rs of
           Some rt \<Rightarrow> rt_handler rt ctx (r\<lparr>rq_Vars := mt (rt_template rt) path\<rparr>) w
         | None \<Rightarrow> if \<exists>rt \<in> set rs. mt (rt_template rt) path \<noteq> None then mna w else nf w))"

definition plain_mux ::
  "(string \<Rightarrow> string \<Rightarrow> string gomap option) \<Rightarrow> (rw \<Rightarrow> 'o) \<Rightarrow> (rw \<Rightarrow> 'o)
     \<Rightarrow> 'o route list \<Rightarrow> string \<Rightarrow> 'o handler" where
  "plain_mux mt nf mna rs path ctx r w =
     (case find (\<lambda>rt. mt (rt_template rt) path \<noteq> None \<and> takes_method rt (rq_Method r)) rs of
        Some rt \<Rightarrow> rt_handler rt ctx (r\<lparr>rq_Vars := mt (rt_template rt) path\<rparr>) w
      | None \<Rightarrow> if \<exists>rt \<in> set rs. mt (rt_template rt) path \<noteq> None then mna w else nf w)"

lemma plain_mux_ok: "mux_ok mt nf mna (plain_mux mt nf mna)"
  by (simp add: mux_ok_def plain_mux_def)

text \<open>The variables a template names, and a match binds exactly these.\<close>

fun template_vars :: "string \<Rightarrow> string list" where
  "template_vars [] = []"
| "template_vars (c # s) =
     (if c = CHR ''{'' then takeWhile (\<lambda>x. x \<noteq> CHR '':'' \<and> x \<noteq> CHR ''}'') s # template_vars s
      else template_vars s)"

definition mux_vars_ok :: "(string \<Rightarrow> string \<Rightarrow> string gomap option) \<Rightarrow> bool" where
  "mux_vars_ok mt \<longleftrightarrow>
     (\<forall>t path m. mt t path = Some m \<longrightarrow> dom (map_of m) = set (template_vars t))"

end
