(* ===== verification/Inbound_Auth.thy ===== *)
theory Inbound_Auth
  imports Translation_Props
begin

text \<open>
  The bearer tokens of incoming requests (auth.go): the key function handed to the JWT
  library, \<open>JWTTokenParser.Parse\<close>, and the status codes of rejected credentials. The JWT
  library, the key resolver (clortho) and the sentinel errors of bascule are parameters.
\<close>

section \<open>The code\<close>

text \<open>
  What a resolved key can be: a value with a method \<open>PublicKey() *rsa.PublicKey\<close>, a value
  with a method \<open>Key() interface{}\<close> whose result is an RSA public key or something else
  (with the name of its type), or neither.
\<close>

datatype key_content = RsaPublic string | OtherContent string

datatype clortho_key = RsaHolder string | KeyHolder key_content | UnknownKey string

record jwt_header =
  jh_RSA :: bool                \<comment> \<open>the signing method is \<open>*jwt.SigningMethodRSA\<close>\<close>
  jh_alg :: string              \<comment> \<open>the printed \<open>alg\<close> member\<close>
  jh_kid :: "json option"

text \<open>A parsed token; the claims are \<open>None\<close> when they are no \<open>jwt.MapClaims\<close>.\<close>

record jwt_token =
  jt_Valid :: bool
  jt_Claims :: "(string \<Rightarrow> json option) option"

record auth_libs =
  al_ParseWithClaims :: "string \<Rightarrow> (jwt_header \<Rightarrow> goerror + string) \<Rightarrow> goerror + jwt_token"
  al_Resolve :: "string \<Rightarrow> goerror + clortho_key"
  al_ErrMissingCredentials :: goerror
  al_ErrBadCredentials :: goerror
  al_ErrInvalidCredentials :: goerror

definition jwt_keyfunc :: "auth_libs \<Rightarrow> jwt_header \<Rightarrow> goerror + string" where
  "jwt_keyfunc A token =
     (if \<not> jh_RSA token then Inl (ErrNew (''unexpected signing method: '' @ jh_alg token))
      else case jh_kid token of
        Some (JStr keyID) \<Rightarrow>
          (case al_Resolve A keyID of
             Inl err \<Rightarrow> Inl (ErrWrap (''failed to resolve JWT signing key: '' @ err_Error err) err)
           | Inr (RsaHolder k) \<Rightarrow> Inr k
           | Inr (KeyHolder (RsaPublic k)) \<Rightarrow> Inr k
           | Inr (KeyHolder (OtherContent t)) \<Rightarrow> Inl (ErrNew (''expected RSA public key, got '' @ t))
           | Inr (UnknownKey t) \<Rightarrow> Inl (ErrNew (''unsupported key type: '' @ t)))
      | _ \<Rightarrow> Inl (ErrNew ''missing or invalid key ID in JWT header''))"

definition string_claim :: "(string \<Rightarrow> json option) \<Rightarrow> string \<Rightarrow> string option" where
  "string_claim claims k = (case claims k of Some (JStr s) \<Rightarrow> Some s | _ \<Rightarrow> None)"

definition token_principal :: "(string \<Rightarrow> json option) \<Rightarrow> string" where
  "token_principal claims =
     (let subject = (case string_claim claims ''sub'' of Some s \<Rightarrow> s | None \<Rightarrow> []) in
      if subject = [] then
        (case string_claim claims ''user'' of
           Some user \<Rightarrow> user
         | None \<Rightarrow>
             (case string_claim claims ''username'' of
                Some username \<Rightarrow> username
              | None \<Rightarrow> ''unknown''))
      else subject)"

text \<open>
  \<open>*JWTToken\<close> has the method \<open>Principal\<close> and no \<open>Get\<close>, so it is no
  \<open>bascule.AttributesAccessor\<close>.
\<close>

definition JWTToken :: "string \<Rightarrow> auth_token" where
  "JWTToken subject = \<lparr>tk_principal = subject, tk_Get = None\<rparr>"

definition Parse :: "auth_libs \<Rightarrow> string \<Rightarrow> goerror + auth_token" where
  "Parse A raw =
     (if raw = [] then Inl (al_ErrMissingCredentials A)
      else case al_ParseWithClaims A raw (jwt_keyfunc A) of
        Inl err \<Rightarrow> Inl (al_ErrInvalidCredentials A)
      | Inr token \<Rightarrow>
          if \<not> jt_Valid token then Inl (al_ErrBadCredentials A)
          else case jt_Claims token of
            None \<Rightarrow> Inl (al_ErrInvalidCredentials A)
          | Some claims \<Rightarrow> Inr (JWTToken (token_principal claims)))"

definition error_status_coder :: "auth_libs \<Rightarrow> goerror \<Rightarrow> int" where
  "error_status_coder A err =
     (if err_Is err (al_ErrMissingCredentials A) then 401
      else if err_Is err (al_ErrBadCredentials A) then 401
      else if err_Is err (al_ErrInvalidCredentials A) then 400
      else 500)"

section \<open>Facts\<close>

lemma jwt_keyfunc_Inr:
  "jwt_keyfunc A h = Inr k \<longleftrightarrow>
     jh_RSA h \<and> (\<exists>keyID. jh_kid h = Some (JStr keyID)
       \<and> (al_Resolve A keyID = Inr (RsaHolder k) \<or> al_Resolve A keyID = Inr (KeyHolder (RsaPublic k))))"
  by (auto simp: jwt_keyfunc_def
      split: option.splits json.splits sum.splits clortho_key.splits key_content.splits)

lemma Parse_Inr:
  "Parse A raw = Inr t \<longleftrightarrow>
     raw \<noteq> [] \<and> (\<exists>p claims. al_ParseWithClaims A raw (jwt_keyfunc A) = Inr p \<and> jt_Valid p
       \<and> jt_Claims p = Some claims \<and> t = JWTToken (token_principal claims))"
  by (auto simp: Parse_def split: sum.splits option.splits)

text \<open>
  The documented behaviour of the JWT library: it returns a token only when the key function
  gave a key for the token's own header and the signature verifies with that key.
\<close>

definition jwt_library_ok :: "auth_libs \<Rightarrow> (string \<Rightarrow> jwt_header) \<Rightarrow> (string \<Rightarrow> string \<Rightarrow> bool) \<Rightarrow> bool" where
  "jwt_library_ok A header verifies \<longleftrightarrow>
     (\<forall>raw kf t. al_ParseWithClaims A raw kf = Inr t \<longrightarrow>
        (\<exists>k. kf (header raw) = Inr k \<and> verifies k raw))"

definition demo_header :: "string \<Rightarrow> jwt_header" where
  "demo_header raw = \<lparr>jh_RSA = (raw \<noteq> ''hs''), jh_alg = ''RS256'', jh_kid = Some (JStr ''current'')\<rparr>"

definition demo_auth :: auth_libs where
  "demo_auth =
     \<lparr>al_ParseWithClaims = (\<lambda>raw kf. case kf (demo_header raw) of
          Inl e \<Rightarrow> Inl e
        | Inr k \<Rightarrow> if raw = ''bad'' then Inl (ErrNew ''signature is invalid'')
                   else Inr \<lparr>jt_Valid = True, jt_Claims = Some (\<lambda>c. if c = ''sub'' then Some (JStr ''alice'') else None)\<rparr>),
      al_Resolve = (\<lambda>i. Inr (RsaHolder ''key'')),
      al_ErrMissingCredentials = ErrExt ''missing'' None,
      al_ErrBadCredentials = ErrExt ''bad'' None,
      al_ErrInvalidCredentials = ErrExt ''invalid'' None\<rparr>"

lemma demo_auth_ok: "jwt_library_ok demo_auth demo_header (\<lambda>k raw. raw \<noteq> ''bad'')"
  by (auto simp: jwt_library_ok_def demo_auth_def split: sum.splits if_splits)

lemma Parse_accepts:
  assumes "jwt_library_ok A header verifies" "Parse A raw = Inr t"
  shows "\<exists>keyID k. jh_RSA (header raw) \<and> jh_kid (header raw) = Some (JStr keyID)
    \<and> (al_Resolve A keyID = Inr (RsaHolder k) \<or> al_Resolve A keyID = Inr (KeyHolder (RsaPublic k)))
    \<and> verifies k raw
    \<and> (\<exists>claims. t = JWTToken (token_principal claims)
         \<and> (\<forall>s. claims ''sub'' = Some (JStr s) \<and> s \<noteq> [] \<longrightarrow> tk_principal t = s))"
proof -
  from assms(2) obtain p claims where p: "al_ParseWithClaims A raw (jwt_keyfunc A) = Inr p"
    and t: "t = JWTToken (token_principal claims)"
    unfolding Parse_Inr by blast
  from assms(1) p obtain k where "jwt_keyfunc A (header raw) = Inr k" "verifies k raw"
    unfolding jwt_library_ok_def by blast
  moreover have "tk_principal t = s" if "claims ''sub'' = Some (JStr s)" "s \<noteq> []" for s
    using that by (simp add: t JWTToken_def token_principal_def string_claim_def)
  ultimately show ?thesis using t unfolding jwt_keyfunc_Inr by blast
qed

section \<open>Properties\<close>

text \<open>
  A bearer token is accepted only when its header names an RSA signing method and a key id
  as a string, and its signature verifies with the RSA public key the resolver has for that
  id: neither \<open>none\<close> nor an HMAC keyed with a public key gets through. The client is known by
  its \<open>sub\<close> claim where that is not empty.
\<close>

theorem Parse_only_rsa:
  assumes "jwt_library_ok A header verifies" "Parse A raw = Inr t"
  shows "\<exists>keyID k. jh_RSA (header raw) \<and> jh_kid (header raw) = Some (JStr keyID)
    \<and> (al_Resolve A keyID = Inr (RsaHolder k) \<or> al_Resolve A keyID = Inr (KeyHolder (RsaPublic k)))
    \<and> verifies k raw
    \<and> (\<exists>claims. t = JWTToken (token_principal claims)
         \<and> (\<forall>s. claims ''sub'' = Some (JStr s) \<and> s \<noteq> [] \<longrightarrow> tk_principal t = s))"
  by (rule Parse_accepts [OF assms])

theorem Parse_only_rsa_witness:
  "\<exists>t. Parse demo_auth ''tok'' = Inr t \<and> tk_principal t = ''alice'' \<and> jh_RSA (demo_header ''tok'')"
proof -
  have p: "Parse demo_auth ''tok'' = Inr (JWTToken ''alice'')"
    by (simp add: Parse_def demo_auth_def demo_header_def jwt_keyfunc_def token_principal_def string_claim_def)
  from Parse_only_rsa [OF demo_auth_ok p] p show ?thesis by (auto simp: JWTToken_def)
qed

text \<open>
  Every rejection of a token maps to one of two client errors: 401 for an empty token or
  one the library calls invalid, 400 for a token it cannot parse or verify (also a bad
  signature); never 500.
\<close>

theorem Parse_rejection_status:
  assumes "Parse A raw = Inl e"
    and "distinct [al_ErrMissingCredentials A, al_ErrBadCredentials A, al_ErrInvalidCredentials A]"
    and "\<forall>x \<in> {al_ErrMissingCredentials A, al_ErrBadCredentials A, al_ErrInvalidCredentials A}. \<exists>m. x = ErrExt m None"
  shows "error_status_coder A e =
    (if raw = [] \<or> (\<exists>p. al_ParseWithClaims A raw (jwt_keyfunc A) = Inr p \<and> \<not> jt_Valid p) then 401 else 400)"
proof -
  obtain m b i where sentinels: "al_ErrMissingCredentials A = ErrExt m None"
    "al_ErrBadCredentials A = ErrExt b None" "al_ErrInvalidCredentials A = ErrExt i None"
    using assms(3) by auto
  with assms(2) have "m \<noteq> b" "m \<noteq> i" "b \<noteq> i" by auto
  then have "error_status_coder A (al_ErrMissingCredentials A) = 401"
    "error_status_coder A (al_ErrBadCredentials A) = 401"
    "error_status_coder A (al_ErrInvalidCredentials A) = 400"
    by (simp_all add: error_status_coder_def sentinels)
  with assms(1) show ?thesis
    by (auto simp: Parse_def split: if_splits sum.splits option.splits)
qed

theorem Parse_rejection_status_witness:
  "\<exists>e. Parse demo_auth ''hs'' = Inl e \<and> error_status_coder demo_auth e = 400"
proof -
  have p: "Parse demo_auth ''hs'' = Inl (al_ErrInvalidCredentials demo_auth)"
    by (simp add: Parse_def demo_auth_def demo_header_def jwt_keyfunc_def)
  have n: "\<not> (\<exists>p. al_ParseWithClaims demo_auth ''hs'' (jwt_keyfunc demo_auth) = Inr p \<and> \<not> jt_Valid p)"
    by (simp add: demo_auth_def demo_header_def jwt_keyfunc_def)
  have d: "distinct [al_ErrMissingCredentials demo_auth, al_ErrBadCredentials demo_auth, al_ErrInvalidCredentials demo_auth]"
    "\<forall>x \<in> {al_ErrMissingCredentials demo_auth, al_ErrBadCredentials demo_auth, al_ErrInvalidCredentials demo_auth}.
      \<exists>m. x = ErrExt m None"
    by (simp_all add: demo_auth_def)
  from Parse_rejection_status [OF p d] p n show ?thesis by auto
qed

text \<open>
  The partner ids of a client that authenticated with a JWT always come from the request's
  own headers: the token type gives no access to its claims, so partner claims that the
  decoder looks for first are never seen.
\<close>

theorem jwt_partner_ids_from_headers:
  assumes "Parse A raw = Inr t"
  shows "getPartnerIDsDecodeRequest L (ctx\<lparr>cx_Token := Some t\<rparr>) r = getPartnerIDs L (rq_Header r)"
  using assms by (auto simp: Parse_Inr JWTToken_def getPartnerIDsDecodeRequest_def)

theorem jwt_partner_ids_from_headers_witness:
  "\<exists>t. Parse demo_auth ''tok'' = Inr t
     \<and> getPartnerIDsDecodeRequest demo_libs (background\<lparr>cx_Token := Some t\<rparr>) (demo_request ''GET'' [] None) = []"
proof -
  have p: "Parse demo_auth ''tok'' = Inr (JWTToken ''alice'')"
    by (simp add: Parse_def demo_auth_def demo_header_def jwt_keyfunc_def token_principal_def string_claim_def)
  from jwt_partner_ids_from_headers [OF p, of demo_libs background "demo_request ''GET'' [] None"] p
  show ?thesis by (auto simp: getPartnerIDs_def demo_request_def)
qed

end
