(* ===== verification/Auth_Middleware.thy ===== *)
theory Auth_Middleware
  imports Inbound_Auth Services
begin

text \<open>
  The gate in front of every API route (auth.go): \<open>createAuthMiddleware\<close> and the chain
  \<open>provideAuthChain\<close> makes of it. The constructors of clortho and bascule are parameters;
  \<open>bascule_ok\<close> is their documented behaviour. The theorems say who gets through.
\<close>

section \<open>The code\<close>

type_synonym token_parser = "http_request \<Rightarrow> goerror + auth_token"

text \<open>The options of the authorization parser: a scheme with its parser, and Basic.\<close>

datatype parser_option = WithScheme string "string \<Rightarrow> goerror + auth_token" | WithBasic

type_synonym challenges = "(string \<times> (string \<times> string) list) list"

record middleware_options =
  mo_Authenticator :: token_parser
  mo_ErrorStatusCoder :: "http_request \<Rightarrow> goerror \<Rightarrow> int"
  mo_Challenges :: challenges

text \<open>
  The constructors; \<open>'c\<close> is clortho's configuration. An authenticator is built from parsers
  and validators, a middleware stands for its method \<open>Then\<close>.
\<close>

record ('c, 'o) bascule_libs =
  bl_NewResolver :: "'c \<Rightarrow> goerror + (string \<Rightarrow> goerror + clortho_key)"
  bl_NewAuthorizationParser :: "parser_option list \<Rightarrow> goerror + token_parser"
  bl_NewAuthenticator ::
    "token_parser list \<Rightarrow> (auth_token \<Rightarrow> goerror option) list \<Rightarrow> goerror + token_parser"
  bl_NewMiddleware :: "middleware_options \<Rightarrow> goerror + ('o handler \<Rightarrow> 'o handler)"

definition auth_challenges :: challenges where
  "auth_challenges = [(''Bearer'', [(''realm'', ''xmidt'')])]"

definition createAuthMiddleware ::
  "libs \<Rightarrow> ('c, 'o) bascule_libs \<Rightarrow> auth_libs \<Rightarrow> 'c \<Rightarrow> goerror + ('o handler \<Rightarrow> 'o handler)" where
  "createAuthMiddleware L BL A config =
     (case bl_NewResolver BL config of
        Inl err \<Rightarrow> Inl (ErrWrap (''failed to create JWT key resolver: '' @ err_Error err) err)
      | Inr resolver \<Rightarrow>
          (let jwtParser = Parse (A\<lparr>al_Resolve := resolver\<rparr>) in
           case bl_NewAuthorizationParser BL [WithScheme (lb_SchemeBearer L) jwtParser, WithBasic] of
             Inl err \<Rightarrow> Inl (ErrWrap (''failed to create authorization parser: '' @ err_Error err) err)
           | Inr authParser \<Rightarrow>
               (case bl_NewAuthenticator BL [authParser] [] of
                  Inl err \<Rightarrow> Inl (ErrWrap (''failed to create authenticator: '' @ err_Error err) err)
                | Inr authenticator \<Rightarrow>
                    bl_NewMiddleware BL \<lparr>mo_Authenticator = authenticator,
                      mo_ErrorStatusCoder = (\<lambda>r. error_status_coder A),
                      mo_Challenges = auth_challenges\<rparr>)))"

record 'c JWTValidator =
  jv_Config :: 'c

definition provideAuthChain ::
  "libs \<Rightarrow> ('c, 'o) bascule_libs \<Rightarrow> auth_libs \<Rightarrow> 'c JWTValidator \<Rightarrow> goerror + ('o handler \<Rightarrow> 'o handler)" where
  "provideAuthChain L BL A c = createAuthMiddleware L BL A (jv_Config c)"

section \<open>The documented behaviour of bascule\<close>

text \<open>
  A parser of the Authorization header hands the part after the scheme to the parser of that
  scheme (schemes are compared without regard to case), and its Basic parser makes a token of
  any value that decodes to a user and a password. An authenticator of one parser succeeds
  when the parser does and no validator objects. A middleware serves the request with the
  token, or denies it with the status of the error and the challenges.
\<close>

definition parser_ok ::
  "(string \<Rightarrow> (string \<times> string) option) \<Rightarrow> parser_option list \<Rightarrow> token_parser \<Rightarrow> bool" where
  "parser_ok decode opts p \<longleftrightarrow>
     (\<forall>r t. p r = Inr t \<longrightarrow> (\<exists>scheme v. hdr_get (rq_Header r) ''Authorization'' = scheme @ CHR '' '' # v
        \<and> ((\<exists>s f. WithScheme s f \<in> set opts \<and> EqualFold s scheme \<and> f v = Inr t)
           \<or> (WithBasic \<in> set opts \<and> EqualFold ''Basic'' scheme
              \<and> (\<exists>user pw. decode v = Some (user, pw) \<and> tk_principal t = user)))))
     \<and> (\<forall>r v user pw. WithBasic \<in> set opts
          \<and> hdr_get (rq_Header r) ''Authorization'' = ''Basic '' @ v \<and> decode v = Some (user, pw)
          \<longrightarrow> (\<exists>t. p r = Inr t \<and> tk_principal t = user))"

definition bascule_ok ::
  "(string \<Rightarrow> (string \<times> string) option) \<Rightarrow> (int \<Rightarrow> challenges \<Rightarrow> rw \<Rightarrow> 'o) \<Rightarrow> ('c, 'o) bascule_libs \<Rightarrow> bool" where
  "bascule_ok decode deny BL \<longleftrightarrow>
     (\<forall>opts p. bl_NewAuthorizationParser BL opts = Inr p \<longrightarrow> parser_ok decode opts p)
     \<and> (\<forall>p vs a r. bl_NewAuthenticator BL [p] vs = Inr a \<longrightarrow>
          a r = (case p r of Inl e \<Rightarrow> Inl e
                 | Inr t \<Rightarrow> (case List.map_filter (\<lambda>v. v t) vs of [] \<Rightarrow> Inr t | e # es \<Rightarrow> Inl e)))
     \<and> (\<forall>m mw h ctx r w. bl_NewMiddleware BL m = Inr mw \<longrightarrow>
          mw h ctx r w = (case mo_Authenticator m r of
              Inl e \<Rightarrow> deny (mo_ErrorStatusCoder m r e) (mo_Challenges m) w
            | Inr t \<Rightarrow> h (ctx\<lparr>cx_Token := Some t\<rparr>) r w))"

section \<open>Facts\<close>

lemma parser_accepts:
  assumes "parser_ok decode opts p" "p r = Inr t"
  obtains (scheme) s f scheme v where "hdr_get (rq_Header r) ''Authorization'' = scheme @ CHR '' '' # v"
    "WithScheme s f \<in> set opts" "EqualFold s scheme" "f v = Inr t"
  | (basic) scheme v user pw where "hdr_get (rq_Header r) ''Authorization'' = scheme @ CHR '' '' # v"
    "EqualFold ''Basic'' scheme" "decode v = Some (user, pw)" "tk_principal t = user"
  using assms unfolding parser_ok_def by blast

lemma parser_basic:
  assumes "parser_ok decode opts p" "WithBasic \<in> set opts"
    and "hdr_get (rq_Header r) ''Authorization'' = ''Basic '' @ v" "decode v = Some (user, pw)"
  shows "\<exists>t. p r = Inr t \<and> tk_principal t = user"
  using assms unfolding parser_ok_def by blast

lemma middleware_serves:
  assumes "bascule_ok decode deny BL" "bl_NewMiddleware BL m = Inr mw"
  shows "mw h ctx r w = (case mo_Authenticator m r of
      Inl e \<Rightarrow> deny (mo_ErrorStatusCoder m r e) (mo_Challenges m) w
    | Inr t \<Rightarrow> h (ctx\<lparr>cx_Token := Some t\<rparr>) r w)"
  using assms unfolding bascule_ok_def by blast

text \<open>What the code builds of these constructors.\<close>

lemma createAuthMiddleware_serves:
  assumes "bascule_ok decode deny BL" "createAuthMiddleware L BL A config = Inr mw"
  shows "\<exists>resolver p. bl_NewResolver BL config = Inr resolver
    \<and> parser_ok decode [WithScheme (lb_SchemeBearer L) (Parse (A\<lparr>al_Resolve := resolver\<rparr>)), WithBasic] p
    \<and> (\<forall>h ctx r w. mw h ctx r w = (case p r of
          Inl e \<Rightarrow> deny (error_status_coder A e) auth_challenges w
        | Inr t \<Rightarrow> h (ctx\<lparr>cx_Token := Some t\<rparr>) r w))"
proof -
  obtain resolver where resolver: "bl_NewResolver BL config = Inr resolver"
    using assms(2) by (auto simp: createAuthMiddleware_def split: sum.splits)
  let ?opts = "[WithScheme (lb_SchemeBearer L) (Parse (A\<lparr>al_Resolve := resolver\<rparr>)), WithBasic]"
  obtain p where p: "bl_NewAuthorizationParser BL ?opts = Inr p"
    using assms(2) resolver by (auto simp: createAuthMiddleware_def Let_def split: sum.splits)
  obtain a where a: "bl_NewAuthenticator BL [p] [] = Inr a"
    using assms(2) resolver p by (auto simp: createAuthMiddleware_def Let_def split: sum.splits)
  have mw: "bl_NewMiddleware BL \<lparr>mo_Authenticator = a, mo_ErrorStatusCoder = (\<lambda>r. error_status_coder A),
      mo_Challenges = auth_challenges\<rparr> = Inr mw"
    using assms(2) resolver p a by (simp add: createAuthMiddleware_def Let_def)
  have "a r = (case p r of Inl e \<Rightarrow> Inl e
      | Inr t \<Rightarrow> (case List.map_filter (\<lambda>v. v t) [] of [] \<Rightarrow> Inr t | e # es \<Rightarrow> Inl e))" for r
    using assms(1) a unfolding bascule_ok_def by blast
  then have "a r = p r" for r
    by (cases "p r") (simp_all add: map_filter_simps)
  moreover have "mw h ctx r w = (case a r of
          Inl e \<Rightarrow> deny (error_status_coder A e) auth_challenges w
        | Inr t \<Rightarrow> h (ctx\<lparr>cx_Token := Some t\<rparr>) r w)" for h ctx r w
    by (subst middleware_serves [OF assms(1) mw]) (simp split: sum.split)
  ultimately have "\<forall>h ctx r w. mw h ctx r w = (case p r of
          Inl e \<Rightarrow> deny (error_status_coder A e) auth_challenges w
        | Inr t \<Rightarrow> h (ctx\<lparr>cx_Token := Some t\<rparr>) r w)"
    by simp
  moreover have "parser_ok decode ?opts p"
    using assms(1) p by (simp add: bascule_ok_def)
  ultimately show ?thesis using resolver by blast
qed

text \<open>A request without an Authorization header never reaches the handler.\<close>

lemma no_header_denied:
  assumes "bascule_ok decode deny BL" "provideAuthChain L BL A c = Inr mw"
    and "hdr_get (rq_Header r) ''Authorization'' = []"
  shows "\<exists>code \<in> {400, 401, 500}. mw h ctx r w = deny code auth_challenges w"
proof -
  obtain resolver p where
    ok: "parser_ok decode [WithScheme (lb_SchemeBearer L) (Parse (A\<lparr>al_Resolve := resolver\<rparr>)), WithBasic] p"
    and mw: "mw h ctx r w = (case p r of
          Inl e \<Rightarrow> deny (error_status_coder A e) auth_challenges w
        | Inr t \<Rightarrow> h (ctx\<lparr>cx_Token := Some t\<rparr>) r w)"
    using createAuthMiddleware_serves [OF assms(1)] assms(2) unfolding provideAuthChain_def by blast
  obtain e where "p r = Inl e"
    using assms(3) by (cases "p r") (auto elim!: parser_accepts [OF ok])
  with mw have "mw h ctx r w = deny (error_status_coder A e) auth_challenges w" by simp
  moreover have "error_status_coder A e \<in> {400, 401, 500}" by (simp add: error_status_coder_def)
  ultimately show ?thesis by blast
qed

section \<open>A library for the witnesses\<close>

definition demo_parser :: "parser_option list \<Rightarrow> token_parser" where
  "demo_parser opts r =
     (case SplitN2 (hdr_get (rq_Header r) ''Authorization'') (CHR '' '') of
        [scheme, v] \<Rightarrow>
          if scheme = ''Basic'' \<and> WithBasic \<in> set opts then Inr \<lparr>tk_principal = v, tk_Get = None\<rparr>
          else (case opts of WithScheme s f # _ \<Rightarrow> if scheme = s then f v else Inl (ErrNew ''scheme'')
                | _ \<Rightarrow> Inl (ErrNew ''scheme''))
      | _ \<Rightarrow> Inl (ErrNew ''malformed''))"

definition demo_decode :: "string \<Rightarrow> (string \<times> string) option" where
  "demo_decode v = Some (v, ''secret'')"

definition demo_deny :: "int \<Rightarrow> challenges \<Rightarrow> rw \<Rightarrow> string" where
  "demo_deny code ch w = ''denied''"

definition demo_bascule :: "(unit, string) bascule_libs" where
  "demo_bascule =
     \<lparr>bl_NewResolver = (\<lambda>c. Inr (\<lambda>i. Inr (RsaHolder ''key''))),
      bl_NewAuthorizationParser = (\<lambda>opts. Inr (demo_parser opts)),
      bl_NewAuthenticator = (\<lambda>ps vs. Inr (\<lambda>r. case hd ps r of Inl e \<Rightarrow> Inl e
        | Inr t \<Rightarrow> (case List.map_filter (\<lambda>v. v t) vs of [] \<Rightarrow> Inr t | e # es \<Rightarrow> Inl e))),
      bl_NewMiddleware = (\<lambda>m. Inr (\<lambda>h ctx r w. case mo_Authenticator m r of
          Inl e \<Rightarrow> demo_deny (mo_ErrorStatusCoder m r e) (mo_Challenges m) w
        | Inr t \<Rightarrow> h (ctx\<lparr>cx_Token := Some t\<rparr>) r w))\<rparr>"

lemma EqualFold_refl [simp]: "EqualFold s s"
  by (simp add: EqualFold_def)

lemma demo_parser_ok: "parser_ok demo_decode opts (demo_parser opts)"
  unfolding parser_ok_def
proof (intro conjI allI impI)
  fix r :: http_request and t assume p: "demo_parser opts r = Inr t"
  let ?h = "hdr_get (rq_Header r) ''Authorization''"
  obtain scheme v where sv: "SplitN2 ?h (CHR '' '') = [scheme, v]"
    using p SplitN2_shape [of ?h "CHR '' ''"] by (auto simp: demo_parser_def)
  then have "?h = scheme @ CHR '' '' # v" by (simp add: SplitN2_two_iff)
  moreover have "(\<exists>s f. WithScheme s f \<in> set opts \<and> EqualFold s scheme \<and> f v = Inr t)
      \<or> (WithBasic \<in> set opts \<and> EqualFold ''Basic'' scheme
         \<and> (\<exists>user pw. demo_decode v = Some (user, pw) \<and> tk_principal t = user))"
  proof (cases "scheme = ''Basic'' \<and> WithBasic \<in> set opts")
    case True
    with p sv show ?thesis by (auto simp: demo_parser_def demo_decode_def)
  next
    case False
    with p sv obtain f rest where "opts = WithScheme scheme f # rest" "f v = Inr t"
      by (auto simp: demo_parser_def split: list.splits parser_option.splits if_splits)
    then show ?thesis by (metis EqualFold_refl list.set_intros(1))
  qed
  ultimately show "\<exists>scheme v. ?h = scheme @ CHR '' '' # v
      \<and> ((\<exists>s f. WithScheme s f \<in> set opts \<and> EqualFold s scheme \<and> f v = Inr t)
         \<or> (WithBasic \<in> set opts \<and> EqualFold ''Basic'' scheme
            \<and> (\<exists>user pw. demo_decode v = Some (user, pw) \<and> tk_principal t = user)))"
    by blast
next
  fix r :: http_request and v user pw
  assume "WithBasic \<in> set opts \<and> hdr_get (rq_Header r) ''Authorization'' = ''Basic '' @ v
    \<and> demo_decode v = Some (user, pw)"
  then show "\<exists>t. demo_parser opts r = Inr t \<and> tk_principal t = user"
    using SplitN2_append [of "CHR '' ''" "''Basic''" v] by (simp add: demo_parser_def demo_decode_def)
qed

lemma demo_bascule_ok: "bascule_ok demo_decode demo_deny demo_bascule"
  by (auto simp: bascule_ok_def demo_bascule_def demo_parser_ok)

text \<open>A request with credentials, and a handler that tells whom it serves.\<close>

definition demo_login :: "string \<Rightarrow> http_request" where
  "demo_login v = (demo_request ''GET'' [] None)\<lparr>rq_Header := [(''Authorization'', [v])]\<rparr>"

definition demo_whoami :: "string handler" where
  "demo_whoami ctx r w = (case cx_Token ctx of None \<Rightarrow> ''nobody'' | Some t \<Rightarrow> tk_principal t)"

lemma demo_login_header [simp]: "hdr_get (rq_Header (demo_login v)) ''Authorization'' = v"
  by (simp add: demo_login_def hdr_get_def demo_request_def canon_key_def token_byte_def is_digit_def to_upper_def to_lower_def)

section \<open>Properties\<close>

text \<open>
  C12. Nobody gets past the gate without credentials: a request that reaches the handler behind it
  carries a bearer token whose header names an RSA method and a key id, and whose signature
  verifies with the key the resolver has for that id, or Basic credentials that decode, and
  the handler sees the token of exactly these. Every other request is denied with the status
  of its error and a challenge for a bearer token of the realm \<open>xmidt\<close>.
\<close>

theorem auth_gate:
  assumes "bascule_ok decode deny BL" "jwt_library_ok A header verifies"
    and "provideAuthChain L BL A c = Inr mw"
  shows "(\<exists>e. mw h ctx r w = deny (error_status_coder A e) [(''Bearer'', [(''realm'', ''xmidt'')])] w)
    \<or> (\<exists>t scheme v. mw h ctx r w = h (ctx\<lparr>cx_Token := Some t\<rparr>) r w
        \<and> hdr_get (rq_Header r) ''Authorization'' = scheme @ CHR '' '' # v
        \<and> ((EqualFold (lb_SchemeBearer L) scheme
             \<and> (\<exists>resolver keyID k. bl_NewResolver BL (jv_Config c) = Inr resolver
                 \<and> jh_RSA (header v) \<and> jh_kid (header v) = Some (JStr keyID)
                 \<and> (resolver keyID = Inr (RsaHolder k) \<or> resolver keyID = Inr (KeyHolder (RsaPublic k)))
                 \<and> verifies k v))
           \<or> (EqualFold ''Basic'' scheme
             \<and> (\<exists>user pw. decode v = Some (user, pw) \<and> tk_principal t = user))))"
proof -
  obtain resolver p where res: "bl_NewResolver BL (jv_Config c) = Inr resolver"
    and ok: "parser_ok decode [WithScheme (lb_SchemeBearer L) (Parse (A\<lparr>al_Resolve := resolver\<rparr>)), WithBasic] p"
    and mw: "mw h ctx r w = (case p r of
          Inl e \<Rightarrow> deny (error_status_coder A e) auth_challenges w
        | Inr t \<Rightarrow> h (ctx\<lparr>cx_Token := Some t\<rparr>) r w)"
    using createAuthMiddleware_serves [OF assms(1)] assms(3) unfolding provideAuthChain_def by blast
  show ?thesis
  proof (cases "p r")
    case (Inl e)
    with mw show ?thesis by (auto simp: auth_challenges_def)
  next
    case (Inr t)
    then obtain scheme v where sv: "hdr_get (rq_Header r) ''Authorization'' = scheme @ CHR '' '' # v"
      "(EqualFold (lb_SchemeBearer L) scheme \<and> Parse (A\<lparr>al_Resolve := resolver\<rparr>) v = Inr t)
        \<or> (EqualFold ''Basic'' scheme \<and> (\<exists>user pw. decode v = Some (user, pw) \<and> tk_principal t = user))"
      by (cases rule: parser_accepts [OF ok]) auto
    have "\<exists>keyID k. jh_RSA (header v) \<and> jh_kid (header v) = Some (JStr keyID)
        \<and> (resolver keyID = Inr (RsaHolder k) \<or> resolver keyID = Inr (KeyHolder (RsaPublic k))) \<and> verifies k v"
      if "Parse (A\<lparr>al_Resolve := resolver\<rparr>) v = Inr t"
    proof -
      have "jwt_library_ok (A\<lparr>al_Resolve := resolver\<rparr>) header verifies"
        using assms(2) by (simp add: jwt_library_ok_def)
      from Parse_accepts [OF this that] show ?thesis by auto
    qed
    with sv Inr mw res show ?thesis
      by - (rule disjI2, rule exI [of _ t], rule exI [of _ scheme], rule exI [of _ v], auto)
  qed
qed

text \<open>A token of another signing method is denied.\<close>

lemma bearer_hs: "scheme @ CHR '' '' # v = ''Bearer hs'' \<Longrightarrow> scheme = ''Bearer'' \<and> v = ''hs''"
  by (auto simp: append_eq_Cons_conv)

lemma not_basic: "\<not> EqualFold ''Basic'' ''Bearer''"
  by code_simp

theorem auth_gate_witness:
  "\<exists>mw. provideAuthChain demo_libs demo_bascule demo_auth \<lparr>jv_Config = ()\<rparr> = Inr mw
     \<and> mw demo_whoami background (demo_login ''Bearer hs'') new_rw = ''denied''"
proof -
  obtain mw where mw: "provideAuthChain demo_libs demo_bascule demo_auth \<lparr>jv_Config = ()\<rparr> = Inr mw"
    by (simp add: provideAuthChain_def createAuthMiddleware_def demo_bascule_def Let_def)
  have hs: "\<not> jh_RSA (demo_header ''hs'')" by (simp add: demo_header_def)
  have "mw demo_whoami background (demo_login ''Bearer hs'') new_rw = ''denied''"
  proof (rule disjE [OF auth_gate [OF demo_bascule_ok demo_auth_ok mw, of demo_whoami background
          "demo_login ''Bearer hs''" new_rw]], goal_cases)
    case 1
    then show ?case unfolding demo_deny_def by (elim exE)
  next
    case 2
    then obtain scheme v where "''Bearer hs'' = scheme @ CHR '' '' # v"
      "jh_RSA (demo_header v) \<or> EqualFold ''Basic'' scheme"
      unfolding demo_login_header by blast
    then show ?case using bearer_hs [of scheme v] hs not_basic by auto
  qed
  with mw show ?thesis by blast
qed

text \<open>
  C38. Any Basic credentials open the gate. The middleware supports the Basic scheme and gives the
  authenticator no validator, so whatever decodes to a user and a password is accepted,
  for every user and every password, and the request is served under that user's name.
\<close>

theorem basic_password_unchecked:
  assumes "bascule_ok decode deny BL" "provideAuthChain L BL A c = Inr mw"
    and "hdr_get (rq_Header r) ''Authorization'' = ''Basic '' @ v" "decode v = Some (user, pw)"
  shows "\<exists>t. tk_principal t = user \<and> mw h ctx r w = h (ctx\<lparr>cx_Token := Some t\<rparr>) r w"
proof -
  obtain resolver p where
    ok: "parser_ok decode [WithScheme (lb_SchemeBearer L) (Parse (A\<lparr>al_Resolve := resolver\<rparr>)), WithBasic] p"
    and mw: "mw h ctx r w = (case p r of
          Inl e \<Rightarrow> deny (error_status_coder A e) auth_challenges w
        | Inr t \<Rightarrow> h (ctx\<lparr>cx_Token := Some t\<rparr>) r w)"
    using createAuthMiddleware_serves [OF assms(1)] assms(2) unfolding provideAuthChain_def by blast
  obtain t where "p r = Inr t" "tk_principal t = user"
    using parser_basic [OF ok _ assms(3,4)] by auto
  with mw show ?thesis by auto
qed

theorem basic_password_unchecked_witness:
  "\<exists>mw. provideAuthChain demo_libs demo_bascule demo_auth \<lparr>jv_Config = ()\<rparr> = Inr mw
     \<and> mw demo_whoami background (demo_login ''Basic root'') new_rw = ''root''"
proof -
  obtain mw where mw: "provideAuthChain demo_libs demo_bascule demo_auth \<lparr>jv_Config = ()\<rparr> = Inr mw"
    by (simp add: provideAuthChain_def createAuthMiddleware_def demo_bascule_def Let_def)
  have "demo_decode ''root'' = Some (''root'', ''secret'')" by (simp add: demo_decode_def)
  moreover have "hdr_get (rq_Header (demo_login ''Basic root'')) ''Authorization'' = ''Basic '' @ ''root''"
    by simp
  ultimately
  obtain t where "tk_principal t = ''root''"
    "mw demo_whoami background (demo_login ''Basic root'') new_rw
       = demo_whoami (background\<lparr>cx_Token := Some t\<rparr>) (demo_login ''Basic root'') new_rw"
    using basic_password_unchecked [OF demo_bascule_ok mw] by blast
  with mw show ?thesis by (auto simp: demo_whoami_def)
qed

text \<open>
  C30. Both services are behind the gate on every route: a request without an Authorization header
  is denied with 400, 401 or 500 and the challenge, whatever its method, path variables and
  body are; it is not decoded, nothing is sent to XMiDT and no service is called.
\<close>

theorem routes_behind_gate:
  assumes "bascule_ok decode deny_t BLt" "provideAuthChain L BLt A c = Inr mw_t"
    and "bascule_ok decode deny_s BLs" "provideAuthChain L BLs A c = Inr mw_s"
    and "route_t \<in> set (translation_ConfigHandler L serve_t mw_t echo_t acquire_t env config)"
    and "route_s \<in> set (stat_ConfigHandler L serve_s mw_s echo_s acquire_s env config)"
    and "hdr_get (rq_Header r) ''Authorization'' = []"
  shows "(\<exists>code \<in> {400, 401, 500}. rt_handler route_t ctx r w = deny_t code [(''Bearer'', [(''realm'', ''xmidt'')])] w)
    \<and> (\<exists>code \<in> {400, 401, 500}. rt_handler route_s ctx r w = deny_s code [(''Bearer'', [(''realm'', ''xmidt'')])] w)"
proof
  obtain h where "rt_handler route_t = mw_t h"
    using assms(5) by (auto simp: translation_ConfigHandler_def Let_def)
  with no_header_denied [OF assms(1,2,7)]
  show "\<exists>code \<in> {400, 401, 500}. rt_handler route_t ctx r w = deny_t code [(''Bearer'', [(''realm'', ''xmidt'')])] w"
    by (simp only: auth_challenges_def)
  obtain h' where "rt_handler route_s = mw_s h'"
    using assms(6) by (auto simp: stat_ConfigHandler_def)
  with no_header_denied [OF assms(3,4,7)]
  show "\<exists>code \<in> {400, 401, 500}. rt_handler route_s ctx r w = deny_s code [(''Bearer'', [(''realm'', ''xmidt'')])] w"
    by (simp only: auth_challenges_def)
qed

text \<open>A bascule of which every reply is one value.\<close>

definition closed_bascule :: "'o \<Rightarrow> (unit, 'o) bascule_libs" where
  "closed_bascule reply =
     \<lparr>bl_NewResolver = (\<lambda>c. Inr (\<lambda>i. Inr (RsaHolder ''key''))),
      bl_NewAuthorizationParser = (\<lambda>opts. Inr (demo_parser opts)),
      bl_NewAuthenticator = bl_NewAuthenticator demo_bascule,
      bl_NewMiddleware = (\<lambda>m. Inr (\<lambda>h ctx r w. case mo_Authenticator m r of
          Inl e \<Rightarrow> reply | Inr t \<Rightarrow> h (ctx\<lparr>cx_Token := Some t\<rparr>) r w))\<rparr>"

lemma closed_bascule_ok: "bascule_ok demo_decode (\<lambda>code ch w. reply) (closed_bascule reply)"
  by (auto simp: bascule_ok_def closed_bascule_def demo_bascule_def demo_parser_ok)

theorem routes_behind_gate_witness:
  "\<exists>mw. provideAuthChain demo_libs (closed_bascule (\<lambda>s. Panic)) demo_auth \<lparr>jv_Config = ()\<rparr> = Inr mw
     \<and> rt_handler (hd (stat_ConfigHandler demo_libs plain_server mw id (Acquire demo_libs demo_env)
          \<lparr>se_rand = Inr [], se_arrival = 0, se_finish = 0, se_deadline = None\<rparr>
          \<lparr>sc_ValidServices = [], sc_ReducedLoggingResponseCodes = [],
           sc_BearerFingerprint = \<lparr>fc_SHA256 = False, fc_LastNDigits = 0\<rparr>\<rparr>))
         background (demo_request ''GET'' [] None) new_rw = (\<lambda>s. Panic)"
proof -
  obtain mw :: "AuthAcquirer stat_service io handler \<Rightarrow> AuthAcquirer stat_service io handler"
    where mw: "provideAuthChain demo_libs (closed_bascule (\<lambda>s. Panic)) demo_auth \<lparr>jv_Config = ()\<rparr> = Inr mw"
    by (simp add: provideAuthChain_def createAuthMiddleware_def closed_bascule_def demo_bascule_def Let_def)
  obtain mw_t :: "AuthAcquirer translation_service io handler \<Rightarrow> AuthAcquirer translation_service io handler"
    where mw_t: "provideAuthChain demo_libs (closed_bascule (\<lambda>s. Panic)) demo_auth \<lparr>jv_Config = ()\<rparr> = Inr mw_t"
    by (simp add: provideAuthChain_def createAuthMiddleware_def closed_bascule_def demo_bascule_def Let_def)
  let ?env = "\<lparr>se_rand = Inr [], se_arrival = 0, se_finish = 0, se_deadline = None\<rparr>"
  let ?cfg = "\<lparr>sc_ValidServices = [], sc_ReducedLoggingResponseCodes = [],
           sc_BearerFingerprint = \<lparr>fc_SHA256 = False, fc_LastNDigits = 0\<rparr>\<rparr>"
  let ?routes = "stat_ConfigHandler demo_libs plain_server mw id (Acquire demo_libs demo_env) ?env ?cfg"
  let ?routes_t = "translation_ConfigHandler demo_libs plain_server mw_t id (Acquire demo_libs demo_env) ?env ?cfg"
  have "hd ?routes \<in> set ?routes" "hd ?routes_t \<in> set ?routes_t"
    by (simp_all add: stat_ConfigHandler_def translation_ConfigHandler_def Let_def)
  moreover have "hdr_get (rq_Header (demo_request ''GET'' [] None)) ''Authorization'' = []"
    by (simp add: demo_request_def hdr_get_def)
  ultimately have "\<exists>code \<in> {400, 401, 500::int}.
      rt_handler (hd ?routes) background (demo_request ''GET'' [] None) new_rw = (\<lambda>s. Panic)"
    using routes_behind_gate [OF closed_bascule_ok mw_t closed_bascule_ok mw] by blast
  with mw show ?thesis by (intro exI [of _ mw]) auto
qed

end
