(* ===== verification/Program.thy ===== *)
theory Program
  imports App Routes Auth_Middleware
begin

text \<open>
  The whole program: the values \<open>provideServers\<close> (routes.go) and \<open>provideHandlers\<close>
  (primaryHandler.go) read from the configuration, and \<open>fx.New\<close> of main.go, which builds from
  them the authentication chain, the services, the webhook handlers and the servers, with the
  state they start in. fx resolves the constructors by the types and names they ask for; here
  they are called in that order. arrange decodes the values; its decoders are parameters.
\<close>

section \<open>Values from the configuration\<close>

definition sum_bind :: "'e + 'a \<Rightarrow> ('a \<Rightarrow> 'e + 'b) \<Rightarrow> 'e + 'b" where
  "sum_bind m f = (case m of Inl e \<Rightarrow> Inl e | Inr a \<Rightarrow> f a)"

lemma sum_bind_simps [simp]: "sum_bind (Inl e) f = Inl e" "sum_bind (Inr a) f = f a"
  by (simp_all add: sum_bind_def)

lemma sum_bind_Inr_iff: "sum_bind m f = Inr b \<longleftrightarrow> (\<exists>a. m = Inr a \<and> f a = Inr b)"
  by (cases m) auto

text \<open>The two results of a Go call: its value, or its error.\<close>

definition or_error :: "'a \<times> goerror option \<Rightarrow> goerror + 'a" where
  "or_error r = (case snd r of Some err \<Rightarrow> Inl err | None \<Rightarrow> Inr (fst r))"

lemma or_error_Inr_iff: "or_error r = Inr a \<longleftrightarrow> r = (a, None)"
  by (cases r) (auto simp: or_error_def split: option.splits)

text \<open>
  Decoding starts from a prototype and overwrites what is configured. Plain values are read at
  their key, structs from the keys below theirs. \<open>'x\<close>, \<open>'k\<close> and \<open>'z\<close> are what the code does not
  look at in the configurations of ancla, clortho and candlelight.
\<close>

type_synonym 'a plain_decoder = "config_value option \<Rightarrow> 'a \<Rightarrow> goerror + 'a"
type_synonym 'a struct_decoder = "(string \<rightharpoonup> config_value) \<Rightarrow> 'a \<Rightarrow> goerror + 'a"

record ('c, 'x, 'k, 'z) decoders =
  dc_bool :: "bool plain_decoder"
  dc_int :: "int plain_decoder"
  dc_duration :: "duration plain_decoder"
  dc_string :: "string plain_decoder"
  dc_strings :: "string list plain_decoder"
  dc_ints :: "int list plain_decoder"
  dc_timeouts :: "httpClientTimeout struct_decoder"
  dc_acquirer :: "authAcquirerConfig struct_decoder"
  dc_fingerprint :: "FingerprintConfig struct_decoder"
  dc_webhook :: "('c, 'x) ancla_config struct_decoder"
  dc_jwt :: "'k JWTValidator struct_decoder"
  dc_tracing :: "(string \<times> 'z) struct_decoder"
  dc_zero_webhook :: "('c, 'x) ancla_config"
  dc_zero_jwt :: "'k JWTValidator"
  dc_zero_tracing :: "string \<times> 'z"

definition ProvideKey :: "'a plain_decoder \<Rightarrow> viper \<Rightarrow> string \<Rightarrow> 'a \<Rightarrow> goerror + 'a" where
  "ProvideKey decode v key prototype = decode (viper_get v key) prototype"

definition UnmarshalKey :: "'a struct_decoder \<Rightarrow> viper \<Rightarrow> string \<Rightarrow> 'a \<Rightarrow> goerror + 'a" where
  "UnmarshalKey decode v key prototype = decode (viper_below v key) prototype"

text \<open>The values \<open>provideServers\<close> provides, with its keys and prototypes.\<close>

record server_values =
  sk_requestMaxRetries :: int
  sk_requestRetryInterval :: duration
  sk_previousVersionSupport :: bool
  sk_targetURL :: string
  sk_WRPSource :: string
  sk_supportedServices :: "string list"
  sk_reducedLoggingResponseCodes :: "int list"
  sk_bearerFingerprint :: FingerprintConfig

definition zero_fingerprint :: FingerprintConfig where
  "zero_fingerprint = \<lparr>fc_SHA256 = False, fc_LastNDigits = 0\<rparr>"

definition provideServers_values :: "('c, 'x, 'k, 'z) decoders \<Rightarrow> viper \<Rightarrow> goerror + server_values" where
  "provideServers_values D v =
     sum_bind (ProvideKey (dc_int D) v reqMaxRetriesKey 0) (\<lambda>retries.
     sum_bind (ProvideKey (dc_duration D) v reqRetryIntervalKey 0) (\<lambda>interval.
     sum_bind (ProvideKey (dc_bool D) v ''previousVersionSupport'' True) (\<lambda>prev.
     sum_bind (ProvideKey (dc_string D) v ''targetURL'' []) (\<lambda>target.
     sum_bind (ProvideKey (dc_string D) v ''WRPSource'' []) (\<lambda>source.
     sum_bind (ProvideKey (dc_strings D) v translationServicesKey []) (\<lambda>services.
     sum_bind (ProvideKey (dc_ints D) v reducedTransactionLoggingCodesKey []) (\<lambda>codes.
     sum_bind (UnmarshalKey (dc_fingerprint D) v fingerprintCredsKey zero_fingerprint) (\<lambda>fingerprint.
       Inr \<lparr>sk_requestMaxRetries = retries, sk_requestRetryInterval = interval,
            sk_previousVersionSupport = prev, sk_targetURL = target, sk_WRPSource = source,
            sk_supportedServices = services, sk_reducedLoggingResponseCodes = codes,
            sk_bearerFingerprint = fingerprint\<rparr>))))))))"

text \<open>The configurations \<open>provideHandlers\<close> provides (the ones of prometheus go to libraries).\<close>

definition zero_timeouts :: httpClientTimeout where
  "zero_timeouts = \<lparr>ht_ClientTimeout = 0, ht_RequestTimeout = 0, ht_NetDialerTimeout = 0\<rparr>"

definition zero_acquirer_config :: authAcquirerConfig where
  "zero_acquirer_config = \<lparr>aq_JWT = \<lparr>jo_AuthURL = [], jo_Timeout = 0, jo_Buffer = 0\<rparr>, aq_Basic = []\<rparr>"

definition provideHandlers_values ::
  "('c, 'x, 'k, 'z) decoders \<Rightarrow> viper \<Rightarrow> goerror + authAcquirerConfig \<times> ('c, 'x) ancla_config" where
  "provideHandlers_values D v =
     sum_bind (UnmarshalKey (dc_acquirer D) v authAcquirerKey zero_acquirer_config) (\<lambda>acquirer.
     sum_bind (UnmarshalKey (dc_webhook D) v webhookConfigKey (dc_zero_webhook D)) (\<lambda>hooks.
       Inr (acquirer, hooks)))"

section \<open>The application\<close>

text \<open>The state of the webhooks: the store, and the handler variable of the old version.\<close>

type_synonym 'm hooks_state = "'m webhook_store \<times> 'm webhook_store io handler option"
type_synonym 'm program_state = "'m hooks_state server_state"

text \<open>
  Everything outside the repository. The kinds of handlers have states of their own, so a
  library that wraps handlers is given once for each kind. \<open>ou_metrics\<close> is the router and the
  handler of the metrics server.
\<close>

record ('c, 'x, 'v, 'y, 'm, 'k, 'z, 't) outside =
  ou_libs :: libs
  ou_decoders :: "('c, 'x, 'k, 'z) decoders"
  ou_http :: http_libs
  ou_auth :: auth_libs
  ou_bascule_stat :: "('k, AuthAcquirer stat_service io) bascule_libs"
  ou_bascule_translation :: "('k, AuthAcquirer translation_service io) bascule_libs"
  ou_bascule_hooks :: "('k, 'm hooks_state io) bascule_libs"
  ou_kit_stat :: "(AuthAcquirer stat_service, statRequest, XmidtResponse option) kit_config
     \<Rightarrow> AuthAcquirer stat_service io handler"
  ou_kit_translation :: "(AuthAcquirer translation_service, wrpRequest, XmidtResponse option) kit_config
     \<Rightarrow> AuthAcquirer translation_service io handler"
  ou_newTracing :: "string \<times> 'z \<Rightarrow> goerror + ('t \<times> bool)"
  ou_zeroTracing :: 't
  ou_echo_stat :: "'t \<Rightarrow> AuthAcquirer stat_service io handler \<Rightarrow> AuthAcquirer stat_service io handler"
  ou_echo_translation :: "'t \<Rightarrow> AuthAcquirer translation_service io handler \<Rightarrow> AuthAcquirer translation_service io handler"
  ou_echo_hooks :: "'t \<Rightarrow> 'm webhook_store io handler \<Rightarrow> 'm webhook_store io handler"
  ou_mux :: "'m program_state io route list \<Rightarrow> string \<Rightarrow> 'm program_state io handler"
  ou_NewInstrumenter :: "string \<Rightarrow> goerror + ('m program_state io handler \<Rightarrow> 'm program_state io handler)"
  ou_metrics :: "'m program_state io route list option \<times> 'm program_state io handler option"
  ou_time_Now :: 'c
  ou_webhook :: "'y webhook_libs"
  ou_ancla :: "('c, 'x, 'v) ancla_libs"
  ou_handlers :: "('m, 'v, 'm webhook_store) ancla_handlers"

text \<open>What the outside gives while one request is served: clocks, random bytes, token endpoint.\<close>

record 'c moment =
  mo_jwt :: jwt_env
  mo_serve :: serve_env
  mo_reads :: "'c \<Rightarrow> int"
  mo_now :: int

text \<open>The options of the two services, from the configured values.\<close>

definition service_options :: "server_values \<Rightarrow> httpClientTimeout \<Rightarrow> ServiceOptionsIn" where
  "service_options k timeouts =
     \<lparr>si_XmidtClientTimeout = timeouts,
      si_RequestMaxRetries = sk_requestMaxRetries k,
      si_RequestRetryInterval = sk_requestRetryInterval k,
      si_TargetURL = sk_targetURL k, si_WRPSource = sk_WRPSource k,
      si_ServiceConfigsRetries = provideMetrics\<rparr>"

definition handler_config_of :: "server_values \<Rightarrow> service_config" where
  "handler_config_of k =
     \<lparr>sc_ValidServices = sk_supportedServices k,
      sc_ReducedLoggingResponseCodes = sk_reducedLoggingResponseCodes k,
      sc_BearerFingerprint = sk_bearerFingerprint k\<rparr>"

text \<open>
  The values fx builds once, whatever is requested later: what the constructors provide.
  The timeouts for argus have to decode; what \<open>configureArgusClientTimeout\<close> makes of them is
  only handed to \<open>provideWebhookHandlers\<close>, which does not look at it.
\<close>

record ('c, 'x, 'k, 't, 'm) provided =
  pv_values :: server_values
  pv_acquirer :: authAcquirerConfig
  pv_webhook :: "('c, 'x) ancla_config"
  pv_xmidtClientTimeout :: httpClientTimeout
  pv_tracing :: 't
  pv_auth_stat :: "AuthAcquirer stat_service io handler \<Rightarrow> AuthAcquirer stat_service io handler"
  pv_auth_translation :: "AuthAcquirer translation_service io handler \<Rightarrow> AuthAcquirer translation_service io handler"
  pv_auth_hooks :: "'m hooks_state io handler \<Rightarrow> 'm hooks_state io handler"
  pv_handlers :: "'m webhook_store webhook_handlers"

definition fx_Provide ::
  "('c, 'x, 'v, 'y, 'm, 'k, 'z, 't) outside \<Rightarrow> viper \<Rightarrow> goerror + ('c, 'x, 'k, 't, 'm) provided" where
  "fx_Provide E v =
     (let L = ou_libs E; D = ou_decoders E; A = ou_auth E in
      sum_bind (provideServers_values D v) (\<lambda>k.
      sum_bind (provideHandlers_values D v) (\<lambda>configs.
      sum_bind (UnmarshalKey (dc_timeouts D) v ''xmidtClientTimeout'' zero_timeouts) (\<lambda>xmidtTimeout.
      sum_bind (UnmarshalKey (dc_timeouts D) v ''argusClientTimeout'' zero_timeouts) (\<lambda>argusTimeout.
      sum_bind (UnmarshalKey (dc_tracing D) v tracingConfigKey (dc_zero_tracing D)) (\<lambda>tracingConfig.
      sum_bind (or_error (fst (loadTracing (ou_newTracing E) (ou_zeroTracing E) tracingConfig))) (\<lambda>tracing.
      sum_bind (UnmarshalKey (dc_jwt D) v ''jwtValidator'' (dc_zero_jwt D)) (\<lambda>jwt.
      sum_bind (provideAuthChain L (ou_bascule_stat E) A jwt) (\<lambda>auth_s.
      sum_bind (provideAuthChain L (ou_bascule_translation E) A jwt) (\<lambda>auth_t.
      sum_bind (provideAuthChain L (ou_bascule_hooks E) A jwt) (\<lambda>auth_h.
      sum_bind (or_error (provideWebhookHandlers (ou_ancla E) (ou_handlers E) (ou_time_Now E)
                       (viper_IsSet v webhookConfigKey) (snd configs))) (\<lambda>wh.
        Inr \<lparr>pv_values = k, pv_acquirer = fst configs, pv_webhook = snd configs,
             pv_xmidtClientTimeout = configureXmidtClientTimeout xmidtTimeout, pv_tracing = tracing,
             pv_auth_stat = auth_s, pv_auth_translation = auth_t, pv_auth_hooks = auth_h,
             pv_handlers = wh\<rparr>))))))))))))"

text \<open>
  What the functions given to \<open>fx.Invoke\<close> do with them at a moment: the routes of the two
  services, with the acquirer they share, and the routes of the webhooks.
\<close>

definition invoke_primary ::
  "('c, 'x, 'v, 'y, 'm, 'k, 'z, 't) outside \<Rightarrow> viper \<Rightarrow> ('c, 'x, 'k, 't, 'm) provided \<Rightarrow> 'c moment
     \<Rightarrow> AuthAcquirer stat_ServiceOptions \<times> AuthAcquirer translation_options
     \<Rightarrow> 'm program_state io route list \<times> AuthAcquirer option \<times> log_entry list" where
  "invoke_primary E v p at opts =
     handlePrimaryEndpoint (ou_libs E) (ou_kit_stat E) (ou_kit_translation E)
       (pv_auth_stat p) (ou_echo_stat E (pv_tracing p))
       (pv_auth_translation p) (ou_echo_translation E (pv_tracing p)) (mo_jwt at) (mo_serve at)
       (handler_config_of (pv_values p)) (viper_IsSet v authAcquirerKey) (pv_acquirer p) opts"

definition invoke_hooks ::
  "('c, 'x, 'v, 'y, 'm, 'k, 'z, 't) outside \<Rightarrow> ('c, 'x, 'k, 't, 'm) provided \<Rightarrow> 'c moment
     \<Rightarrow> goerror + 'm hooks_state io route list" where
  "invoke_hooks E p at =
     handleWebhookRoutes (ou_webhook E) (ou_time_Now E) (mo_reads at) (vc_TTL (an_Validation (pv_webhook p)))
       (pv_auth_hooks p) (ou_echo_hooks E (pv_tracing p)) (wh_Add (pv_handlers p)) (wh_GetAll (pv_handlers p))"

text \<open>
  \<open>fx.New\<close>: the servers, as they serve a request at the given moment, and the state the program
  starts with, or the first error.
\<close>

definition fx_New ::
  "('c, 'x, 'v, 'y, 'm, 'k, 'z, 't) outside \<Rightarrow> viper \<Rightarrow> 'c moment
     \<Rightarrow> goerror + ('m program_state io servers \<times> 'm program_state)" where
  "fx_New E v at =
     sum_bind (fx_Provide E v) (\<lambda>p.
     sum_bind (or_error (provideServiceOptions (ou_http E) (mo_now at)
                           (service_options (pv_values p) (pv_xmidtClientTimeout p)))) (\<lambda>opts.
     sum_bind (provideServers (ou_mux E) (metricMiddleware (ou_NewInstrumenter E))
                 (provideURLPrefix (sk_previousVersionSupport (pv_values p)))
                 (fst (invoke_primary E v p at opts))
                 (map_sum id (map (lift_route share_hooks)) (invoke_hooks E p at))
                 (fst (ou_metrics E)) (snd (ou_metrics E))) (\<lambda>srv.
       Inr (srv, \<lparr>sv_acquirer = fst (snd (invoke_primary E v p at opts)),
                  sv_hooks = ([], wh_V2Add (pv_handlers p))\<rparr>))))"

text \<open>
  What \<open>tr1d1um\<close> asks of the application: its error, if any. (The moment does not matter for
  it.)
\<close>

definition fx_Err :: "('c, 'x, 'v, 'y, 'm, 'k, 'z, 't) outside \<Rightarrow> 'c moment \<Rightarrow> viper \<Rightarrow> 'l \<Rightarrow> goerror option" where
  "fx_Err E at v l = (case fx_New E v at of Inl e \<Rightarrow> Some e | Inr _ \<Rightarrow> None)"

section \<open>Serving requests\<close>

text \<open>
  The servers a request can arrive at, whatever their addresses are: the ones with the API and
  the one for health checks. (What the metrics server serves is not code of the program.)
\<close>

datatype listener = Primary | Alternate | Health

primrec listening :: "'o servers \<Rightarrow> listener \<Rightarrow> string \<Rightarrow> 'o handler" where
  "listening srv Primary = srv_primary srv"
| "listening srv Alternate = srv_alternate srv"
| "listening srv Health = srv_health srv"

text \<open>A request as it arrives: where, when, for which path, in which context, with which writer.\<close>

record 'c arrival =
  ar_listener :: listener
  ar_moment :: "'c moment"
  ar_path :: string
  ar_ctx :: reqctx
  ar_request :: http_request
  ar_writer :: rw

text \<open>
  The servers over a sequence of requests, one after the other: the replies and the state at
  the end.
\<close>

definition serve_arrival ::
  "('c, 'x, 'v, 'y, 'm, 'k, 'z, 't) outside \<Rightarrow> viper \<Rightarrow> 'c arrival \<Rightarrow> 'm program_state io" where
  "serve_arrival E v q st =
     (case fx_New E v (ar_moment q) of
        Inl e \<Rightarrow> Panic
      | Inr (srv, st0) \<Rightarrow> listening srv (ar_listener q) (ar_path q) (ar_ctx q) (ar_request q) (ar_writer q) st)"

fun serve_requests ::
  "('c, 'x, 'v, 'y, 'm, 'k, 'z, 't) outside \<Rightarrow> viper \<Rightarrow> 'c arrival list \<Rightarrow> 'm program_state
     \<Rightarrow> (rw list \<times> 'm program_state) outcome" where
  "serve_requests E v [] st = Ret ([], st)"
| "serve_requests E v (q # qs) st =
     outcome_bind (serve_arrival E v q st) (\<lambda>(w, st').
       outcome_bind (serve_requests E v qs st') (\<lambda>(ws, st''). Ret (w # ws, st'')))"

end
