(* ===== verification/Routes_Props.thy ===== *)
theory Routes_Props
  imports Routes
begin

text \<open>
  What the route tables promise: which handler serves which request, that the alternate server
  answers as the API router does, that the repair of webhooks runs for the old version only,
  and what a wrong acquirer configuration does.
\<close>

section \<open>Facts\<close>

lemma api_templates:
  "fst (handlePrimaryEndpoint L serve_s serve_t auth_s echo_s auth_t echo_t jenv env c isSet config opts) =
     (let s = lift_route (share_stat (stat_NewService (case fst (configure_acquirer isSet config) of
            None \<Rightarrow> fst opts | Some a \<Rightarrow> (fst opts)\<lparr>so_AuthAcquirer := Some a\<rparr>)))
          (hd (stat_ConfigHandler L serve_s auth_s echo_s (Acquire L jenv) env c));
          t = share_translation (translation_NewService (case fst (configure_acquirer isSet config) of
            None \<Rightarrow> snd opts | Some a \<Rightarrow> (snd opts)\<lparr>to_AuthAcquirer := Some a\<rparr>));
          ts = translation_ConfigHandler L serve_t auth_t echo_t (Acquire L jenv) env c
      in s # map (lift_route t) ts)"
  by (simp add: handlePrimaryEndpoint_def stat_ConfigHandler_def Let_def split: prod.split)

lemma lift_route_sel [simp]:
  "rt_template (lift_route f rt) = rt_template rt" "rt_methods (lift_route f rt) = rt_methods rt"
  "rt_handler (lift_route f rt) = (\<lambda>ctx r w. f (rt_handler rt ctx r w))"
  by (simp_all add: lift_route_def)

text \<open>Serving a request does not depend on variables an outer router has set.\<close>

lemma mux_ignores_vars:
  "mux_ok mt nf mna serve \<Longrightarrow> serve rs path ctx (r\<lparr>rq_Vars := v\<rparr>) w = serve rs path ctx r w"
  by (simp add: mux_ok_def split: option.split)

lemma mux_first:
  assumes "mux_ok mt nf mna serve" "mt (rt_template rt) path \<noteq> None" "takes_method rt (rq_Method r)"
  shows "serve (rt # rs) path ctx r w = rt_handler rt ctx (r\<lparr>rq_Vars := mt (rt_template rt) path\<rparr>) w"
  using assms by (simp add: mux_ok_def)

lemma mux_not_found:
  assumes "mux_ok mt nf mna serve" "\<forall>rt \<in> set rs. mt (rt_template rt) path = None"
  shows "serve rs path ctx r w = nf w"
proof -
  have "find (\<lambda>rt. mt (rt_template rt) path \<noteq> None \<and> takes_method rt (rq_Method r)) rs = None"
    using assms(2) by (auto simp: find_None_iff)
  with assms show ?thesis by (simp add: mux_ok_def)
qed

section \<open>Properties\<close>

text \<open>
  C20. Which handler of the API serves a request depends on path and method alone, and the order of
  registration settles the overlap: a GET whose path matches the statistics template goes to
  the statistics service although it also matches the template of the translation service, a
  PATCH to the same path goes to the translation service, and a path that matches with the
  wrong methods only gets the reply 405, any other path 404.
\<close>

theorem api_dispatch:
  assumes "mux_ok mt nf mna serve"
    and "rs = fst (handlePrimaryEndpoint L serve_s serve_t auth_s echo_s auth_t echo_t jenv env c isSet config opts)"
    and "m = (\<lambda>t. mt (base @ t) path)"
  shows "\<exists>hs ht. rs = [\<lparr>rt_template = ''/device/{deviceid}/stat'', rt_methods = Some [''GET''], rt_handler = hs\<rparr>,
        \<lparr>rt_template = ''/device/{deviceid}/{service}'', rt_methods = Some [''GET'', ''PATCH''], rt_handler = ht\<rparr>,
        \<lparr>rt_template = ''/device/{deviceid}/{service}/{parameter}'',
         rt_methods = Some [''DELETE'', ''PUT'', ''POST''], rt_handler = ht\<rparr>]
    \<and> serve (provideAPIRouter base rs) path ctx r w =
      (if m ''/device/{deviceid}/stat'' \<noteq> None \<and> rq_Method r = ''GET'' then
         hs ctx (r\<lparr>rq_Vars := m ''/device/{deviceid}/stat''\<rparr>) w
       else if m ''/device/{deviceid}/{service}'' \<noteq> None \<and> rq_Method r \<in> {''GET'', ''PATCH''} then
         ht ctx (r\<lparr>rq_Vars := m ''/device/{deviceid}/{service}''\<rparr>) w
       else if m ''/device/{deviceid}/{service}/{parameter}'' \<noteq> None
               \<and> rq_Method r \<in> {''DELETE'', ''PUT'', ''POST''} then
         ht ctx (r\<lparr>rq_Vars := m ''/device/{deviceid}/{service}/{parameter}''\<rparr>) w
       else if m ''/device/{deviceid}/stat'' = None \<and> m ''/device/{deviceid}/{service}'' = None
               \<and> m ''/device/{deviceid}/{service}/{parameter}'' = None then nf w
       else mna w)"
proof -
  obtain hs ht where rs: "rs = [\<lparr>rt_template = ''/device/{deviceid}/stat'', rt_methods = Some [''GET''], rt_handler = hs\<rparr>,
        \<lparr>rt_template = ''/device/{deviceid}/{service}'', rt_methods = Some [''GET'', ''PATCH''], rt_handler = ht\<rparr>,
        \<lparr>rt_template = ''/device/{deviceid}/{service}/{parameter}'',
         rt_methods = Some [''DELETE'', ''PUT'', ''POST''], rt_handler = ht\<rparr>]"
    unfolding assms(2) api_templates by (simp add: Let_def stat_ConfigHandler_def translation_ConfigHandler_def lift_route_def)
  let ?t1 = "''/device/{deviceid}/stat''" and ?t2 = "''/device/{deviceid}/{service}''"
    and ?t3 = "''/device/{deviceid}/{service}/{parameter}''"
  define M where "M = rq_Method r"
  define t1 t2 t3 where "t1 = m ?t1" and "t2 = m ?t2" and "t3 = m ?t3"
  have "serve (provideAPIRouter base rs) path ctx r w =
      (if t1 \<noteq> None \<and> M = ''GET'' then hs ctx (r\<lparr>rq_Vars := t1\<rparr>) w
       else if t2 \<noteq> None \<and> M \<in> {''GET'', ''PATCH''} then ht ctx (r\<lparr>rq_Vars := t2\<rparr>) w
       else if t3 \<noteq> None \<and> M \<in> {''DELETE'', ''PUT'', ''POST''} then ht ctx (r\<lparr>rq_Vars := t3\<rparr>) w
       else if t1 = None \<and> t2 = None \<and> t3 = None then nf w else mna w)"
    using assms(1) unfolding mux_ok_def rs provideAPIRouter_def t1_def t2_def t3_def assms(3) M_def
    by (cases "mt (base @ ?t1) path \<noteq> None \<and> rq_Method r = ''GET''";
        cases "mt (base @ ?t2) path \<noteq> None \<and> rq_Method r \<in> {''GET'', ''PATCH''}";
        cases "mt (base @ ?t3) path \<noteq> None \<and> rq_Method r \<in> {''DELETE'', ''PUT'', ''POST''}")
      (simp_all add: takes_method_def split del: if_split, fastforce+)
  then show ?thesis
    unfolding t1_def t2_def t3_def M_def by (intro exI [of _ hs] exI [of _ ht] conjI rs)
qed

text \<open>A router for the witnesses: a path matches the template it is spelled like.\<close>

definition demo_mt :: "string \<Rightarrow> string \<Rightarrow> string gomap option" where
  "demo_mt t path = (if path = t then Some (map (\<lambda>v. (v, ''v3'')) (template_vars t)) else None)"

lemma demo_mt_ok: "mux_vars_ok demo_mt"
  by (auto simp: mux_vars_ok_def demo_mt_def dom_map_of_conv_image_fst image_image split: if_splits)

definition demo_mux :: "'s io route list \<Rightarrow> string \<Rightarrow> 's io handler" where
  "demo_mux = plain_mux demo_mt (\<lambda>w s. outcome_bind (WriteHeader 404 w) (\<lambda>w'. Ret (w', s)))
     (\<lambda>w s. outcome_bind (WriteHeader 405 w) (\<lambda>w'. Ret (w', s)))"

lemma demo_mux_ok:
  "mux_ok demo_mt (\<lambda>w s. outcome_bind (WriteHeader 404 w) (\<lambda>w'. Ret (w', s)))
     (\<lambda>w s. outcome_bind (WriteHeader 405 w) (\<lambda>w'. Ret (w', s))) demo_mux"
  unfolding demo_mux_def by (rule plain_mux_ok)

definition demo_primary :: "bool \<Rightarrow> authAcquirerConfig
   \<Rightarrow> 'h server_state io route list \<times> AuthAcquirer option \<times> log_entry list" where
  "demo_primary isSet config = handlePrimaryEndpoint demo_libs plain_server plain_server id id id id
     demo_env demo_serve_env demo_service_config isSet config (fst (provideServiceOptions demo_http 0 demo_options))"

abbreviation plain_primary :: "bool \<Rightarrow> authAcquirerConfig
   \<Rightarrow> unit server_state io route list \<times> AuthAcquirer option \<times> log_entry list" where
  "plain_primary \<equiv> demo_primary"

definition no_acquirer :: authAcquirerConfig where
  "no_acquirer = \<lparr>aq_JWT = \<lparr>jo_AuthURL = [], jo_Timeout = 0, jo_Buffer = 0\<rparr>, aq_Basic = []\<rparr>"

theorem api_dispatch_witness:
  "demo_mux (provideAPIRouter ''/api/v3'' (fst (plain_primary False no_acquirer)))
      ''/api/v3/device/{deviceid}/stat'' background demo_get new_rw
    = rt_handler (hd (fst (plain_primary False no_acquirer))) background
        (demo_get\<lparr>rq_Vars := Some [(''deviceid'', ''v3'')]\<rparr>) new_rw"
proof -
  have "demo_mt (''/api/v3'' @ ''/device/{deviceid}/stat'') ''/api/v3/device/{deviceid}/stat''
      = Some [(''deviceid'', ''v3'')]" by (simp add: demo_mt_def)
  moreover have "rq_Method demo_get = ''GET''" by (simp add: demo_get_def demo_request_def)
  moreover have "fst (plain_primary False no_acquirer) = fst (handlePrimaryEndpoint demo_libs plain_server
      plain_server id id id id demo_env demo_serve_env demo_service_config False no_acquirer
      (fst (provideServiceOptions demo_http 0 demo_options)))"
    by (simp add: demo_primary_def)
  note api_dispatch [OF demo_mux_ok this refl, where base = "''/api/v3''" and ctx = background
      and path = "''/api/v3/device/{deviceid}/stat''" and r = demo_get and w = new_rw]
  ultimately show ?thesis by auto
qed

lemma alternate_routes:
  assumes "mux_ok mt nf mna serve" "rt_template ` set rs \<subseteq> set alt_templates"
  shows "serve (buildAPIAltRouter base (serve (provideAPIRouter base rs) path)) path ctx r w
    = serve (provideAPIRouter base rs) path ctx r w"
proof (cases "\<exists>t \<in> set alt_templates. mt (base @ t) path \<noteq> None")
  case True
  define alt where "alt = buildAPIAltRouter base (serve (provideAPIRouter base rs) path)"
  have all: "rt_methods x = None \<and> rt_handler x = serve (provideAPIRouter base rs) path" if "x \<in> set alt" for x
    using that by (auto simp: alt_def buildAPIAltRouter_def)
  have "\<exists>x \<in> set alt. mt (rt_template x) path \<noteq> None"
    using True by (auto simp: alt_def buildAPIAltRouter_def)
  then obtain x where x: "find (\<lambda>rt. mt (rt_template rt) path \<noteq> None \<and> takes_method rt (rq_Method r)) alt = Some x"
    using all by (cases "find (\<lambda>rt. mt (rt_template rt) path \<noteq> None \<and> takes_method rt (rq_Method r)) alt")
      (auto simp: find_None_iff takes_method_def)
  then have "x \<in> set alt" by (auto simp: find_Some_iff)
  with all have "rt_handler x = serve (provideAPIRouter base rs) path" by blast
  with x assms(1) have "serve alt path ctx r w
      = serve (provideAPIRouter base rs) path ctx (r\<lparr>rq_Vars := mt (rt_template x) path\<rparr>) w"
    by (simp add: mux_ok_def)
  then show ?thesis using mux_ignores_vars [OF assms(1)] by (simp add: alt_def)
next
  case False
  then have "\<forall>rt \<in> set (provideAPIRouter base rs). mt (rt_template rt) path = None"
    using assms(2) by (auto simp: provideAPIRouter_def)
  moreover from False have "\<forall>rt \<in> set (buildAPIAltRouter base (serve (provideAPIRouter base rs) path)).
      mt (rt_template rt) path = None"
    by (auto simp: buildAPIAltRouter_def)
  ultimately show ?thesis using mux_not_found [OF assms(1)] by simp
qed

lemma handleWebhookRoutes_templates:
  "handleWebhookRoutes WL time_Now reads ttl auth echo add getAll = Inr hooks \<Longrightarrow>
     rt_template ` set hooks \<subseteq> {''/hook'', ''/hooks''}"
  by (auto simp: handleWebhookRoutes_def split: option.splits sum.splits)

text \<open>
  C19. The alternate server answers every request exactly as the primary one does, on every path
  and for every method, also those it rejects: behind their own metrics both servers run the
  same handler. The alternate one has a route for each template of the API, with the webhook
  routes or without, and leaves methods and handlers to the API router.
\<close>

theorem alternate_serves_api:
  assumes "mux_ok mt nf mna serve"
    and "handleWebhookRoutes WL time_Now reads ttl auth echo add getAll = Inr hooks"
    and "provideServers serve mcs base
           (fst (handlePrimaryEndpoint L serve_s serve_t auth_s echo_s auth_t echo_t jenv env c isSet config opts))
           (Inr (map (lift_route share_hooks) hooks)) router metrics = Inr s"
  shows "\<exists>h. srv_primary s path = mc_Primary mcs h \<and> srv_alternate s path = mc_Alternate mcs h"
proof -
  let ?rs = "fst (handlePrimaryEndpoint L serve_s serve_t auth_s echo_s auth_t echo_t jenv env c isSet config opts)
    @ map (lift_route share_hooks) hooks"
  have "rt_template ` set (fst (handlePrimaryEndpoint L serve_s serve_t auth_s echo_s auth_t echo_t
      jenv env c isSet config opts)) \<subseteq> set alt_templates"
    by (simp add: api_templates Let_def stat_ConfigHandler_def translation_ConfigHandler_def alt_templates_def)
  then have "rt_template ` set ?rs \<subseteq> set alt_templates"
    using handleWebhookRoutes_templates [OF assms(2)] by (auto simp: alt_templates_def image_image)
  note same = alternate_routes [OF assms(1) this, of base path]
  have "serve (buildAPIAltRouter base (serve (provideAPIRouter base ?rs) path)) path
      = serve (provideAPIRouter base ?rs) path" by (rule ext, rule ext, rule ext, rule same)
  moreover have "srv_primary s path = mc_Primary mcs (serve (provideAPIRouter base ?rs) path)"
    "srv_alternate s path = mc_Alternate mcs
       (serve (buildAPIAltRouter base (serve (provideAPIRouter base ?rs) path)) path)"
    using assms(3) by (auto simp: provideServers_def Let_def)
  ultimately show ?thesis by auto
qed

definition plain_chains :: "'o metric_chains" where
  "plain_chains = \<lparr>mc_Primary = (\<lambda>h. h), mc_Alternate = (\<lambda>h. h), mc_Health = (\<lambda>h. h)\<rparr>"

theorem alternate_serves_api_witness:
  "\<exists>s :: (unit \<times> unit io handler option) server_state io servers.
     provideServers demo_mux plain_chains ''/api/v3'' (fst (demo_primary False no_acquirer)) (Inr []) None None = Inr s
     \<and> srv_primary s ''/nowhere'' = srv_alternate s ''/nowhere''"
proof -
  obtain s :: "(unit \<times> unit io handler option) server_state io servers" where
    s: "provideServers demo_mux plain_chains ''/api/v3'' (fst (demo_primary False no_acquirer))
      (Inr []) None None = Inr s"
    by (simp add: provideServers_def Let_def)
  have h: "handleWebhookRoutes (demo_webhooks (\<lambda>b. Inl (OtherUnmarshalError []))) () (\<lambda>_. 0) demo_ttl id id
      (None :: unit io handler option) None = Inr []"
    by (simp add: handleWebhookRoutes_def)
  have "\<exists>h. srv_primary s ''/nowhere'' = mc_Primary plain_chains h \<and> srv_alternate s ''/nowhere'' = mc_Alternate plain_chains h"
    by (rule alternate_serves_api [OF demo_mux_ok h]) (use s in \<open>simp add: demo_primary_def\<close>)
  with s show ?thesis by (auto simp: plain_chains_def)
qed

lemma template_vars_append:
  "CHR ''{'' \<notin> set s \<Longrightarrow> template_vars (s @ t) = template_vars t"
  by (induction s) auto

lemma base_vars:
  "template_vars (provideURLPrefix False @ ''/hook'') = []"
  "template_vars (provideURLPrefix True @ ''/hook'') = [''version'']"
  by (simp_all add: provideURLPrefix_def apiBase_def apiBaseDualVersion_def apiVersion_def prevAPIVersion_def)

lemma matched_version:
  assumes "mux_vars_ok mt" "mt (provideURLPrefix support @ ''/hook'') path = Some m"
  shows "is_v2 (r\<lparr>rq_Vars := Some m\<rparr>) \<longleftrightarrow> support \<and> map_of m ''version'' = Some ''v2''"
proof -
  have dom: "dom (map_of m) = set (template_vars (provideURLPrefix support @ ''/hook''))"
    using assms unfolding mux_vars_ok_def by blast
  show ?thesis
  proof (cases support)
    case False
    have "''version'' \<notin> dom (map_of m)" unfolding dom by (simp add: False base_vars)
    then have "map_of m ''version'' = None" by blast
    with False show ?thesis by (simp add: is_v2_def mux_var_def gomap_str_def prevAPIVersion_def)
  next
    case True
    have "''version'' \<in> dom (map_of m)" unfolding dom by (simp add: True base_vars)
    then obtain v where "map_of m ''version'' = Some v" by blast
    with True show ?thesis by (simp add: is_v2_def mux_var_def gomap_str_def prevAPIVersion_def)
  qed
qed

text \<open>
  C37. The repair of webhooks is for the old API version only. Without support for it the prefix of
  the API has no version variable, so every registration reaches the ordinary handler
  untouched; with the support it is the version in the path, and nothing else, that decides.
\<close>

theorem repair_for_old_version_only:
  assumes "mux_ok mt nf mna serve" "mux_vars_ok mt"
    and "handleWebhookRoutes WL time_Now reads ttl (\<lambda>h. h) echo (Some add) (Some getAll) = Inr hooks"
    and "mt (provideURLPrefix support @ ''/hook'') path = Some m" "rq_Method r = ''POST''"
    and "\<not> support \<or> map_of m ''version'' \<noteq> Some ''v2''"
  shows "serve (provideAPIRouter (provideURLPrefix support) hooks) path ctx r w st
    = on_fst (echo add ctx (r\<lparr>rq_Vars := Some m\<rparr>) w) st"
proof -
  obtain cfg where hooks: "hooks = [\<lparr>rt_template = ''/hook'', rt_methods = Some [''POST''],
        rt_handler = fixV2_handler WL (Some sallust_Get) cfg reads (echo add)\<rparr>,
      \<lparr>rt_template = ''/hooks'', rt_methods = None, rt_handler = (\<lambda>ctx r w. on_fst (echo getAll ctx r w))\<rparr>]"
    using assms(3) by (auto simp: handleWebhookRoutes_def fixV2Duration_def Let_def split: if_splits)
  have "\<not> is_v2 (r\<lparr>rq_Vars := Some m\<rparr>)" using matched_version [OF assms(2,4)] assms(6) by blast
  then have "fixV2_handler WL (Some sallust_Get) cfg reads (echo add) ctx (r\<lparr>rq_Vars := Some m\<rparr>) w st
      = on_fst (echo add ctx (r\<lparr>rq_Vars := Some m\<rparr>) w) st" by (rule fixV2_other_version)
  with assms(1,4,5) show ?thesis
    unfolding hooks provideAPIRouter_def by (simp add: mux_first takes_method_def)
qed

theorem repair_for_old_version_only_witness:
  "demo_mux (provideAPIRouter (provideURLPrefix False)
       [\<lparr>rt_template = ''/hook'', rt_methods = Some [''POST''], rt_handler =
           fixV2_handler (demo_webhooks (\<lambda>b. Inl (OtherUnmarshalError []))) (Some sallust_Get) demo_ttl (\<lambda>_. 0) demo_add\<rparr>,
        \<lparr>rt_template = ''/hooks'', rt_methods = None, rt_handler = (\<lambda>ctx r w. on_fst (demo_add ctx r w))\<rparr>])
     ''/api/v3/hook'' background (demo_hook ''{}'' None) new_rw (0, None)
   = on_fst (demo_add background ((demo_hook ''{}'' None)\<lparr>rq_Vars := Some []\<rparr>) new_rw) (0, None)"
proof -
  have hooks: "handleWebhookRoutes (demo_webhooks (\<lambda>b. Inl (OtherUnmarshalError []))) () (\<lambda>_. 0) demo_ttl (\<lambda>h. h) id
      (Some demo_add) (Some demo_add) = Inr
       [\<lparr>rt_template = ''/hook'', rt_methods = Some [''POST''], rt_handler =
           fixV2_handler (demo_webhooks (\<lambda>b. Inl (OtherUnmarshalError []))) (Some sallust_Get) demo_ttl (\<lambda>_. 0) demo_add\<rparr>,
        \<lparr>rt_template = ''/hooks'', rt_methods = None, rt_handler = (\<lambda>ctx r w. on_fst (demo_add ctx r w))\<rparr>]"
    by (simp add: handleWebhookRoutes_def fixV2Duration_def demo_ttl_def)
  have path: "provideURLPrefix False @ ''/hook'' = ''/api/v3/hook''"
    by (simp add: provideURLPrefix_def apiBase_def apiVersion_def)
  have m: "demo_mt (provideURLPrefix False @ ''/hook'') ''/api/v3/hook'' = Some []"
    unfolding demo_mt_def base_vars path by simp
  have post: "rq_Method (demo_hook ''{}'' None) = ''POST''" by (simp add: demo_hook_def demo_request_def)
  from repair_for_old_version_only [OF demo_mux_ok demo_mt_ok hooks m post, of background new_rw "(0, None)"]
  show ?thesis by (simp only: simp_thms id_apply)
qed

text \<open>
  A configuration of the acquirer that sets neither the JWT values nor the Basic value stops
  nothing: the services run as if the key were not there, so the client's own credentials go
  out to XMiDT, and the only trace is an error in the log at startup.
\<close>

theorem bad_acquirer_config_ignored:
  assumes "aq_Basic config = []"
    and "jo_AuthURL (aq_JWT config) = [] \<or> jo_Buffer (aq_JWT config) = 0 \<or> jo_Timeout (aq_JWT config) = 0"
  shows "case handlePrimaryEndpoint L serve_s serve_t auth_s echo_s auth_t echo_t jenv env c True config opts of
      (routes, acquirer, logs) \<Rightarrow>
        handlePrimaryEndpoint L serve_s serve_t auth_s echo_s auth_t echo_t jenv env c False config opts
          = (routes, acquirer, [])
        \<and> acquirer = to_AuthAcquirer (snd opts) \<and> length logs = 1 \<and> lg_level (hd logs) = LvError"
  using assms
  by (auto simp: handlePrimaryEndpoint_def configure_acquirer_def createAuthAcquirer_def Let_def log_with_def
      translation_NewService_def)

theorem bad_acquirer_config_ignored_witness:
  "fst (snd (plain_primary True no_acquirer)) = None"
proof -
  have "to_AuthAcquirer (snd (fst (provideServiceOptions demo_http 0 demo_options)) :: AuthAcquirer translation_options) = None"
    by (simp add: provideServiceOptions_def Let_def)
  moreover have "case plain_primary True no_acquirer of (routes, acquirer, logs) \<Rightarrow>
      plain_primary False no_acquirer = (routes, acquirer, [])
      \<and> acquirer = to_AuthAcquirer (snd (fst (provideServiceOptions demo_http 0 demo_options)))
      \<and> length logs = 1 \<and> lg_level (hd logs) = LvError"
    unfolding demo_primary_def by (rule bad_acquirer_config_ignored) (simp_all add: no_acquirer_def)
  ultimately show ?thesis by (auto split: prod.splits)
qed

end
