(* ===== verification/Invariants.thy ===== *)
theory Invariants
  imports Program Services_Props Routes_Props
begin

text \<open>
  Invariants of the state along the requests the program serves: which operations keep a
  property of the state, from the services and the webhook handlers through go-kit, the gate,
  the middleware and the router to the primary server.
\<close>

section \<open>Operations that keep a property of the state\<close>

definition io_keeps :: "('s \<Rightarrow> bool) \<Rightarrow> 's io \<Rightarrow> bool" where
  "io_keeps P io \<longleftrightarrow> (\<forall>s w s'. P s \<longrightarrow> io s = Ret (w, s') \<longrightarrow> P s')"

abbreviation handler_keeps :: "('s \<Rightarrow> bool) \<Rightarrow> 's io handler \<Rightarrow> bool" where
  "handler_keeps P h \<equiv> (\<forall>ctx r w. io_keeps P (h ctx r w))"

named_theorems keeps_intros \<open>what keeps a property\<close>

lemma io_keepsD: "io_keeps P io \<Longrightarrow> P s \<Longrightarrow> io s = Ret (w, s') \<Longrightarrow> P s'"
  by (simp add: io_keeps_def)

lemma io_keeps_reply [keeps_intros]: "io_keeps P (\<lambda>s. outcome_bind m (\<lambda>w. Ret (w, s)))"
  by (cases m) (simp_all add: io_keeps_def)

lemma io_keeps_Ret [keeps_intros]: "io_keeps P (\<lambda>s. Ret (w, s))"
  by (simp add: io_keeps_def)

lemma io_keeps_on_fst [keeps_intros]: "io_keeps P io \<Longrightarrow> io_keeps (\<lambda>st. P (fst st) \<and> Q (snd st)) (on_fst io)"
  by (auto simp: io_keeps_def on_fst_def outcome_bind_Ret_iff)

lemma kit_reply_keeps:
  assumes "\<And>ctx q s. P s \<Longrightarrow> P (snd (kc_endpoint c ctx q s))"
  shows "io_keeps P (kit_reply c ctx r w)"
  unfolding io_keeps_def
proof (intro allI impI)
  fix s w' s' assume s: "P s" and run: "kit_reply c ctx r w s = Ret (w', s')"
  show "P s'"
  proof (cases "kc_decode c ctx r")
    case (Inl e)
    with s run show ?thesis by (auto simp: kit_reply_def outcome_bind_Ret_iff)
  next
    case (Inr q)
    obtain p oe s1 where "kc_endpoint c ctx q s = ((p, oe), s1)" by (metis surj_pair)
    with Inr run assms [OF s, of ctx q] show ?thesis
      by (cases oe) (auto simp: kit_reply_def outcome_bind_Ret_iff split: option.splits)
  qed
qed

lemma kit_server_keeps:
  assumes "kit_server_ok serve" "\<And>ctx q s. P s \<Longrightarrow> P (snd (kc_endpoint c ctx q s))"
  shows "handler_keeps P (serve c)"
  unfolding io_keeps_def
proof (intro allI impI)
  fix ctx r w s w' s' assume s: "P s" and run: "serve c ctx r w s = Ret (w', s')"
  obtain code hs where "serve c ctx r w s =
      outcome_bind (run_before (kc_before c) ctx r) (\<lambda>(ctx', r').
        outcome_bind (kit_reply c ctx' r' w s) (\<lambda>(w', s').
          Ret (rw_add_log (kc_finalizer c (ctx'\<lparr>cx_ResponseHeaders := Some hs\<rparr>) code r') w', s')))"
    using assms(1) unfolding kit_server_ok_def by blast
  with run obtain ctx' r' w1 where "kit_reply c ctx' r' w s = Ret (w1, s')"
    by (auto simp: outcome_bind_Ret_iff)
  then show "P s'" using io_keepsD [OF kit_reply_keeps [where P = P and c = c, OF assms(2)] s] by blast
qed

lemma Welcome_keeps:
  fixes env :: serve_env
  shows "handler_keeps P h \<Longrightarrow> handler_keeps P (Welcome L cfg (se_rand env) now h)"
  using Welcome_enriches [of L cfg env now h] by metis

section \<open>Middleware, the gate and the router\<close>

text \<open>
  What the documentation says of the middleware that only observes (tracing, metrics): the
  request is passed on as it is, perhaps in a richer context, and nothing of the reply is
  written yet.
\<close>

definition passes_on :: "('o handler \<Rightarrow> 'o handler) \<Rightarrow> bool" where
  "passes_on f \<longleftrightarrow> (\<forall>ctx r w. \<exists>ctx' w'. (\<forall>h. f h ctx r w = h ctx' r w')
     \<and> rw_sent w' = rw_sent w \<and> rw_write_err w' = rw_write_err w \<and> rw_body w' = rw_body w)"

lemma passes_on_id: "passes_on (\<lambda>h. h)"
  by (auto simp: passes_on_def)

lemma passes_onE:
  assumes "passes_on f"
  obtains ctx' w' where "\<And>h. f h ctx r w = h ctx' r w'"
    "rw_sent w' = rw_sent w" "rw_write_err w' = rw_write_err w" "rw_body w' = rw_body w"
  using assms unfolding passes_on_def by metis

lemma passes_on_keeps: "passes_on f \<Longrightarrow> (\<And>ctx w. io_keeps P (h ctx r w)) \<Longrightarrow> io_keeps P (f h ctx r w)"
  by (erule passes_onE [of f ctx r w]) simp

text \<open>The gate denies with a reply that leaves the state alone.\<close>

definition denies :: "(int \<Rightarrow> challenges \<Rightarrow> rw \<Rightarrow> rw) \<Rightarrow> int \<Rightarrow> challenges \<Rightarrow> rw \<Rightarrow> 's io" where
  "denies denied code ch w s = Ret (denied code ch w, s)"

lemma gate_keeps:
  assumes "bascule_ok decode (denies denied) BL" "provideAuthChain L BL A c = Inr mw"
    and "\<And>ctx w. io_keeps P (h ctx r w)"
  shows "io_keeps P (mw h ctx r w)"
proof -
  obtain p where "mw h ctx r w = (case p r of
          Inl e \<Rightarrow> denies denied (error_status_coder A e) auth_challenges w
        | Inr t \<Rightarrow> h (ctx\<lparr>cx_Token := Some t\<rparr>) r w)"
    using createAuthMiddleware_serves [OF assms(1)] assms(2) unfolding provideAuthChain_def by metis
  with assms(3) show ?thesis by (cases "p r") (simp_all add: io_keeps_def denies_def)
qed

text \<open>The replies 404 and 405 of the router.\<close>

definition answers :: "(rw \<Rightarrow> rw outcome) \<Rightarrow> rw \<Rightarrow> 's io" where
  "answers f w s = outcome_bind (f w) (\<lambda>w'. Ret (w', s))"

lemma answers_keeps [keeps_intros]: "io_keeps P (answers f w)"
  by (auto simp: io_keeps_def answers_def outcome_bind_Ret_iff)

lemma mux_keeps:
  assumes "mux_ok mt (answers nf) (answers mna) serve"
    and "\<And>rt m ctx w. rt \<in> set rs \<Longrightarrow> mt (rt_template rt) path = Some m
           \<Longrightarrow> io_keeps P (rt_handler rt ctx (r\<lparr>rq_Vars := Some m\<rparr>) w)"
  shows "io_keeps P (serve rs path ctx r w)"
proof (cases "find (\<lambda>rt. mt (rt_template rt) path \<noteq> None \<and> takes_method rt (rq_Method r)) rs")
  case None
  with assms(1) show ?thesis by (simp add: mux_ok_def answers_keeps)
next
  case (Some rt)
  then obtain m where "rt \<in> set rs" "mt (rt_template rt) path = Some m"
    by (auto simp: find_Some_iff)
  with assms Some show ?thesis by (simp add: mux_ok_def)
qed

section \<open>The shared acquirer\<close>

text \<open>
  An acquirer whose values keep their kind: \<open>same\<close> relates a value to those it can become. The
  clients keep whatever a call keeps.
\<close>

locale typed_acquirer = acquirer_contract acquire for acquire :: "'s acquire" +
  fixes same :: "'s \<Rightarrow> 's \<Rightarrow> bool"
  assumes same_refl: "same s s"
    and same_trans: "same s s' \<Longrightarrow> same s' s'' \<Longrightarrow> same s s''"
    and acquire_same: "acquire s = (x, s') \<Longrightarrow> same s s'"
begin

lemma RequestStat_same:
  assumes "rel_option same a (ss_authAcquirer s)"
  shows "rel_option same a (ss_authAcquirer (snd (RequestStat L acquire d s auth i)))"
  using assms acquire_same same_trans
  by (auto simp: RequestStat_def Let_def option_rel_Some2 split: option.split prod.split sum.split; blast)

lemma SendWRP_same:
  assumes "rel_option same a (ts_authAcquirer s)"
  shows "rel_option same a (ts_authAcquirer (snd (SendWRP L acquire d s m auth)))"
  using assms acquire_same same_trans
  by (auto simp: SendWRP_def Let_def option_rel_Some2 split: option.split prod.split sum.split; blast)

end

text \<open>
  The kind of an acquirer: Basic credentials never change, a JWT acquirer keeps its
  configuration, and once it has a token it always has one.
\<close>

fun same_acquirer :: "AuthAcquirer \<Rightarrow> AuthAcquirer \<Rightarrow> bool" where
  "same_acquirer (Basic b) (Basic b') = (b' = b)"
| "same_acquirer (Jwt j) (Jwt j') =
     (ja_Config j' = ja_Config j \<and> (ja_token j \<noteq> [] \<longrightarrow> ja_token j' \<noteq> []))"
| "same_acquirer _ _ = False"

interpretation program_acquirer: typed_acquirer "Acquire L env" same_acquirer
proof
  fix s s' s'' x
  show "same_acquirer s s" by (cases s) simp_all
  show "same_acquirer s s' \<Longrightarrow> same_acquirer s' s'' \<Longrightarrow> same_acquirer s s''"
    by (cases s; cases s'; cases s'') auto
  show "same_acquirer s s'" if "Acquire L env s = (x, s')"
  proof (cases s)
    case (Jwt j)
    show ?thesis
      by (cases rule: Jwt_cases [of env j L])
        (use that Jwt in \<open>auto simp: store_token_def dest: fetch_token_nonempty\<close>)
  qed (use that in auto)
qed

end
