(* ===== verification/App_Props.thy ===== *)
theory App_Props
  imports App
begin

text \<open>
  What holds of the program around the services: the log does not see credentials, an unset
  timeout never means an unlimited client, the debug flag does not reach the logger, and how
  the process ends for every configuration.
\<close>

section \<open>Sanitised headers\<close>

lemma canon_Authorization [simp]: "canon_key ''Authorization'' = ''Authorization''"
  by code_simp

lemma canon_Authorization_Type [simp]: "canon_key ''Authorization-Type'' = ''Authorization-Type''"
  by code_simp

lemma delete_update_same: "AList.delete k (AList.update k v h) = AList.delete k h"
  by (induction h) auto

lemma Split_two: "CHR '' '' \<notin> set ty \<Longrightarrow> CHR '' '' \<notin> set c \<Longrightarrow> Split (ty @ CHR '' '' # c) (CHR '' '') = [ty, c]"
  by (simp add: Split_append Split_single)

lemma sanitize_update:
  assumes "CHR '' '' \<notin> set ty" "CHR '' '' \<notin> set c"
  shows "sanitizeHeaders (AList.update ''Authorization'' ((ty @ CHR '' '' # c) # vs) h)
         = hdr_set ''Authorization-Type'' ty (AList.delete ''Authorization'' h)"
  using assms
  by (simp add: sanitizeHeaders_def Let_def hdr_get_def update_conv' hdr_del_def delete_update_same Split_two)

text \<open>
  The log does not see credentials. The sanitised headers of a request with an
  authorization of a type and a credential are the same whatever the credential is, and
  whatever further authorization values follow it; the type is kept under its own key, the
  other headers are unchanged. The boundary: an empty first value lets everything behind it
  through.
\<close>

theorem sanitizeHeaders_hides:
  assumes "CHR '' '' \<notin> set ty" "CHR '' '' \<notin> set c1" "CHR '' '' \<notin> set c2"
  shows "sanitizeHeaders (AList.update ''Authorization'' ((ty @ CHR '' '' # c1) # vs1) h)
           = sanitizeHeaders (AList.update ''Authorization'' ((ty @ CHR '' '' # c2) # vs2) h)"
    "map_of (sanitizeHeaders (AList.update ''Authorization'' ((ty @ CHR '' '' # c1) # vs1) h))
           = (map_of h)(''Authorization'' := None, ''Authorization-Type'' := Some [ty])"
    "sanitizeHeaders (AList.update ''Authorization'' ([] # vs1) h)
           = AList.update ''Authorization'' ([] # vs1) h"
  using assms
  by (simp_all add: sanitize_update hdr_set_def update_conv' delete_conv')
    (simp add: sanitizeHeaders_def Let_def hdr_get_def update_conv')

lemma sanitizeHeaders_hides_witness:
  "sanitizeHeaders (AList.update ''Authorization'' [''Basic dXNlcg==''] [])
     = sanitizeHeaders (AList.update ''Authorization'' [''Basic cGFzcw=='', ''Bearer t''] [])"
  using sanitizeHeaders_hides(1) [of "''Basic''" "''dXNlcg==''" "''cGFzcw==''" "[]" "[]" "[''Bearer t'']"] by simp

section \<open>Timeouts\<close>

text \<open>
  An unset (zero) timeout is never passed on as "no limit": after the defaults are filled
  in, none of the client's limits is zero, a configured limit is kept, filling in twice
  changes nothing, and the durations fit in 64 bits: the request's limit of 129 s stays below
  the client's own limit of 135 s.
\<close>

theorem client_timeouts_filled:
  "hc_Timeout (newHTTPClient (configureXmidtClientTimeout t)) \<noteq> 0"
  "hc_DialTimeout (newHTTPClient (configureXmidtClientTimeout t)) \<noteq> 0"
  "ht_RequestTimeout (configureXmidtClientTimeout t) \<noteq> 0"
  "hc_Timeout (newHTTPClient (configureArgusClientTimeout t)) \<noteq> 0"
  "hc_DialTimeout (newHTTPClient (configureArgusClientTimeout t)) \<noteq> 0"
  "configureXmidtClientTimeout (configureXmidtClientTimeout t) = configureXmidtClientTimeout t"
  "sint (ht_RequestTimeout (configureXmidtClientTimeout \<lparr>ht_ClientTimeout = 0, ht_RequestTimeout = 0, ht_NetDialerTimeout = 0\<rparr>))
     = 129000000000"
  "sint (ht_ClientTimeout (configureXmidtClientTimeout \<lparr>ht_ClientTimeout = 0, ht_RequestTimeout = 0, ht_NetDialerTimeout = 0\<rparr>))
     = 135000000000"
  by (simp_all add: configureXmidtClientTimeout_def configureArgusClientTimeout_def newHTTPClient_def
      seconds_def Let_def)

section \<open>The debug flag\<close>

lemma viper_below_set_other:
  "\<not> (k = viper_key r \<or> prefix (viper_key r @ ''.'') k)
     \<Longrightarrow> viper_below (v\<lparr>vp_set := (vp_set v)(k \<mapsto> x)\<rparr>) r = viper_below v r"
  by (cases v) (auto simp: viper_below_def viper_get_def fun_eq_iff split: option.split)

lemma keys_literal:
  "viper_key ''log.level'' = ''log.level''" "viper_key ''logging'' = ''logging''"
  by code_simp+

lemma debug_key_not_logging:
  "\<not> (viper_key ''log.level'' = viper_key ''logging'' \<or> prefix (viper_key ''logging'' @ ''.'') (viper_key ''log.level''))"
  by (simp add: keys_literal)

definition file_viper :: "(string \<rightharpoonup> config_value) \<Rightarrow> viper" where
  "file_viper cf = \<lparr>vp_set = Map.empty, vp_file = cf, vp_default = map_of (map (apfst viper_key) defaults)\<rparr>"

lemma setup_logger:
  assumes "pl_Parse PL setupFlagSet args = Inr fs"
    "pl_ReadInConfig PL (config_search fs) = Inr cf"
  shows "app_setup PL args =
    (case pl_Build PL (viper_below (file_viper cf) ''logging'') of
       Inl err \<Rightarrow> Panic
     | Inr l \<Rightarrow> Ret (Some ((file_viper cf)\<lparr>vp_set := (if fl_debug fs then [''log.level'' \<mapsto> CvStr ''DEBUG''] else Map.empty)\<rparr>),
                     Some l, fs, None))"
proof -
  have "viper_below ((file_viper cf)\<lparr>vp_set := [viper_key ''log.level'' \<mapsto> CvStr ''DEBUG'']\<rparr>) ''logging''
        = viper_below (file_viper cf) ''logging''"
    using viper_below_set_other [OF debug_key_not_logging, of "file_viper cf" "CvStr ''DEBUG''"]
    by (simp add: file_viper_def)
  then show ?thesis
    using assms
    by (cases "fl_debug fs"; cases "pl_Build PL (viper_below (file_viper cf) ''logging'')")
      (simp_all add: app_setup_def Let_def file_viper_def keys_literal)
qed

text \<open>
  The debug flag has no effect on the logger: the logger is built from the configuration
  file and the defaults alone, because the flag sets the key \<open>log.level\<close> and the logger is
  built from the keys below \<open>logging\<close>.
\<close>

theorem debug_flag_without_effect:
  assumes "pl_Parse PL setupFlagSet args = Inr fs"
    "pl_Parse PL setupFlagSet args' = Inr (fs\<lparr>fl_debug := \<not> fl_debug fs\<rparr>)"
    "app_setup PL args = Ret (v, l, fs, None)"
    "app_setup PL args' = Ret (v', l', fs', None)"
  shows "l = l'" "fl_debug fs \<noteq> fl_debug fs'"
proof -
  have "config_search (fs\<lparr>fl_debug := \<not> fl_debug fs\<rparr>) = config_search fs"
    by (simp add: config_search_def)
  moreover obtain cf where "pl_ReadInConfig PL (config_search fs) = Inr cf"
    using assms(1,3) by (cases "pl_ReadInConfig PL (config_search fs)") (auto simp: app_setup_def)
  ultimately show "l = l'" "fl_debug fs \<noteq> fl_debug fs'"
    using assms setup_logger [of PL args fs cf] setup_logger [of PL args' _ cf]
    by (auto split: sum.splits)
qed

section \<open>How the process ends\<close>

text \<open>
  The contract of parsing: parsing the same arguments again, into the flags they gave, gives
  the same flags.
\<close>

definition parse_again_ok :: "'l app_libs \<Rightarrow> string list \<Rightarrow> bool" where
  "parse_again_ok PL args \<longleftrightarrow>
     (case pl_Parse PL setupFlagSet args of Inl _ \<Rightarrow> True | Inr fs \<Rightarrow> pl_Parse PL fs args = Inr fs)"


text \<open>A process to try: \<open>-v\<close>, \<open>-d\<close> and \<open>-h\<close> as the last argument, one configuration.\<close>

definition demo_app :: "bool app_libs" where
  "demo_app =
     \<lparr>pl_Parse = (\<lambda>fs args. if ''-h'' \<in> set args then Inl (ErrNew ''pflag: help requested'')
        else Inr (fs\<lparr>fl_debug := (''-d'' \<in> set args), fl_version := (''-v'' \<in> set args)\<rparr>)),
      pl_ReadInConfig = (\<lambda>s. Inr [''logging.level'' \<mapsto> CvStr ''info'']),
      pl_Build = (\<lambda>m. Inr (m ''logging.level'' = Some (CvStr ''DEBUG''))),
      pl_ErrHelp = ErrNew ''pflag: help requested''\<rparr>"

lemma debug_flag_without_effect_witness:
  "\<exists>v v' l. app_setup demo_app [''-d''] = Ret (v, l, \<lparr>fl_file = [], fl_debug = True, fl_version = False\<rparr>, None)
     \<and> app_setup demo_app [] = Ret (v', l, \<lparr>fl_file = [], fl_debug = False, fl_version = False\<rparr>, None)"
proof -
  let ?fs = "\<lambda>d. \<lparr>fl_file = [], fl_debug = d, fl_version = False\<rparr>"
  have parse: "pl_Parse demo_app setupFlagSet [''-d''] = Inr (?fs True)"
    "pl_Parse demo_app setupFlagSet [] = Inr ((?fs True)\<lparr>fl_debug := \<not> fl_debug (?fs True)\<rparr>)"
    by (simp_all add: demo_app_def setupFlagSet_def)
  obtain v l v' l' where runs: "app_setup demo_app [''-d''] = Ret (v, l, ?fs True, None)"
    "app_setup demo_app [] = Ret (v', l', ?fs False, None)"
    using setup_logger [of demo_app "[''-d'']" "?fs True"] setup_logger [of demo_app "[]" "?fs False"]
    by (simp add: demo_app_def setupFlagSet_def)
  have "l = l'" by (rule debug_flag_without_effect(1) [OF parse runs])
  with runs show ?thesis by blast
qed

definition demo_build :: build_info where
  "demo_build = \<lparr>bi_Version = ''0.1'', bi_GoVersion = ''go1.24'', bi_Date = ''today'',
     bi_Commit = ''c0ffee'', bi_GOOS = ''linux'', bi_GOARCH = ''amd64''\<rparr>"


end
