(* ===== verification/System.thy ===== *)
theory System
  imports Routes_Props Auth_Middleware
begin

text \<open>
  The program as a whole: a request that arrives at the primary server, through the router
  (routes.go), the authentication gate (auth.go), the go-kit server and the translation service
  (translation/transport.go, service.go) to the reply, with the acquirer both services share.
\<close>

text \<open>The translation service as \<open>handlePrimaryEndpoint\<close> builds it, with the shared acquirer.\<close>

definition running_translation ::
  "bool \<Rightarrow> authAcquirerConfig \<Rightarrow> AuthAcquirer stat_ServiceOptions \<times> AuthAcquirer translation_options
     \<Rightarrow> 'h server_state \<Rightarrow> AuthAcquirer translation_service" where
  "running_translation isSet config opts st =
     (translation_NewService (case fst (configure_acquirer isSet config) of
        None \<Rightarrow> snd opts | Some a \<Rightarrow> (snd opts)\<lparr>to_AuthAcquirer := Some a\<rparr>))
     \<lparr>ts_authAcquirer := sv_acquirer st\<rparr>"

lemma running_translation_transactor:
  "ts_transactor (running_translation isSet config opts st) = to_T (snd opts)"
  by (simp add: running_translation_def translation_NewService_def split: option.split)

lemma share_translation_Ret:
  assumes "io (ts\<lparr>ts_authAcquirer := sv_acquirer st\<rparr>) = Ret (w', s')"
  shows "share_translation ts io st = Ret (w', st\<lparr>sv_acquirer := ts_authAcquirer s'\<rparr>)"
  using assms by (simp add: share_translation_def)

text \<open>
  The requests that are for the translation service, on the routes below \<open>base\<close>: reading or
  setting names of parameters (a GET or PATCH of a service, where a GET is not for statistics),
  and deleting, replacing or adding rows (a DELETE, PUT or POST of a parameter). \<open>vars\<close> are the
  variables of the path.
\<close>

definition translation_match ::
  "(string \<Rightarrow> string \<Rightarrow> string gomap option) \<Rightarrow> string \<Rightarrow> string \<Rightarrow> string \<Rightarrow> string gomap \<Rightarrow> bool" where
  "translation_match mt base path m vars \<longleftrightarrow>
     mt (base @ ''/device/{deviceid}/{service}'') path = Some vars \<and> m \<in> {''GET'', ''PATCH''}
       \<and> (mt (base @ ''/device/{deviceid}/stat'') path = None \<or> m = ''PATCH'')
     \<or> mt (base @ ''/device/{deviceid}/{service}/{parameter}'') path = Some vars
       \<and> m \<in> {''DELETE'', ''PUT'', ''POST''}"

text \<open>The router finds the first route that matches and takes the method.\<close>

lemma mux_finds:
  assumes "mux_ok mt nf mna serve" "\<forall>x \<in> set xs. mt (rt_template x) path = None \<or> \<not> takes_method x (rq_Method r)"
    and "mt (rt_template rt) path = Some vars" "takes_method rt (rq_Method r)"
  shows "serve (xs @ rt # ys) path ctx r w = rt_handler rt ctx (r\<lparr>rq_Vars := Some vars\<rparr>) w"
proof -
  have "find (\<lambda>rt. mt (rt_template rt) path \<noteq> None \<and> takes_method rt (rq_Method r)) (xs @ rt # ys) = Some rt"
    using assms(2-4) by (induction xs) auto
  with assms(1,3) show ?thesis by (simp add: mux_ok_def)
qed

text \<open>Which handler the router picks for a request of the translation service.\<close>

lemma picks_translation:
  fixes rs :: "'h server_state io route list"
  assumes "mux_ok mt nf mna serve"
    and "translation_match mt base path (rq_Method r) vars"
    and "rs = fst (handlePrimaryEndpoint L serve_s serve_t auth_s echo_s auth_t echo_t jenv env c isSet config opts)"
  shows "serve (provideAPIRouter base (rs @ hs)) path ctx r w st =
    share_translation (running_translation isSet config opts st)
      (rt_handler (hd (translation_ConfigHandler L serve_t auth_t echo_t (Acquire L jenv) env c)) ctx
         (r\<lparr>rq_Vars := Some vars\<rparr>) w) st"
proof -
  obtain rt where stat: "hd (stat_ConfigHandler L serve_s auth_s echo_s (Acquire L jenv) env c) = rt"
      "rt_template rt = ''/device/{deviceid}/stat''" "rt_methods rt = Some [''GET'']"
    by (simp add: stat_ConfigHandler_def)
  define T where "T = translation_ConfigHandler L serve_t auth_t echo_t (Acquire L jenv) env c"
  define H where "H = rt_handler (hd T)"
  have T: "T = [\<lparr>rt_template = ''/device/{deviceid}/{service}'',
      rt_methods = Some [''GET'', ''PATCH''], rt_handler = H\<rparr>,
      \<lparr>rt_template = ''/device/{deviceid}/{service}/{parameter}'',
      rt_methods = Some [''DELETE'', ''PUT'', ''POST''], rt_handler = H\<rparr>]"
    by (simp add: H_def T_def translation_ConfigHandler_def Let_def)
  define F :: "AuthAcquirer translation_service io \<Rightarrow> 'h server_state io" where
    "F = share_translation (translation_NewService (case fst (configure_acquirer isSet config) of
        None \<Rightarrow> snd opts | Some a \<Rightarrow> (snd opts)\<lparr>to_AuthAcquirer := Some a\<rparr>))"
  obtain G where "rs = lift_route G rt # map (lift_route F) T"
    unfolding assms(3) api_templates Let_def stat(1) F_def T_def by blast
  then have routes: "provideAPIRouter base (rs @ hs) =
      [lift_route G rt\<lparr>rt_template := base @ ''/device/{deviceid}/stat''\<rparr>] @
      \<lparr>rt_template = base @ ''/device/{deviceid}/{service}'', rt_methods = Some [''GET'', ''PATCH''],
        rt_handler = (\<lambda>ctx r w. F (H ctx r w))\<rparr> #
      \<lparr>rt_template = base @ ''/device/{deviceid}/{service}/{parameter}'', rt_methods = Some [''DELETE'', ''PUT'', ''POST''],
        rt_handler = (\<lambda>ctx r w. F (H ctx r w))\<rparr> # provideAPIRouter base hs"
    by (simp add: provideAPIRouter_def lift_route_def T stat(2))
  have "serve (provideAPIRouter base (rs @ hs)) path ctx r w = F (H ctx (r\<lparr>rq_Vars := Some vars\<rparr>) w)"
    using assms(2) unfolding translation_match_def
  proof (elim disjE conjE)
    assume "mt (base @ ''/device/{deviceid}/{service}'') path = Some vars" "rq_Method r \<in> {''GET'', ''PATCH''}"
      "mt (base @ ''/device/{deviceid}/stat'') path = None"
    then show ?thesis unfolding routes
      by (subst mux_finds [OF assms(1)]) (auto simp: takes_method_def)
  next
    assume "mt (base @ ''/device/{deviceid}/{service}'') path = Some vars" "rq_Method r = ''PATCH''"
    then show ?thesis unfolding routes
      by (subst mux_finds [OF assms(1)]) (auto simp: takes_method_def lift_route_def stat(3))
  next
    assume 3: "mt (base @ ''/device/{deviceid}/{service}/{parameter}'') path = Some vars"
      "rq_Method r \<in> {''DELETE'', ''PUT'', ''POST''}"
    let ?stat = "lift_route G rt\<lparr>rt_template := base @ ''/device/{deviceid}/stat''\<rparr>"
    let ?one = "\<lparr>rt_template = base @ ''/device/{deviceid}/{service}'', rt_methods = Some [''GET'', ''PATCH''],
        rt_handler = (\<lambda>ctx r w. F (H ctx r w))\<rparr>"
    have "\<forall>x \<in> set [?stat, ?one]. mt (rt_template x) path = None \<or> \<not> takes_method x (rq_Method r)"
      using 3(2) by (auto simp: takes_method_def lift_route_def stat(3))
    note found = mux_finds [OF assms(1) this]
    show ?thesis using 3 found [of "\<lparr>rt_template = base @ ''/device/{deviceid}/{service}/{parameter}'',
        rt_methods = Some [''DELETE'', ''PUT'', ''POST''], rt_handler = (\<lambda>ctx r w. F (H ctx r w))\<rparr>"] unfolding routes
      by (simp add: takes_method_def)
  qed
  then show ?thesis
    by (simp add: F_def H_def T_def share_translation_def running_translation_def)
qed

text \<open>The gate decides on the request alone, before any handler runs.\<close>

lemma gate_decides:
  assumes "bascule_ok decode deny BL" "provideAuthChain L BL A v = Inr mw"
  shows "(\<exists>code \<in> {400, 401, 500}. \<forall>h ctx w. mw h ctx r w = deny code auth_challenges w)
    \<or> (\<exists>t. \<forall>h ctx w. mw h ctx r w = h (ctx\<lparr>cx_Token := Some t\<rparr>) r w)"
proof -
  obtain p where p: "\<forall>h ctx r w. mw h ctx r w = (case p r of
          Inl e \<Rightarrow> deny (error_status_coder A e) auth_challenges w
        | Inr t \<Rightarrow> h (ctx\<lparr>cx_Token := Some t\<rparr>) r w)"
    using createAuthMiddleware_serves [OF assms(1)] assms(2) unfolding provideAuthChain_def by blast
  show ?thesis
  proof (cases "p r")
    case (Inl e)
    have "error_status_coder A e \<in> {400, 401, 500}" by (simp add: error_status_coder_def)
    moreover have "\<forall>h ctx w. mw h ctx r w = deny (error_status_coder A e) auth_challenges w"
      using p Inl by simp
    ultimately show ?thesis by blast
  next
    case (Inr t)
    then have "\<forall>h ctx w. mw h ctx r w = h (ctx\<lparr>cx_Token := Some t\<rparr>) r w" using p by simp
    then show ?thesis by blast
  qed
qed

lemma request_tid_vars [simp]: "request_tid L env (r\<lparr>rq_Vars := v\<rparr>) = request_tid L env r"
  by (simp add: request_tid_def)

text \<open>What the handler of a translation route does with a request the gate admits.\<close>

lemma admitted_request:
  assumes "kit_server_ok serve_t" "\<forall>h. mw (echo_t h) ctx r w0 = h ctx' r w"
    and "rw_sent w = None" "rw_write_err w = None" "rw_body w = []"
    and "canon_key (lb_TIDHeader L) \<noteq> ''Content-Type''"
    and "route \<in> set (translation_ConfigHandler L serve_t mw echo_t acquire env c)"
    and "ts_transactor ts = Transact tr now" "ts\<lparr>ts_authAcquirer := sv_acquirer st\<rparr> = ts"
    and "spec = translation_spec L acquire (se_deadline env) (sc_ValidServices c)
           (ctx'\<lparr>cx_RequestTID := Some (request_tid L env r)\<rparr>) (captured r) ts"
    and "\<forall>v. fst spec = Some v \<longrightarrow> deliverable v"
  shows "\<exists>v w'. fst spec = Some v \<and> renders L (request_tid L env r) v w'
    \<and> share_translation ts (rt_handler route ctx r w0) st
        = Ret (w', st\<lparr>sv_acquirer := ts_authAcquirer (snd spec)\<rparr>)"
proof -
  obtain v s' where v: "spec = (Some v, s')" using translation_spec_total [OF assms(8)] assms(10) by blast
  with assms(11) have "deliverable v" by simp
  then obtain w' where "rt_handler route ctx r w0 ts = Ret (w', s')" "renders L (request_tid L env r) v w'"
    using translation_route_renders [OF assms(1-7) v [unfolded assms(10)]] by blast
  then show ?thesis using v share_translation_Ret [where ts = ts and st = st] assms(9) by fastforce
qed

text \<open>
  C1. From the primary server to the reply. A request for the translation service, with any of its
  five methods (a GET that is not for statistics or a PATCH of a service, a DELETE, PUT or POST
  of a parameter), is either denied by the gate with 400, 401 or 500 and the challenge, and then
  nothing changes, or it is served under the identity the gate found: the reply is the one its
  verdict stands for, with one transaction id, and the only state that changes is the acquirer
  the two services share. The translation service is
  the one the configuration describes, with whatever acquirer state earlier requests left.
\<close>

theorem primary_serves_translation:
  assumes "mux_ok mt nf mna serve"
    and "bascule_ok decode (\<lambda>code ch w s. Ret (denied code ch w, s)) BL" "provideAuthChain L BL A jv = Inr mw"
    and "kit_server_ok serve_t"
    and "provideServers serve mcs base
           (fst (handlePrimaryEndpoint L serve_s serve_t auth_s echo_s mw echo_t jenv env c isSet config opts))
           (Inr hs) router metrics = Inr srv"
    and "translation_match mt base path (rq_Method r) vars"
    and "\<forall>h ctx r. echo_t h ctx r w0 = h (trace ctx) r w"
    and "rw_sent w = None" "rw_write_err w = None" "rw_body w = []"
    and "canon_key (lb_TIDHeader L) \<noteq> ''Content-Type''"
    and "to_T (snd opts) = Transact tr now"
    and "spec = (\<lambda>t. translation_spec L (Acquire L jenv) (se_deadline env) (sc_ValidServices c)
           ((trace (ctx\<lparr>cx_Token := Some t\<rparr>))\<lparr>cx_RequestTID := Some (request_tid L env r)\<rparr>)
           (captured (r\<lparr>rq_Vars := Some vars\<rparr>)) (running_translation isSet config opts st))"
    and "\<forall>t v. fst (spec t) = Some v \<longrightarrow> deliverable v"
  shows "\<exists>h. srv_primary srv path = mc_Primary mcs h
    \<and> ((\<exists>code \<in> {400, 401, 500}. h ctx r w0 st = Ret (denied code [(''Bearer'', [(''realm'', ''xmidt'')])] w0, st))
       \<or> (\<exists>t v w'. fst (spec t) = Some v \<and> renders L (request_tid L env r) v w'
            \<and> h ctx r w0 st = Ret (w', st\<lparr>sv_acquirer := ts_authAcquirer (snd (spec t))\<rparr>)))"
proof -
  let ?rs = "fst (handlePrimaryEndpoint L serve_s serve_t auth_s echo_s mw echo_t jenv env c isSet config opts)"
  let ?h = "serve (provideAPIRouter base (?rs @ hs)) path" and ?r = "r\<lparr>rq_Vars := Some vars\<rparr>"
  let ?ts = "running_translation isSet config opts st"
  define route where "route = hd (translation_ConfigHandler L serve_t mw echo_t (Acquire L jenv) env c)"
  have route: "route \<in> set (translation_ConfigHandler L serve_t mw echo_t (Acquire L jenv) env c)"
    "\<exists>inner. rt_handler route = mw inner"
    by (auto simp: route_def translation_ConfigHandler_def Let_def)
  have prim: "srv_primary srv path = mc_Primary mcs ?h"
    using assms(5) by (auto simp: provideServers_def Let_def)
  have h: "?h ctx r w0 st = share_translation ?ts (rt_handler route ctx ?r w0) st"
    unfolding route_def by (rule picks_translation [OF assms(1,6) refl])
  have same: "?ts\<lparr>ts_authAcquirer := sv_acquirer st\<rparr> = ?ts" by (simp add: running_translation_def)
  from gate_decides [OF assms(2,3), of ?r]
  have "(\<exists>code \<in> {400, 401, 500}. ?h ctx r w0 st = Ret (denied code auth_challenges w0, st))
       \<or> (\<exists>t v w'. fst (spec t) = Some v \<and> renders L (request_tid L env r) v w'
            \<and> ?h ctx r w0 st = Ret (w', st\<lparr>sv_acquirer := ts_authAcquirer (snd (spec t))\<rparr>))"
  proof
    assume "\<exists>code \<in> {400, 401, 500}. \<forall>h ctx w. mw h ctx ?r w = (\<lambda>s. Ret (denied code auth_challenges w, s))"
    then obtain code where code: "code \<in> {400, 401, 500}"
      "rt_handler route ctx ?r w0 = (\<lambda>s. Ret (denied code auth_challenges w0, s))"
      using route(2) by metis
    have "?h ctx r w0 st = Ret (denied code auth_challenges w0, st)"
      unfolding h code(2) share_translation_def by (simp add: running_translation_def)
    with code(1) show ?thesis by blast
  next
    assume "\<exists>t. \<forall>h ctx w. mw h ctx ?r w = h (ctx\<lparr>cx_Token := Some t\<rparr>) ?r w"
    then obtain t where t: "\<forall>h ctx w. mw h ctx ?r w = h (ctx\<lparr>cx_Token := Some t\<rparr>) ?r w" by blast
    have chain: "\<forall>h. mw (echo_t h) ctx ?r w0 = h (trace (ctx\<lparr>cx_Token := Some t\<rparr>)) ?r w"
      using t assms(7) by simp
    have tr: "ts_transactor ?ts = Transact tr now" by (simp add: running_translation_transactor assms(12))
    have "spec t = translation_spec L (Acquire L jenv) (se_deadline env) (sc_ValidServices c)
        ((trace (ctx\<lparr>cx_Token := Some t\<rparr>))\<lparr>cx_RequestTID := Some (request_tid L env ?r)\<rparr>) (captured ?r) ?ts"
      by (simp add: assms(13))
    from admitted_request [OF assms(4) chain assms(8-11) route(1) tr same this] assms(14) show ?thesis
      unfolding h request_tid_vars by blast
  qed
  with prim show ?thesis unfolding auth_challenges_def by blast
qed

theorem primary_serves_translation_witness:
  "\<exists>mw srv. provideAuthChain demo_libs (closed_bascule (\<lambda>s. Ret (new_rw, s))) demo_auth \<lparr>jv_Config = ()\<rparr> = Inr mw
     \<and> provideServers demo_mux plain_chains ''/api/v3''
         (fst (handlePrimaryEndpoint demo_libs plain_server plain_server id id mw id demo_env demo_serve_env
            demo_service_config False no_acquirer (fst (provideServiceOptions demo_http 0 demo_options))))
         (Inr []) None None = Inr srv
     \<and> (\<exists>w'. srv_primary srv ''/api/v3/device/{deviceid}/{service}'' background (demo_login ''Basic root'') new_rw
              \<lparr>sv_acquirer = None, sv_hooks = ()\<rparr> = Ret (w', \<lparr>sv_acquirer = None, sv_hooks = ()\<rparr>))"
proof -
  let ?opts = "fst (provideServiceOptions demo_http 0 demo_options)
    :: AuthAcquirer stat_ServiceOptions \<times> AuthAcquirer translation_options"
  let ?st = "\<lparr>sv_acquirer = None, sv_hooks = ()\<rparr> :: unit server_state"
  let ?r = "demo_login ''Basic root''" and ?vars = "[(''deviceid'', ''v3''), (''service'', ''v3'')]"
  let ?path = "''/api/v3/device/{deviceid}/{service}''"
  obtain mw :: "AuthAcquirer translation_service io handler \<Rightarrow> AuthAcquirer translation_service io handler"
    where mw: "provideAuthChain demo_libs (closed_bascule (\<lambda>s. Ret (new_rw, s))) demo_auth \<lparr>jv_Config = ()\<rparr> = Inr mw"
    by (simp add: provideAuthChain_def createAuthMiddleware_def closed_bascule_def demo_bascule_def Let_def)
  obtain srv :: "unit server_state io servers" where srv: "provideServers demo_mux plain_chains ''/api/v3''
      (fst (handlePrimaryEndpoint demo_libs plain_server plain_server id id mw id demo_env demo_serve_env
         demo_service_config False no_acquirer ?opts)) (Inr []) None None = Inr srv"
    by (simp add: provideServers_def Let_def)
  define spec where "spec = (\<lambda>t. translation_spec demo_libs (Acquire demo_libs demo_env) (se_deadline demo_serve_env)
      (sc_ValidServices demo_service_config)
      ((id (background\<lparr>cx_Token := Some t\<rparr>))\<lparr>cx_RequestTID := Some (request_tid demo_libs demo_serve_env ?r)\<rparr>)
      (captured (?r\<lparr>rq_Vars := Some ?vars\<rparr>)) (running_translation False no_acquirer ?opts ?st))"
  have get: "rq_Method ?r = ''GET''" by (simp add: demo_login_def demo_request_def)
  then have spec_eq: "spec t = (Some (Shown 400 ''unsupported Service''), running_translation False no_acquirer ?opts ?st)" for t
    by (simp add: spec_def translation_spec_def captured_def mux_var_def gomap_str_def demo_service_config_def)
  have ok: "\<forall>t v. fst (spec t) = Some v \<longrightarrow> deliverable v"
    by (simp add: spec_eq deliverable_def body_allowed_def)
  have match: "translation_match demo_mt ''/api/v3'' ?path (rq_Method ?r) ?vars"
    by (simp add: translation_match_def demo_mt_def get)
  have tr: "to_T (snd ?opts) = Transact (api_transactor demo_http demo_options device_api) 0"
    by (simp add: provideServiceOptions_def Let_def)
  have "\<exists>h. srv_primary srv ?path = mc_Primary plain_chains h
    \<and> ((\<exists>code \<in> {400, 401, 500::int}. h background ?r new_rw ?st = Ret (new_rw, ?st))
       \<or> (\<exists>t v w'. fst (spec t) = Some v \<and> renders demo_libs (request_tid demo_libs demo_serve_env ?r) v w'
            \<and> h background ?r new_rw ?st = Ret (w', ?st\<lparr>sv_acquirer := ts_authAcquirer (snd (spec t))\<rparr>)))"
    by (rule primary_serves_translation [OF demo_mux_ok closed_bascule_ok mw plain_server_ok srv match _ _ _ _ demo_TID_key
          tr spec_def ok, where w = new_rw]) simp_all
  then have "\<exists>w'. srv_primary srv ?path background ?r new_rw ?st = Ret (w', ?st)"
    by (auto simp: spec_eq plain_chains_def running_translation_def)
  with mw srv show ?thesis by blast
qed

end
