(* ===== verification/Program_Props.thy ===== *)
theory Program_Props
  imports Invariants App_Props System
begin

text \<open>
  The program as a whole, as \<open>fx.New\<close> builds it: what a sequence of requests does to its
  state, what the default configuration runs, which keys of the configuration have no effect,
  and which configurations do not start.
\<close>

section \<open>What the program is built of\<close>

text \<open>The documented behaviour of everything outside that serving a request runs through.\<close>

definition outside_ok ::
  "(string \<Rightarrow> string \<Rightarrow> string gomap option) \<Rightarrow> (rw \<Rightarrow> rw outcome) \<Rightarrow> (rw \<Rightarrow> rw outcome)
     \<Rightarrow> (string \<Rightarrow> (string \<times> string) option) \<Rightarrow> (int \<Rightarrow> challenges \<Rightarrow> rw \<Rightarrow> rw)
     \<Rightarrow> ('c, 'x, 'v, 'y, 'm, 'k, 'z, 't) outside \<Rightarrow> bool" where
  "outside_ok mt nf mna decode denied E \<longleftrightarrow>
     mux_ok mt (answers nf) (answers mna) (ou_mux E) \<and> mux_vars_ok mt
     \<and> bascule_ok decode (denies denied) (ou_bascule_stat E)
     \<and> bascule_ok decode (denies denied) (ou_bascule_translation E)
     \<and> bascule_ok decode (denies denied) (ou_bascule_hooks E)
     \<and> kit_server_ok (ou_kit_stat E) \<and> kit_server_ok (ou_kit_translation E)
     \<and> (\<forall>t. passes_on (ou_echo_stat E t) \<and> passes_on (ou_echo_translation E t) \<and> passes_on (ou_echo_hooks E t))
     \<and> (\<forall>n f. ou_NewInstrumenter E n = Inr f \<longrightarrow> passes_on f)
     \<and> curry_ok (hl_CurryWith (ou_http E))"

text \<open>The metrics middleware of a server.\<close>

primrec listener_chain :: "'o metric_chains \<Rightarrow> listener \<Rightarrow> 'o handler \<Rightarrow> 'o handler" where
  "listener_chain mcs Primary = mc_Primary mcs"
| "listener_chain mcs Alternate = mc_Alternate mcs"
| "listener_chain mcs Health = mc_Health mcs"

lemma metric_chain_passes:
  "outside_ok mt nf mna decode denied E \<Longrightarrow> passes_on (listener_chain (metricMiddleware (ou_NewInstrumenter E)) l)"
  by (cases l) (auto simp: outside_ok_def metricMiddleware_def passes_on_id split: sum.split)

lemma fx_Provide_chains:
  assumes "fx_Provide E v = Inr p"
  shows "\<exists>jwt. provideAuthChain (ou_libs E) (ou_bascule_stat E) (ou_auth E) jwt = Inr (pv_auth_stat p)
    \<and> provideAuthChain (ou_libs E) (ou_bascule_translation E) (ou_auth E) jwt = Inr (pv_auth_translation p)
    \<and> provideAuthChain (ou_libs E) (ou_bascule_hooks E) (ou_auth E) jwt = Inr (pv_auth_hooks p)"
  using assms by (auto simp: fx_Provide_def Let_def sum_bind_Inr_iff or_error_Inr_iff)

lemma fx_Provide_values:
  assumes "fx_Provide E v = Inr p"
  shows "provideServers_values (ou_decoders E) v = Inr (pv_values p)"
    "provideHandlers_values (ou_decoders E) v = Inr (pv_acquirer p, pv_webhook p)"
  using assms by (auto simp: fx_Provide_def Let_def sum_bind_Inr_iff or_error_Inr_iff)

lemma fx_Provide_handlers:
  assumes "fx_Provide E v = Inr p"
  shows "provideWebhookHandlers (ou_ancla E) (ou_handlers E) (ou_time_Now E)
      (viper_IsSet v webhookConfigKey) (pv_webhook p) = (pv_handlers p, None)"
  using assms by (auto simp: fx_Provide_def Let_def sum_bind_Inr_iff or_error_Inr_iff)

abbreviation options_of where
  "options_of E p at \<equiv> fst (provideServiceOptions (ou_http E) (mo_now at)
     (service_options (pv_values p) (pv_xmidtClientTimeout p)))"

lemma fx_New_provides:
  assumes "fx_New E v at = Inr (srv, st0)"
  obtains p hooks where "fx_Provide E v = Inr p" "invoke_hooks E p at = Inr hooks"
    "provideServers (ou_mux E) (metricMiddleware (ou_NewInstrumenter E))
       (provideURLPrefix (sk_previousVersionSupport (pv_values p))) (fst (invoke_primary E v p at (options_of E p at)))
       (Inr (map (lift_route share_hooks) hooks)) (fst (ou_metrics E)) (snd (ou_metrics E)) = Inr srv"
    "st0 = \<lparr>sv_acquirer = fst (snd (invoke_primary E v p at (options_of E p at))),
            sv_hooks = ([], wh_V2Add (pv_handlers p))\<rparr>"
proof -
  obtain p where p: "fx_Provide E v = Inr p" using assms by (cases "fx_Provide E v") (auto simp: fx_New_def)
  obtain opts :: "AuthAcquirer stat_ServiceOptions \<times> AuthAcquirer translation_options" where
    opts: "provideServiceOptions (ou_http E) (mo_now at)
      (service_options (pv_values p) (pv_xmidtClientTimeout p)) = (opts, None)"
    using assms p by (auto simp: fx_New_def sum_bind_Inr_iff or_error_Inr_iff)
  obtain hooks where hooks: "invoke_hooks E p at = Inr hooks"
    using assms p opts by (cases "invoke_hooks E p at") (auto simp: fx_New_def or_error_def provideServers_def)
  have "provideServers (ou_mux E) (metricMiddleware (ou_NewInstrumenter E))
       (provideURLPrefix (sk_previousVersionSupport (pv_values p))) (fst (invoke_primary E v p at opts))
       (Inr (map (lift_route share_hooks) hooks)) (fst (ou_metrics E)) (snd (ou_metrics E)) = Inr srv"
    "st0 = \<lparr>sv_acquirer = fst (snd (invoke_primary E v p at opts)), sv_hooks = ([], wh_V2Add (pv_handlers p))\<rparr>"
    using assms p opts hooks by (auto simp: fx_New_def sum_bind_Inr_iff or_error_def)
  with opts show thesis by (intro that [OF p hooks]) simp_all
qed

text \<open>The routes of the API, and the handlers of the three servers with their chains around them.\<close>

abbreviation api_routes where
  "api_routes E v p at hooks \<equiv> provideAPIRouter (provideURLPrefix (sk_previousVersionSupport (pv_values p)))
     (fst (invoke_primary E v p at (options_of E p at)) @ map (lift_route share_hooks) hooks)"

lemma invoke_hooks_templates:
  "invoke_hooks E p at = Inr hooks \<Longrightarrow> rt_template ` set hooks \<subseteq> {''/hook'', ''/hooks''}"
  unfolding invoke_hooks_def by (rule handleWebhookRoutes_templates)

lemma fx_New_servers:
  assumes "outside_ok mt nf mna decode denied E" "fx_New E v at = Inr (srv, st0)"
  obtains p hooks where "fx_Provide E v = Inr p" "invoke_hooks E p at = Inr hooks"
    "\<And>path. listening srv l path = listener_chain (metricMiddleware (ou_NewInstrumenter E)) l
       (ou_mux E (if l = Health then health_routes else api_routes E v p at hooks) path)"
proof -
  from assms(2) obtain p hooks where built: "fx_Provide E v = Inr p" "invoke_hooks E p at = Inr hooks"
    "provideServers (ou_mux E) (metricMiddleware (ou_NewInstrumenter E))
       (provideURLPrefix (sk_previousVersionSupport (pv_values p))) (fst (invoke_primary E v p at (options_of E p at)))
       (Inr (map (lift_route share_hooks) hooks)) (fst (ou_metrics E)) (snd (ou_metrics E)) = Inr srv"
    by (rule fx_New_provides)
  have mux: "mux_ok mt (answers nf) (answers mna) (ou_mux E)" using assms(1) by (simp add: outside_ok_def)
  have "rt_template ` set (fst (invoke_primary E v p at (options_of E p at))) \<subseteq> set alt_templates"
    by (simp add: invoke_primary_def api_templates Let_def stat_ConfigHandler_def translation_ConfigHandler_def
        alt_templates_def)
  then have "rt_template ` set (fst (invoke_primary E v p at (options_of E p at)) @ map (lift_route share_hooks) hooks)
      \<subseteq> set alt_templates"
    using invoke_hooks_templates [OF built(2)] by (auto simp: alt_templates_def image_image)
  from alternate_routes [OF mux this]
  have "ou_mux E (buildAPIAltRouter (provideURLPrefix (sk_previousVersionSupport (pv_values p)))
      (ou_mux E (api_routes E v p at hooks) path)) path = ou_mux E (api_routes E v p at hooks) path" for path
    by (intro ext) simp
  then have "listening srv l path = listener_chain (metricMiddleware (ou_NewInstrumenter E)) l
       (ou_mux E (if l = Health then health_routes else api_routes E v p at hooks) path)" for path
    using built(3) by (cases l) (auto simp: provideServers_def Let_def)
  with built(1,2) show thesis by (rule that)
qed

lemma started_state:
  assumes "fx_New E v at = Inr (srv, st0)"
  obtains p where "fx_Provide E v = Inr p" "sv_hooks st0 = ([], wh_V2Add (pv_handlers p))"
  using assms by (rule fx_New_provides) simp

lemma options_built:
  "curry_ok (hl_CurryWith HL) \<Longrightarrow> or_error (provideServiceOptions HL now (service_options k t))
     = Inr (fst (provideServiceOptions HL now (service_options k t)))"
  by (simp add: or_error_def service_options_succeed service_options_def)

text \<open>Routes that do not match are skipped, and which templates the services have.\<close>

lemma mux_skip:
  assumes "mux_ok mt nf mna serve" "\<forall>rt \<in> set xs. mt (rt_template rt) path = None"
  shows "serve (xs @ ys) path ctx r w = serve ys path ctx r w"
proof -
  have "find (\<lambda>rt. mt (rt_template rt) path \<noteq> None \<and> takes_method rt (rq_Method r)) (xs @ ys)
      = find (\<lambda>rt. mt (rt_template rt) path \<noteq> None \<and> takes_method rt (rq_Method r)) ys"
    using assms(2) by (induction xs) auto
  with assms show ?thesis by (auto simp: mux_ok_def)
qed

lemma invoke_primary_templates:
  "rt \<in> set (provideAPIRouter base (fst (invoke_primary E v p at opts))) \<Longrightarrow>
     \<exists>t \<in> {''/device/{deviceid}/stat'', ''/device/{deviceid}/{service}'', ''/device/{deviceid}/{service}/{parameter}''}.
       rt_template rt = base @ t"
  by (auto simp: invoke_primary_def api_templates Let_def stat_ConfigHandler_def translation_ConfigHandler_def
      provideAPIRouter_def)

section \<open>What serving requests keeps\<close>

text \<open>
  A property of the state of the process: \<open>A\<close> of the acquirer and \<open>H\<close> of the webhooks. Each
  service changes its own part.
\<close>

definition of_state :: "(AuthAcquirer option \<Rightarrow> bool) \<Rightarrow> ('h \<Rightarrow> bool) \<Rightarrow> 'h server_state \<Rightarrow> bool" where
  "of_state A H st \<longleftrightarrow> A (sv_acquirer st) \<and> H (sv_hooks st)"

lemma share_stat_keeps:
  "io_keeps (\<lambda>s. A (ss_authAcquirer s)) io \<Longrightarrow> io_keeps (of_state A H) (share_stat ss io)"
  using io_keepsD [of "\<lambda>s. A (ss_authAcquirer s)" io "ss\<lparr>ss_authAcquirer := a\<rparr>" for a]
  by (auto simp: io_keeps_def [of "of_state A H"] of_state_def share_stat_def outcome_bind_Ret_iff)

lemma share_translation_keeps:
  "io_keeps (\<lambda>s. A (ts_authAcquirer s)) io \<Longrightarrow> io_keeps (of_state A H) (share_translation ts io)"
  using io_keepsD [of "\<lambda>s. A (ts_authAcquirer s)" io "ts\<lparr>ts_authAcquirer := a\<rparr>" for a]
  by (auto simp: io_keeps_def [of "of_state A H"] of_state_def share_translation_def outcome_bind_Ret_iff)

lemma share_hooks_keeps: "io_keeps H io \<Longrightarrow> io_keeps (of_state A H) (share_hooks io)"
  by (fastforce simp: io_keeps_def of_state_def share_hooks_def outcome_bind_Ret_iff)

lemma stat_route_keeps:
  assumes "bascule_ok decode (denies denied) BL" "provideAuthChain L BL A jwt = Inr auth"
    and "kit_server_ok serve" "passes_on echo"
    and "rt \<in> set (stat_ConfigHandler L serve auth echo (Acquire L jenv) env c)"
  shows "handler_keeps (\<lambda>s. rel_option same_acquirer a (ss_authAcquirer s)) (rt_handler rt)"
proof -
  let ?P = "\<lambda>s. rel_option same_acquirer a (ss_authAcquirer s)"
  have "handler_keeps ?P (serve (stat_kit L (Acquire L jenv) env c))"
    by (rule kit_server_keeps [OF assms(3)])
      (simp add: makeStatEndpoint_def program_acquirer.RequestStat_same)
  then have "handler_keeps ?P (auth (echo (Welcome L (sc_BearerFingerprint c) (se_rand env) (se_arrival env)
      (serve (stat_kit L (Acquire L jenv) env c)))))"
    by (intro allI gate_keeps [OF assms(1,2)] passes_on_keeps [OF assms(4)])
      (simp add: Welcome_keeps)
  with assms(5) show ?thesis by (simp add: stat_ConfigHandler_def)
qed

lemma translation_route_keeps:
  assumes "bascule_ok decode (denies denied) BL" "provideAuthChain L BL A jwt = Inr auth"
    and "kit_server_ok serve" "passes_on echo"
    and "rt \<in> set (translation_ConfigHandler L serve auth echo (Acquire L jenv) env c)"
  shows "handler_keeps (\<lambda>s. rel_option same_acquirer a (ts_authAcquirer s)) (rt_handler rt)"
proof -
  let ?P = "\<lambda>s. rel_option same_acquirer a (ts_authAcquirer s)"
  have "handler_keeps ?P (serve (translation_kit L (Acquire L jenv) env c))"
    by (rule kit_server_keeps [OF assms(3)])
      (simp add: makeTranslationEndpoint_def program_acquirer.SendWRP_same)
  then have "handler_keeps ?P (auth (echo (Welcome L (sc_BearerFingerprint c) (se_rand env) (se_arrival env)
      (serve (translation_kit L (Acquire L jenv) env c)))))"
    by (intro allI gate_keeps [OF assms(1,2)] passes_on_keeps [OF assms(4)])
      (simp add: Welcome_keeps)
  with assms(5) show ?thesis by (auto simp: translation_ConfigHandler_def Let_def)
qed

lemma primary_routes_keep:
  assumes "outside_ok mt nf mna decode denied E" "fx_Provide E v = Inr p"
    and "rt \<in> set (fst (invoke_primary E v p at opts))"
  shows "handler_keeps (of_state (rel_option same_acquirer a) H) (rt_handler rt)"
proof -
  obtain jwt where chains: "provideAuthChain (ou_libs E) (ou_bascule_stat E) (ou_auth E) jwt = Inr (pv_auth_stat p)"
    "provideAuthChain (ou_libs E) (ou_bascule_translation E) (ou_auth E) jwt = Inr (pv_auth_translation p)"
    using fx_Provide_chains [OF assms(2)] by blast
  have ok: "bascule_ok decode (denies denied) (ou_bascule_stat E)" "kit_server_ok (ou_kit_stat E)"
    "passes_on (ou_echo_stat E (pv_tracing p))" "bascule_ok decode (denies denied) (ou_bascule_translation E)"
    "kit_server_ok (ou_kit_translation E)" "passes_on (ou_echo_translation E (pv_tracing p))"
    using assms(1) by (simp_all add: outside_ok_def)
  from assms(3) consider
    (stat) ss where "rt = lift_route (share_stat ss) (hd (stat_ConfigHandler (ou_libs E) (ou_kit_stat E)
        (pv_auth_stat p) (ou_echo_stat E (pv_tracing p)) (Acquire (ou_libs E) (mo_jwt at)) (mo_serve at)
        (handler_config_of (pv_values p))))"
    | (translation) ts rt' where "rt = lift_route (share_translation ts) rt'"
      "rt' \<in> set (translation_ConfigHandler (ou_libs E) (ou_kit_translation E) (pv_auth_translation p)
        (ou_echo_translation E (pv_tracing p)) (Acquire (ou_libs E) (mo_jwt at)) (mo_serve at)
        (handler_config_of (pv_values p)))"
    unfolding invoke_primary_def api_templates Let_def by auto
  then show ?thesis
  proof cases
    case stat
    have "handler_keeps (\<lambda>s. rel_option same_acquirer a (ss_authAcquirer s)) (rt_handler (hd (stat_ConfigHandler
        (ou_libs E) (ou_kit_stat E) (pv_auth_stat p) (ou_echo_stat E (pv_tracing p)) (Acquire (ou_libs E) (mo_jwt at))
        (mo_serve at) (handler_config_of (pv_values p)))))"
      by (rule stat_route_keeps [OF ok(1) chains(1) ok(2,3)]) (simp add: stat_ConfigHandler_def)
    then show ?thesis by (simp add: stat share_stat_keeps)
  next
    case translation
    from translation_route_keeps [OF ok(4) chains(2) ok(5,6) translation(2)] show ?thesis
      by (simp add: translation(1) share_translation_keeps)
  qed
qed

end
