(* ===== verification/Webhook_Safety.thy ===== *)
theory Webhook_Safety
  imports Program_Props
begin

text \<open>
  The webhooks of the running program, over any sequence of requests to its servers:
  what the store can hold, and that it only grows. The handlers of ancla are outside;
  \<open>ancla_ok\<close> is their contract.
\<close>

section \<open>The contract of the webhook handlers\<close>

text \<open>
  The handler that adds decodes the request into a manifest, runs every validator it was
  configured with, and calls \<open>Add\<close> of the service once when all of them pass; on any failure it
  does not touch the service. The handler that lists calls \<open>GetAll\<close> at most.
\<close>

definition ancla_ok :: "('v \<Rightarrow> 'm \<Rightarrow> bool) \<Rightarrow> ('m, 'v, 'm webhook_store) ancla_handlers \<Rightarrow> bool" where
  "ancla_ok valid NH \<longleftrightarrow>
     (\<forall>add c ctx r w s w' s'. nh_Add NH add c ctx r w s = Ret (w', s') \<longrightarrow>
        s' = s \<or> (\<exists>owner m. (\<forall>v \<in> set (hg_V c). valid v m) \<and> s' = snd (add owner m s)))
     \<and> (\<forall>getAll c ctx r w s w' s'. nh_GetAll NH getAll c ctx r w s = Ret (w', s') \<longrightarrow>
        s' = s \<or> s' = snd (getAll s))"

text \<open>A store that has grown from \<open>s0\<close> and holds only manifests of a kind.\<close>

definition grown :: "('m \<Rightarrow> bool) \<Rightarrow> 'm webhook_store \<Rightarrow> 'm webhook_store \<Rightarrow> bool" where
  "grown K s0 s \<longleftrightarrow> prefix s0 s \<and> (\<forall>m \<in> set s. K m)"

lemma nh_Add_keeps:
  assumes "ancla_ok valid NH" "\<And>m. (\<forall>v \<in> set V. valid v m) \<Longrightarrow> K m"
  shows "handler_keeps (grown K s0) (nh_Add NH webhook_Add \<lparr>hg_V = V, hg_DisablePartnerIDs = d\<rparr>)"
  unfolding io_keeps_def
proof (intro allI impI)
  fix ctx r w s w' s'
  assume s: "grown K s0 s" and "nh_Add NH webhook_Add \<lparr>hg_V = V, hg_DisablePartnerIDs = d\<rparr> ctx r w s = Ret (w', s')"
  then have "s' = s \<or> (\<exists>owner m. (\<forall>v \<in> set V. valid v m) \<and> s' = snd (webhook_Add owner m s))"
    using assms(1) unfolding ancla_ok_def by (metis handler_config.select_convs(1))
  with s assms(2) show "grown K s0 s'" by (auto simp: grown_def webhook_Add_def)
qed

lemma nh_GetAll_keeps:
  assumes "ancla_ok valid NH"
  shows "handler_keeps (grown K s0) (nh_GetAll NH webhook_GetAll c)"
  using assms unfolding ancla_ok_def io_keeps_def
  by (metis memory.getAll_lists prod.collapse)

section \<open>Through the middleware of the old version\<close>

lemma fixV2_keeps:
  assumes "handler_keeps P h" "is_v2 r \<Longrightarrow> handler_keeps P h2"
  shows "io_keeps (\<lambda>st. P (fst st) \<and> snd st = Some h2) (fixV2_handler WL g config reads h ctx r w)"
proof (cases "is_v2 r")
  case False
  then have "fixV2_handler WL g config reads h ctx r w = on_fst (h ctx r w)"
    by (intro ext) (rule fixV2_other_version)
  then show ?thesis using assms(1) io_keeps_on_fst [of P "h ctx r w" "\<lambda>v. v = Some h2"] by simp
next
  case True
  note v2 = this
  have run: "P s' \<and> v' = Some h2" if "P s" "on_fst (h2 ctx r' w1) (s, Some h2) = Ret (w', (s', v'))" for s s' v' w' w1 r'
    using that assms(2) [OF v2] by (auto simp: on_fst_def outcome_bind_Ret_iff io_keeps_def)
  show ?thesis
    unfolding io_keeps_def
  proof (clarsimp, goal_cases)
    case (1 s w' s' v')
    show ?case
    proof (cases "bd_err (rq_Body r)")
      case (Some e)
      with 1 v2 show ?thesis by (auto simp: fixV2_read_error outcome_bind_Ret_iff)
    next
      case None
      show ?thesis
      proof (cases "wl_Unmarshal WL (bd_data (rq_Body r))")
        case (Inl e)
        with 1 v2 None show ?thesis by (auto simp: fixV2_unmarshal_error outcome_bind_Ret_iff)
      next
        case (Inr wr)
        obtain wr' warning where
          "fix_registration WL config (reads (the (tv_Now config))) wr = (wr', warning)" by fastforce
        note reg = fixV2_registered [where reads = reads, OF v2 None Inr this, of g h ctx w s "Some h2",
            unfolded chosen_simps]
        show ?thesis
        proof (cases "wl_Marshal WL wr'")
          case (Inl err)
          from 1(2) show ?thesis unfolding reg Inl sum.case outcome_bind_Ret_iff by (auto dest: run [OF 1(1)])
        next
          case (Inr body)
          from 1(2) show ?thesis unfolding reg Inr sum.case by (rule run [OF 1(1)])
        qed
      qed
    qed
  qed
qed

text \<open>The webhook handlers of a configuration, all three or none.\<close>

lemma webhooks_built:
  assumes "provideWebhookHandlers NL NH time_Now isSet config = (wh, None)"
  obtains (disabled) "wh = no_webhook_handlers" "\<not> isSet"
  | (enabled) V V2 d where "isSet" "buildWebhookValidators NL time_Now (an_Validation config) = Inr V"
      "v2WebhookValidators NL time_Now config = Inr V2"
      "wh_Add wh = Some (nh_Add NH webhook_Add \<lparr>hg_V = V, hg_DisablePartnerIDs = d\<rparr>)"
      "wh_V2Add wh = Some (nh_Add NH webhook_Add \<lparr>hg_V = V2, hg_DisablePartnerIDs = d\<rparr>)"
      "wh_GetAll wh = Some (nh_GetAll NH webhook_GetAll \<lparr>hg_V = V, hg_DisablePartnerIDs = d\<rparr>)"
  using assms by (auto simp: provideWebhookHandlers_def Let_def split: if_splits sum.splits)

text \<open>Which manifests the program accepts: by the validators of the version they came through.\<close>

definition accepted_manifest ::
  "('v \<Rightarrow> 'm \<Rightarrow> bool) \<Rightarrow> ('c, 'x, 'v) ancla_libs \<Rightarrow> 'c \<Rightarrow> bool \<Rightarrow> ('c, 'x) ancla_config \<Rightarrow> 'm \<Rightarrow> bool" where
  "accepted_manifest valid NL time_Now oldVersion config m \<longleftrightarrow>
     (case buildWebhookValidators NL time_Now (an_Validation config) of Inl e \<Rightarrow> False
      | Inr V \<Rightarrow> \<forall>v \<in> set V. valid v m)
     \<or> (oldVersion \<and> (case v2WebhookValidators NL time_Now config of Inl e \<Rightarrow> False
      | Inr V2 \<Rightarrow> \<forall>v \<in> set V2. valid v m))"

abbreviation program_accepts where
  "program_accepts valid E p \<equiv> accepted_manifest valid (ou_ancla E) (ou_time_Now E)
     (sk_previousVersionSupport (pv_values p)) (pv_webhook p)"

lemma hook_routes_keep:
  assumes ok: "outside_ok mt nf mna decode denied E" and an: "ancla_ok valid (ou_handlers E)"
    and p: "fx_Provide E v = Inr p" and hooks: "invoke_hooks E p at = Inr hooks" "rt \<in> set hooks"
    and path: "mt (provideURLPrefix (sk_previousVersionSupport (pv_values p)) @ rt_template rt) path = Some m"
  shows "io_keeps (\<lambda>st. grown (program_accepts valid E p) s0 (fst st) \<and> snd st = wh_V2Add (pv_handlers p))
    (rt_handler rt ctx (r\<lparr>rq_Vars := Some m\<rparr>) w)"
proof -
  let ?K = "program_accepts valid E p" and ?r = "r\<lparr>rq_Vars := Some m\<rparr>"
  let ?Q = "\<lambda>st. grown ?K s0 (fst st) \<and> snd st = wh_V2Add (pv_handlers p)"
  obtain jwt where gate: "bascule_ok decode (denies denied) (ou_bascule_hooks E)"
    "provideAuthChain (ou_libs E) (ou_bascule_hooks E) (ou_auth E) jwt = Inr (pv_auth_hooks p)"
    using ok fx_Provide_chains [OF p] by (auto simp: outside_ok_def)
  have echo: "passes_on (ou_echo_hooks E (pv_tracing p))" and vars: "mux_vars_ok mt"
    using ok by (simp_all add: outside_ok_def)
  from fx_Provide_handlers [OF p] show ?thesis
  proof (cases rule: webhooks_built)
    case disabled
    with hooks show ?thesis by (simp add: invoke_hooks_def handleWebhookRoutes_def no_webhook_handlers_def)
  next
    case (enabled V V2 d)
    have add: "handler_keeps (grown ?K s0) (ou_echo_hooks E (pv_tracing p) (the (wh_Add (pv_handlers p))))"
      unfolding enabled using enabled(2)
      by (intro allI passes_on_keeps [OF echo])
        (simp add: nh_Add_keeps [OF an] accepted_manifest_def)
    have list: "handler_keeps (grown ?K s0) (ou_echo_hooks E (pv_tracing p) (the (wh_GetAll (pv_handlers p))))"
      unfolding enabled by (intro allI passes_on_keeps [OF echo]) (simp add: nh_GetAll_keeps [OF an])
    have old: "handler_keeps (grown ?K s0) (the (wh_V2Add (pv_handlers p)))"
      if "sk_previousVersionSupport (pv_values p)"
      unfolding enabled option.sel using enabled(3) that by (intro nh_Add_keeps [OF an]) (simp add: accepted_manifest_def)
    obtain cfg where rts: "hooks = [\<lparr>rt_template = ''/hook'', rt_methods = Some [''POST''], rt_handler =
          pv_auth_hooks p (fixV2_handler (ou_webhook E) (Some sallust_Get) cfg (mo_reads at)
            (ou_echo_hooks E (pv_tracing p) (the (wh_Add (pv_handlers p)))))\<rparr>,
        \<lparr>rt_template = ''/hooks'', rt_methods = None, rt_handler = pv_auth_hooks p
          (\<lambda>ctx r w. on_fst (ou_echo_hooks E (pv_tracing p) (the (wh_GetAll (pv_handlers p))) ctx r w))\<rparr>]"
      using hooks(1) enabled
      by (auto simp: invoke_hooks_def handleWebhookRoutes_def fixV2Duration_def Let_def split: if_splits)
    from hooks(2) rts consider "rt = hooks ! 0" | "rt = hooks ! 1" by auto
    then show ?thesis
    proof cases
      case 1
      then have "is_v2 ?r \<Longrightarrow> sk_previousVersionSupport (pv_values p)"
        using matched_version [OF vars, of "sk_previousVersionSupport (pv_values p)" path m r] path by (simp add: rts)
      with old have "is_v2 ?r \<Longrightarrow> handler_keeps (grown ?K s0) (the (wh_V2Add (pv_handlers p)))" by blast
      then have "io_keeps ?Q (fixV2_handler (ou_webhook E) (Some sallust_Get) cfg (mo_reads at)
          (ou_echo_hooks E (pv_tracing p) (the (wh_Add (pv_handlers p)))) ctx ?r w)" for ctx w
        unfolding enabled(5) option.sel by (rule fixV2_keeps [OF add])
      with 1 show ?thesis by (simp add: rts gate_keeps [OF gate])
    next
      case 2
      have "io_keeps ?Q (on_fst (ou_echo_hooks E (pv_tracing p) (the (wh_GetAll (pv_handlers p))) ctx ?r w))" for ctx w
        using list io_keeps_on_fst [where Q = "\<lambda>v. v = wh_V2Add (pv_handlers p)"] by blast
      with 2 show ?thesis by (simp add: rts gate_keeps [OF gate])
    qed
  qed
qed

section \<open>Sequences of requests\<close>

text \<open>The property of the state every request keeps: the acquirer's kind, and the webhooks.\<close>

abbreviation program_state_ok where
  "program_state_ok valid E p a s0 \<equiv> of_state (rel_option same_acquirer a)
     (\<lambda>h. grown (program_accepts valid E p) s0 (fst h) \<and> snd h = wh_V2Add (pv_handlers p))"

lemma api_routes_keep:
  assumes ok: "outside_ok mt nf mna decode denied E" and an: "ancla_ok valid (ou_handlers E)"
    and p: "fx_Provide E v = Inr p" and hooks: "invoke_hooks E p at = Inr hooks"
    and rt: "rt \<in> set (api_routes E v p at hooks)" "mt (rt_template rt) path = Some m"
  shows "io_keeps (program_state_ok valid E p a s0) (rt_handler rt ctx (r\<lparr>rq_Vars := Some m\<rparr>) w)"
proof -
  from rt(1) consider
    (primary) rt' where "rt' \<in> set (fst (invoke_primary E v p at (options_of E p at)))"
      "rt_handler rt = rt_handler rt'"
    | (hook) rt' where "rt' \<in> set hooks" "rt_handler rt = (\<lambda>ctx r w. share_hooks (rt_handler rt' ctx r w))"
      "rt_template rt = provideURLPrefix (sk_previousVersionSupport (pv_values p)) @ rt_template rt'"
    by (auto simp: provideAPIRouter_def)
  then show ?thesis
  proof cases
    case primary
    have "handler_keeps (program_state_ok valid E p a s0) (rt_handler rt')"
      by (rule primary_routes_keep [OF ok p primary(1)])
    with primary(2) show ?thesis by simp
  next
    case hook
    with rt(2) show ?thesis by (auto intro!: share_hooks_keeps hook_routes_keep [OF ok an p hooks])
  qed
qed

lemma health_routes_keep: "rt \<in> set health_routes \<Longrightarrow> handler_keeps P (rt_handler rt)"
  by (simp add: health_routes_def io_keeps_reply)

lemma serve_arrival_keeps:
  assumes ok: "outside_ok mt nf mna decode denied E" and an: "ancla_ok valid (ou_handlers E)"
    and p: "fx_Provide E v = Inr p"
  shows "io_keeps (program_state_ok valid E p a s0) (serve_arrival E v q)"
proof (cases "fx_New E v (ar_moment q)")
  case (Inl e)
  then show ?thesis by (simp add: io_keeps_def serve_arrival_def)
next
  case (Inr r)
  let ?Q = "program_state_ok valid E p a s0" and ?l = "ar_listener q"
  obtain srv st0 where r: "r = (srv, st0)" by fastforce
  from fx_New_servers [OF ok Inr [unfolded r], of ?l] p
  obtain hooks where hooks: "invoke_hooks E p (ar_moment q) = Inr hooks"
    and srv: "\<And>path. listening srv ?l path = listener_chain (metricMiddleware (ou_NewInstrumenter E)) ?l
       (ou_mux E (if ?l = Health then health_routes else api_routes E v p (ar_moment q) hooks) path)"
    by (metis sum.inject(2))
  have mux: "mux_ok mt (answers nf) (answers mna) (ou_mux E)" using ok by (simp add: outside_ok_def)
  have "io_keeps ?Q (listening srv ?l (ar_path q) (ar_ctx q) (ar_request q) (ar_writer q))"
    unfolding srv
    by (rule passes_on_keeps [OF metric_chain_passes [OF ok]], rule mux_keeps [OF mux])
      (auto simp: health_routes_keep split: if_splits intro: api_routes_keep [OF ok an p hooks])
  with Inr r show ?thesis by (simp add: io_keeps_def serve_arrival_def)
qed

lemma serve_requests_keep:
  assumes "\<And>q. io_keeps P (serve_arrival E v q)" "P st" "serve_requests E v qs st = Ret (ws, st')"
  shows "P st'"
  using assms(2,3)
proof (induction qs arbitrary: st ws)
  case (Cons q qs)
  then obtain w st1 ws' where "serve_arrival E v q st = Ret (w, st1)" "serve_requests E v qs st1 = Ret (ws', st')"
    by (auto simp: outcome_bind_Ret_iff)
  with Cons assms(1) show ?case by (blast dest: io_keepsD)
qed simp

end
