(* ===== verification/Program_Demo.thy ===== *)
theory Program_Demo
  imports Program_Props
begin

text \<open>
  A small outside to run the program with in the witnesses: decoders that take a value of the
  right type as it is and structs from their prototypes, the router and the gate of the other
  witnesses, webhooks that are strings with a limit on their length, and no network.
\<close>

definition demo_decoders :: "(unit, unit, unit, unit) decoders" where
  "demo_decoders =
     \<lparr>dc_bool = (\<lambda>c d. Inr (case c of Some (CvBool b) \<Rightarrow> b | _ \<Rightarrow> d)),
      dc_int = (\<lambda>c d. Inr (case c of Some (CvInt i) \<Rightarrow> i | _ \<Rightarrow> d)),
      dc_duration = (\<lambda>c d. Inr d),
      dc_string = (\<lambda>c d. Inr (case c of Some (CvStr s) \<Rightarrow> s | _ \<Rightarrow> d)),
      dc_strings = (\<lambda>c d. Inr (case c of Some (CvStrs s) \<Rightarrow> s | _ \<Rightarrow> d)),
      dc_ints = (\<lambda>c d. Inr (case c of Some (CvInts s) \<Rightarrow> s | _ \<Rightarrow> d)),
      dc_timeouts = (\<lambda>m d. Inr d), dc_acquirer = (\<lambda>m d. Inr d), dc_fingerprint = (\<lambda>m d. Inr d),
      dc_webhook = (\<lambda>m d. Inr d), dc_jwt = (\<lambda>m d. Inr d), dc_tracing = (\<lambda>m d. Inr d),
      dc_zero_webhook = demo_ancla_config, dc_zero_jwt = \<lparr>jv_Config = ()\<rparr>, dc_zero_tracing = ([], ())\<rparr>"

text \<open>Two handlers that keep the contract of ancla's: a validator is a bound on the length.\<close>

definition demo_webhook_handlers :: "(string, nat, string webhook_store) ancla_handlers" where
  "demo_webhook_handlers =
     \<lparr>nh_Add = (\<lambda>add c ctx r w s. Ret (w,
          if list_all (\<lambda>n. length (bd_data (rq_Body r)) \<le> n) (hg_V c) then snd (add [] (bd_data (rq_Body r)) s) else s)),
      nh_GetAll = (\<lambda>getAll c ctx r w s. Ret (w, snd (getAll s)))\<rparr>"

abbreviation refusing :: "'s io" where
  "refusing \<equiv> \<lambda>s. Ret (new_rw, s)"

definition demo_outside :: "(unit, unit, nat, unit, string, unit, unit, unit) outside" where
  "demo_outside =
     \<lparr>ou_libs = demo_libs, ou_decoders = demo_decoders, ou_http = demo_http, ou_auth = demo_auth,
      ou_bascule_stat = closed_bascule refusing, ou_bascule_translation = closed_bascule refusing,
      ou_bascule_hooks = closed_bascule refusing,
      ou_kit_stat = plain_server, ou_kit_translation = plain_server,
      ou_newTracing = (\<lambda>c. Inr ((), True)), ou_zeroTracing = (),
      ou_echo_stat = (\<lambda>t h. h), ou_echo_translation = (\<lambda>t h. h), ou_echo_hooks = (\<lambda>t h. h),
      ou_mux = demo_mux, ou_NewInstrumenter = (\<lambda>n. Inr (\<lambda>h. h)), ou_metrics = (None, None),
      ou_time_Now = (), ou_webhook = demo_webhooks (\<lambda>b. Inl (OtherUnmarshalError [])),
      ou_ancla = demo_ancla, ou_handlers = demo_webhook_handlers\<rparr>"

lemma closed_denies: "bascule_ok demo_decode (denies (\<lambda>code ch w. new_rw)) (closed_bascule refusing)"
  using closed_bascule_ok [of refusing] by (simp add: denies_def [abs_def])

lemma demo_outside_ok:
  "outside_ok demo_mt (WriteHeader 404) (WriteHeader 405) demo_decode (\<lambda>code ch w. new_rw) demo_outside"
proof -
  have "mux_ok demo_mt (answers (WriteHeader 404)) (answers (WriteHeader 405)) demo_mux"
    using demo_mux_ok by (simp add: answers_def [abs_def])
  then show ?thesis
    unfolding outside_ok_def demo_outside_def outside.select_convs
    by (intro conjI closed_denies allI impI demo_mt_ok plain_server_ok)
      (auto simp: passes_on_id demo_http_def plain_curry_ok)
qed

text \<open>The program starts with every configuration; the values are the ones of viper.\<close>

lemma demo_provided:
  "\<exists>p. fx_Provide demo_outside v = Inr p \<and> pv_webhook p = demo_ancla_config
     \<and> pv_acquirer p = zero_acquirer_config
     \<and> provideServers_values demo_decoders v = Inr (pv_values p)"
  by (simp add: fx_Provide_def Let_def demo_outside_def provideServers_values_def provideHandlers_values_def
      demo_decoders_def ProvideKey_def UnmarshalKey_def loadTracing_def or_error_def provideAuthChain_def
      createAuthMiddleware_def closed_bascule_def demo_bascule_def provideWebhookHandlers_def
      buildWebhookValidators_def v2WebhookValidators_def demo_ancla_def no_webhook_handlers_def)

text \<open>Basic credentials open the gate, and the request goes on as it is.\<close>

lemma demo_gate:
  assumes "bascule_ok decode deny BL" "provideAuthChain L BL A c = Inr mw"
    and "hdr_get (rq_Header r) ''Authorization'' = ''Basic '' @ v" "decode v = Some (user, pw)"
  shows "\<exists>t. \<forall>h ctx w. mw h ctx r w = h (ctx\<lparr>cx_Token := Some t\<rparr>) r w"
proof -
  obtain resolver p where
    ok: "parser_ok decode [WithScheme (lb_SchemeBearer L) (Parse (A\<lparr>al_Resolve := resolver\<rparr>)), WithBasic] p"
    and mw: "\<forall>h ctx r w. mw h ctx r w = (case p r of
          Inl e \<Rightarrow> deny (error_status_coder A e) auth_challenges w
        | Inr t \<Rightarrow> h (ctx\<lparr>cx_Token := Some t\<rparr>) r w)"
    using createAuthMiddleware_serves [OF assms(1)] assms(2) unfolding provideAuthChain_def by blast
  obtain t where "p r = Inr t" using parser_basic [OF ok _ assms(3,4)] by auto
  with mw show ?thesis by auto
qed

text \<open>A configuration with webhooks, and a registration that arrives.\<close>

definition hook_viper :: viper where
  "hook_viper = file_viper [''webhook'' \<mapsto> CvMap]"

definition demo_moment :: "unit moment" where
  "demo_moment = \<lparr>mo_jwt = demo_env, mo_serve = demo_serve_env, mo_reads = (\<lambda>c. 0), mo_now = 0\<rparr>"

definition demo_arrival :: "listener \<Rightarrow> string \<Rightarrow> http_request \<Rightarrow> unit arrival" where
  "demo_arrival l path r = \<lparr>ar_listener = l, ar_moment = demo_moment, ar_path = path, ar_ctx = background, ar_request = r, ar_writer = new_rw\<rparr>"

definition demo_registration :: "bytes \<Rightarrow> http_request" where
  "demo_registration b = (demo_request ''POST'' b None)\<lparr>rq_Header := [(''Authorization'', [''Basic root''])]\<rparr>"

lemma demo_registration_sel [simp]:
  "hdr_get (rq_Header (demo_registration b)) ''Authorization'' = ''Basic '' @ ''root''"
  "rq_Method (demo_registration b) = ''POST''" "bd_data (rq_Body (demo_registration b)) = b"
  using demo_login_header [of "''Basic root''"] by (simp_all add: demo_registration_def demo_login_def demo_request_def)

lemma hook_viper_set: "viper_IsSet hook_viper webhookConfigKey"
proof -
  have "viper_key webhookConfigKey = ''webhook''" unfolding webhookConfigKey_def by code_simp
  then show ?thesis by (simp add: viper_IsSet_def viper_get_def hook_viper_def file_viper_def)
qed

lemma demo_started: "\<exists>srv st0. fx_New demo_outside v demo_moment = Inr (srv, st0)"
proof -
  obtain p where p: "fx_Provide demo_outside v = Inr p" "pv_webhook p = demo_ancla_config"
    using demo_provided by blast
  have "\<exists>hooks. invoke_hooks demo_outside p demo_moment = Inr hooks"
    using p(2) by (auto simp: invoke_hooks_def handleWebhookRoutes_def fixV2Duration_def Let_def
        demo_ancla_config_def demo_ttl_def split: option.split)
  moreover have "curry_ok (hl_CurryWith (ou_http demo_outside))"
    by (simp add: demo_outside_def demo_http_def plain_curry_ok)
  ultimately show ?thesis
    using p(1) by (auto simp: fx_New_def options_built provideServers_def Let_def)
qed

lemma demo_old_version_supported:
  "fx_Provide demo_outside v = Inr p \<Longrightarrow> viper_get v ''previousVersionSupport'' = None
     \<Longrightarrow> sk_previousVersionSupport (pv_values p)"
  by (auto dest!: fx_Provide_values(1) [THEN sym]
      simp: provideServers_values_def ProvideKey_def UnmarshalKey_def demo_outside_def demo_decoders_def)

lemma demo_vipers:
  "viper_get hook_viper ''previousVersionSupport'' = None"
  "viper_get (file_viper Map.empty) ''previousVersionSupport'' = None"
  unfolding hook_viper_def file_viper_def defaults_def by code_simp+

end
