(* ===== verification/Program_State.thy ===== *)
theory Program_State
  imports Webhook_Safety Program_Demo
begin

text \<open>
  The state of the running program over sequences of requests to its servers, from its start: the kind of the acquirer, the handler variable of the webhooks, and what the store of
  webhooks holds.
\<close>

section \<open>A run with a registration\<close>

abbreviation demo_Add where
  "demo_Add V \<equiv> nh_Add demo_webhook_handlers webhook_Add \<lparr>hg_V = V, hg_DisablePartnerIDs = True\<rparr>"

lemma demo_handlers:
  assumes "fx_Provide demo_outside hook_viper = Inr p"
  shows "wh_Add (pv_handlers p) = Some (demo_Add [1])"
    "wh_GetAll (pv_handlers p) \<noteq> None"
proof -
  have config: "pv_webhook p = demo_ancla_config" using assms demo_provided [of hook_viper] by auto
  have "pv_handlers p = \<lparr>wh_Add = Some (demo_Add [1]), wh_V2Add = Some (demo_Add [2]),
      wh_GetAll = Some (nh_GetAll demo_webhook_handlers webhook_GetAll \<lparr>hg_V = [1], hg_DisablePartnerIDs = True\<rparr>)\<rparr>"
    using fx_Provide_handlers [OF assms] hook_viper_set unfolding config
    by (simp add: provideWebhookHandlers_def demo_outside_def demo_ancla_def buildWebhookValidators_def
        v2WebhookValidators_def demo_ancla_config_def demo_ttl_def Let_def)
  then show "wh_Add (pv_handlers p) = Some (demo_Add [1])" "wh_GetAll (pv_handlers p) \<noteq> None" by simp_all
qed

lemma demo_hook_route:
  assumes "fx_Provide demo_outside hook_viper = Inr p" "invoke_hooks demo_outside p demo_moment = Inr hooks"
  obtains cfg rest where "hooks = \<lparr>rt_template = ''/hook'', rt_methods = Some [''POST''], rt_handler =
    pv_auth_hooks p (fixV2_handler (ou_webhook demo_outside) (Some sallust_Get) cfg (mo_reads demo_moment) (demo_Add [1]))\<rparr> # rest"
  using assms(2) demo_handlers [OF assms(1)]
  by (auto simp: invoke_hooks_def handleWebhookRoutes_def fixV2Duration_def Let_def demo_outside_def split: if_splits)

text \<open>A registration that opens the gate, sent to one of the two servers with the API.\<close>

lemma demo_hook_served:
  fixes l b
  defines "path \<equiv> provideURLPrefix True @ ''/hook''" and "r \<equiv> demo_registration b"
  assumes "fx_New demo_outside hook_viper demo_moment = Inr (srv, st0)" "l \<noteq> Health"
  shows "\<exists>ctx. listening srv l path background r new_rw st
    = share_hooks (on_fst (demo_Add [1] ctx (r\<lparr>rq_Vars := Some [(''version'', ''v3'')]\<rparr>) new_rw)) st"
proof -
  let ?E = demo_outside and ?r = "r\<lparr>rq_Vars := Some [(''version'', ''v3'')]\<rparr>"
  from fx_New_servers [OF demo_outside_ok assms(3)]
  obtain p hooks where p: "fx_Provide ?E hook_viper = Inr p" and hooks: "invoke_hooks ?E p demo_moment = Inr hooks"
    and srv: "listening srv l path = listener_chain (metricMiddleware (ou_NewInstrumenter ?E)) l
       (ou_mux ?E (if l = Health then health_routes else api_routes ?E hook_viper p demo_moment hooks) path)"
    by metis
  have base: "sk_previousVersionSupport (pv_values p)"
    using demo_old_version_supported [OF p demo_vipers(1)] by simp
  obtain cfg rest where rt: "hooks = \<lparr>rt_template = ''/hook'', rt_methods = Some [''POST''], rt_handler =
    pv_auth_hooks p (fixV2_handler (ou_webhook ?E) (Some sallust_Get) cfg (mo_reads demo_moment) (demo_Add [1]))\<rparr> # rest"
    using p hooks by (rule demo_hook_route)
  obtain jwt where "provideAuthChain demo_libs (closed_bascule refusing) demo_auth jwt = Inr (pv_auth_hooks p)"
    using fx_Provide_chains [OF p] by (auto simp: demo_outside_def)
  from demo_gate [OF closed_denies this, of ?r "''root''"]
  obtain t where gate: "pv_auth_hooks p h ctx ?r w = h (ctx\<lparr>cx_Token := Some t\<rparr>) ?r w" for h ctx w
    by (auto simp: demo_decode_def r_def)
  have post: "rq_Method r = ''POST''" by (simp add: r_def)
  have new: "\<not> is_v2 ?r" by (simp add: is_v2_def mux_var_def gomap_str_def prevAPIVersion_def)
  have skip: "\<forall>rt \<in> set (provideAPIRouter (provideURLPrefix True)
      (fst (invoke_primary ?E hook_viper p demo_moment (options_of ?E p demo_moment)))). demo_mt (rt_template rt) path = None"
    by (auto dest!: invoke_primary_templates simp: demo_mt_def path_def)
  have "demo_mt path path = Some [(''version'', ''v3'')]"
    unfolding demo_mt_def base_vars path_def by simp
  moreover have "listening srv l path background r new_rw st = demo_mux (provideAPIRouter (provideURLPrefix True)
      (fst (invoke_primary ?E hook_viper p demo_moment (options_of ?E p demo_moment)))
      @ provideAPIRouter (provideURLPrefix True) (map (lift_route share_hooks) hooks)) path background r new_rw st"
    using assms(4) unfolding srv base
    by (cases l) (simp_all add: demo_outside_def metricMiddleware_def provideAPIRouter_def base)
  ultimately have "listening srv l path background r new_rw st
      = share_hooks (on_fst (demo_Add [1] (background\<lparr>cx_Token := Some t\<rparr>) ?r new_rw)) st"
    unfolding mux_skip [OF demo_mux_ok skip] rt
    by (simp add: mux_first [OF demo_mux_ok] provideAPIRouter_def lift_route_def takes_method_def gate
        fixV2_other_version [OF new] path_def [symmetric] post)
  then show ?thesis by blast
qed

lemma demo_registered:
  assumes "fx_New demo_outside hook_viper demo_moment = Inr (srv, st0)" "l \<noteq> Health"
  shows "\<exists>w st. serve_requests demo_outside hook_viper
      [demo_arrival l (provideURLPrefix True @ ''/hook'') (demo_registration ''m'')] st0 = Ret ([w], st)
    \<and> fst (sv_hooks st) = [''m'']"
proof -
  have "fst (sv_hooks st0) = []" using assms(1) by (rule started_state) simp
  with demo_hook_served [OF assms, of "''m''" st0] show ?thesis
    by (auto simp: serve_arrival_def demo_arrival_def assms(1) share_hooks_def on_fst_def demo_webhook_handlers_def
        webhook_Add_def split: prod.split)
qed

lemma demo_ancla_ok: "ancla_ok (\<lambda>n m. length m \<le> n) demo_webhook_handlers"
  by (auto simp: ancla_ok_def demo_webhook_handlers_def list_all_iff)

section \<open>Properties\<close>

text \<open>
  C6. The state of the process keeps its type. Whatever requests arrive, at the primary,
  the alternate or the health server, for whichever paths, admitted or not: a program without an acquirer never gets one, Basic
  credentials stay what they are, a JWT acquirer keeps its configuration and never loses a
  token without having a new one; the handler for webhooks of the old version is the one the
  program started with; and the store of webhooks only grows at its end.
\<close>

theorem server_state_typed:
  assumes "outside_ok mt nf mna decode denied E" "ancla_ok valid (ou_handlers E)"
    and "fx_New E v at = Inr (srv, st0)"
    and "serve_requests E v qs st0 = Ret (ws, st1)" "serve_requests E v qs' st1 = Ret (ws', st2)"
  shows "rel_option same_acquirer (sv_acquirer st1) (sv_acquirer st2)
    \<and> snd (sv_hooks st2) = snd (sv_hooks st1) \<and> prefix (fst (sv_hooks st1)) (fst (sv_hooks st2))"
proof -
  obtain p where p: "fx_Provide E v = Inr p" "sv_hooks st0 = ([], wh_V2Add (pv_handlers p))"
    using assms(3) by (rule started_state)
  note keeps = serve_arrival_keeps [OF assms(1,2) p(1)]
  have refl: "rel_option same_acquirer a a" for a
    by (cases a) (simp_all add: program_acquirer.same_refl)
  have "program_state_ok valid E p (sv_acquirer st0) [] st1"
    by (rule serve_requests_keep [OF keeps _ assms(4)]) (simp add: of_state_def refl grown_def p)
  then have "program_state_ok valid E p (sv_acquirer st1) (fst (sv_hooks st1)) st1"
    by (simp add: of_state_def refl grown_def)
  then have "program_state_ok valid E p (sv_acquirer st1) (fst (sv_hooks st1)) st2"
    by (rule serve_requests_keep [OF keeps _ assms(5)])
  with \<open>program_state_ok valid E p (sv_acquirer st0) [] st1\<close> show ?thesis
    by (simp add: of_state_def grown_def)
qed

theorem server_state_typed_witness:
  "\<exists>srv st0 w st1. fx_New demo_outside hook_viper demo_moment = Inr (srv, st0)
     \<and> serve_requests demo_outside hook_viper
         [demo_arrival Alternate (provideURLPrefix True @ ''/hook'') (demo_registration ''m'')] st0 = Ret ([w], st1)
     \<and> rel_option same_acquirer (sv_acquirer st0) (sv_acquirer st1) \<and> fst (sv_hooks st1) = [''m'']"
proof -
  obtain srv st0 where start: "fx_New demo_outside hook_viper demo_moment = Inr (srv, st0)"
    using demo_started by blast
  then obtain w st1 where run: "serve_requests demo_outside hook_viper
      [demo_arrival Alternate (provideURLPrefix True @ ''/hook'') (demo_registration ''m'')] st0 = Ret ([w], st1)"
    "fst (sv_hooks st1) = [''m'']"
    using demo_registered [where l = Alternate] by blast
  have "ancla_ok (\<lambda>n m. length m \<le> n) (ou_handlers demo_outside)"
    by (simp add: demo_outside_def demo_ancla_ok)
  from server_state_typed [OF demo_outside_ok this start _ run(1), of "[]" "[]"] start run show ?thesis by auto
qed

text \<open>
  C5. Only validated webhooks are kept. Whatever requests arrive, at whichever server, every manifest the store holds
  passes all validators of the configuration, or, and only if the old API version is
  supported, all validators of the old version, with the loopback, IP address and domain
  checks switched off. Requests the gate denies, bodies that cannot be read and the listing of
  webhooks add nothing.
\<close>

theorem stored_manifests_validated:
  assumes "outside_ok mt nf mna decode denied E" "ancla_ok valid (ou_handlers E)"
    and "fx_New E v at = Inr (srv, st0)" "serve_requests E v qs st0 = Ret (ws, st)"
    and "provideServers_values (ou_decoders E) v = Inr k" "provideHandlers_values (ou_decoders E) v = Inr (ac, config)"
    and "m \<in> set (fst (sv_hooks st))"
  shows "(\<exists>V. buildWebhookValidators (ou_ancla E) (ou_time_Now E) (an_Validation config) = Inr V
        \<and> (\<forall>v \<in> set V. valid v m))
    \<or> (sk_previousVersionSupport k
        \<and> (\<exists>V2. v2WebhookValidators (ou_ancla E) (ou_time_Now E) config = Inr V2 \<and> (\<forall>v \<in> set V2. valid v m)))"
proof -
  obtain p where p: "fx_Provide E v = Inr p" "sv_hooks st0 = ([], wh_V2Add (pv_handlers p))"
    using assms(3) by (rule started_state)
  have "rel_option same_acquirer a a" for a
    by (cases a) (simp_all add: program_acquirer.same_refl)
  then have "program_state_ok valid E p (sv_acquirer st0) [] st"
    by (intro serve_requests_keep [OF serve_arrival_keeps [OF assms(1,2) p(1)] _ assms(4)])
      (simp add: of_state_def grown_def p)
  with assms(7) have "program_accepts valid E p m" by (simp add: of_state_def grown_def)
  with fx_Provide_values [OF p(1)] assms(5,6) show ?thesis
    by (auto simp: accepted_manifest_def split: sum.splits)
qed

theorem stored_manifests_validated_witness:
  "\<exists>srv st0 w st. fx_New demo_outside hook_viper demo_moment = Inr (srv, st0)
     \<and> serve_requests demo_outside hook_viper
         [demo_arrival Alternate (provideURLPrefix True @ ''/hook'') (demo_registration ''m'')] st0 = Ret ([w], st)
     \<and> (\<exists>V. buildWebhookValidators demo_ancla () (an_Validation demo_ancla_config) = Inr V
           \<and> (\<forall>n \<in> set V. length ''m'' \<le> n))"
proof -
  obtain srv st0 where start: "fx_New demo_outside hook_viper demo_moment = Inr (srv, st0)"
    using demo_started by blast
  then obtain w st where run: "serve_requests demo_outside hook_viper
      [demo_arrival Alternate (provideURLPrefix True @ ''/hook'') (demo_registration ''m'')] st0 = Ret ([w], st)"
    "fst (sv_hooks st) = [''m'']"
    using demo_registered [where l = Alternate] by blast
  obtain p where p: "fx_Provide demo_outside hook_viper = Inr p" "pv_webhook p = demo_ancla_config"
    using demo_provided by blast
  have an: "ancla_ok (\<lambda>n m. length m \<le> n) (ou_handlers demo_outside)"
    by (simp add: demo_outside_def demo_ancla_ok)
  have two: "v2WebhookValidators demo_ancla () demo_ancla_config = Inr [2]"
    "buildWebhookValidators demo_ancla () (an_Validation demo_ancla_config) = Inr [1]"
    by (simp_all add: v2WebhookValidators_def buildWebhookValidators_def demo_ancla_def demo_ancla_config_def
        demo_ttl_def Let_def)
  have "''m'' \<in> set (fst (sv_hooks st))" using run(2) by simp
  note stored_manifests_validated [OF demo_outside_ok an start run(1) fx_Provide_values(1) [OF p(1)]
      fx_Provide_values(2) [OF p(1)] this]
  with start run(1) two show ?thesis by auto
qed

end
