(* ===== verification/Program_Serves.thy ===== *)
theory Program_Serves
  imports Program_Demo Services_Props
begin

text \<open>
  From the two servers of the program with the API to the reply, for the two services: a request is
  denied by the gate and changes nothing, or is answered as the verdict of its service says.
\<close>

section \<open>Through the chains of the program\<close>

text \<open>What the gate and the tracing middleware make of a request, before any handler sees it.\<close>

lemma chain_decides:
  assumes "bascule_ok decode (denies denied) BL" "provideAuthChain L BL A jwt = Inr mw" "passes_on echo"
    and "rw_sent w = None" "rw_write_err w = None" "rw_body w = []"
  shows "(\<exists>code \<in> {400, 401, 500}. \<forall>h. mw h ctx r w = denies denied code auth_challenges w)
    \<or> (\<exists>ctx' w'. (\<forall>h. mw (echo h) ctx r w = h ctx' r w')
         \<and> rw_sent w' = None \<and> rw_write_err w' = None \<and> rw_body w' = [])"
  using gate_decides [OF assms(1,2), of r]
proof
  assume "\<exists>t. \<forall>h ctx w. mw h ctx r w = h (ctx\<lparr>cx_Token := Some t\<rparr>) r w"
  then obtain t where t: "\<forall>h. mw h ctx r w = h (ctx\<lparr>cx_Token := Some t\<rparr>) r w" by blast
  obtain ctx' w' where "\<forall>h. echo h (ctx\<lparr>cx_Token := Some t\<rparr>) r w = h ctx' r w'"
    "rw_sent w' = rw_sent w" "rw_write_err w' = rw_write_err w" "rw_body w' = rw_body w"
    using assms(3) unfolding passes_on_def by metis
  with t assms(4-6) have "(\<forall>h. mw (echo h) ctx r w = h ctx' r w')
      \<and> rw_sent w' = None \<and> rw_write_err w' = None \<and> rw_body w' = []" by simp
  then show ?thesis by blast
qed blast

text \<open>The two servers of a program with the API hand the request to the same router.\<close>

lemma server_routes:
  assumes "outside_ok mt nf mna decode denied E" "fx_New E v at = Inr (srv, st0)" "fx_Provide E v = Inr p"
    and "l \<noteq> Health" "rw_sent w0 = None" "rw_write_err w0 = None" "rw_body w0 = []"
  obtains hooks ctx' w where "invoke_hooks E p at = Inr hooks"
    "listening srv l path ctx r w0 = ou_mux E (api_routes E v p at hooks) path ctx' r w"
    "rw_sent w = None" "rw_write_err w = None" "rw_body w = []"
proof -
  from assms(1,2) obtain p' hooks where built: "fx_Provide E v = Inr p'" "invoke_hooks E p' at = Inr hooks"
    "\<And>path. listening srv l path = listener_chain (metricMiddleware (ou_NewInstrumenter E)) l
       (ou_mux E (if l = Health then health_routes else api_routes E v p' at hooks) path)"
    by (rule fx_New_servers [where l = l]) blast
  obtain ctx' w where "\<forall>h. listener_chain (metricMiddleware (ou_NewInstrumenter E)) l h ctx r w0 = h ctx' r w"
    "rw_sent w = rw_sent w0" "rw_write_err w = rw_write_err w0" "rw_body w = rw_body w0"
    using metric_chain_passes [OF assms(1)] unfolding passes_on_def by metis
  with built assms(3-7) show thesis by (intro that [of hooks ctx' w]) simp_all
qed

section \<open>The translation service\<close>

abbreviation program_translation where
  "program_translation E v p at st \<equiv>
     running_translation (viper_IsSet v authAcquirerKey) (pv_acquirer p) (options_of E p at) st"

lemma options_transactor:
  "to_T (snd (fst (provideServiceOptions HL now i))) = Transact (api_transactor HL i device_api) now"
  "so_HTTPTransactor (fst (fst (provideServiceOptions HL now i))) = Transact (api_transactor HL i stat_api) now"
  by (simp_all add: provideServiceOptions_def Let_def)

lemma program_serves_translation:
  assumes ok: "outside_ok mt nf mna decode denied E" and new: "fx_New E v at = Inr (srv, st0)"
    and p: "fx_Provide E v = Inr p"
    and path: "translation_match mt (provideURLPrefix (sk_previousVersionSupport (pv_values p))) path (rq_Method r) vars"
    and l: "l \<noteq> Health"
    and w0: "rw_sent w0 = None" "rw_write_err w0 = None" "rw_body w0 = []"
    and tid: "canon_key (lb_TIDHeader (ou_libs E)) \<noteq> ''Content-Type''"
    and spec: "spec = (\<lambda>ctx'. translation_spec (ou_libs E) (Acquire (ou_libs E) (mo_jwt at)) (se_deadline (mo_serve at))
           (sk_supportedServices (pv_values p))
           (ctx'\<lparr>cx_RequestTID := Some (request_tid (ou_libs E) (mo_serve at) r)\<rparr>)
           (captured (r\<lparr>rq_Vars := Some vars\<rparr>)) (program_translation E v p at st))"
      "\<forall>ctx' v. fst (spec ctx') = Some v \<longrightarrow> deliverable v"
  shows "(\<exists>code \<in> {400, 401, 500}. \<exists>w. listening srv l path ctx r w0 st = Ret (denied code auth_challenges w, st))
    \<or> (\<exists>ctx' v w'. fst (spec ctx') = Some v \<and> renders (ou_libs E) (request_tid (ou_libs E) (mo_serve at) r) v w'
         \<and> listening srv l path ctx r w0 st = Ret (w', st\<lparr>sv_acquirer := ts_authAcquirer (snd (spec ctx'))\<rparr>))"
proof -
  let ?L = "ou_libs E" and ?r = "r\<lparr>rq_Vars := Some vars\<rparr>" and ?ts = "program_translation E v p at st"
  let ?echo = "ou_echo_translation E (pv_tracing p)"
  have parts: "mux_ok mt (answers nf) (answers mna) (ou_mux E)" "kit_server_ok (ou_kit_translation E)"
    "bascule_ok decode (denies denied) (ou_bascule_translation E)" "passes_on ?echo"
    using ok by (simp_all add: outside_ok_def)
  obtain jwt where chain: "provideAuthChain ?L (ou_bascule_translation E) (ou_auth E) jwt = Inr (pv_auth_translation p)"
    using fx_Provide_chains [OF p] by blast
  define routes where "routes = translation_ConfigHandler ?L (ou_kit_translation E) (pv_auth_translation p) ?echo
      (Acquire ?L (mo_jwt at)) (mo_serve at) (handler_config_of (pv_values p))"
  have route: "hd routes \<in> set routes" "\<exists>inner. rt_handler (hd routes) = pv_auth_translation p (?echo inner)"
    by (auto simp: routes_def translation_ConfigHandler_def Let_def)
  obtain hooks ctx1 w1 where "listening srv l path ctx r w0 = ou_mux E (api_routes E v p at hooks) path ctx1 r w1"
    and w1: "rw_sent w1 = None" "rw_write_err w1 = None" "rw_body w1 = []"
    using server_routes [OF ok new p l w0] by metis
  then have serves: "listening srv l path ctx r w0 st = share_translation ?ts (rt_handler (hd routes) ctx1 ?r w1) st"
    using picks_translation [OF parts(1) path invoke_primary_def [THEN arg_cong [of _ _ fst]]]
    unfolding routes_def by metis
  have same: "?ts\<lparr>ts_authAcquirer := sv_acquirer st\<rparr> = ?ts" by (simp add: running_translation_def)
  from chain_decides [OF parts(3) chain parts(4) w1, of ctx1 ?r] show ?thesis
  proof
    assume "\<exists>code \<in> {400, 401, 500}. \<forall>h. pv_auth_translation p h ctx1 ?r w1 = denies denied code auth_challenges w1"
    with route(2) show ?thesis
      by (auto simp: serves share_translation_def denies_def running_translation_def)
  next
    assume "\<exists>ctx' w'. (\<forall>h. pv_auth_translation p (?echo h) ctx1 ?r w1 = h ctx' ?r w')
        \<and> rw_sent w' = None \<and> rw_write_err w' = None \<and> rw_body w' = []"
    then obtain ctx' w' where chain': "\<forall>h. pv_auth_translation p (?echo h) ctx1 ?r w1 = h ctx' ?r w'"
      and w': "rw_sent w' = None" "rw_write_err w' = None" "rw_body w' = []" by blast
    have tr: "ts_transactor ?ts = Transact (api_transactor (ou_http E)
        (service_options (pv_values p) (pv_xmidtClientTimeout p)) device_api) (mo_now at)"
      by (simp add: running_translation_transactor options_transactor)
    have "\<exists>v w''. fst (spec ctx') = Some v \<and> renders ?L (request_tid ?L (mo_serve at) ?r) v w''
        \<and> share_translation ?ts (rt_handler (hd routes) ctx1 ?r w1) st
            = Ret (w'', st\<lparr>sv_acquirer := ts_authAcquirer (snd (spec ctx'))\<rparr>)"
      by (rule admitted_request [OF parts(2) chain' w' tid route(1) [unfolded routes_def] tr same, folded routes_def])
        (use spec in \<open>auto simp: handler_config_of_def\<close>)
    then show ?thesis unfolding serves request_tid_vars by blast
  qed
qed

section \<open>The statistics service\<close>

text \<open>The statistics service as \<open>handlePrimaryEndpoint\<close> builds it, with the shared acquirer.\<close>

definition running_stat ::
  "bool \<Rightarrow> authAcquirerConfig \<Rightarrow> AuthAcquirer stat_ServiceOptions \<times> AuthAcquirer translation_options
     \<Rightarrow> 'h server_state \<Rightarrow> AuthAcquirer stat_service" where
  "running_stat isSet config opts st =
     (stat_NewService (case fst (configure_acquirer isSet config) of
        None \<Rightarrow> fst opts | Some a \<Rightarrow> (fst opts)\<lparr>so_AuthAcquirer := Some a\<rparr>))
     \<lparr>ss_authAcquirer := sv_acquirer st\<rparr>"

abbreviation program_stat where
  "program_stat E v p at st \<equiv>
     running_stat (viper_IsSet v authAcquirerKey) (pv_acquirer p) (options_of E p at) st"

lemma running_stat_transactor:
  "ss_transactor (running_stat isSet config opts st) = so_HTTPTransactor (fst opts)"
  by (simp add: running_stat_def stat_NewService_def split: option.split)

lemma picks_stat:
  fixes rs :: "'h server_state io route list"
  assumes "mux_ok mt nf mna serve" "mt (base @ ''/device/{deviceid}/stat'') path = Some vars" "rq_Method r = ''GET''"
    and "rs = fst (handlePrimaryEndpoint L serve_s serve_t auth_s echo_s auth_t echo_t jenv env c isSet config opts)"
  shows "serve (provideAPIRouter base (rs @ hs)) path ctx r w st =
    share_stat (running_stat isSet config opts st)
      (rt_handler (hd (stat_ConfigHandler L serve_s auth_s echo_s (Acquire L jenv) env c)) ctx
         (r\<lparr>rq_Vars := Some vars\<rparr>) w) st"
proof -
  define rt where "rt = hd (stat_ConfigHandler L serve_s auth_s echo_s (Acquire L jenv) env c)"
  have stat: "rt_template rt = ''/device/{deviceid}/stat''" "rt_methods rt = Some [''GET'']"
    by (simp_all add: rt_def stat_ConfigHandler_def)
  define F :: "AuthAcquirer stat_service io \<Rightarrow> 'h server_state io" where
    "F = share_stat (stat_NewService (case fst (configure_acquirer isSet config) of
        None \<Rightarrow> fst opts | Some a \<Rightarrow> (fst opts)\<lparr>so_AuthAcquirer := Some a\<rparr>))"
  obtain T where "rs = lift_route F rt # T"
    unfolding assms(4) api_templates Let_def rt_def F_def by blast
  then have "serve (provideAPIRouter base (rs @ hs)) path ctx r w
      = F (rt_handler rt ctx (r\<lparr>rq_Vars := Some vars\<rparr>) w)"
    using assms(2,3) stat by (simp add: provideAPIRouter_def mux_first [OF assms(1)] takes_method_def)
  then show ?thesis by (simp add: F_def rt_def share_stat_def running_stat_def)
qed

text \<open>What the handler of the statistics route does with a request the gate admits.\<close>

lemma admitted_stat:
  assumes "kit_server_ok serve_s" "\<forall>h. mw (echo_s h) ctx r w0 = h ctx' r w"
    and "rw_sent w = None" "rw_write_err w = None" "rw_body w = []"
    and "canon_key (lb_TIDHeader L) \<noteq> ''Content-Type''"
    and "route \<in> set (stat_ConfigHandler L serve_s mw echo_s acquire env c)"
    and "ss_transactor ss = Transact tr now" "ss\<lparr>ss_authAcquirer := sv_acquirer st\<rparr> = ss"
    and "spec = stat_spec L acquire (se_deadline env) ctx' r ss"
    and "\<forall>v. fst spec = Some v \<longrightarrow> deliverable v"
  shows "\<exists>v w'. fst spec = Some v \<and> stat_renders L (request_tid L env r) v w'
    \<and> share_stat ss (rt_handler route ctx r w0) st = Ret (w', st\<lparr>sv_acquirer := ss_authAcquirer (snd spec)\<rparr>)"
proof -
  obtain v s' where v: "spec = (Some v, s')" using stat_spec_total [OF assms(8)] assms(10) by blast
  with assms(11) have "deliverable v" by simp
  then obtain w' where "rt_handler route ctx r w0 ss = Ret (w', s')" "stat_renders L (request_tid L env r) v w'"
    using stat_route_renders [OF assms(1-8) v [unfolded assms(10)]] by blast
  then show ?thesis using v assms(9) by (auto simp: share_stat_def)
qed

text \<open>
  C2. From the start of the program to the statistics of a device. In a program that was built from
  any configuration, a GET of the statistics path, at the primary or the alternate server, is either denied by the gate with
  400, 401 or 500 and the challenge, and then nothing changes, or it is answered as the verdict
  of the statistics service says, whatever else is registered and although the path also
  matches the translation route: the answer of XMiDT with its status, or the error's status and
  text, with the transaction id of the request first. The service is the one the configuration
  describes, with the acquirer as earlier requests to either service left it, and the acquirer
  is all that changes.
\<close>

theorem program_serves_stat:
  assumes ok: "outside_ok mt nf mna decode denied E" and new: "fx_New E v at = Inr (srv, st0)"
    and p: "fx_Provide E v = Inr p"
    and path: "mt (provideURLPrefix (sk_previousVersionSupport (pv_values p)) @ ''/device/{deviceid}/stat'') path = Some vars"
      "rq_Method r = ''GET''"
    and l: "l \<noteq> Health"
    and w0: "rw_sent w0 = None" "rw_write_err w0 = None" "rw_body w0 = []"
    and tid: "canon_key (lb_TIDHeader (ou_libs E)) \<noteq> ''Content-Type''"
    and spec: "spec = (\<lambda>ctx'. stat_spec (ou_libs E) (Acquire (ou_libs E) (mo_jwt at)) (se_deadline (mo_serve at))
           ctx' (r\<lparr>rq_Vars := Some vars\<rparr>) (program_stat E v p at st))"
      "\<forall>ctx' v. fst (spec ctx') = Some v \<longrightarrow> deliverable v"
  shows "(\<exists>code \<in> {400, 401, 500}. \<exists>w. listening srv l path ctx r w0 st = Ret (denied code auth_challenges w, st))
    \<or> (\<exists>ctx' v w'. fst (spec ctx') = Some v \<and> stat_renders (ou_libs E) (request_tid (ou_libs E) (mo_serve at) r) v w'
         \<and> listening srv l path ctx r w0 st = Ret (w', st\<lparr>sv_acquirer := ss_authAcquirer (snd (spec ctx'))\<rparr>))"
proof -
  let ?L = "ou_libs E" and ?r = "r\<lparr>rq_Vars := Some vars\<rparr>" and ?ss = "program_stat E v p at st"
  let ?echo = "ou_echo_stat E (pv_tracing p)"
  have parts: "mux_ok mt (answers nf) (answers mna) (ou_mux E)" "kit_server_ok (ou_kit_stat E)"
    "bascule_ok decode (denies denied) (ou_bascule_stat E)" "passes_on ?echo"
    using ok by (simp_all add: outside_ok_def)
  obtain jwt where chain: "provideAuthChain ?L (ou_bascule_stat E) (ou_auth E) jwt = Inr (pv_auth_stat p)"
    using fx_Provide_chains [OF p] by blast
  define routes where "routes = stat_ConfigHandler ?L (ou_kit_stat E) (pv_auth_stat p) ?echo
      (Acquire ?L (mo_jwt at)) (mo_serve at) (handler_config_of (pv_values p))"
  have route: "hd routes \<in> set routes" "\<exists>inner. rt_handler (hd routes) = pv_auth_stat p (?echo inner)"
    by (auto simp: routes_def stat_ConfigHandler_def)
  obtain hooks ctx1 w1 where "listening srv l path ctx r w0 = ou_mux E (api_routes E v p at hooks) path ctx1 r w1"
    and w1: "rw_sent w1 = None" "rw_write_err w1 = None" "rw_body w1 = []"
    using server_routes [OF ok new p l w0] by metis
  then have serves: "listening srv l path ctx r w0 st = share_stat ?ss (rt_handler (hd routes) ctx1 ?r w1) st"
    using picks_stat [OF parts(1) path invoke_primary_def [THEN arg_cong [of _ _ fst]]]
    unfolding routes_def by metis
  have same: "?ss\<lparr>ss_authAcquirer := sv_acquirer st\<rparr> = ?ss" by (simp add: running_stat_def)
  from chain_decides [OF parts(3) chain parts(4) w1, of ctx1 ?r] show ?thesis
  proof
    assume "\<exists>code \<in> {400, 401, 500}. \<forall>h. pv_auth_stat p h ctx1 ?r w1 = denies denied code auth_challenges w1"
    with route(2) show ?thesis by (auto simp: serves share_stat_def denies_def running_stat_def)
  next
    assume "\<exists>ctx' w'. (\<forall>h. pv_auth_stat p (?echo h) ctx1 ?r w1 = h ctx' ?r w')
        \<and> rw_sent w' = None \<and> rw_write_err w' = None \<and> rw_body w' = []"
    then obtain ctx' w' where chain': "\<forall>h. pv_auth_stat p (?echo h) ctx1 ?r w1 = h ctx' ?r w'"
      and w': "rw_sent w' = None" "rw_write_err w' = None" "rw_body w' = []" by blast
    have tr: "ss_transactor ?ss = Transact (api_transactor (ou_http E)
        (service_options (pv_values p) (pv_xmidtClientTimeout p)) stat_api) (mo_now at)"
      by (simp add: running_stat_transactor options_transactor)
    have "\<exists>v w''. fst (spec ctx') = Some v \<and> stat_renders ?L (request_tid ?L (mo_serve at) ?r) v w''
        \<and> share_stat ?ss (rt_handler (hd routes) ctx1 ?r w1) st
            = Ret (w'', st\<lparr>sv_acquirer := ss_authAcquirer (snd (spec ctx'))\<rparr>)"
      by (rule admitted_stat [OF parts(2) chain' w' tid route(1) [unfolded routes_def] tr same, folded routes_def])
        (use spec in auto)
    then show ?thesis unfolding serves request_tid_vars by blast
  qed
qed

lemma demo_stat_spec:
  assumes "mux_var r ''deviceid'' = ''v3''"
  shows "stat_spec demo_libs acquire d ctx r s = (Some (Shown 400 ''invalid device name''), s)"
  by (simp add: stat_spec_def stat_decodeRequest_def assms demo_libs_def demo_ParseDeviceID_def error_verdict_def)

theorem program_serves_stat_witness:
  "\<exists>srv st0 w'. fx_New demo_outside (file_viper Map.empty) demo_moment = Inr (srv, st0)
     \<and> listening srv Alternate (provideURLPrefix True @ ''/device/{deviceid}/stat'') background (demo_login ''Basic root'') new_rw st0
       = Ret (w', st0)"
proof -
  let ?v = "file_viper Map.empty" and ?r = "demo_login ''Basic root''"
  let ?vars = "[(''version'', ''v3''), (''deviceid'', ''v3'')]"
  obtain srv st0 where start: "fx_New demo_outside ?v demo_moment = Inr (srv, st0)" using demo_started by blast
  obtain p where p: "fx_Provide demo_outside ?v = Inr p" using demo_provided by blast
  have path: "demo_mt (provideURLPrefix (sk_previousVersionSupport (pv_values p)) @ ''/device/{deviceid}/stat'')
      (provideURLPrefix True @ ''/device/{deviceid}/stat'') = Some ?vars" "rq_Method ?r = ''GET''"
    using demo_old_version_supported [OF p demo_vipers(2)]
    by (simp_all add: demo_mt_def demo_login_def demo_request_def provideURLPrefix_def apiBaseDualVersion_def apiVersion_def
        prevAPIVersion_def)
  define spec where "spec = (\<lambda>ctx'. stat_spec (ou_libs demo_outside) (Acquire (ou_libs demo_outside) (mo_jwt demo_moment))
      (se_deadline (mo_serve demo_moment)) ctx' (?r\<lparr>rq_Vars := Some ?vars\<rparr>) (program_stat demo_outside ?v p demo_moment st0))"
  have verdict: "spec ctx = (Some (Shown 400 ''invalid device name''), program_stat demo_outside ?v p demo_moment st0)" for ctx
    unfolding spec_def by (simp add: demo_outside_def demo_stat_spec mux_var_def gomap_str_def)
  have "\<forall>ctx v. fst (spec ctx) = Some v \<longrightarrow> deliverable v"
    by (simp add: verdict deliverable_def body_allowed_def)
  moreover have "canon_key (lb_TIDHeader (ou_libs demo_outside)) \<noteq> ''Content-Type''"
    using demo_TID_key by (simp add: demo_outside_def)
  ultimately show ?thesis
    using program_serves_stat [OF demo_outside_ok start p path _ _ _ _ _ spec_def, of Alternate new_rw] start
    by (auto simp: verdict running_stat_def)
qed

end
