(* ===== verification/Config_Props.thy ===== *)
theory Config_Props
  imports Program_Serves
begin

text \<open>
  Configurations of the program: what runs when the configuration file is empty, which keys
  have a default but no reader, and which webhook configurations do not start.
\<close>

section \<open>Decoders\<close>

text \<open>
  The contract of the decoders: what is not configured leaves the prototype, and a plain value
  of the right type is taken as it is.
\<close>

definition plain_ok :: "('a \<Rightarrow> config_value) \<Rightarrow> 'a plain_decoder \<Rightarrow> bool" where
  "plain_ok con decode \<longleftrightarrow> (\<forall>d. decode None d = Inr d) \<and> (\<forall>x d. decode (Some (con x)) d = Inr x)"

definition decoders_ok :: "('c, 'x, 'k, 'z) decoders \<Rightarrow> bool" where
  "decoders_ok D \<longleftrightarrow>
     plain_ok CvBool (dc_bool D) \<and> plain_ok CvInt (dc_int D) \<and> plain_ok CvStr (dc_string D)
     \<and> plain_ok CvStrs (dc_strings D) \<and> plain_ok CvInts (dc_ints D)
     \<and> (\<forall>d. dc_acquirer D Map.empty d = Inr d) \<and> (\<forall>d. dc_webhook D Map.empty d = Inr d)
     \<and> (\<forall>d. dc_fingerprint D Map.empty d = Inr d)"

lemma demo_decoders_ok: "decoders_ok demo_decoders"
  by (simp add: decoders_ok_def plain_ok_def demo_decoders_def)

section \<open>The empty configuration file\<close>

abbreviation default_viper :: viper where "default_viper \<equiv> file_viper Map.empty"

lemma viper_keys:
  "viper_key translationServicesKey = ''supportedservices''"
  "viper_key ''targetURL'' = ''targeturl''"
  "viper_key ''WRPSource'' = ''wrpsource''"
  "viper_key reqMaxRetriesKey = ''requestmaxretries''"
  "viper_key ''previousVersionSupport'' = ''previousversionsupport''"
  "viper_key reducedTransactionLoggingCodesKey = ''logging.reducedloggingresponsecodes''"
  "viper_key authAcquirerKey = ''authacquirer''"
  "viper_key webhookConfigKey = ''webhook''"
  by code_simp+

lemma viper_defaults:
  "map (apfst viper_key) defaults =
     [(''supportedservices'', CvStrs []), (''targeturl'', CvStr ''localhost:6000''),
      (''netdialertimeout'', CvStr ''5s''), (''clienttimeout'', CvStr ''50s''),
      (''respwaittimeout'', CvStr ''40s''), (''requestretryinterval'', CvStr ''2s''),
      (''requestmaxretries'', CvInt 2), (''wrpsource'', CvStr ''dns:localhost''),
      (''hooksscheme'', CvStr ''https'')]"
  by code_simp

lemma default_lookups:
  "viper_get default_viper translationServicesKey = Some (CvStrs [])"
  "viper_get default_viper ''targetURL'' = Some (CvStr ''localhost:6000'')"
  "viper_get default_viper ''WRPSource'' = Some (CvStr ''dns:localhost'')"
  "viper_get default_viper reqMaxRetriesKey = Some (CvInt 2)"
  "viper_get default_viper ''previousVersionSupport'' = None"
  "viper_get default_viper reducedTransactionLoggingCodesKey = None"
  "viper_get default_viper authAcquirerKey = None"
  "viper_get default_viper webhookConfigKey = None"
  by (simp_all add: viper_get_def file_viper_def viper_keys viper_defaults)

lemma default_values:
  assumes "decoders_ok D" "provideServers_values D default_viper = Inr k"
  shows "sk_supportedServices k = [] \<and> sk_targetURL k = ''localhost:6000'' \<and> sk_WRPSource k = ''dns:localhost''
    \<and> sk_requestMaxRetries k = 2 \<and> sk_previousVersionSupport k \<and> sk_reducedLoggingResponseCodes k = []"
  using assms by (auto simp: provideServers_values_def ProvideKey_def UnmarshalKey_def default_lookups
      decoders_ok_def plain_ok_def sum_bind_Inr_iff)

lemma default_no_webhooks:
  assumes "fx_Provide E default_viper = Inr p"
  shows "pv_handlers p = no_webhook_handlers" "invoke_hooks E p at = Inr []"
proof -
  show "pv_handlers p = no_webhook_handlers"
    using fx_Provide_handlers [OF assms]
    by (auto simp: provideWebhookHandlers_def viper_IsSet_def default_lookups)
  then show "invoke_hooks E p at = Inr []"
    by (simp add: invoke_hooks_def handleWebhookRoutes_def no_webhook_handlers_def)
qed

lemma no_acquirer_configured:
  "\<not> viper_IsSet v authAcquirerKey \<Longrightarrow> fst (snd (invoke_primary E v p at (options_of E p at))) = None"
  by (simp add: invoke_primary_def handlePrimaryEndpoint_def configure_acquirer_def Let_def
      translation_NewService_def provideServiceOptions_def)

lemma default_unknown_path:
  assumes ok: "outside_ok mt nf mna decode denied E" and D: "decoders_ok (ou_decoders E)"
    and new: "fx_New E default_viper at = Inr (srv, st0)"
    and other: "\<forall>t \<in> {''/device/{deviceid}/stat'', ''/device/{deviceid}/{service}'', ''/device/{deviceid}/{service}/{parameter}''}.
       mt (provideURLPrefix True @ t) path = None" and l: "l \<noteq> Health"
    and w0: "rw_sent w0 = None" "rw_write_err w0 = None" "rw_body w0 = []"
  shows "\<exists>w. listening srv l path ctx r w0 st = answers nf w st"
proof -
  obtain p where p: "fx_Provide E default_viper = Inr p" using new by (rule started_state)
  have prev: "sk_previousVersionSupport (pv_values p) = True"
    using default_values [OF D fx_Provide_values(1) [OF p]] by simp
  define rs where "rs = provideAPIRouter (provideURLPrefix True) (fst (invoke_primary E default_viper p at (options_of E p at)))"
  obtain hooks ctx' w where "invoke_hooks E p at = Inr hooks" "listening srv l path ctx r w0 =
      ou_mux E (provideAPIRouter (provideURLPrefix True)
        (fst (invoke_primary E default_viper p at (options_of E p at)) @ map (lift_route share_hooks) hooks)) path ctx' r w"
    using server_routes [OF ok new p l w0] unfolding prev by metis
  then have served: "listening srv l path ctx r w0 = ou_mux E rs path ctx' r w"
    by (simp add: default_no_webhooks(2) [OF p] rs_def)
  have none: "\<forall>rt \<in> set rs. mt (rt_template rt) path = None"
  proof
    fix rt assume "rt \<in> set rs"
    from invoke_primary_templates [OF this [unfolded rs_def]] obtain t where
      t: "t \<in> {''/device/{deviceid}/stat'', ''/device/{deviceid}/{service}'', ''/device/{deviceid}/{service}/{parameter}''}"
      "rt_template rt = provideURLPrefix True @ t" by (rule bexE)
    show "mt (rt_template rt) path = None" unfolding t(2) by (rule bspec [OF other t(1)])
  qed
  have "mux_ok mt (answers nf) (answers mna) (ou_mux E)" using ok by (simp add: outside_ok_def)
  from mux_not_found [OF this none] show ?thesis unfolding served by (intro exI [of _ w]) simp
qed



section \<open>Keys without a reader\<close>

text \<open>The keys, as viper spells them, that have a default in main.go but are read nowhere.\<close>

definition dead_keys :: "string list" where
  "dead_keys = map viper_key [netDialerTimeoutKey, clientTimeoutKey, reqTimeoutKey, hooksSchemeKey]"

lemma dead_keys_eq: "dead_keys = [''netdialertimeout'', ''clienttimeout'', ''respwaittimeout'', ''hooksscheme'']"
  by code_simp

text \<open>Two configurations that differ in these keys only.\<close>

definition agree_on_read_keys :: "viper \<Rightarrow> viper \<Rightarrow> bool" where
  "agree_on_read_keys v v' \<longleftrightarrow> (\<forall>k. viper_key k \<notin> set dead_keys \<longrightarrow> viper_get v k = viper_get v' k)"

lemma viper_below_agree:
  assumes "agree_on_read_keys v v'"
    and "\<forall>d \<in> set dead_keys. d \<noteq> viper_key k \<and> \<not> prefix (viper_key k @ ''.'') d"
  shows "viper_below v k = viper_below v' k"
  using assms by (auto simp: viper_below_def agree_on_read_keys_def fun_eq_iff)

lemma read_keys_agree:
  assumes "agree_on_read_keys v v'"
  shows "viper_get v reqMaxRetriesKey = viper_get v' reqMaxRetriesKey"
    "viper_get v reqRetryIntervalKey = viper_get v' reqRetryIntervalKey"
    "viper_get v ''previousVersionSupport'' = viper_get v' ''previousVersionSupport''"
    "viper_get v ''targetURL'' = viper_get v' ''targetURL''"
    "viper_get v ''WRPSource'' = viper_get v' ''WRPSource''"
    "viper_get v translationServicesKey = viper_get v' translationServicesKey"
    "viper_get v reducedTransactionLoggingCodesKey = viper_get v' reducedTransactionLoggingCodesKey"
    "viper_get v authAcquirerKey = viper_get v' authAcquirerKey"
    "viper_get v webhookConfigKey = viper_get v' webhookConfigKey"
proof -
  have "viper_key reqRetryIntervalKey = ''requestretryinterval''" by code_simp
  with assms show "viper_get v reqRetryIntervalKey = viper_get v' reqRetryIntervalKey"
    by (simp add: agree_on_read_keys_def dead_keys_eq)
qed (use assms in \<open>simp_all add: agree_on_read_keys_def dead_keys_eq viper_keys\<close>)

lemma below_keys:
  "viper_key fingerprintCredsKey = ''fingerprintcreds''" "viper_key ''xmidtClientTimeout'' = ''xmidtclienttimeout''"
  "viper_key ''argusClientTimeout'' = ''argusclienttimeout''" "viper_key tracingConfigKey = ''tracing''"
  "viper_key ''jwtValidator'' = ''jwtvalidator''"
  by code_simp+

lemma below_keys_agree:
  assumes "agree_on_read_keys v v'"
  shows "viper_below v fingerprintCredsKey = viper_below v' fingerprintCredsKey"
    "viper_below v authAcquirerKey = viper_below v' authAcquirerKey"
    "viper_below v webhookConfigKey = viper_below v' webhookConfigKey"
    "viper_below v ''xmidtClientTimeout'' = viper_below v' ''xmidtClientTimeout''"
    "viper_below v ''argusClientTimeout'' = viper_below v' ''argusClientTimeout''"
    "viper_below v tracingConfigKey = viper_below v' tracingConfigKey"
    "viper_below v ''jwtValidator'' = viper_below v' ''jwtValidator''"
  by (rule viper_below_agree [OF assms]; simp add: dead_keys_eq viper_keys below_keys)+

lemma provided_values_agree:
  assumes "agree_on_read_keys v v'"
  shows "provideServers_values D v = provideServers_values D v'" "provideHandlers_values D v = provideHandlers_values D v'"
  by (simp_all add: provideServers_values_def provideHandlers_values_def ProvideKey_def UnmarshalKey_def
      read_keys_agree [OF assms] below_keys_agree [OF assms])

text \<open>
  C36. Four keys with a default are dead: \<open>netDialerTimeout\<close>, \<open>clientTimeout\<close>, \<open>respWaitTimeout\<close> and
  \<open>hooksScheme\<close>. Two configurations that differ only in them give the same program, with the
  same timeouts, or the same error.
\<close>

theorem dead_keys_without_effect:
  assumes "agree_on_read_keys v v'"
  shows "fx_New E v at = fx_New E v' at"
  by (simp add: fx_New_def fx_Provide_def invoke_primary_def invoke_hooks_def UnmarshalKey_def viper_IsSet_def
      provided_values_agree [OF assms] read_keys_agree [OF assms] below_keys_agree [OF assms])

theorem dead_keys_without_effect_witness:
  "fx_New demo_outside (file_viper [''clienttimeout'' \<mapsto> CvStr ''1ms'']) demo_moment
     = fx_New demo_outside default_viper demo_moment
   \<and> viper_get (file_viper [''clienttimeout'' \<mapsto> CvStr ''1ms'']) clientTimeoutKey = Some (CvStr ''1ms'')"
proof -
  have key: "viper_key clientTimeoutKey = ''clienttimeout''" by code_simp
  have "agree_on_read_keys (file_viper [''clienttimeout'' \<mapsto> CvStr ''1ms'']) default_viper"
    by (auto simp: agree_on_read_keys_def dead_keys_eq viper_get_def file_viper_def)
  from dead_keys_without_effect [OF this] show ?thesis
    by (simp add: viper_get_def file_viper_def key)
qed

end
