(* ===== verification/Startup_Props.thy ===== *)
theory Startup_Props
  imports Config_Props Webhook_Safety
begin

text \<open>
  How the whole program starts or ends: the command line of App together with the application
  of Program. With everything constructed, the only step that can still stop the program is
  the middleware for webhooks of the old version, whose limits must not be negative.
\<close>

section \<open>The limits of webhooks\<close>

text \<open>The limits \<open>fixV2Duration\<close> refuses.\<close>

definition negative_limit :: "'c TTLVConfig \<Rightarrow> bool" where
  "negative_limit ttl \<longleftrightarrow> sint (tv_Max ttl) < 0 \<or> sint (tv_Jitter ttl) < 0"

lemma invoke_hooks_limits:
  assumes "fx_Provide E v = Inr p"
  shows "(viper_IsSet v webhookConfigKey \<and> negative_limit (vc_TTL (an_Validation (pv_webhook p)))
      \<and> (\<exists>msg. invoke_hooks E p at = Inl (ErrNew (''failed to initialize duration validation: '' @ msg))))
    \<or> (\<not> (viper_IsSet v webhookConfigKey \<and> negative_limit (vc_TTL (an_Validation (pv_webhook p))))
      \<and> (\<exists>hooks. invoke_hooks E p at = Inr hooks))"
  using fx_Provide_handlers [OF assms]
proof (cases rule: webhooks_built)
  case disabled
  then show ?thesis by (simp add: invoke_hooks_def handleWebhookRoutes_def no_webhook_handlers_def)
next
  case (enabled V V2 d)
  then show ?thesis
    by (auto simp: invoke_hooks_def handleWebhookRoutes_def fixV2Duration_def negative_limit_def Let_def)
qed

lemma fx_New_decided:
  assumes "fx_Provide E v = Inr p" "curry_ok (hl_CurryWith (ou_http E))"
  shows "fx_Err E at v l = (case invoke_hooks E p at of Inl e \<Rightarrow> Some e | Inr hooks \<Rightarrow> None)"
  using assms
  by (cases "invoke_hooks E p at") (simp_all add: fx_Err_def fx_New_def options_built provideServers_def Let_def)

section \<open>The process\<close>

lemma tr1d1um_wired:
  assumes "pl_Parse PL setupFlagSet args = Inr fs" "parse_again_ok PL args"
    and "pl_ReadInConfig PL (config_search fs) = Inr cf" "pl_Build PL (viper_below (file_viper cf) ''logging'') = Inr l"
    and "\<not> fl_version fs"
    and "v = (file_viper cf)\<lparr>vp_set := (if fl_debug fs then [''log.level'' \<mapsto> CvStr ''DEBUG''] else Map.empty)\<rparr>"
  shows "tr1d1um PL b app args = Ret
    (case app v l of None \<Rightarrow> \<lparr>pe_code = 0, pe_stdout = [], pe_ran = True\<rparr>
     | Some e \<Rightarrow> \<lparr>pe_code = (if err_Is e (pl_ErrHelp PL) then 0 else 2), pe_stdout = [], pe_ran = False\<rparr>)"
proof -
  have "app_setup PL args = Ret (Some v, Some l, fs, None)"
    using setup_logger [OF assms(1,3)] assms(4,6) by simp
  moreover have "pl_Parse PL fs args = Inr fs" using assms(1,2) by (simp add: parse_again_ok_def)
  ultimately show ?thesis
    using assms(5) by (auto simp: tr1d1um_def printVersion_def split: option.split)
qed

text \<open>
  C14. When the program runs. Given arguments and a configuration file that can be read, a logger
  and all constructors of the application, one thing is left that decides: if webhooks are
  configured with a negative maximum or jitter, the process ends with code 2 before it serves
  anything; otherwise it runs. Without webhooks the same limits stop nothing.
\<close>

theorem limits_decide_start:
  assumes "pl_Parse PL setupFlagSet args = Inr fs" "parse_again_ok PL args"
    and "pl_ReadInConfig PL (config_search fs) = Inr cf" "pl_Build PL (viper_below (file_viper cf) ''logging'') = Inr l"
    and "\<not> fl_version fs" "pl_ErrHelp PL = ErrNew ''pflag: help requested''"
    and "v = (file_viper cf)\<lparr>vp_set := (if fl_debug fs then [''log.level'' \<mapsto> CvStr ''DEBUG''] else Map.empty)\<rparr>"
    and "fx_Provide E v = Inr p" "curry_ok (hl_CurryWith (ou_http E))"
  shows "tr1d1um PL b (fx_Err E at) args = Ret
    (if viper_IsSet v webhookConfigKey \<and> negative_limit (vc_TTL (an_Validation (pv_webhook p)))
     then \<lparr>pe_code = 2, pe_stdout = [], pe_ran = False\<rparr> else \<lparr>pe_code = 0, pe_stdout = [], pe_ran = True\<rparr>)"
  using invoke_hooks_limits [OF assms(8), of at]
  by (auto simp: tr1d1um_wired [OF assms(1-5,7)] fx_New_decided [OF assms(8,9)] assms(6))

text \<open>Webhooks whose maximum is negative.\<close>

definition negative_outside :: "(unit, unit, nat, unit, string, unit, unit, unit) outside" where
  "negative_outside = demo_outside\<lparr>ou_decoders := demo_decoders\<lparr>dc_webhook := \<lambda>m d.
     Inr (demo_ancla_config\<lparr>an_Validation := (an_Validation demo_ancla_config)\<lparr>vc_TTL := demo_ttl\<lparr>tv_Max := - 1\<rparr>\<rparr>\<rparr>)\<rparr>\<rparr>"

lemma negative_provided:
  "\<exists>p. fx_Provide negative_outside v = Inr p \<and> negative_limit (vc_TTL (an_Validation (pv_webhook p)))"
  by (simp add: fx_Provide_def Let_def negative_outside_def demo_outside_def provideServers_values_def
      provideHandlers_values_def demo_decoders_def ProvideKey_def UnmarshalKey_def loadTracing_def or_error_def
      provideAuthChain_def createAuthMiddleware_def closed_bascule_def demo_bascule_def provideWebhookHandlers_def
      buildWebhookValidators_def v2WebhookValidators_def demo_ancla_def no_webhook_handlers_def demo_ancla_config_def
      demo_ttl_def negative_limit_def)

theorem limits_decide_start_witness:
  "tr1d1um (demo_app\<lparr>pl_ReadInConfig := \<lambda>s. Inr [''webhook'' \<mapsto> CvMap]\<rparr>) demo_build (fx_Err negative_outside demo_moment) []
     = Ret \<lparr>pe_code = 2, pe_stdout = [], pe_ran = False\<rparr>
   \<and> tr1d1um (demo_app\<lparr>pl_ReadInConfig := \<lambda>s. Inr Map.empty\<rparr>) demo_build (fx_Err negative_outside demo_moment) []
     = Ret \<lparr>pe_code = 0, pe_stdout = [], pe_ran = True\<rparr>"
proof -
  let ?PL = "\<lambda>cf. demo_app\<lparr>pl_ReadInConfig := \<lambda>s. Inr cf\<rparr>"
  let ?fs = "\<lparr>fl_file = [], fl_debug = False, fl_version = False\<rparr>"
  have run: "tr1d1um (?PL cf) demo_build (fx_Err negative_outside demo_moment) [] = Ret
      (if viper_IsSet (file_viper cf) webhookConfigKey then \<lparr>pe_code = 2, pe_stdout = [], pe_ran = False\<rparr>
       else \<lparr>pe_code = 0, pe_stdout = [], pe_ran = True\<rparr>)" for cf
  proof -
    obtain p where p: "fx_Provide negative_outside (file_viper cf) = Inr p" "negative_limit (vc_TTL (an_Validation (pv_webhook p)))"
      using negative_provided by blast
    have v: "file_viper cf = (file_viper cf)\<lparr>vp_set := (if fl_debug ?fs then [''log.level'' \<mapsto> CvStr ''DEBUG''] else Map.empty)\<rparr>"
      by (simp add: file_viper_def)
    have "pl_Parse (?PL cf) setupFlagSet [] = Inr ?fs" "parse_again_ok (?PL cf) []"
      "pl_ReadInConfig (?PL cf) (config_search ?fs) = Inr cf" "\<not> fl_version ?fs"
      "pl_Build (?PL cf) (viper_below (file_viper cf) ''logging'')
        = Inr (viper_below (file_viper cf) ''logging'' ''logging.level'' = Some (CvStr ''DEBUG''))"
      "pl_ErrHelp (?PL cf) = ErrNew ''pflag: help requested''"
      "curry_ok (hl_CurryWith (ou_http negative_outside))"
      by (simp_all add: demo_app_def parse_again_ok_def setupFlagSet_def negative_outside_def demo_outside_def demo_http_def
          plain_curry_ok)
    from limits_decide_start [OF this(1-3,5,4,6) v p(1) this(7), of demo_build demo_moment] p(2) show ?thesis by simp
  qed
  have "viper_IsSet (file_viper [''webhook'' \<mapsto> CvMap]) webhookConfigKey" "\<not> viper_IsSet (file_viper Map.empty) webhookConfigKey"
    using hook_viper_set by (simp_all add: hook_viper_def viper_IsSet_def default_lookups)
  with run show ?thesis by simp
qed

end
