(* ===== verification/Shared_Token.thy ===== *)
theory Shared_Token
  imports Config_Props Acquirer_Concurrent
begin

text \<open>
  The two services of the running program and the acquirer they share: a token that one of
  them fetched goes out with the requests of the other until it expires.
\<close>

lemma running_stat_url:
  "ss_xmidtStatURL (running_stat isSet config (fst (provideServiceOptions HL now i)) st)
     = si_TargetURL i @ ''/device/${device}/stat''"
  by (simp add: running_stat_def stat_NewService_def provideServiceOptions_def Let_def split: option.split)

lemma running_translation_url:
  "ts_xmidtWrpURL (running_translation isSet config (fst (provideServiceOptions HL now i)) st)
     = si_TargetURL i @ ''/device''"
  by (simp add: running_translation_def translation_NewService_def provideServiceOptions_def Let_def split: option.split)

lemma stat_leaves_token:
  assumes "sv_acquirer st = Some (Jwt j)" "\<not> cached (je_check env) j" "fetch_token L env (ja_Config j) = Inr t"
    and "lb_ParseURL L (Replace1 (ss_xmidtStatURL (running_stat isSet config opts st)) device_variable i) = None"
  shows "ss_authAcquirer (snd (RequestStat L (Acquire L env) d (running_stat isSet config opts st) auth i))
    = Some (Jwt (store_token (je_store env) t j))"
proof -
  have "ss_authAcquirer (running_stat isSet config opts st) = Some (Jwt j)"
    by (simp add: running_stat_def assms(1))
  then show ?thesis using assms(4) by (simp add: RequestStat_def Let_def acq_simps assms(2,3))
qed

lemma stored_cached:
  "fetch_token L env c = Inr t \<Longrightarrow> ja_Config j = c
     \<Longrightarrow> now < token_expiry (je_store env) (tq_ExpiresIn t) (jo_Buffer c)
     \<Longrightarrow> cached now (store_token (je_store env) t j)"
  by (simp add: cached_def store_token_def fetch_token_nonempty)



end
