(* ===== verification/Spec2Isabelle.thy ===== *)
theory Spec2Isabelle
  imports Acquirer_Liveness Payloads Program_State Startup_Props Shared_Token
begin

text \<open>
  A verification development for tr1d1um, the service that gives HTTP clients access to the
  devices of an XMiDT cluster. A client's request is authenticated, decoded into a WDMP message
  for a device, sent to XMiDT inside a WRP message with the program's own or the client's
  credentials, and the device's answer is unwrapped; statistics are asked for in one plain
  request, and webhooks are registered with a service that keeps them in memory.

  \<^bold>\<open>Theories and code.\<close> Names are the ones of the source; where package \<open>stat\<close> reuses a name of
  package \<open>translation\<close> it has the prefix \<open>stat_\<close>.

  \<^item> Go_Prelude, Go_Strings, Go_Json, Go_Http, Go_Time: the parts of Go's standard library the
    program uses (errors and \<open>errors.As\<close>, \<open>strings\<close>, \<open>encoding/json\<close>, \<open>net/http\<close>,
    \<open>time.Duration\<close>). A call that may panic returns an \<open>outcome\<close>.
  \<^item> Libs: what comes from other modules, as one record of parameters.
  \<^item> Trans_Errors (transaction/errors.go, context.go), Transactor and Middleware
    (transaction/transactor.go), Auth_Acquirer (transaction/auth_acquirer.go, one call), and
    Acquirer_Concurrent (the same, one step per access to shared state and per operation of
    the mutex), with Transaction_Props and Acquirer_Liveness.
  \<^item> Wdmp (translation/wdmp_type.go, errors.go, transport_utils.go), Translation
    (translation/transport.go, service.go, endpoint.go), with Wdmp_Props, Translation_Props,
    Json_Roundtrip and Payloads.
  \<^item> Stat (stat/transport.go, service.go, endpoint.go).
  \<^item> Http_Server, Services: the go-kit server and the two \<open>ConfigHandler\<close>s (translation and stat
    transport.go), with Services_Props.
  \<^item> Inbound_Auth, Auth_Middleware (auth.go).
  \<^item> Webhooks (routes.go, the middleware for the old API version), Metrics (metrics.go),
    Primary_Handler (primaryHandler.go), Routes (routes.go, the route tables), with
    Webhooks_Props, Primary_Props and Routes_Props.
  \<^item> App (main.go, setup.go, basculeLogging.go: command line, configuration, constants), with
    App_Props.
  \<^item> System: a request from the primary server through router, gate, go-kit and service to the
    reply, for given chains and options.
  \<^item> Program: the whole program as main.go wires it: the keys \<open>provideServers\<close> and
    \<open>provideHandlers\<close> read, the constructors and invocations of \<open>fx.New\<close> (\<open>fx_Provide\<close>,
    \<open>fx_New\<close>), and the servers over a sequence of requests, each at the primary, the alternate
    or the health server (\<open>listener\<close>, \<open>serve_requests\<close>). What the wiring uses from outside is one
    record, \<open>outside\<close>. Over it: Invariants (which operations keep a property of the state),
    Program_Props (the parts of a program that started), Program_Serves
    (both services from the start to the reply), Config_Props (the empty configuration, keys
    without a reader), Startup_Props (with the command line), Webhook_Safety and Program_State
    (the state over sequences of requests), Shared_Token, and Program_Demo for the witnesses.

  \<^bold>\<open>State.\<close> A service is a record of its configuration, its transactor and its acquirer; serving
  a request is a function from the response writer and the state to the written response and
  the new state (\<open>io\<close>). The two services share one acquirer (\<open>server_state\<close>); \<open>JwtAcquirer\<close>
  holds the cached token and its expiry, in 64-bit nanoseconds where the code has
  \<open>time.Duration\<close>. The webhook service holds the list of webhooks; the middleware for the old
  version holds the handler its closure captures. The clock, random bytes and the answers of
  the HTTP client are arguments.

  \<^bold>\<open>Specifications.\<close> \<open>translation_spec\<close> and \<open>stat_spec\<close> say what a request comes to (a
  \<open>verdict\<close>), and \<open>renders\<close> which reply a verdict stands for; the composed handlers refine them
  (\<open>translation_serves_spec\<close>, \<open>stat_serves_spec\<close>, and for the whole server
  \<open>primary_serves_translation\<close> and \<open>program_serves_stat\<close>). \<open>setWDMP\<close> validation equals an order-free
  description; payloads read back as the messages they print; the interleaved steps of
  \<open>Acquire\<close> implement the sequential function (\<open>steps_implement_Acquire\<close>); the locales
  \<open>acquirer_contract\<close>, \<open>transaction_contract\<close> and \<open>webhook_service\<close> are the interfaces
  \<open>AuthAcquirer\<close>, the transactor and \<open>ancla.Service\<close>, interpreted on the code's own operations;
  \<open>typed_acquirer\<close> extends the first with the kind of an acquirer, which no call changes.

  \<^bold>\<open>Groups of lemmas.\<close> Functional behaviour of decoding, encoding, validation and command
  deduction on every branch; round trips of the payloads; error paths (which failures are
  shown, which are masked, what panics); bounds of token lifetimes, with the overflow;
  invariants of the concurrent acquirer by rule induction (mutual exclusion, no torn reads,
  only issued tokens) and its termination; who passes the authentication gate; which handler
  serves which route on which server; lost updates of the webhook store; what the state of the
  running program keeps over any sequence of requests (the kind of the acquirer, webhooks that
  were validated); what a configuration runs; how the process ends.

  \<^bold>\<open>Loops and fuel.\<close> Loops are structural recursion. The JSON scanner takes fuel, twice the
  length of the text and two more (\<open>parse_fuel\<close>); \<open>parse_fuel_enough\<close> shows that more never
  changes a result. Calls of \<open>Acquire\<close> take at most 12 steps each (\<open>Acquire_calls_end\<close>). The
  two \<open>MarshalJSON\<close> methods that call themselves are \<open>partial_function (option)\<close> and shown to
  diverge.

  \<^bold>\<open>What is assumed.\<close> Code outside the repository is a parameter, and its documented behaviour
  a named hypothesis with a witness: \<open>kit_server_ok\<close> (the course of a request in go-kit),
  \<open>mux_ok\<close> and \<open>mux_vars_ok\<close> (order of routes, replies 404 and 405, variables of a match),
  \<open>jwt_library_ok\<close> (a token is returned only when its signature verifies), \<open>bascule_ok\<close> (the
  authorization parser, the authenticator and the middleware), \<open>parse_again_ok\<close> (parsing the same
  flags twice), \<open>curry_ok\<close> (labels of a counter), \<open>passes_on\<close> (tracing and metrics middleware only
  observe), \<open>ancla_ok\<close> (ancla's handlers validate before they add), \<open>decoders_ok\<close> (unset keys leave
  the prototype), and in Libs the header name of the transaction id and the text of a float64.

  \<^bold>\<open>Not modelled.\<close> The resolution of constructors inside fx (which constructor runs first when
  several would fail: the model calls them in the order of main.go), the file formats and
  environment of viper (a configuration is a map from keys to values), the listening sockets
  and settings of arrangehttp's servers, the profiling server, the configurations of
  prometheus, the spans of otelmux, mocks and tests. The named values \<open>default_key_id\<close> and the
  client of \<open>newHTTPClient\<close> in the constructors' list are provided but asked for by nobody. A
  request that panics ends a sequence of requests in \<open>serve_requests\<close>; the server of net/http
  recovers from it, with the state as the handler left it, which is not part of \<open>outcome\<close>. The
  retrying of failed requests is inside webpa-common's \<open>RetryTransactor\<close>, a parameter.
\<close>

end
